(* ===== verification/Prelude.thy ===== *)
theory Prelude
  imports Main "HOL-Library.Word" "HOL-Library.List_Lexorder" "HOL-Library.Char_ord" "HOL-Library.Sublist"
begin

section \<open>Shared types, strings and results\<close>

text \<open>
  What every component of the plugin protocol shares: the machine integers of the Rust
  sources, Rust strings, and the result type.

  A Rust \<open>String\<close> is modelled by its UTF-8 bytes: \<open>string\<close> is a list of
  8-bit characters, so \<open>length\<close> is Rust's \<open>len()\<close>, the order of
  \<^theory_text>\<open>List_Lexorder\<close> is Rust's bytewise \<open>Ord\<close>, and a search for an
  ASCII delimiter is a search for its byte. \<open>Result<T, E>\<close> is \<open>'e + 'a\<close> with
  \<open>Inl\<close> for \<open>Err\<close>. A call that may panic returns \<open>panic + 'a\<close>.
\<close>

subsection \<open>Machine integers\<close>

type_synonym u8 = "8 word"
type_synonym u16 = "16 word"
type_synonym u32 = "32 word"
type_synonym u64 = "64 word"
type_synonym i32 = "32 word"
type_synonym i64 = "64 word"
type_synonym bytes = "u8 list"

text \<open>A \<open>Duration\<close> is its number of nanoseconds.\<close>

type_synonym duration = nat

text \<open>An \<open>f64\<close> is kept as its IEEE bit pattern: the crate stores and forwards floats
  and never computes with them.\<close>

type_synonym f64 = "64 word"

named_theorems wire_simps \<open>equations of the conversions to and from wire types\<close>
named_theorems label_defs \<open>definitions of the label tables of the error types\<close>

datatype panic = Panicked

subsection \<open>Prefixes and searches\<close>

definition starts_with :: "string \<Rightarrow> string \<Rightarrow> bool" where
  "starts_with s p \<longleftrightarrow> take (length p) s = p"

definition strip_prefix :: "string \<Rightarrow> string \<Rightarrow> string option" where
  "strip_prefix s p = (if starts_with s p then Some (drop (length p) s) else None)"

lemma starts_with_append [simp]: "starts_with (p @ s) p"
  by (simp add: starts_with_def)

lemma starts_with_iff: "starts_with s p \<longleftrightarrow> (\<exists>r. s = p @ r)"
  by (metis append_take_drop_id starts_with_append starts_with_def)

lemma strip_prefix_append [simp]: "strip_prefix (p @ s) p = Some s"
  by (simp add: strip_prefix_def)

lemma strip_prefix_Some: "strip_prefix s p = Some r \<longleftrightarrow> s = p @ r"
  by (auto simp: strip_prefix_def starts_with_iff)

text \<open>\<open>str::split_once\<close> with a character: the text before and after its first
  occurrence.\<close>

fun split_once :: "char \<Rightarrow> string \<Rightarrow> (string \<times> string) option" where
  "split_once c [] = None"
| "split_once c (x # xs) =
     (if x = c then Some ([], xs)
      else map_option (\<lambda>(a, b). (x # a, b)) (split_once c xs))"

lemma split_once_None [simp]: "split_once c s = None \<longleftrightarrow> c \<notin> set s"
  by (induction s) auto

lemma split_once_absent [simp]: "c \<notin> set s \<Longrightarrow> split_once c s = None"
  by simp

lemma split_once_Some: "split_once c s = Some (a, b) \<longleftrightarrow> s = a @ c # b \<and> c \<notin> set a"
proof (induction s arbitrary: a)
  case (Cons x s)
  show ?case by (cases a) (auto simp: Cons.IH)
qed simp

lemma split_once_append [simp]: "c \<notin> set a \<Longrightarrow> split_once c (a @ c # b) = Some (a, b)"
  by (simp add: split_once_Some)

lemma split_at:
  assumes "a @ (c :: char) # x = b @ c # y" and "c \<notin> set a" and "c \<notin> set b"
  shows "a = b \<and> x = y"
proof -
  have "Some (a, x) = split_once c (a @ c # x)" using assms(2) by (rule split_once_append [symmetric])
  also have "\<dots> = Some (b, y)" unfolding assms(1) using assms(3) by (rule split_once_append)
  finally show ?thesis by simp
qed

text \<open>\<open>str::split_once\<close> with a string pattern, and \<open>str::find\<close> as its index.\<close>

fun split_once_str :: "string \<Rightarrow> string \<Rightarrow> (string \<times> string) option" where
  "split_once_str p [] = (if p = [] then Some ([], []) else None)"
| "split_once_str p (x # xs) =
     (if starts_with (x # xs) p then Some ([], drop (length p) (x # xs))
      else map_option (\<lambda>(a, b). (x # a, b)) (split_once_str p xs))"

lemma split_once_str_Some: "split_once_str p s = Some (a, b) \<Longrightarrow> s = a @ p @ b"
  by (induction s arbitrary: a)
    (auto simp: starts_with_iff split: if_splits)

lemma split_once_str_extend:
  "split_once_str p (a @ p) = Some (a, []) \<Longrightarrow> split_once_str p (a @ p @ b) = Some (a, b)"
proof (induction a)
  case Nil
  show ?case by (cases p; cases b) (simp_all add: starts_with_def)
next
  case (Cons x a)
  have not: "\<not> starts_with (x # a @ p) p"
  proof
    assume "starts_with (x # a @ p) p"
    with Cons.prems show False by simp
  qed
  have "take (length p) ((x # a @ p) @ b) = take (length p) (x # a @ p)"
    by (simp only: take_append) simp
  with not have "\<not> starts_with (x # a @ p @ b) p"
    by (simp add: starts_with_def)
  moreover from Cons.prems not have "split_once_str p (a @ p) = Some (a, [])"
    by auto
  ultimately show ?case using Cons.IH by simp
qed

text \<open>\<open>[T]::join\<close> with a string separator, and \<open>str::split\<close> with a character.\<close>

fun join :: "string \<Rightarrow> string list \<Rightarrow> string" where
  "join sep [] = []"
| "join sep [x] = x"
| "join sep (x # y # zs) = x @ sep @ join sep (y # zs)"

fun split_char :: "char \<Rightarrow> string \<Rightarrow> string list" where
  "split_char c [] = [[]]"
| "split_char c (x # xs) =
     (if x = c then [] # split_char c xs
      else (case split_char c xs of [] \<Rightarrow> [[x]] | y # ys \<Rightarrow> (x # y) # ys))"

lemma split_char_nonempty [simp]: "split_char c s \<noteq> []"
  by (induction s) (auto split: list.splits)

lemma split_char_none: "c \<notin> set s \<Longrightarrow> split_char c s = [s]"
  by (induction s) auto

lemma split_char_append:
  "c \<notin> set a \<Longrightarrow> split_char c (a @ c # b) = a # split_char c b"
  by (induction a) auto

lemma split_char_join:
  "xs \<noteq> [] \<Longrightarrow> \<forall>x \<in> set xs. c \<notin> set x \<Longrightarrow> split_char c (join [c] xs) = xs"
  by (induction "[c]" xs rule: join.induct) (auto simp: split_char_none split_char_append)

lemma split_char_free: "x \<in> set (split_char c s) \<Longrightarrow> c \<notin> set x"
  by (induction s arbitrary: x) (auto split: list.splits if_splits)

lemma join_split_char: "join [c] (split_char c s) = s"
proof (induction s)
  case (Cons x s)
  obtain y ys where "split_char c s = y # ys"
    by (cases "split_char c s") auto
  with Cons.IH show ?case by (cases ys) auto
qed simp

subsection \<open>Unicode whitespace in UTF-8\<close>

text \<open>
  \<open>ws_len s\<close> is the number of bytes of the \<open>char::is_whitespace\<close> character that starts
  \<open>s\<close>, and 0 when \<open>s\<close> starts with no such character: U+0009 to U+000D, U+0020,
  U+0085, U+00A0, U+1680, U+2000 to U+200A, U+2028, U+2029, U+202F, U+205F and U+3000.
\<close>

definition ws_seq2 :: "nat \<Rightarrow> nat \<Rightarrow> bool" where
  "ws_seq2 a b \<longleftrightarrow> a = 194 \<and> (b = 133 \<or> b = 160)"

definition ws_seq3 :: "nat \<Rightarrow> nat \<Rightarrow> nat \<Rightarrow> bool" where
  "ws_seq3 a b c \<longleftrightarrow>
     (a = 225 \<and> b = 154 \<and> c = 128) \<or>
     (a = 226 \<and> b = 128 \<and> (128 \<le> c \<and> c \<le> 138 \<or> c = 168 \<or> c = 169 \<or> c = 175)) \<or>
     (a = 226 \<and> b = 129 \<and> c = 159) \<or>
     (a = 227 \<and> b = 128 \<and> c = 128)"

definition ws_len :: "string \<Rightarrow> nat" where
  "ws_len s = (case s of
     [] \<Rightarrow> 0
   | a # r \<Rightarrow>
      (if 9 \<le> (of_char a :: nat) \<and> (of_char a :: nat) \<le> 13 \<or> (of_char a :: nat) = 32 then 1
       else (case r of
          [] \<Rightarrow> 0
        | b # r' \<Rightarrow>
           (if ws_seq2 (of_char a) (of_char b) then 2
            else (case r' of
               [] \<Rightarrow> 0
             | c # _ \<Rightarrow> (if ws_seq3 (of_char a) (of_char b) (of_char c) then 3 else 0))))))"

lemma ws_len_le: "ws_len s \<le> length s"
  by (auto simp: ws_len_def split: list.splits)

lemma ws_len_Nil [simp]: "ws_len [] = 0"
  by (simp add: ws_len_def)

function trim_start :: "string \<Rightarrow> string" where
  "trim_start s = (if ws_len s = 0 then s else trim_start (drop (ws_len s) s))"
  by pat_completeness auto
termination
proof (relation "measure length")
  fix s :: string
  assume "ws_len s \<noteq> 0"
  moreover from this have "s \<noteq> []" by auto
  ultimately show "(drop (ws_len s) s, s) \<in> measure length" by simp
qed simp

declare trim_start.simps [simp del]

text \<open>The whitespace character that ends \<open>s\<close>, if one does: its length in bytes.\<close>

definition ws_tail :: "string \<Rightarrow> nat" where
  "ws_tail s =
     (if 1 \<le> length s \<and> ws_len (drop (length s - 1) s) = 1 then 1
      else if 2 \<le> length s \<and> ws_len (drop (length s - 2) s) = 2 then 2
      else if 3 \<le> length s \<and> ws_len (drop (length s - 3) s) = 3 then 3
      else 0)"

lemma ws_tail_le: "ws_tail s \<le> length s"
  by (auto simp: ws_tail_def)

function trim_end :: "string \<Rightarrow> string" where
  "trim_end s = (if ws_tail s = 0 then s else trim_end (take (length s - ws_tail s) s))"
  by pat_completeness auto
termination
proof (relation "measure length")
  fix s :: string
  assume "ws_tail s \<noteq> 0"
  with ws_tail_le [of s] show "(take (length s - ws_tail s) s, s) \<in> measure length" by auto
qed simp

declare trim_end.simps [simp del]

definition trim :: "string \<Rightarrow> string" where
  "trim s = trim_end (trim_start s)"

text \<open>\<open>str::split_whitespace\<close>: the maximal runs of other characters.\<close>

function split_ws :: "string \<Rightarrow> string \<Rightarrow> string list" where
  "split_ws cur [] = (if cur = [] then [] else [rev cur])"
| "split_ws cur (x # xs) =
     (let k = ws_len (x # xs) in
      if k = 0 then split_ws (x # cur) xs
      else (if cur = [] then [] else [rev cur]) @ split_ws [] (drop k (x # xs)))"
  by pat_completeness auto
termination by (relation "measure (\<lambda>(_, s). length s)") auto

definition split_whitespace :: "string \<Rightarrow> string list" where
  "split_whitespace s = split_ws [] s"

subsection \<open>Characters and numbers as text\<close>

text \<open>\<open>b as char\<close> for a byte \<open>b\<close> is the character U+00b; pushing it writes its UTF-8.\<close>

definition push_byte_as_char :: "char \<Rightarrow> string" where
  "push_byte_as_char c =
     (let n = (of_char c :: nat) in
      if n < 128 then [c] else [char_of (192 + n div 64), char_of (128 + n mod 64)])"

definition is_ascii :: "char \<Rightarrow> bool" where
  "is_ascii c \<longleftrightarrow> (of_char c :: nat) < 128"

lemma push_byte_ascii [simp]: "is_ascii c \<Longrightarrow> push_byte_as_char c = [c]"
  by (simp add: push_byte_as_char_def is_ascii_def)

text \<open>\<open>Display\<close> of an unsigned integer.\<close>

fun show_nat :: "nat \<Rightarrow> string" where
  "show_nat n =
     (if n < 10 then [char_of (48 + n)] else show_nat (n div 10) @ [char_of (48 + n mod 10)])"

declare show_nat.simps [simp del]

text \<open>The digits of a number determine it, and hold nothing but digits.\<close>

definition read_digits :: "string \<Rightarrow> nat" where
  "read_digits s = fold (\<lambda>c n. 10 * n + (of_char c - 48)) s 0"

lemma read_digits_snoc [simp]: "read_digits (s @ [c]) = 10 * read_digits s + (of_char c - 48)"
  by (simp add: read_digits_def)

lemma of_char_digit [simp]: "d < 10 \<Longrightarrow> (of_char (char_of (48 + d) :: char) :: nat) = 48 + d"
  by simp

lemma read_show_nat [simp]: "read_digits (show_nat n) = n"
proof (induction n rule: show_nat.induct)
  case (1 n)
  show ?case
  proof (cases "n < 10")
    case True
    then show ?thesis
      by (subst show_nat.simps) (simp add: read_digits_def)
  next
    case False
    then show ?thesis
      using 1 by (subst show_nat.simps) simp
  qed
qed

lemma show_nat_inject [simp]: "show_nat m = show_nat n \<longleftrightarrow> m = n"
  by (metis read_show_nat)

lemma show_nat_digits: "c \<in> set (show_nat n) \<Longrightarrow> 48 \<le> (of_char c :: nat) \<and> (of_char c :: nat) < 58"
proof (induction n rule: show_nat.induct)
  case (1 n)
  show ?case
  proof (cases "n < 10")
    case True
    then show ?thesis
      using 1(2) by (subst (asm) show_nat.simps) simp
  next
    case False
    then show ?thesis
      using 1 by (subst (asm) (2) show_nat.simps) (auto simp del: of_char_of)
  qed
qed

lemma bar_not_digit [simp]: "CHR ''|'' \<notin> set (show_nat n)"
  using show_nat_digits [of "CHR ''|''" n] by auto

text \<open>A hexadecimal digit in lower case.\<close>

definition hex_digit :: "nat \<Rightarrow> char" where
  "hex_digit n = (if n < 10 then char_of (48 + n) else char_of (87 + n))"

subsection \<open>Results\<close>

definition res_bind :: "'e + 'a \<Rightarrow> ('a \<Rightarrow> 'e + 'b) \<Rightarrow> 'e + 'b" where
  "res_bind r f = (case r of Inl e \<Rightarrow> Inl e | Inr a \<Rightarrow> f a)"

lemma res_bind_simps [simp]: "res_bind (Inl e) f = Inl e" "res_bind (Inr a) f = f a"
  by (simp_all add: res_bind_def)

lemma res_bind_Inr: "res_bind r f = Inr b \<longleftrightarrow> (\<exists>a. r = Inr a \<and> f a = Inr b)"
  by (cases r) auto

definition ok :: "'e + 'a \<Rightarrow> 'a option" where
  "ok r = (case r of Inl _ \<Rightarrow> None | Inr a \<Rightarrow> Some a)"

lemma ok_simps [simp]: "ok (Inl e) = None" "ok (Inr a) = Some a"
  by (simp_all add: ok_def)

definition is_ok :: "'e + 'a \<Rightarrow> bool" where
  "is_ok r = (case r of Inl _ \<Rightarrow> False | Inr _ \<Rightarrow> True)"

lemma is_ok_simps [simp]: "is_ok (Inl e) \<longleftrightarrow> False" "is_ok (Inr a) \<longleftrightarrow> True"
  by (simp_all add: is_ok_def)

fun collect_results :: "('e + 'a) list \<Rightarrow> 'e + 'a list" where
  "collect_results [] = Inr []"
| "collect_results (r # rs) = res_bind r (\<lambda>a. res_bind (collect_results rs) (\<lambda>as. Inr (a # as)))"

lemma collect_results_Inr: "collect_results rs = Inr as \<longleftrightarrow> rs = map Inr as"
  by (induction rs arbitrary: as) (auto simp: res_bind_Inr)

end
