(* ===== verification/Security.thy ===== *)
theory Security
  imports Prelude
begin

unbundle bit_operations_syntax

section \<open>IP range classification\<close>

text \<open>
  \<open>src/src/security.rs\<close>: which addresses the DNS-rebinding guard refuses, and the two
  checks built on it. Addresses are the standard library's: four octets, eight 16-bit
  segments. The specification side reads an address as one number and a blocked range as
  a CIDR prefix; the components agree on exactly the ranges the module documents.
\<close>

subsection \<open>Addresses and the standard library's classification\<close>

datatype ipv4 = Ipv4Addr u8 u8 u8 u8

datatype ipv6 = Ipv6Addr u16 u16 u16 u16 u16 u16 u16 u16

datatype ip = V4 ipv4 | V6 ipv6

record socket_addr =
  sa_ip :: ip
  sa_port :: u16

fun v4_is_loopback :: "ipv4 \<Rightarrow> bool" where
  "v4_is_loopback (Ipv4Addr a b c d) \<longleftrightarrow> a = 127"

fun v4_is_private :: "ipv4 \<Rightarrow> bool" where
  "v4_is_private (Ipv4Addr a b c d) \<longleftrightarrow>
     a = 10 \<or> (a = 172 \<and> 16 \<le> b \<and> b \<le> 31) \<or> (a = 192 \<and> b = 168)"

fun v4_is_link_local :: "ipv4 \<Rightarrow> bool" where
  "v4_is_link_local (Ipv4Addr a b c d) \<longleftrightarrow> a = 169 \<and> b = 254"

fun v4_is_broadcast :: "ipv4 \<Rightarrow> bool" where
  "v4_is_broadcast (Ipv4Addr a b c d) \<longleftrightarrow> a = 255 \<and> b = 255 \<and> c = 255 \<and> d = 255"

fun v4_is_unspecified :: "ipv4 \<Rightarrow> bool" where
  "v4_is_unspecified (Ipv4Addr a b c d) \<longleftrightarrow> a = 0 \<and> b = 0 \<and> c = 0 \<and> d = 0"

fun v4_is_multicast :: "ipv4 \<Rightarrow> bool" where
  "v4_is_multicast (Ipv4Addr a b c d) \<longleftrightarrow> 224 \<le> a \<and> a \<le> 239"

fun segments :: "ipv6 \<Rightarrow> u16 list" where
  "segments (Ipv6Addr a b c d e f g h) = [a, b, c, d, e, f, g, h]"

definition v6_is_loopback :: "ipv6 \<Rightarrow> bool" where
  "v6_is_loopback a \<longleftrightarrow> a = Ipv6Addr 0 0 0 0 0 0 0 1"

definition v6_is_unspecified :: "ipv6 \<Rightarrow> bool" where
  "v6_is_unspecified a \<longleftrightarrow> a = Ipv6Addr 0 0 0 0 0 0 0 0"

definition v6_is_multicast :: "ipv6 \<Rightarrow> bool" where
  "v6_is_multicast a \<longleftrightarrow> segments a ! 0 AND 0xFF00 = 0xFF00"

subsection \<open>The module's own classification\<close>

fun is_cgnat :: "ipv4 \<Rightarrow> bool" where
  "is_cgnat (Ipv4Addr a b c d) \<longleftrightarrow> a = 100 \<and> b AND 0xC0 = 64"

fun is_reserved_v4 :: "ipv4 \<Rightarrow> bool" where
  "is_reserved_v4 (Ipv4Addr a b c d) \<longleftrightarrow> a = 0 \<or> a \<ge> 240"

definition is_unique_local_v6 :: "ipv6 \<Rightarrow> bool" where
  "is_unique_local_v6 v6 \<longleftrightarrow> segments v6 ! 0 AND 0xFE00 = 0xFC00"

definition is_link_local_v6 :: "ipv6 \<Rightarrow> bool" where
  "is_link_local_v6 v6 \<longleftrightarrow> segments v6 ! 0 AND 0xFFC0 = 0xFE80"

definition v4_is_blocked :: "ipv4 \<Rightarrow> bool" where
  "v4_is_blocked v4 \<longleftrightarrow>
     v4_is_loopback v4 \<or> v4_is_private v4 \<or> v4_is_link_local v4 \<or> v4_is_broadcast v4 \<or>
     v4_is_unspecified v4 \<or> v4_is_multicast v4 \<or> is_cgnat v4 \<or> is_reserved_v4 v4"

text \<open>The low 32 bits as an IPv4 address: \<open>(s >> 8) as u8\<close> and \<open>s as u8\<close> of both segments.\<close>

definition low_v4 :: "u16 \<Rightarrow> u16 \<Rightarrow> ipv4" where
  "low_v4 g h = Ipv4Addr (ucast (drop_bit 8 g)) (ucast g) (ucast (drop_bit 8 h)) (ucast h)"

fun embedded_v4 :: "ipv6 \<Rightarrow> ipv4 option" where
  "embedded_v4 (Ipv6Addr a b c d e f g h) =
     (if list_all (\<lambda>s. s = 0) [a, b, c, d, e] \<and> f = 0xFFFF then Some (low_v4 g h)
      else if a = 0x0064 \<and> b = 0xFF9B \<and> list_all (\<lambda>s. s = 0) [c, d, e, f] then Some (low_v4 g h)
      else if list_all (\<lambda>s. s = 0) [a, b, c, d, e, f] \<and> \<not> (g = 0 \<and> h \<le> 1) then Some (low_v4 g h)
      else None)"

definition is_ipv4_mapped_private :: "ipv6 \<Rightarrow> bool" where
  "is_ipv4_mapped_private v6 \<longleftrightarrow>
     (case embedded_v4 v6 of None \<Rightarrow> False | Some v4 \<Rightarrow> v4_is_blocked v4)"

fun is_private_address :: "ip \<Rightarrow> bool" where
  "is_private_address (V4 v4) \<longleftrightarrow> v4_is_blocked v4"
| "is_private_address (V6 v6) \<longleftrightarrow>
     v6_is_loopback v6 \<or> v6_is_unspecified v6 \<or> v6_is_multicast v6 \<or>
     is_unique_local_v6 v6 \<or> is_link_local_v6 v6 \<or> is_ipv4_mapped_private v6"

subsection \<open>Printing an address\<close>

text \<open>
  \<open>Display\<close> of an address, which the checks put into their error: dotted octets; for
  IPv6 the mapped form, or hexadecimal segments with the first longest run of two or more
  zero segments written \<open>::\<close>.
\<close>

fun show_v4 :: "ipv4 \<Rightarrow> string" where
  "show_v4 (Ipv4Addr a b c d) =
     join ''.'' (map (\<lambda>o'. show_nat (unat o')) [a, b, c, d])"

fun show_hex :: "nat \<Rightarrow> string" where
  "show_hex n = (if n < 16 then [hex_digit n] else show_hex (n div 16) @ [hex_digit (n mod 16)])"

declare show_hex.simps [simp del]

fun zero_run :: "u16 list \<Rightarrow> nat" where
  "zero_run [] = 0"
| "zero_run (s # ss) = (if s = 0 then Suc (zero_run ss) else 0)"

text \<open>The start and length of the first longest run of zeros.\<close>

definition longest_zero_run :: "u16 list \<Rightarrow> nat \<times> nat" where
  "longest_zero_run ss =
     fold (\<lambda>i (st, n). let r = zero_run (drop i ss) in if n < r then (i, r) else (st, n))
       [0..<length ss] (0, 0)"

definition show_v6 :: "ipv6 \<Rightarrow> string" where
  "show_v6 a =
     (let ss = segments a; hexes = (\<lambda>l. join '':'' (map (\<lambda>s. show_hex (unat s)) l)) in
      if list_all (\<lambda>s. s = 0) (take 5 ss) \<and> ss ! 5 = 0xFFFF
      then ''::ffff:'' @ show_v4 (low_v4 (ss ! 6) (ss ! 7))
      else (case longest_zero_run ss of
        (st, n) \<Rightarrow>
          if n > 1 then hexes (take st ss) @ ''::'' @ hexes (drop (st + n) ss)
          else hexes ss))"

fun show_ip :: "ip \<Rightarrow> string" where
  "show_ip (V4 a) = show_v4 a"
| "show_ip (V6 a) = show_v6 a"

subsection \<open>The two checks\<close>

definition check_response_remote_addr :: "socket_addr option \<Rightarrow> bool \<Rightarrow> string + unit" where
  "check_response_remote_addr remote_addr allow_private =
     (if allow_private then Inr ()
      else (case remote_addr of
        Some addr \<Rightarrow>
          if is_private_address (sa_ip addr)
          then Inl (''DNS rebinding blocked: response came from private address '' @ show_ip (sa_ip addr))
          else Inr ()
      | None \<Rightarrow> Inr ()))"

definition validate_resolved_addr :: "socket_addr \<Rightarrow> bool \<Rightarrow> string + unit" where
  "validate_resolved_addr addr allow_private =
     (if allow_private then Inr ()
      else if is_private_address (sa_ip addr)
      then Inl (''DNS rebinding blocked: resolved address '' @ show_ip (sa_ip addr)
                @ '' is private/loopback/link-local'')
      else Inr ())"

subsection \<open>Specification: addresses as numbers, ranges as prefixes\<close>

fun v4_num :: "ipv4 \<Rightarrow> nat" where
  "v4_num (Ipv4Addr a b c d) = ((unat a * 256 + unat b) * 256 + unat c) * 256 + unat d"

fun v6_num :: "ipv6 \<Rightarrow> nat" where
  "v6_num (Ipv6Addr a b c d e f g h) =
     foldl (\<lambda>n s. n * 65536 + unat s) 0 [a, b, c, d, e, f, g, h]"

text \<open>\<open>x\<close>, a number of \<open>w\<close> bits, lies in the block \<open>base/len\<close>.\<close>

definition in_cidr :: "nat \<Rightarrow> nat \<times> nat \<Rightarrow> nat \<Rightarrow> bool" where
  "in_cidr w = (\<lambda>(base, len) x. x div 2 ^ (w - len) = base div 2 ^ (w - len))"

definition dotted :: "nat \<Rightarrow> nat \<Rightarrow> nat \<Rightarrow> nat \<Rightarrow> nat" where
  "dotted a b c d = ((a * 256 + b) * 256 + c) * 256 + d"

text \<open>The IPv4 blocks of \<open>PRIVATE_RANGES_DOC\<close>, its \<open>multicast\<close> being 224.0.0.0/4.\<close>

definition blocked_v4_ranges :: "(nat \<times> nat) list" where
  "blocked_v4_ranges =
     [(dotted 10 0 0 0, 8), (dotted 172 16 0 0, 12), (dotted 192 168 0 0, 16),
      (dotted 127 0 0 0, 8), (dotted 169 254 0 0, 16), (dotted 100 64 0 0, 10),
      (dotted 0 0 0 0, 8), (dotted 240 0 0 0, 4), (dotted 224 0 0 0, 4)]"

text \<open>The IPv6 blocks: ::1, ::, ff00::/8, fc00::/7 and fe80::/10.\<close>

definition blocked_v6_ranges :: "(nat \<times> nat) list" where
  "blocked_v6_ranges =
     [(1, 128), (0, 128), (0xFF00 * 2 ^ 112, 8), (0xFC00 * 2 ^ 112, 7), (0xFE80 * 2 ^ 112, 10)]"

text \<open>The /96 prefixes under which an IPv6 address carries an IPv4 one: mapped, NAT64, compatible.\<close>

definition embedding_prefixes :: "nat list" where
  "embedding_prefixes = [0xFFFF * 2 ^ 32, 0x64FF9B * 2 ^ 96, 0]"

definition blocked_v4_spec :: "nat \<Rightarrow> bool" where
  "blocked_v4_spec x \<longleftrightarrow> list_ex (\<lambda>r. in_cidr 32 r x) blocked_v4_ranges"

definition blocked_v6_spec :: "nat \<Rightarrow> bool" where
  "blocked_v6_spec x \<longleftrightarrow>
     list_ex (\<lambda>r. in_cidr 128 r x) blocked_v6_ranges \<or>
     list_ex (\<lambda>p. in_cidr 128 (p, 96) x \<and> blocked_v4_spec (x mod 2 ^ 32)) embedding_prefixes"

subsection \<open>Masks as divisions\<close>

lemma unat_and_not_mask: "unat (x AND NOT (mask k)) = unat x div 2 ^ k * 2 ^ k" for x :: "'a::len word"
proof -
  have eq: "unat (x AND NOT (mask k)) = unat (push_bit k (drop_bit k x))"
    by (rule arg_cong [where f = unat], rule bit_word_eqI) (auto simp: bit_simps)
  have less: "unat x < 2 ^ LENGTH('a)" by (rule unsigned_less)
  have "unat x div 2 ^ k * 2 ^ k < 2 ^ LENGTH('a)"
    using less div_times_less_eq_dividend [of "unat x" "2 ^ k"] by linarith
  moreover have "drop_bit k (unat x) < 2 ^ LENGTH('a)"
    using less div_le_dividend [of "unat x" "2 ^ k"] unfolding drop_bit_eq_div by linarith
  ultimately show ?thesis
    unfolding eq unsigned_push_bit_eq unsigned_drop_bit_eq
    by (simp add: push_bit_eq_mult take_bit_nat_eq_self drop_bit_eq_div)
qed

lemma mask_test:
  fixes x :: "'a::len word"
  assumes "m = NOT (mask k)"
  shows "x AND m = y \<longleftrightarrow> unat x div 2 ^ k * 2 ^ k = unat y"
  by (simp add: assms word_unat_eq_iff unat_and_not_mask)

lemma cgnat_mask: "b AND 0xC0 = 64 \<longleftrightarrow> unat b div 64 = 1" for b :: u8
  by (subst mask_test [where k = 6]) (code_simp, simp)

lemma multicast_mask: "a AND 0xFF00 = 0xFF00 \<longleftrightarrow> unat a div 256 = 255" for a :: u16
  by (subst mask_test [where k = 8]) (code_simp, simp)

lemma unique_local_mask: "a AND 0xFE00 = 0xFC00 \<longleftrightarrow> unat a div 512 = 0x7E" for a :: u16
  by (subst mask_test [where k = 9]) (code_simp, simp)

lemma link_local_mask: "a AND 0xFFC0 = 0xFE80 \<longleftrightarrow> unat a div 64 = 0x3FA" for a :: u16
  by (subst mask_test [where k = 6]) (code_simp, simp)

subsection \<open>Numbers in mixed radix\<close>

lemma octet_less: "unat (a :: u8) < 256"
  using unsigned_less [of a] by simp

lemma segment_less: "unat (a :: u16) < 65536"
  using unsigned_less [of a] by simp

lemma mixed_radix_eq:
  "q < n \<Longrightarrow> r < n \<Longrightarrow> p * n + q = m * n + r \<longleftrightarrow> p = m \<and> q = r" for n :: nat
  by (metis add_right_cancel div_mult_self3 div_less add_cancel_right_left not_less_zero mod_less mod_mult_self3)

lemma v4_num_div:
  "v4_num (Ipv4Addr a b c d) div 2 ^ 28 = unat a div 16"
  "v4_num (Ipv4Addr a b c d) div 2 ^ 24 = unat a"
  "v4_num (Ipv4Addr a b c d) div 2 ^ 22 = unat a * 4 + unat b div 64"
  "v4_num (Ipv4Addr a b c d) div 2 ^ 20 = unat a * 16 + unat b div 16"
  "v4_num (Ipv4Addr a b c d) div 2 ^ 16 = unat a * 256 + unat b"
  using octet_less [of a] octet_less [of b] octet_less [of c] octet_less [of d] by simp_all

lemma v4_range_172: "b < 256 \<Longrightarrow> a * 16 + b div 16 = 2753 \<longleftrightarrow> a = 172 \<and> 16 \<le> b \<and> b \<le> 31" for a b :: nat
proof -
  have "b div 16 = 1 \<longleftrightarrow> 16 \<le> b \<and> b \<le> 31"
    by (intro iffI conjI; (elim conjE)?; linarith)
  moreover assume "b < 256"
  ultimately show ?thesis
    using mixed_radix_eq [of "b div 16" 16 1 a 172] by (simp add: less_mult_imp_div_less)
qed

lemma v4_range_100: "b < 256 \<Longrightarrow> a * 4 + b div 64 = 401 \<longleftrightarrow> a = 100 \<and> b div 64 = 1" for a b :: nat
  using mixed_radix_eq [of "b div 64" 4 1 a 100] by (simp add: less_mult_imp_div_less)

lemma v4_range_16: "b < 256 \<Longrightarrow> y < 256 \<Longrightarrow> a * 256 + b = x * 256 + y \<longleftrightarrow> a = x \<and> b = y" for a b :: nat
  by (rule mixed_radix_eq)

lemma v4_range_top:
  fixes a :: nat
  shows "a < 256 \<Longrightarrow> a div 16 = 15 \<longleftrightarrow> 240 \<le> a"
    and "a div 16 = 14 \<longleftrightarrow> 224 \<le> a \<and> a \<le> 239"
  by (intro iffI conjI; (elim conjE)?; linarith)+

lemma blocked_v4_spec_div: "blocked_v4_spec x \<longleftrightarrow>
    x div 2 ^ 24 = 10 \<or> x div 2 ^ 20 = 2753 \<or> x div 2 ^ 16 = 192 * 256 + 168 \<or> x div 2 ^ 24 = 127 \<or>
    x div 2 ^ 16 = 169 * 256 + 254 \<or> x div 2 ^ 22 = 401 \<or> x div 2 ^ 24 = 0 \<or>
    x div 2 ^ 28 = 15 \<or> x div 2 ^ 28 = 14"
  by (simp add: blocked_v4_spec_def blocked_v4_ranges_def in_cidr_def dotted_def)

lemma v4_blocked_spec: "v4_is_blocked v4 \<longleftrightarrow> blocked_v4_spec (v4_num v4)"
proof (cases v4)
  case (Ipv4Addr a b c d)
  note v4_num.simps [simp del]
  have spec: "blocked_v4_spec (v4_num v4) \<longleftrightarrow>
      unat a = 10 \<or> unat a * 16 + unat b div 16 = 2753 \<or>
      unat a * 256 + unat b = 192 * 256 + 168 \<or> unat a = 127 \<or>
      unat a * 256 + unat b = 169 * 256 + 254 \<or>
      unat a * 4 + unat b div 64 = 401 \<or> unat a = 0 \<or> unat a div 16 = 15 \<or> unat a div 16 = 14"
    unfolding blocked_v4_spec_div Ipv4Addr v4_num_div ..
  have "v4_is_broadcast v4 \<Longrightarrow> 240 \<le> unat a" "v4_is_unspecified v4 \<Longrightarrow> unat a = 0"
    by (simp_all add: Ipv4Addr)
  moreover have
    "v4_is_loopback v4 \<longleftrightarrow> unat a = 127"
    "v4_is_private v4 \<longleftrightarrow> unat a = 10 \<or> (unat a = 172 \<and> 16 \<le> unat b \<and> unat b \<le> 31) \<or> (unat a = 192 \<and> unat b = 168)"
    "v4_is_link_local v4 \<longleftrightarrow> unat a = 169 \<and> unat b = 254"
    "v4_is_multicast v4 \<longleftrightarrow> 224 \<le> unat a \<and> unat a \<le> 239"
    "is_cgnat v4 \<longleftrightarrow> unat a = 100 \<and> unat b div 64 = 1"
    "is_reserved_v4 v4 \<longleftrightarrow> unat a = 0 \<or> 240 \<le> unat a"
    using cgnat_mask [of b] by (simp_all add: Ipv4Addr word_unat_eq_iff word_le_nat_alt)
  ultimately have code: "v4_is_blocked v4 \<longleftrightarrow>
      unat a = 127 \<or> unat a = 10 \<or> (unat a = 172 \<and> 16 \<le> unat b \<and> unat b \<le> 31) \<or>
      (unat a = 192 \<and> unat b = 168) \<or> (unat a = 169 \<and> unat b = 254) \<or>
      224 \<le> unat a \<and> unat a \<le> 239 \<or> (unat a = 100 \<and> unat b div 64 = 1) \<or>
      unat a = 0 \<or> 240 \<le> unat a"
    unfolding v4_is_blocked_def by blast
  have ranges: "unat a * 16 + unat b div 16 = 2753 \<longleftrightarrow> unat a = 172 \<and> 16 \<le> unat b \<and> unat b \<le> 31"
    "unat a * 4 + unat b div 64 = 401 \<longleftrightarrow> unat a = 100 \<and> unat b div 64 = 1"
    "unat a * 256 + unat b = 192 * 256 + 168 \<longleftrightarrow> unat a = 192 \<and> unat b = 168"
    "unat a * 256 + unat b = 169 * 256 + 254 \<longleftrightarrow> unat a = 169 \<and> unat b = 254"
    "unat a div 16 = 15 \<longleftrightarrow> 240 \<le> unat a"
    "unat a div 16 = 14 \<longleftrightarrow> 224 \<le> unat a \<and> unat a \<le> 239"
    using octet_less [of a] octet_less [of b]
    by (simp_all only: v4_range_172 v4_range_100 v4_range_top v4_range_16 [where y = 168] v4_range_16 [where y = 254])
  show ?thesis
    unfolding spec code ranges by blast
qed

subsection \<open>IPv6 addresses as numbers\<close>

definition radix :: "u16 list \<Rightarrow> nat" where
  "radix ss = foldl (\<lambda>n s. n * 65536 + unat s) 0 ss"

lemma radix_snoc: "radix (ss @ [s]) = radix ss * 65536 + unat s"
  by (simp add: radix_def)

lemma radix_eq: "length ss = length ts \<Longrightarrow> radix ss = radix ts \<longleftrightarrow> ss = ts"
proof (induction ss arbitrary: ts rule: rev_induct)
  case (snoc s ss)
  from snoc.prems obtain ts' t where ts: "ts = ts' @ [t]"
    by (metis append_butlast_last_id length_0_conv snoc_eq_iff_butlast)
  with snoc show ?case
    by (simp add: radix_snoc mixed_radix_eq segment_less word_unat_eq_iff)
qed simp

lemma v6_num_radix: "v6_num a = radix (segments a)"
  by (cases a) (simp add: radix_def)

lemma radix_div: "radix (ss @ [s]) div 65536 = radix ss"
  using segment_less [of s] by (simp add: radix_snoc)

lemma v6_num_div:
  "v6_num (Ipv6Addr a b c d e f g h) div 2 ^ 32 = radix [a, b, c, d, e, f]"
  "v6_num (Ipv6Addr a b c d e f g h) div 2 ^ 112 = unat a"
proof -
  have e16: "(2::nat) ^ 16 = 65536" by simp
  have "v6_num (Ipv6Addr a b c d e f g h) div 2 ^ 32 =
      radix (([a, b, c, d, e, f] @ [g]) @ [h]) div 2 ^ 16 div 2 ^ 16"
    unfolding div_exp_eq by (simp add: v6_num_radix)
  then show six: "v6_num (Ipv6Addr a b c d e f g h) div 2 ^ 32 = radix [a, b, c, d, e, f]"
    by (simp only: e16 radix_div)
  have "v6_num (Ipv6Addr a b c d e f g h) div 2 ^ 112 =
      radix ((((([a] @ [b]) @ [c]) @ [d]) @ [e]) @ [f]) div 2 ^ 16 div 2 ^ 16 div 2 ^ 16 div 2 ^ 16 div 2 ^ 16"
    using six unfolding div_exp_eq by (simp flip: div_exp_eq [of _ 32 80])
  then show "v6_num (Ipv6Addr a b c d e f g h) div 2 ^ 112 = unat a"
    by (simp only: e16 radix_div) (simp add: radix_def)
qed

lemma low_v4_num: "v4_num (low_v4 g h) = unat g * 65536 + unat h"
proof -
  have "unat (ucast (drop_bit 8 s) :: u8) = unat s div 256"
    "unat (ucast s :: u8) = unat s mod 256" for s :: u16
    unfolding unsigned_ucast_eq unsigned_drop_bit_eq
    using segment_less [of s] by (simp_all add: drop_bit_eq_div take_bit_eq_mod)
  then show ?thesis by (simp add: low_v4_def)
qed

lemma v6_num_mod: "v6_num (Ipv6Addr a b c d e f g h) mod 2 ^ 32 = v4_num (low_v4 g h)"
proof -
  have "v6_num (Ipv6Addr a b c d e f g h) =
      radix [a, b, c, d, e, f] * 2 ^ 32 + (unat g * 65536 + unat h)"
    by (simp add: v6_num_radix radix_def)
  moreover have "unat g * 65536 + unat h < 2 ^ 32"
    using segment_less [of g] segment_less [of h] by simp
  ultimately show ?thesis
    by (simp only: low_v4_num mod_mult_self3 mod_less)
qed

lemma embedding_prefix_iff:
  "in_cidr 128 (0xFFFF * 2 ^ 32, 96) (v6_num (Ipv6Addr a b c d e f g h)) \<longleftrightarrow> [a, b, c, d, e, f] = [0, 0, 0, 0, 0, 0xFFFF]"
  "in_cidr 128 (0x64FF9B * 2 ^ 96, 96) (v6_num (Ipv6Addr a b c d e f g h)) \<longleftrightarrow> [a, b, c, d, e, f] = [0x64, 0xFF9B, 0, 0, 0, 0]"
  "in_cidr 128 (0, 96) (v6_num (Ipv6Addr a b c d e f g h)) \<longleftrightarrow> [a, b, c, d, e, f] = [0, 0, 0, 0, 0, 0]"
proof -
  note v6_num.simps [simp del]
  have "radix [0, 0, 0, 0, 0, 0xFFFF] = 0xFFFF" "radix [0x64, 0xFF9B, 0, 0, 0, 0] = 0x64FF9B * 2 ^ 64"
    "radix [0, 0, 0, 0, 0, 0] = 0"
    by (simp_all add: radix_def)
  then show "in_cidr 128 (0xFFFF * 2 ^ 32, 96) (v6_num (Ipv6Addr a b c d e f g h)) \<longleftrightarrow> [a, b, c, d, e, f] = [0, 0, 0, 0, 0, 0xFFFF]"
    "in_cidr 128 (0x64FF9B * 2 ^ 96, 96) (v6_num (Ipv6Addr a b c d e f g h)) \<longleftrightarrow> [a, b, c, d, e, f] = [0x64, 0xFF9B, 0, 0, 0, 0]"
    "in_cidr 128 (0, 96) (v6_num (Ipv6Addr a b c d e f g h)) \<longleftrightarrow> [a, b, c, d, e, f] = [0, 0, 0, 0, 0, 0]"
    using v6_num_div(1) [of a b c d e f g h]
      radix_eq [of "[a, b, c, d, e, f]" "[0, 0, 0, 0, 0, 0xFFFF]"]
      radix_eq [of "[a, b, c, d, e, f]" "[0x64, 0xFF9B, 0, 0, 0, 0]"]
      radix_eq [of "[a, b, c, d, e, f]" "[0, 0, 0, 0, 0, 0]"]
    by (simp_all add: in_cidr_def)
qed

subsection \<open>The classifier is its specification\<close>

lemma v6_special_iff:
  "in_cidr 128 (1, 128) (v6_num v6) \<longleftrightarrow> v6_is_loopback v6"
  "in_cidr 128 (0, 128) (v6_num v6) \<longleftrightarrow> v6_is_unspecified v6"
proof -
  obtain a b c d e f g h where v6: "v6 = Ipv6Addr a b c d e f g h" by (cases v6)
  have "radix [0, 0, 0, 0, 0, 0, 0, 1] = 1" "radix [0, 0, 0, 0, 0, 0, 0, 0] = 0"
    by (simp_all add: radix_def)
  then show "in_cidr 128 (1, 128) (v6_num v6) \<longleftrightarrow> v6_is_loopback v6"
    "in_cidr 128 (0, 128) (v6_num v6) \<longleftrightarrow> v6_is_unspecified v6"
    using radix_eq [of "segments v6" "[0, 0, 0, 0, 0, 0, 0, 1]"] radix_eq [of "segments v6" "[0, 0, 0, 0, 0, 0, 0, 0]"]
    by (simp_all add: in_cidr_def v6_num_radix v6_is_loopback_def v6_is_unspecified_def v6)
qed

lemma v6_prefix_iff:
  "in_cidr 128 (0xFF00 * 2 ^ 112, 8) (v6_num v6) \<longleftrightarrow> v6_is_multicast v6"
  "in_cidr 128 (0xFC00 * 2 ^ 112, 7) (v6_num v6) \<longleftrightarrow> is_unique_local_v6 v6"
  "in_cidr 128 (0xFE80 * 2 ^ 112, 10) (v6_num v6) \<longleftrightarrow> is_link_local_v6 v6"
proof -
  obtain a b c d e f g h where v6: "v6 = Ipv6Addr a b c d e f g h" by (cases v6)
  note v6_num.simps [simp del]
  have div: "v6_num v6 div 2 ^ (112 + k) = unat a div 2 ^ k" for k
    unfolding div_exp_eq [symmetric] v6 v6_num_div ..
  have cidr: "in_cidr 128 (y * 2 ^ 112, 16 - k) (v6_num v6) \<longleftrightarrow> unat a div 2 ^ k = y div 2 ^ k"
    if "k \<le> 16" for y k
  proof -
    have "128 - (16 - k) = 112 + k" using that by simp
    moreover have "y * 2 ^ 112 div 2 ^ (112 + k) = y div 2 ^ k"
      unfolding div_exp_eq [symmetric] by simp
    ultimately show ?thesis by (simp only: in_cidr_def prod.case div)
  qed
  show "in_cidr 128 (0xFF00 * 2 ^ 112, 8) (v6_num v6) \<longleftrightarrow> v6_is_multicast v6"
    using cidr [of 8 "0xFF00"] by (simp add: v6_is_multicast_def v6 multicast_mask)
  show "in_cidr 128 (0xFC00 * 2 ^ 112, 7) (v6_num v6) \<longleftrightarrow> is_unique_local_v6 v6"
    using cidr [of 9 "0xFC00"] by (simp add: is_unique_local_v6_def v6 unique_local_mask)
  show "in_cidr 128 (0xFE80 * 2 ^ 112, 10) (v6_num v6) \<longleftrightarrow> is_link_local_v6 v6"
    using cidr [of 6 "0xFE80"] by (simp add: is_link_local_v6_def v6 link_local_mask)
qed

lemma blocked_v4_zero: "blocked_v4_spec 0" "blocked_v4_spec 1"
  by (simp_all add: blocked_v4_spec_def blocked_v4_ranges_def in_cidr_def dotted_def)

lemma mapped_private_spec:
  "v6_is_loopback v6 \<or> v6_is_unspecified v6 \<or> is_ipv4_mapped_private v6 \<longleftrightarrow>
   v6_is_loopback v6 \<or> v6_is_unspecified v6 \<or>
   list_ex (\<lambda>p. in_cidr 128 (p, 96) (v6_num v6) \<and> blocked_v4_spec (v6_num v6 mod 2 ^ 32)) embedding_prefixes"
proof (cases v6)
  case (Ipv6Addr a b c d e f g h)
  note v6_num.simps [simp del]
  have low: "blocked_v4_spec (v6_num v6 mod 2 ^ 32) \<longleftrightarrow> v4_is_blocked (low_v4 g h)"
    by (simp only: Ipv6Addr v6_num_mod v4_blocked_spec)
  have "h \<le> 1 \<longleftrightarrow> h = 0 \<or> h = 1"
    by (metis unsigned_1 word_le_nat_alt le_Suc_eq One_nat_def le_zero_eq unsigned_0 word_unat_eq_iff order_refl)
  then have outer: "v6_is_loopback v6 \<or> v6_is_unspecified v6 \<longleftrightarrow> [a, b, c, d, e, f] = [0, 0, 0, 0, 0, 0] \<and> g = 0 \<and> h \<le> 1"
    by (auto simp: v6_is_loopback_def v6_is_unspecified_def Ipv6Addr)
  have code: "is_ipv4_mapped_private v6 \<longleftrightarrow> v4_is_blocked (low_v4 g h) \<and>
      ([a, b, c, d, e, f] = [0, 0, 0, 0, 0, 0xFFFF] \<or> [a, b, c, d, e, f] = [0x64, 0xFF9B, 0, 0, 0, 0] \<or>
       [a, b, c, d, e, f] = [0, 0, 0, 0, 0, 0] \<and> \<not> (g = 0 \<and> h \<le> 1))"
    by (simp add: is_ipv4_mapped_private_def Ipv6Addr)
  have spec: "list_ex (\<lambda>p. in_cidr 128 (p, 96) (v6_num v6) \<and> blocked_v4_spec (v6_num v6 mod 2 ^ 32)) embedding_prefixes
    \<longleftrightarrow> v4_is_blocked (low_v4 g h) \<and>
      ([a, b, c, d, e, f] = [0, 0, 0, 0, 0, 0xFFFF] \<or> [a, b, c, d, e, f] = [0x64, 0xFF9B, 0, 0, 0, 0] \<or>
       [a, b, c, d, e, f] = [0, 0, 0, 0, 0, 0])"
    unfolding low embedding_prefixes_def list_ex_Cons_iff list_ex_Nil_iff
    unfolding Ipv6Addr embedding_prefix_iff by argo
  show ?thesis
    unfolding spec code using outer by argo
qed

lemma is_private_address_v6_spec: "is_private_address (V6 v6) \<longleftrightarrow> blocked_v6_spec (v6_num v6)"
  using mapped_private_spec [of v6]
  unfolding is_private_address.simps blocked_v6_spec_def blocked_v6_ranges_def list_ex_Cons_iff list_ex_Nil_iff
    v6_prefix_iff v6_special_iff by blast

subsection \<open>What the guard promises\<close>

text \<open>
  C24: The classifier refuses exactly the documented ranges: an IPv4 address is refused iff
  its number lies in one of the CIDR blocks of \<open>PRIVATE_RANGES_DOC\<close>, and an IPv6 address
  iff it lies in one of the IPv6 blocks or carries, under the mapped, NAT64 or compatible
  /96 prefix, an IPv4 address that is refused.
\<close>

theorem is_private_address_exact:
  "(is_private_address (V4 v4) \<longleftrightarrow> blocked_v4_spec (v4_num v4)) \<and>
   (is_private_address (V6 v6) \<longleftrightarrow> blocked_v6_spec (v6_num v6))"
  by (simp only: is_private_address.simps(1) v4_blocked_spec is_private_address_v6_spec simp_thms)

text \<open>The three ways an IPv4 address reaches a socket inside an IPv6 one.\<close>

fun mapped_v6 :: "ipv4 \<Rightarrow> ipv6" where
  "mapped_v6 (Ipv4Addr a b c d) =
     Ipv6Addr 0 0 0 0 0 0xFFFF (push_bit 8 (ucast a) OR ucast b) (push_bit 8 (ucast c) OR ucast d)"

fun nat64_v6 :: "ipv4 \<Rightarrow> ipv6" where
  "nat64_v6 (Ipv4Addr a b c d) =
     Ipv6Addr 0x64 0xFF9B 0 0 0 0 (push_bit 8 (ucast a) OR ucast b) (push_bit 8 (ucast c) OR ucast d)"

fun compatible_v6 :: "ipv4 \<Rightarrow> ipv6" where
  "compatible_v6 (Ipv4Addr a b c d) =
     Ipv6Addr 0 0 0 0 0 0 (push_bit 8 (ucast a) OR ucast b) (push_bit 8 (ucast c) OR ucast d)"

lemma low_v4_pack:
  "low_v4 (push_bit 8 (ucast a) OR ucast b) (push_bit 8 (ucast c) OR ucast d) = Ipv4Addr a b c d"
proof -
  have "ucast (drop_bit 8 (push_bit 8 (ucast x) OR ucast y :: u16)) = x"
    "ucast (push_bit 8 (ucast x) OR ucast y :: u16) = y" for x y :: u8
    by (rule bit_word_eqI; auto simp: bit_simps dest: bit_imp_le_length)+
  then show ?thesis by (simp only: low_v4_def)
qed

lemma pack_zero:
  "push_bit 8 (ucast a) OR ucast b = (0 :: u16) \<longleftrightarrow> a = 0 \<and> b = 0" for a b :: u8
proof
  assume "push_bit 8 (ucast a) OR ucast b = (0 :: u16)"
  then have "low_v4 (push_bit 8 (ucast a) OR ucast b) (push_bit 8 (ucast a) OR ucast b) = low_v4 0 0"
    by simp
  then show "a = 0 \<and> b = 0"
    by (simp only: low_v4_pack) (simp add: low_v4_def)
qed simp

lemma embedded_blocked: "embedded_v4 v6 = Some v4 \<Longrightarrow> v4_is_blocked v4 \<Longrightarrow> is_private_address (V6 v6)"
  by (simp add: is_ipv4_mapped_private_def)

lemma embedded_not_blocked:
  assumes "embedded_v4 v6 = Some v4" and "\<not> v4_is_blocked v4" and "segments v6 ! 0 \<in> {0, 0x64}"
  shows "\<not> is_private_address (V6 v6)"
proof (cases v6)
  case (Ipv6Addr a b c d e f g h)
  have "\<not> v6_is_loopback v6" "\<not> v6_is_unspecified v6"
    using assms(1) by (auto simp: v6_is_loopback_def v6_is_unspecified_def)
  moreover have "\<not> v6_is_multicast v6" "\<not> is_unique_local_v6 v6" "\<not> is_link_local_v6 v6"
    using assms(3) by (auto simp: v6_is_multicast_def is_unique_local_v6_def is_link_local_v6_def)
  ultimately show ?thesis
    using assms(1,2) by (simp add: is_ipv4_mapped_private_def)
qed

lemma embedded_iff:
  "embedded_v4 v6 = Some v4 \<Longrightarrow> segments v6 ! 0 \<in> {0, 0x64} \<Longrightarrow>
   is_private_address (V6 v6) \<longleftrightarrow> v4_is_blocked v4"
  using embedded_blocked embedded_not_blocked by blast

lemma embedded_of_mapped: "embedded_v4 (mapped_v6 v4) = Some v4" "segments (mapped_v6 v4) ! 0 \<in> {0, 0x64}"
  by (cases v4; simp add: low_v4_pack)+

lemma embedded_of_nat64: "embedded_v4 (nat64_v6 v4) = Some v4" "segments (nat64_v6 v4) ! 0 \<in> {0, 0x64}"
  by (cases v4; simp add: low_v4_pack)+

lemma embedded_of_zero:
  "embedded_v4 (Ipv6Addr 0 0 0 0 0 0 g h) = (if g = 0 \<and> h \<le> 1 then None else Some (low_v4 g h))"
  by simp

lemma compatible_private: "is_private_address (V6 (compatible_v6 v4)) \<longleftrightarrow> v4_is_blocked v4"
proof (cases v4)
  case (Ipv4Addr a b c d)
  let ?g = "push_bit 8 (ucast a) OR ucast b :: u16" and ?h = "push_bit 8 (ucast c) OR ucast d :: u16"
  show ?thesis
  proof (cases "?g = 0 \<and> ?h \<le> 1")
    case True
    then have "a = 0" by (simp add: pack_zero)
    then have "v4_is_blocked v4" by (simp add: Ipv4Addr v4_is_blocked_def)
    moreover have "?h = 0 \<or> ?h = 1"
      using True by (metis unsigned_1 word_le_nat_alt le_Suc_eq One_nat_def le_zero_eq unsigned_0 word_unat_eq_iff)
    ultimately show ?thesis
      using True by (auto simp: Ipv4Addr v6_is_loopback_def v6_is_unspecified_def)
  next
    case False
    then have "embedded_v4 (compatible_v6 v4) = Some v4"
      by (simp only: Ipv4Addr compatible_v6.simps embedded_of_zero if_False low_v4_pack)
    then show ?thesis
      by (rule embedded_iff) (simp add: Ipv4Addr)
  qed
qed

text \<open>
  C25: Rebinding through an IPv6 wrapper gains nothing: every IPv4 address is classified
  alike in its own form and in its mapped, NAT64 and compatible IPv6 forms, so a blocked
  address stays blocked and a public one stays allowed.
\<close>

theorem embedding_preserves_class:
  "(is_private_address (V6 (mapped_v6 v4)) \<longleftrightarrow> is_private_address (V4 v4)) \<and>
   (is_private_address (V6 (nat64_v6 v4)) \<longleftrightarrow> is_private_address (V4 v4)) \<and>
   (is_private_address (V6 (compatible_v6 v4)) \<longleftrightarrow> is_private_address (V4 v4))"
  using embedded_iff [OF embedded_of_mapped] embedded_iff [OF embedded_of_nat64] compatible_private
  by simp

text \<open>
  Both checks refuse an address iff the caller does not allow private addresses and the
  address is in a blocked range; a response with no known peer passes; and the two checks
  never disagree about an address.
\<close>

theorem address_checks_exact:
  "(\<not> is_ok (validate_resolved_addr addr allow) \<longleftrightarrow>
      \<not> allow \<and> (case sa_ip addr of V4 a \<Rightarrow> blocked_v4_spec (v4_num a) | V6 a \<Rightarrow> blocked_v6_spec (v6_num a))) \<and>
   (is_ok (check_response_remote_addr (Some addr) allow) \<longleftrightarrow> is_ok (validate_resolved_addr addr allow)) \<and>
   check_response_remote_addr None allow = Inr ()"
  by (cases "sa_ip addr")
    (simp_all del: is_private_address.simps(2)
      add: is_private_address_v6_spec v4_blocked_spec validate_resolved_addr_def check_response_remote_addr_def)

end
