(* ===== verification/Btree_Map.thy ===== *)
theory Btree_Map
  imports Prelude
begin

section \<open>Ordered maps\<close>

text \<open>
  Rust's \<open>BTreeMap<K, V>\<close>, and the object of a \<open>serde_json::Value\<close>, which is one:
  the list of its entries in iteration order, keys strictly increasing. The interface the
  components rely on is the locale \<open>ordered_map\<close>; the list model interprets it.
\<close>

fun bt_insert :: "'k::linorder \<Rightarrow> 'v \<Rightarrow> ('k \<times> 'v) list \<Rightarrow> ('k \<times> 'v) list" where
  "bt_insert k v [] = [(k, v)]"
| "bt_insert k v ((k', v') # m) =
     (if k < k' then (k, v) # (k', v') # m
      else if k = k' then (k, v) # m
      else (k', v') # bt_insert k v m)"

definition bt_get :: "('k \<times> 'v) list \<Rightarrow> 'k \<Rightarrow> 'v option" where
  "bt_get m k = map_of m k"

definition bt_remove :: "'k \<Rightarrow> ('k \<times> 'v) list \<Rightarrow> ('k \<times> 'v) list" where
  "bt_remove k m = filter (\<lambda>e. fst e \<noteq> k) m"

definition bt_wf :: "('k::linorder \<times> 'v) list \<Rightarrow> bool" where
  "bt_wf m \<longleftrightarrow> sorted_wrt (<) (map fst m)"

text \<open>\<open>collect()\<close> into a map inserts the entries in order, later keys replacing earlier.\<close>

definition bt_collect :: "('k::linorder \<times> 'v) list \<Rightarrow> ('k \<times> 'v) list" where
  "bt_collect es = fold (\<lambda>(k, v). bt_insert k v) es []"

subsection \<open>The interface\<close>

locale ordered_map =
  fixes insert_op :: "'k::linorder \<Rightarrow> 'v \<Rightarrow> 'm \<Rightarrow> 'm"
    and remove_op :: "'k \<Rightarrow> 'm \<Rightarrow> 'm"
    and get_op :: "'m \<Rightarrow> 'k \<Rightarrow> 'v option"
    and entries :: "'m \<Rightarrow> ('k \<times> 'v) list"
    and wf :: "'m \<Rightarrow> bool"
  assumes get_insert: "wf m \<Longrightarrow> get_op (insert_op k v m) = (get_op m)(k \<mapsto> v)"
    and get_remove: "wf m \<Longrightarrow> get_op (remove_op k m) = (get_op m)(k := None)"
    and get_entries: "wf m \<Longrightarrow> get_op m = map_of (entries m)"
    and entries_sorted: "wf m \<Longrightarrow> sorted_wrt (<) (map fst (entries m))"
    and entries_inject: "entries m = entries m' \<longleftrightarrow> m = m'"
    and wf_insert: "wf m \<Longrightarrow> wf (insert_op k v m)"
    and wf_remove: "wf m \<Longrightarrow> wf (remove_op k m)"
begin

lemma distinct_keys: "wf m \<Longrightarrow> distinct (map fst (entries m))"
  using entries_sorted strict_sorted_iff by blast

lemma dom_entries: "wf m \<Longrightarrow> dom (get_op m) = fst ` set (entries m)"
  by (simp add: get_entries dom_map_of_conv_image_fst)

lemma get_extensional:
  assumes "wf m" and "wf m'" and "get_op m = get_op m'"
  shows "m = m'"
proof -
  have eq: "map_of (entries m) = map_of (entries m')"
    using assms by (simp add: get_entries)
  then have keys: "map fst (entries m) = map fst (entries m')"
    using assms entries_sorted [OF assms(1)] entries_sorted [OF assms(2)]
    by (metis dom_map_of_conv_image_fst list.set_map strict_sorted_equal)
  have "entries m = entries m'"
    using distinct_keys [OF assms(1)] distinct_keys [OF assms(2)] keys eq
    by (metis map_of_eqI map_of_inject_set zip_map_fst_snd map_fst_zip
        map_of_zip_inject length_map)
  then show ?thesis by (simp add: entries_inject)
qed

lemma insert_same: "wf m \<Longrightarrow> get_op m k = Some v \<Longrightarrow> insert_op k v m = m"
  by (rule get_extensional) (auto simp: wf_insert get_insert)

lemma insert_twice: "wf m \<Longrightarrow> insert_op k v (insert_op k w m) = insert_op k v m"
  by (rule get_extensional) (auto simp: wf_insert get_insert)

lemma remove_insert: "wf m \<Longrightarrow> insert_op k v (remove_op k m) = insert_op k v m"
  by (rule get_extensional) (auto simp: wf_insert wf_remove get_insert get_remove)

lemma remove_absent: "wf m \<Longrightarrow> get_op m k = None \<Longrightarrow> remove_op k m = m"
  by (rule get_extensional) (auto simp: wf_remove get_remove)

end

subsection \<open>The list model provides it\<close>

lemma set_keys_bt_insert: "fst ` set (bt_insert k v m) = insert k (fst ` set m)"
  by (induction k v m rule: bt_insert.induct) auto

lemma bt_wf_Nil [simp]: "bt_wf []"
  by (simp add: bt_wf_def)

lemma bt_wf_Cons: "bt_wf ((k, v) # m) \<longleftrightarrow> (\<forall>k' \<in> fst ` set m. k < k') \<and> bt_wf m"
  by (auto simp: bt_wf_def)

lemma bt_wf_insert [intro]: "bt_wf m \<Longrightarrow> bt_wf (bt_insert k v m)"
  by (induction k v m rule: bt_insert.induct)
    (force simp: bt_wf_Cons set_keys_bt_insert)+

lemma bt_get_insert: "bt_wf m \<Longrightarrow> bt_get (bt_insert k v m) = (bt_get m)(k \<mapsto> v)"
proof (induction k v m rule: bt_insert.induct)
  case (2 k v k' v' m)
  then show ?case by (auto simp: bt_get_def bt_wf_Cons fun_eq_iff)
qed (simp add: bt_get_def fun_eq_iff)

lemma bt_get_remove: "bt_get (bt_remove k m) = (bt_get m)(k := None)"
  by (induction m) (auto simp: bt_get_def bt_remove_def fun_eq_iff)

lemma bt_wf_remove [intro]: "bt_wf m \<Longrightarrow> bt_wf (bt_remove k m)"
  by (induction m) (auto simp: bt_remove_def bt_wf_def)

interpretation bt: ordered_map bt_insert bt_remove bt_get "\<lambda>m. m" bt_wf
  by unfold_locales
    (auto simp: bt_get_insert bt_get_remove bt_get_def bt_wf_def [symmetric] intro: bt_wf_insert bt_wf_remove)

lemma bt_get_Nil [simp]: "bt_get [] = Map.empty"
  by (simp add: bt_get_def fun_eq_iff)

lemma bt_get_Cons [simp]: "bt_get ((k, v) # m) = (bt_get m)(k \<mapsto> v)"
  by (simp add: bt_get_def fun_eq_iff)

lemma bt_get_key: "k \<in> fst ` set m \<longleftrightarrow> (\<exists>x. bt_get m k = Some x)"
  unfolding bt_get_def by (metis map_of_eq_None_iff not_None_eq)

lemma bt_get_key_bex: "(\<exists>p \<in> set m. k = fst p) \<longleftrightarrow> (\<exists>x. bt_get m k = Some x)"
  using bt_get_key [of k m] by (simp add: image_iff)

lemma bt_get_eq_iff:
  assumes "dom g = S"
  shows "bt_get m = g \<longleftrightarrow> fst ` set m \<subseteq> S \<and> (\<forall>k \<in> S. bt_get m k = g k)"
proof
  assume "bt_get m = g"
  with assms show "fst ` set m \<subseteq> S \<and> (\<forall>k \<in> S. bt_get m k = g k)"
    using bt_get_key [of _ m] by (metis domI subsetI)
next
  assume r: "fst ` set m \<subseteq> S \<and> (\<forall>k \<in> S. bt_get m k = g k)"
  show "bt_get m = g"
  proof
    fix k
    have "k \<notin> S \<Longrightarrow> g k = None"
      using assms by auto
    with r bt_get_key [of k m] show "bt_get m k = g k"
      by (cases "k \<in> S"; cases "bt_get m k") auto
  qed
qed

lemma bt_get_set: "bt_get m k = Some x \<Longrightarrow> (k, x) \<in> set m"
  by (simp add: bt_get_def map_of_SomeD)

lemma bt_wf_distinct: "bt_wf ((k, v) # m) \<Longrightarrow> bt_get m k = None"
  using bt_get_key [of k m] by (cases "bt_get m k") (auto simp: bt_wf_Cons)

end
