(* ===== verification/Json.thy ===== *)
theory Json
  imports Btree_Map
begin

section \<open>JSON values and the derived encoders\<close>

text \<open>
  The values of \<open>serde_json::Value\<close>, which the sources build, match on and hand across
  the plugin boundary. A number is kept as \<open>serde_json::Number\<close> keeps it: an unsigned
  integer, a negative integer, or a finite float. The text form of a value is the
  business of \<open>serde_json\<close>: every definition that reads or writes text takes the
  printer or the parser as an argument.

  The second part holds the field conventions of the \<open>#[serde(...)]\<close> attributes that
  the sources put on their types: a required field, a field with a default, a field
  that is skipped when it is empty.
\<close>

datatype number = PosInt u64 | NegInt i64 | Float f64

datatype json =
    JNull
  | JBool bool
  | JNumber number
  | JString string
  | JArray "json list"
  | JObject "(string \<times> json) list"

type_synonym json_map = "(string \<times> json) list"

text \<open>Every object of a value is an ordered map.\<close>

fun json_wf :: "json \<Rightarrow> bool" where
  "json_wf (JArray xs) = list_all json_wf xs"
| "json_wf (JObject m) = (bt_wf m \<and> list_all (\<lambda>e. json_wf (snd e)) m)"
| "json_wf _ = True"

text \<open>\<open>json!({ ... })\<close> inserts its entries in the order they are written.\<close>

definition json_obj :: "(string \<times> json) list \<Rightarrow> json" where
  "json_obj es = JObject (bt_collect es)"

definition json_strings :: "string list \<Rightarrow> json" where
  "json_strings xs = JArray (map JString xs)"

subsection \<open>Decoding\<close>

datatype de_error =
    Syntax
  | WrongType
  | MissingField string
  | UnknownVariant string
  | DeCustom string

definition de_string :: "json \<Rightarrow> de_error + string" where
  "de_string v = (case v of JString s \<Rightarrow> Inr s | _ \<Rightarrow> Inl WrongType)"

definition de_bool :: "json \<Rightarrow> de_error + bool" where
  "de_bool v = (case v of JBool b \<Rightarrow> Inr b | _ \<Rightarrow> Inl WrongType)"

definition de_u64 :: "json \<Rightarrow> de_error + u64" where
  "de_u64 v = (case v of JNumber (PosInt n) \<Rightarrow> Inr n | _ \<Rightarrow> Inl WrongType)"

definition de_vec :: "(json \<Rightarrow> de_error + 'a) \<Rightarrow> json \<Rightarrow> de_error + 'a list" where
  "de_vec d v = (case v of JArray xs \<Rightarrow> collect_results (map d xs) | _ \<Rightarrow> Inl WrongType)"

definition de_option :: "(json \<Rightarrow> de_error + 'a) \<Rightarrow> json \<Rightarrow> de_error + 'a option" where
  "de_option d v =
     (case v of JNull \<Rightarrow> Inr None | _ \<Rightarrow> res_bind (d v) (\<lambda>a. Inr (Some a)))"

definition de_field :: "json_map \<Rightarrow> string \<Rightarrow> (json \<Rightarrow> de_error + 'a) \<Rightarrow> de_error + 'a" where
  "de_field m f d = (case bt_get m f of None \<Rightarrow> Inl (MissingField f) | Some v \<Rightarrow> d v)"

definition de_field_default ::
  "json_map \<Rightarrow> string \<Rightarrow> 'a \<Rightarrow> (json \<Rightarrow> de_error + 'a) \<Rightarrow> de_error + 'a" where
  "de_field_default m f a d = (case bt_get m f of None \<Rightarrow> Inr a | Some v \<Rightarrow> d v)"

lemma de_vec_strings [simp]: "de_vec de_string (json_strings xs) = Inr xs"
  by (simp add: de_vec_def json_strings_def collect_results_Inr de_string_def comp_def)

lemma de_string_Inr: "de_string v = Inr s \<longleftrightarrow> v = JString s"
  by (cases v) (simp_all add: de_string_def)

lemma de_vec_strings_iff: "de_vec de_string v = Inr xs \<longleftrightarrow> v = json_strings xs"
proof
  assume a: "de_vec de_string v = Inr xs"
  then obtain vs where v: "v = JArray vs" "map de_string vs = map Inr xs"
    by (cases v) (auto simp: de_vec_def collect_results_Inr)
  then have "vs = map JString xs"
    by (auto simp: list_eq_iff_nth_eq de_string_Inr map_equality_iff)
  with v show "v = json_strings xs" by (simp add: json_strings_def)
qed simp

lemma bt_collect_Nil [simp]: "bt_collect [] = []"
  by (simp add: bt_collect_def)

lemma bt_wf_collect: "bt_wf (bt_collect es)"
proof -
  have "bt_wf m \<Longrightarrow> bt_wf (fold (\<lambda>(k, v). bt_insert k v) es m)" for m
    by (induction es arbitrary: m) (auto intro: bt_wf_insert)
  then show ?thesis by (simp add: bt_collect_def)
qed

lemma json_wf_object:
  "json_wf (JObject m) \<longleftrightarrow> bt_wf m \<and> (\<forall>k x. bt_get m k = Some x \<longrightarrow> json_wf x)"
proof (cases "bt_wf m")
  case True
  then have "distinct (map fst m)" by (rule bt.distinct_keys)
  then have "bt_get m k = Some x \<longleftrightarrow> (k, x) \<in> set m" for k x
    by (simp add: bt_get_def)
  then show ?thesis using True by (fastforce simp: list_all_iff)
qed simp

subsection \<open>Derived struct codecs\<close>

text \<open>
  A derived encoder writes the fields of a struct in order and leaves out those whose skip
  condition holds: \<open>fields_map\<close> takes every field with the value it writes, or \<open>None\<close>.
  The abbreviating value forms are those of the attributes: \<open>opt\<close> skips \<open>None\<close>,
  \<open>vec_skip\<close> an empty vector, \<open>map_skip\<close> an empty map, \<open>flag_skip\<close> a \<open>false\<close>.
\<close>

definition fields_map :: "(string \<times> json option) list \<Rightarrow> json_map" where
  "fields_map fs = bt_collect (concat (map (\<lambda>(f, v). case v of None \<Rightarrow> [] | Some x \<Rightarrow> [(f, x)]) fs))"

definition opt_null :: "('a \<Rightarrow> json) \<Rightarrow> 'a option \<Rightarrow> json" where
  "opt_null enc x = (case x of None \<Rightarrow> JNull | Some a \<Rightarrow> enc a)"

definition vec :: "('a \<Rightarrow> json) \<Rightarrow> 'a list \<Rightarrow> json" where
  "vec enc xs = JArray (map enc xs)"

definition vec_skip :: "('a \<Rightarrow> json) \<Rightarrow> 'a list \<Rightarrow> json option" where
  "vec_skip enc xs = (if xs = [] then None else Some (vec enc xs))"

definition map_obj :: "('a \<Rightarrow> json) \<Rightarrow> (string \<times> 'a) list \<Rightarrow> json" where
  "map_obj enc m = JObject (map (\<lambda>(k, v). (k, enc v)) m)"

definition map_skip :: "('a \<Rightarrow> json) \<Rightarrow> (string \<times> 'a) list \<Rightarrow> json option" where
  "map_skip enc m = (if m = [] then None else Some (map_obj enc m))"

definition flag_skip :: "bool \<Rightarrow> json option" where
  "flag_skip b = (if b then Some (JBool True) else None)"

definition str_skip :: "string \<Rightarrow> json option" where
  "str_skip s = (if s = [] then None else Some (JString s))"

text \<open>Integers: an unsigned or non-negative one is a \<open>PosInt\<close>; the decoders check the range.\<close>

definition en_u64 :: "u64 \<Rightarrow> json" where
  "en_u64 n = JNumber (PosInt n)"

definition en_uint :: "'w::len word \<Rightarrow> json" where
  "en_uint n = JNumber (PosInt (ucast n))"

definition de_uint :: "json \<Rightarrow> de_error + 'w::len word" where
  "de_uint v = res_bind (de_u64 v) (\<lambda>n.
     if unat n < 2 ^ LENGTH('w) then Inr (ucast n) else Inl WrongType)"

definition en_int :: "'w::len word \<Rightarrow> json" where
  "en_int n = JNumber (if 0 \<le> sint n then PosInt (scast n) else NegInt (scast n))"

definition de_int :: "json \<Rightarrow> de_error + 'w::len word" where
  "de_int v = (case v of
      JNumber (PosInt n) \<Rightarrow>
        if int (unat n) < 2 ^ (LENGTH('w) - 1) then Inr (ucast n) else Inl WrongType
    | JNumber (NegInt n) \<Rightarrow>
        if - (2 ^ (LENGTH('w) - 1)) \<le> sint n then Inr (scast n) else Inl WrongType
    | _ \<Rightarrow> Inl WrongType)"

definition de_object :: "json \<Rightarrow> de_error + json_map" where
  "de_object v = (case v of JObject m \<Rightarrow> Inr m | _ \<Rightarrow> Inl WrongType)"

definition de_map :: "(json \<Rightarrow> de_error + 'a) \<Rightarrow> json \<Rightarrow> de_error + (string \<times> 'a) list" where
  "de_map d v = res_bind (de_object v) (\<lambda>m.
     collect_results (map (\<lambda>(k, x). res_bind (d x) (\<lambda>a. Inr (k, a))) m))"

definition de_opt :: "json_map \<Rightarrow> string \<Rightarrow> (json \<Rightarrow> de_error + 'a) \<Rightarrow> de_error + 'a option" where
  "de_opt m f d = de_field_default m f None (de_option d)"

definition opt_value :: "json option \<Rightarrow> 'a \<Rightarrow> (json \<Rightarrow> de_error + 'a) \<Rightarrow> de_error + 'a" where
  "opt_value o' a d = (case o' of None \<Rightarrow> Inr a | Some v \<Rightarrow> d v)"

subsection \<open>Codec facts\<close>

lemma de_prims [simp]:
  "de_string (JString s) = Inr s" "de_bool (JBool b) = Inr b" "de_u64 (en_u64 n) = Inr n"
  "de_object (JObject m) = Inr m"
  by (simp_all add: de_string_def de_bool_def de_u64_def en_u64_def de_object_def)

lemma unat_ucast_wide: "LENGTH('w) \<le> 64 \<Longrightarrow> unat (ucast (n :: 'w::len word) :: u64) = unat n"
proof -
  assume "LENGTH('w) \<le> 64"
  then have "(2::nat) ^ LENGTH('w) \<le> 2 ^ 64" by (rule power_increasing) simp
  with unsigned_less [of n] have "unat n < 2 ^ 64" by (rule order.strict_trans2)
  then show ?thesis by (simp add: unsigned_ucast_eq take_bit_nat_eq_self)
qed

lemma de_uint_en [simp]: "LENGTH('w) \<le> 64 \<Longrightarrow> de_uint (en_uint (n :: 'w::len word)) = Inr n"
proof -
  assume w: "LENGTH('w) \<le> 64"
  have small: "unat n < 2 ^ LENGTH('w)" by (rule unsigned_less)
  have "unat (ucast (ucast n :: u64) :: 'w word) = unat n"
    using unat_ucast_wide [OF w, of n] small
    by (simp add: unsigned_ucast_eq [of "ucast n :: u64"] take_bit_nat_eq_self)
  then have "ucast (ucast n :: u64) = n" by (simp only: word_unat_eq_iff)
  with small show ?thesis
    using unat_ucast_wide [OF w, of n] by (simp add: de_uint_def en_uint_def de_u64_def)
qed

lemma en_nonnull [simp]: "en_u64 n \<noteq> JNull" "en_uint m \<noteq> JNull" "en_int m \<noteq> JNull"
    "vec e xs \<noteq> JNull" "map_obj e es \<noteq> JNull"
  by (simp_all add: en_u64_def en_uint_def en_int_def vec_def map_obj_def)

definition or_else :: "'a option \<Rightarrow> 'a option \<Rightarrow> 'a option" where
  "or_else x y = (case x of None \<Rightarrow> y | Some _ \<Rightarrow> x)"

lemma or_else_simps [simp]: "or_else None y = y" "or_else (Some a) y = Some a" "or_else x None = x"
  by (cases x; simp add: or_else_def)+

fun lookup_field :: "(string \<times> json option) list \<Rightarrow> string \<Rightarrow> json option" where
  "lookup_field [] k = None"
| "lookup_field ((f, v) # fs) k =
     or_else (lookup_field fs k) (if f = k then v else None)"

lemma bt_get_fold: "bt_wf m \<Longrightarrow>
    bt_get (fold (\<lambda>(k, v). bt_insert k v) es m) k =
      (case map_of (rev es) k of None \<Rightarrow> bt_get m k | Some v \<Rightarrow> Some v)"
  by (induction es arbitrary: m)
    (auto simp: bt_get_insert bt_wf_insert map_add_def split: option.splits)

lemma bt_get_collect: "bt_get (bt_collect es) k = map_of (rev es) k"
  by (simp add: bt_collect_def bt_get_fold split: option.splits)

lemma bt_get_fields [simp]: "bt_get (fields_map fs) k = lookup_field fs k"
proof -
  have "map_of (rev (concat (map (\<lambda>(f, v). case v of None \<Rightarrow> [] | Some x \<Rightarrow> [(f, x)]) fs))) k = lookup_field fs k"
    by (induction fs) (auto simp: map_add_def or_else_def split: option.splits)
  then show ?thesis by (simp add: fields_map_def bt_get_collect)
qed

lemma fields_wf [simp]: "bt_wf (fields_map fs)"
  by (simp add: fields_map_def bt_wf_collect)

text \<open>The attribute \<open>deny_unknown_fields\<close>: an object may have no other field.\<close>

definition de_known_fields :: "json_map \<Rightarrow> string list \<Rightarrow> de_error + unit" where
  "de_known_fields m names =
     (if list_all (\<lambda>e. fst e \<in> set names) m then Inr () else Inl (DeCustom ''unknown field''))"

lemma de_known_fields_map [wire_simps]:
  "list_all (\<lambda>e. fst e \<in> set names) fs \<Longrightarrow> de_known_fields (fields_map fs) names = Inr ()"
proof -
  assume known: "list_all (\<lambda>e. fst e \<in> set names) fs"
  have "bt_get (fields_map fs) k = None" if "k \<notin> set names" for k
  proof -
    have "lookup_field fs k = None" using known that by (induction fs) auto
    then show ?thesis by simp
  qed
  then have "\<forall>e \<in> set (fields_map fs). fst e \<in> set names"
    by (metis bt_get_key image_eqI option.distinct(1))
  then show ?thesis by (simp add: de_known_fields_def list_all_iff)
qed

lemma de_field_value [wire_simps]: "bt_get m f = Some v \<Longrightarrow> de_field m f d = d v"
  by (simp add: de_field_def)

lemma de_default_value [wire_simps]: "de_field_default m f a d = opt_value (bt_get m f) a d"
  by (simp add: de_field_default_def opt_value_def)

lemma de_opt_value [wire_simps]: "de_opt m f d = opt_value (bt_get m f) None (de_option d)"
  by (simp add: de_opt_def de_default_value)

lemma opt_value_simps [simp]: "opt_value None a d = Inr a" "opt_value (Some v) a d = d v"
  by (simp_all add: opt_value_def)

lemma de_option_null [simp]: "de_option d JNull = Inr None"
  by (simp add: de_option_def)

lemma de_option_value [simp]: "v \<noteq> JNull \<Longrightarrow> de_option d v = res_bind (d v) (\<lambda>a. Inr (Some a))"
  by (cases v) (simp_all add: de_option_def)

lemma opt_value_opt [wire_simps]:
  assumes "\<And>y. x = Some y \<Longrightarrow> d (enc y) = Inr y" and "\<And>y. x = Some y \<Longrightarrow> enc y \<noteq> JNull"
  shows "opt_value (map_option enc x) None (de_option d) = Inr x"
  using assms by (cases x) simp_all

lemma de_option_opt_null [wire_simps]:
  assumes "\<And>y. x = Some y \<Longrightarrow> d (enc y) = Inr y" and "\<And>y. x = Some y \<Longrightarrow> enc y \<noteq> JNull"
  shows "de_option d (opt_null enc x) = Inr x"
  using assms by (cases x) (simp_all add: opt_null_def)

lemma de_vec_vec [wire_simps]:
  assumes "\<And>y. y \<in> set xs \<Longrightarrow> d (enc y) = Inr y"
  shows "de_vec d (vec enc xs) = Inr xs"
  using assms by (simp add: de_vec_def vec_def collect_results_Inr)

lemma opt_value_vec [wire_simps]:
  assumes "\<And>y. y \<in> set xs \<Longrightarrow> d (enc y) = Inr y"
  shows "opt_value (vec_skip enc xs) [] (de_vec d) = Inr xs"
  using assms by (simp add: vec_skip_def de_vec_vec)

lemma de_map_obj [wire_simps]:
  assumes "\<And>y. y \<in> snd ` set m \<Longrightarrow> d (enc y) = Inr y"
  shows "de_map d (map_obj enc m) = Inr m"
proof -
  have "res_bind (d (enc b)) (\<lambda>x. Inr (a, x)) = Inr (a, b)" if "(a, b) \<in> set m" for a b
    using assms [of b] that by force
  then show ?thesis by (auto simp: de_map_def map_obj_def collect_results_Inr)
qed

lemma opt_value_map [wire_simps]:
  assumes "\<And>y. y \<in> snd ` set m \<Longrightarrow> d (enc y) = Inr y"
  shows "opt_value (map_skip enc m) [] (de_map d) = Inr m"
  using assms by (simp add: map_skip_def de_map_obj)

lemma opt_value_flag [wire_simps]: "opt_value (flag_skip b) False de_bool = Inr b"
  by (simp add: flag_skip_def)

lemma opt_value_str [wire_simps]: "opt_value (str_skip s) [] de_string = Inr s"
  by (simp add: str_skip_def)

lemma de_int_en [simp]: "LENGTH('w) \<le> 64 \<Longrightarrow> de_int (en_int (n :: 'w::len word)) = Inr n"
proof -
  assume w: "LENGTH('w) \<le> 64"
  define m where "m = (scast n :: i64)"
  have up: "is_up (scast :: 'w word \<Rightarrow> i64)" using w by (simp add: is_up)
  have sint_m: "sint m = sint n" unfolding m_def by (rule sint_up_scast [OF up])
  show ?thesis
  proof (cases "0 \<le> sint n")
    case True
    then have uint_m: "uint m = sint n"
      using sint_m sint_less [of m] by (simp add: uint_sint take_bit_int_eq_self)
    then have "ucast m = n" by (simp add: ucast_eq)
    moreover have "int (unat m) < 2 ^ (LENGTH('w) - 1)" using uint_m sint_less [of n] by simp
    ultimately show ?thesis using True by (simp add: de_int_def en_int_def m_def)
  next
    case False
    have "scast m = n" unfolding m_def by (rule scast_up_scast_id [OF up])
    moreover have "- (2 ^ (LENGTH('w) - 1)) \<le> sint m" using sint_m sint_greater_eq [of n] by simp
    ultimately show ?thesis using False by (simp add: de_int_def en_int_def m_def)
  qed
qed

text \<open>\<open>Option<Value>\<close> cannot tell a present null from an absent value.\<close>

definition de_value :: "json \<Rightarrow> de_error + json" where
  "de_value v = Inr v"

definition non_null :: "json option \<Rightarrow> json option" where
  "non_null x = (if x = Some JNull then None else x)"

lemma de_value_simp [simp]: "de_value v = Inr v"
  by (simp add: de_value_def)

lemma opt_value_value [wire_simps]: "opt_value x None (de_option de_value) = Inr (non_null x)"
  by (cases x; cases "the x = JNull") (simp_all add: non_null_def)

definition pair :: "string \<times> string \<Rightarrow> json" where
  "pair p = JArray [JString (fst p), JString (snd p)]"

definition de_pair :: "json \<Rightarrow> de_error + string \<times> string" where
  "de_pair v = (case v of
      JArray [a, b] \<Rightarrow> res_bind (de_string a) (\<lambda>x. res_bind (de_string b) (\<lambda>y. Inr (x, y)))
    | _ \<Rightarrow> Inl WrongType)"

lemma de_pair_pair [simp]: "de_pair (pair p) = Inr p" "pair p \<noteq> JNull"
  by (simp_all add: de_pair_def pair_def)

subsection \<open>What a codec promises\<close>

text \<open>
  The contract of an encoder and its decoder, on the values of \<open>dom\<close>: nothing is lost,
  and a value is never written as null, so an optional field can carry it.
\<close>

locale codec =
  fixes enc :: "'a \<Rightarrow> json"
    and dec :: "json \<Rightarrow> de_error + 'a"
    and dom :: "'a \<Rightarrow> bool"
  assumes roundtrip: "dom x \<Longrightarrow> dec (enc x) = Inr x"
    and nonnull: "enc x \<noteq> JNull"
begin

lemma inject: "dom x \<Longrightarrow> dom y \<Longrightarrow> enc x = enc y \<longleftrightarrow> x = y"
  by (metis roundtrip sum.inject(2))

lemma vec_roundtrip: "list_all dom xs \<Longrightarrow> de_vec dec (vec enc xs) = Inr xs"
  by (rule de_vec_vec) (simp add: roundtrip list_all_iff)

lemma vec_skip_roundtrip: "list_all dom xs \<Longrightarrow> opt_value (vec_skip enc xs) [] (de_vec dec) = Inr xs"
  by (rule opt_value_vec) (simp add: roundtrip list_all_iff)

lemma opt_roundtrip: "pred_option dom x \<Longrightarrow> opt_value (map_option enc x) None (de_option dec) = Inr x"
  by (rule opt_value_opt) (simp_all add: roundtrip nonnull)

lemma null_roundtrip: "pred_option dom x \<Longrightarrow> de_option dec (opt_null enc x) = Inr x"
  by (rule de_option_opt_null) (simp_all add: roundtrip nonnull)

end

interpretation string_codec: codec JString de_string "\<lambda>_. True"
  by unfold_locales simp_all

interpretation bool_codec: codec JBool de_bool "\<lambda>_. True"
  by unfold_locales simp_all

interpretation pair_codec: codec pair de_pair "\<lambda>_. True"
  by unfold_locales simp_all

lemmas codec_simps = wire_simps string_codec.opt_roundtrip bool_codec.opt_roundtrip

end
