(* ===== verification/Capability.thy ===== *)
theory Capability
  imports Json
begin

section \<open>Typed capabilities\<close>

text \<open>
  \<open>src/src/capability.rs\<close>: the capabilities a plugin requires and an operator grants, the
  loose parser of the operator's configuration, the generated JSON schema of an item, the
  subset rule \<open>covers\<close> and the boot-time check. The specification side reads a capability
  as the set of permissions it stands for.
\<close>

datatype capability =
    NetworkOutbound
  | FilesystemRead "string list"
  | FilesystemWrite "string list"
  | SecretsRead "string list"
  | CredentialIssue "string list"
  | ConfigRead "string list"
  | AuditWrite
  | MetricEmit
  | ClusterPeerRead
  | ClusterLeadershipAcquire
  | ClusterLockAcquire
  | HttpRouteServe
  | TransportListen
  | UnboundedSubscriptions
  | Unknown

datatype capability_parse_error =
    UnknownKind string
  | MissingArgs string string
  | InvalidArgs string de_error
  | InvalidEntry string

fun kind :: "capability \<Rightarrow> string" where
  "kind NetworkOutbound = ''network_outbound''"
| "kind (FilesystemRead _) = ''filesystem_read''"
| "kind (FilesystemWrite _) = ''filesystem_write''"
| "kind (SecretsRead _) = ''secrets_read''"
| "kind (CredentialIssue _) = ''credential_issue''"
| "kind (ConfigRead _) = ''config_read''"
| "kind AuditWrite = ''audit_write''"
| "kind MetricEmit = ''metric_emit''"
| "kind ClusterPeerRead = ''cluster_peer_read''"
| "kind ClusterLeadershipAcquire = ''cluster_leadership_acquire''"
| "kind ClusterLockAcquire = ''cluster_lock_acquire''"
| "kind HttpRouteServe = ''http_route_serve''"
| "kind TransportListen = ''transport_listen''"
| "kind UnboundedSubscriptions = ''unbounded_subscriptions''"
| "kind Unknown = ''unknown''"

definition known_names :: "string list" where
  "known_names =
     [''audit_write'', ''cluster_leadership_acquire'', ''cluster_lock_acquire'',
      ''cluster_peer_read'', ''config_read'', ''credential_issue'', ''filesystem_read'',
      ''filesystem_write'', ''http_route_serve'', ''metric_emit'', ''network_outbound'',
      ''secrets_read'', ''transport_listen'', ''unbounded_subscriptions'']"

definition has_args :: "string \<Rightarrow> bool" where
  "has_args k \<longleftrightarrow> k \<in> set [''filesystem_read'', ''filesystem_write'', ''secrets_read'',
     ''credential_issue'', ''config_read'']"

definition arg_field_for_kind :: "string \<Rightarrow> string option" where
  "arg_field_for_kind k =
     (if k = ''filesystem_read'' \<or> k = ''filesystem_write'' then Some ''paths''
      else if k = ''secrets_read'' \<or> k = ''config_read'' then Some ''schemes''
      else if k = ''credential_issue'' then Some ''kinds''
      else None)"

subsection \<open>The wire form\<close>

text \<open>
  The derived encoder writes the discriminator in \<open>type\<close> and the argument list beside it.
  The derived decoder of an object reads the discriminator, falls back to \<open>Unknown\<close> on
  one it does not know, and ignores fields the variant does not have.
\<close>

fun capability_args :: "capability \<Rightarrow> (string \<times> string list) option" where
  "capability_args (FilesystemRead ps) = Some (''paths'', ps)"
| "capability_args (FilesystemWrite ps) = Some (''paths'', ps)"
| "capability_args (SecretsRead ss) = Some (''schemes'', ss)"
| "capability_args (CredentialIssue ks) = Some (''kinds'', ks)"
| "capability_args (ConfigRead ss) = Some (''schemes'', ss)"
| "capability_args _ = None"

definition encode_capability :: "capability \<Rightarrow> json" where
  "encode_capability c =
     json_obj ((''type'', JString (kind c)) #
       (case capability_args c of None \<Rightarrow> [] | Some (f, xs) \<Rightarrow> [(f, json_strings xs)]))"

definition decode_capability :: "json_map \<Rightarrow> de_error + capability" where
  "decode_capability m =
     res_bind (de_field m ''type'' de_string) (\<lambda>t.
       if t = ''network_outbound'' then Inr NetworkOutbound
       else if t = ''filesystem_read'' then
         res_bind (de_field m ''paths'' (de_vec de_string)) (\<lambda>ps. Inr (FilesystemRead ps))
       else if t = ''filesystem_write'' then
         res_bind (de_field m ''paths'' (de_vec de_string)) (\<lambda>ps. Inr (FilesystemWrite ps))
       else if t = ''secrets_read'' then
         res_bind (de_field m ''schemes'' (de_vec de_string)) (\<lambda>ss. Inr (SecretsRead ss))
       else if t = ''credential_issue'' then
         res_bind (de_field m ''kinds'' (de_vec de_string)) (\<lambda>ks. Inr (CredentialIssue ks))
       else if t = ''config_read'' then
         res_bind (de_field m ''schemes'' (de_vec de_string)) (\<lambda>ss. Inr (ConfigRead ss))
       else if t = ''audit_write'' then Inr AuditWrite
       else if t = ''metric_emit'' then Inr MetricEmit
       else if t = ''cluster_peer_read'' then Inr ClusterPeerRead
       else if t = ''cluster_leadership_acquire'' then Inr ClusterLeadershipAcquire
       else if t = ''cluster_lock_acquire'' then Inr ClusterLockAcquire
       else if t = ''http_route_serve'' then Inr HttpRouteServe
       else if t = ''transport_listen'' then Inr TransportListen
       else if t = ''unbounded_subscriptions'' then Inr UnboundedSubscriptions
       else Inr Unknown)"

subsection \<open>The loose parser\<close>

definition as_str :: "json \<Rightarrow> string option" where
  "as_str v = (case v of JString s \<Rightarrow> Some s | _ \<Rightarrow> None)"

definition missing_arg_name :: "string \<Rightarrow> string" where
  "missing_arg_name s =
     (if s = ''filesystem_read'' \<or> s = ''filesystem_write'' then ''paths''
      else if s = ''secrets_read'' \<or> s = ''config_read'' then ''schemes''
      else if s = ''credential_issue'' then ''kinds''
      else ''args'')"

definition invalid_args :: "string \<Rightarrow> de_error + capability \<Rightarrow> capability_parse_error + capability" where
  "invalid_args k r = (case r of Inl source \<Rightarrow> Inl (InvalidArgs k source) | Inr c \<Rightarrow> Inr c)"

definition entry_type_name :: "json \<Rightarrow> string" where
  "entry_type_name v =
     (case v of JNull \<Rightarrow> ''null'' | JBool _ \<Rightarrow> ''bool'' | JNumber _ \<Rightarrow> ''number''
      | JArray _ \<Rightarrow> ''array'' | _ \<Rightarrow> ''unknown'')"

definition parse_value :: "json \<Rightarrow> capability_parse_error + capability" where
  "parse_value v =
     (case v of
        JString s \<Rightarrow>
          if s \<notin> set known_names then Inl (UnknownKind s)
          else if has_args s then Inl (MissingArgs s (missing_arg_name s))
          else invalid_args s (decode_capability [(''type'', JString s)])
      | JObject m \<Rightarrow>
          (case Option.bind (bt_get m ''type'') as_str of
             None \<Rightarrow> Inl (InvalidEntry ''object capability entry is missing string \"type\" field'')
           | Some k \<Rightarrow>
               if k \<notin> set known_names then Inl (UnknownKind k)
               else invalid_args k (decode_capability m))
      | other \<Rightarrow> Inl (InvalidEntry (''expected string or object, got '' @ entry_type_name other)))"

subsection \<open>Subset rule and boot check\<close>

definition is_superset :: "string list \<Rightarrow> string list \<Rightarrow> bool" where
  "is_superset granted required \<longleftrightarrow> list_all (\<lambda>r. list_ex (\<lambda>g. g = r) granted) required"

fun covers :: "capability \<Rightarrow> capability \<Rightarrow> bool" where
  "covers Unknown required \<longleftrightarrow> False"
| "covers NetworkOutbound required \<longleftrightarrow> (case required of NetworkOutbound \<Rightarrow> True | _ \<Rightarrow> False)"
| "covers AuditWrite required \<longleftrightarrow> (case required of AuditWrite \<Rightarrow> True | _ \<Rightarrow> False)"
| "covers MetricEmit required \<longleftrightarrow> (case required of MetricEmit \<Rightarrow> True | _ \<Rightarrow> False)"
| "covers ClusterPeerRead required \<longleftrightarrow> (case required of ClusterPeerRead \<Rightarrow> True | _ \<Rightarrow> False)"
| "covers ClusterLeadershipAcquire required \<longleftrightarrow> (case required of ClusterLeadershipAcquire \<Rightarrow> True | _ \<Rightarrow> False)"
| "covers ClusterLockAcquire required \<longleftrightarrow> (case required of ClusterLockAcquire \<Rightarrow> True | _ \<Rightarrow> False)"
| "covers HttpRouteServe required \<longleftrightarrow> (case required of HttpRouteServe \<Rightarrow> True | _ \<Rightarrow> False)"
| "covers TransportListen required \<longleftrightarrow> (case required of TransportListen \<Rightarrow> True | _ \<Rightarrow> False)"
| "covers UnboundedSubscriptions required \<longleftrightarrow> (case required of UnboundedSubscriptions \<Rightarrow> True | _ \<Rightarrow> False)"
| "covers (FilesystemRead g) required \<longleftrightarrow>
     (case required of FilesystemRead r \<Rightarrow> is_superset g r | _ \<Rightarrow> False)"
| "covers (FilesystemWrite g) required \<longleftrightarrow>
     (case required of FilesystemWrite r \<Rightarrow> is_superset g r | _ \<Rightarrow> False)"
| "covers (SecretsRead g) required \<longleftrightarrow>
     (case required of SecretsRead r \<Rightarrow> is_superset g r | _ \<Rightarrow> False)"
| "covers (ConfigRead g) required \<longleftrightarrow>
     (case required of ConfigRead r \<Rightarrow> is_superset g r | _ \<Rightarrow> False)"
| "covers (CredentialIssue g) required \<longleftrightarrow>
     (case required of CredentialIssue r \<Rightarrow> is_superset g r | _ \<Rightarrow> False)"

datatype capability_check =
    Satisfied
  | UnknownRequiredCapabilities "string list"
  | UnknownGrantedCapabilities "string list"
  | UngrantedCapabilities "string list"

fun is_satisfied :: "capability_check \<Rightarrow> bool" where
  "is_satisfied Satisfied \<longleftrightarrow> True"
| "is_satisfied _ \<longleftrightarrow> False"

definition validate_typed_capabilities ::
  "string \<Rightarrow> capability list \<Rightarrow> capability list \<Rightarrow> capability_check" where
  "validate_typed_capabilities plugin_id required granted =
     (let unknown_required = map kind (filter (\<lambda>c. c = Unknown) required) in
      if unknown_required \<noteq> [] then UnknownRequiredCapabilities unknown_required
      else let unknown_granted = map kind (filter (\<lambda>c. c = Unknown) granted) in
        if unknown_granted \<noteq> [] then UnknownGrantedCapabilities unknown_granted
        else let ungranted = map kind (filter (\<lambda>r. \<not> list_ex (\<lambda>g. covers g r) granted) required) in
          if ungranted \<noteq> [] then UngrantedCapabilities ungranted
          else Satisfied)"


subsection \<open>The JSON schema of an item\<close>

text \<open>\<open>items_json_schema\<close> builds one branch per known kind, and one for the bare strings.\<close>

definition kind_branch :: "string \<Rightarrow> json" where
  "kind_branch k =
     (let typed = bt_insert ''type'' (json_obj [(''type'', JString ''string''), (''const'', JString k)]) [];
          (properties, required) =
            (case arg_field_for_kind k of
               None \<Rightarrow> (typed, [JString ''type''])
             | Some field \<Rightarrow>
                 (bt_insert field (json_obj [(''type'', JString ''array''),
                    (''items'', json_obj [(''type'', JString ''string'')])]) typed,
                  [JString ''type'', JString field]))
      in json_obj [(''type'', JString ''object''), (''required'', JArray required),
                   (''properties'', JObject properties), (''additionalProperties'', JBool False)])"

definition items_json_schema :: json where
  "items_json_schema =
     (let no_arg_kinds = filter (\<lambda>k. \<not> has_args k) known_names;
          one_of = json_obj [(''type'', JString ''string''), (''enum'', json_strings no_arg_kinds)]
                   # map kind_branch known_names
      in json_obj [(''oneOf'', JArray one_of)])"
definition permissions :: "capability \<Rightarrow> (string \<times> string option) set" where
  "permissions c = insert (kind c, None)
     (case capability_args c of None \<Rightarrow> {} | Some (_, xs) \<Rightarrow> (\<lambda>x. (kind c, Some x)) ` set xs)"

lemma is_superset_iff: "is_superset g r \<longleftrightarrow> set r \<subseteq> set g"
  by (auto simp: is_superset_def list_all_iff list_ex_iff)

lemma covers_iff_permissions:
  "covers g r \<longleftrightarrow> g \<noteq> Unknown \<and> r \<noteq> Unknown \<and> permissions r \<subseteq> permissions g"
  by (cases g; cases r) (auto simp: permissions_def is_superset_iff)


subsection \<open>What an accepted entry looks like\<close>

definition accepted_form :: "capability \<Rightarrow> json \<Rightarrow> bool" where
  "accepted_form c v =
     (case v of
        JString s \<Rightarrow> s = kind c \<and> capability_args c = None
      | JObject m \<Rightarrow>
          bt_get m ''type'' = Some (JString (kind c)) \<and>
          (case capability_args c of
             None \<Rightarrow> True
           | Some (f, xs) \<Rightarrow> bt_get m f = Some (json_strings xs))
      | _ \<Rightarrow> False)"

lemma kind_in_known [simp]: "kind c \<in> set known_names \<longleftrightarrow> c \<noteq> Unknown"
  by (cases c) (simp_all add: known_names_def)

lemma decode_Unknown: "decode_capability m = Inr Unknown \<Longrightarrow>
    \<exists>t. bt_get m ''type'' = Some (JString t) \<and> t \<notin> set known_names"
  by (auto simp: decode_capability_def res_bind_Inr de_field_def de_string_Inr known_names_def
      split: if_splits option.splits)

lemma decode_Inr:
  "decode_capability m = Inr c \<and> c \<noteq> Unknown \<longleftrightarrow> accepted_form c (JObject m) \<and> c \<noteq> Unknown"
  (is "?d \<longleftrightarrow> ?a")
proof
  assume ?d
  then show ?a
    by (auto simp: decode_capability_def res_bind_Inr de_field_def de_string_Inr accepted_form_def
        de_vec_strings_iff split: if_splits option.splits)
next
  assume ?a
  then show ?d
    by (cases c) (auto simp: accepted_form_def decode_capability_def de_field_def de_string_Inr de_string_def)
qed

lemma invalid_args_Inr [simp]: "invalid_args k r = Inr c \<longleftrightarrow> r = Inr c"
  by (cases r) (simp_all add: invalid_args_def)

lemma as_str_Some [simp]: "as_str v = Some s \<longleftrightarrow> v = JString s"
  by (cases v) (simp_all add: as_str_def)

lemma as_str_JString [simp]: "as_str (JString s) = Some s"
  by simp

lemma has_args_kind: "has_args (kind c) \<longleftrightarrow> capability_args c \<noteq> None"
  by (cases c) (simp_all add: has_args_def)

lemma parse_value_object:
  "parse_value (JObject m) = Inr c \<longleftrightarrow> decode_capability m = Inr c \<and> c \<noteq> Unknown"
proof -
  have "decode_capability m = Inr c \<Longrightarrow> \<exists>t. bt_get m ''type'' = Some (JString t)"
    by (auto simp: decode_capability_def res_bind_Inr de_field_def de_string_Inr split: option.splits)
  then show ?thesis
    using decode_Inr [of m c] decode_Unknown [of m]
    by (auto simp: parse_value_def accepted_form_def bind_eq_Some_conv split: option.splits)
qed

lemma known_kind: "s \<in> set known_names \<Longrightarrow> \<not> has_args s \<Longrightarrow>
    \<exists>c. c \<noteq> Unknown \<and> s = kind c \<and> capability_args c = None"
  by (simp add: known_names_def has_args_def)
    (metis capability_args.simps kind.simps capability.distinct)

lemma accepted_single: "accepted_form c (JObject [(''type'', JString s)]) \<longleftrightarrow> accepted_form c (JString s)"
  by (cases c) (auto simp: accepted_form_def)

lemma parse_value_string:
  "parse_value (JString s) = Inr c \<longleftrightarrow> c \<noteq> Unknown \<and> accepted_form c (JString s)"
  using decode_Inr [of "[(''type'', JString s)]" c] decode_Unknown [of "[(''type'', JString s)]"]
  by (cases "capability_args c")
    (auto simp: parse_value_def accepted_single has_args_kind accepted_form_def)

lemma parse_value_Inr:
  "parse_value v = Inr c \<longleftrightarrow> c \<noteq> Unknown \<and> accepted_form c v"
proof (cases v)
  case (JObject m)
  then show ?thesis using parse_value_object [of m c] decode_Inr [of m c] by auto
qed (auto simp: parse_value_string, auto simp: parse_value_def accepted_form_def)

text \<open>
  The loose parser accepts exactly the documented entries: the bare kind of a capability
  without arguments, or an object whose \<open>type\<close> is its kind and whose argument field is
  the list of strings it carries. It never yields \<open>Unknown\<close>.
\<close>

theorem parse_value_exact:
  "parse_value v = Inr c \<longleftrightarrow> c \<noteq> Unknown \<and> accepted_form c v"
  by (rule parse_value_Inr)

lemma accepted_encode: "accepted_form c (encode_capability c)"
  by (cases c) (simp_all add: accepted_form_def encode_capability_def json_obj_def bt_collect_def)

lemma parse_value_encode: "c \<noteq> Unknown \<Longrightarrow> parse_value (encode_capability c) = Inr c"
  by (simp add: parse_value_Inr accepted_encode)

text \<open>
  Encoding a capability and parsing the result gives it back, arguments and their order
  included; only the sink \<open>Unknown\<close> does not survive, and is refused by name.
\<close>

theorem parse_encode_capability:
  "parse_value (encode_capability c) =
     (if c = Unknown then Inl (UnknownKind ''unknown'') else Inr c)"
  by (cases "c = Unknown")
    (simp_all add: parse_value_encode, simp add: encode_capability_def json_obj_def bt_collect_def
      parse_value_def known_names_def)

subsection \<open>Boot check: proofs\<close>

text \<open>
  What the documentation of the variants says a capability stands for: its own permissions,
  and for cluster leadership and cluster locks the reading of peers as well, which their doc
  comments say they imply.
\<close>

fun implied :: "capability \<Rightarrow> capability list" where
  "implied ClusterLeadershipAcquire = [ClusterPeerRead]"
| "implied ClusterLockAcquire = [ClusterPeerRead]"
| "implied _ = []"

definition documented_permissions :: "capability \<Rightarrow> (string \<times> string option) set" where
  "documented_permissions c = permissions c \<union> (\<Union>i \<in> set (implied c). permissions i)"

lemma covers_documented:
  "covers g r \<longleftrightarrow> g \<noteq> Unknown \<and> r \<noteq> Unknown \<and> documented_permissions r \<subseteq> documented_permissions g \<and>
     (g, r) \<notin> {(ClusterLeadershipAcquire, ClusterPeerRead), (ClusterLockAcquire, ClusterPeerRead)}"
  by (cases g; cases r) (auto simp: documented_permissions_def permissions_def is_superset_iff)

text \<open>
  C22: One grant covers one requirement exactly when neither is unknown and the permissions
  the documentation gives the requirement are among those it gives the grant, with exactly
  two exceptions: leadership and locks are documented to imply the reading of peers, but
  \<open>covers\<close> accepts neither for a requirement of it.
\<close>

theorem covers_refines_permissions:
  "{(g, r). covers g r} =
     {(g, r). Unknown \<notin> {g, r} \<and> documented_permissions r \<subseteq> documented_permissions g}
       - {(ClusterLeadershipAcquire, ClusterPeerRead), (ClusterLockAcquire, ClusterPeerRead)} \<and>
   {(ClusterLeadershipAcquire, ClusterPeerRead), (ClusterLockAcquire, ClusterPeerRead)} \<subseteq>
     {(g, r). Unknown \<notin> {g, r} \<and> documented_permissions r \<subseteq> documented_permissions g}"
proof
  show "{(g, r). covers g r} =
     {(g, r). Unknown \<notin> {g, r} \<and> documented_permissions r \<subseteq> documented_permissions g}
       - {(ClusterLeadershipAcquire, ClusterPeerRead), (ClusterLockAcquire, ClusterPeerRead)}"
    unfolding set_eq_iff by (simp add: covers_documented split_paired_all) metis
qed (simp add: documented_permissions_def)

lemma filter_Unknown: "filter (\<lambda>c. c = Unknown) cs = [] \<longleftrightarrow> Unknown \<notin> set cs"
  by (auto simp: filter_empty_conv)

lemma validate_satisfied:
  "validate_typed_capabilities p req gr = Satisfied \<longleftrightarrow>
     Unknown \<notin> set req \<and> Unknown \<notin> set gr \<and> (\<forall>r \<in> set req. \<exists>g \<in> set gr. covers g r)"
  by (auto simp: validate_typed_capabilities_def Let_def filter_Unknown filter_empty_conv list_ex_iff)

lemma is_satisfied_iff [simp]: "is_satisfied x \<longleftrightarrow> x = Satisfied"
  by (cases x) simp_all

lemma covered_iff: "Unknown \<notin> set gr \<Longrightarrow> r \<noteq> Unknown \<Longrightarrow>
    (\<exists>g \<in> set gr. covers g r) \<longleftrightarrow> (\<exists>g \<in> set gr. permissions r \<subseteq> permissions g)"
  by (metis covers_iff_permissions)

lemma validate_satisfied_permissions:
  "validate_typed_capabilities p req gr = Satisfied \<longleftrightarrow>
     Unknown \<notin> set req \<union> set gr \<and>
     set req \<subseteq> {r. \<exists>g \<in> set gr. permissions r \<subseteq> permissions g}"
proof (cases "Unknown \<in> set req \<union> set gr")
  case False
  then have "(\<forall>r \<in> set req. \<exists>g \<in> set gr. covers g r) \<longleftrightarrow>
      (\<forall>r \<in> set req. \<exists>g \<in> set gr. permissions r \<subseteq> permissions g)"
    by (intro ball_cong refl covered_iff) auto
  with False show ?thesis by (simp add: validate_satisfied subset_eq [of "set req"])
qed (auto simp: validate_satisfied)

text \<open>
  C2: The boot check lets a plugin register exactly when no list contains an unknown
  capability and each requirement is contained, permission by permission, in one single
  grant. A refusal for missing grants names, in order, the kinds of exactly the
  requirements that no single grant contains.
\<close>

theorem boot_check_exact:
  "(is_satisfied (validate_typed_capabilities p req gr) \<longleftrightarrow>
      Unknown \<notin> set req \<union> set gr \<and>
      set req \<subseteq> {r. \<exists>g \<in> set gr. permissions r \<subseteq> permissions g}) \<and>
   (validate_typed_capabilities p req gr = UngrantedCapabilities ks \<longleftrightarrow>
      Unknown \<notin> set req \<union> set gr \<and> ks \<noteq> [] \<and>
      ks = map kind (filter (\<lambda>r. \<not> (\<exists>g \<in> set gr. permissions r \<subseteq> permissions g)) req))"
proof
  show "is_satisfied (validate_typed_capabilities p req gr) \<longleftrightarrow>
      Unknown \<notin> set req \<union> set gr \<and>
      set req \<subseteq> {r. \<exists>g \<in> set gr. permissions r \<subseteq> permissions g}"
    using validate_satisfied_permissions by simp
next
  have "filter (\<lambda>r. \<not> list_ex (\<lambda>g. covers g r) gr) req =
      filter (\<lambda>r. \<not> (\<exists>g \<in> set gr. permissions r \<subseteq> permissions g)) req"
    if "Unknown \<notin> set req" "Unknown \<notin> set gr"
    using that by (intro filter_cong refl) (metis covered_iff list_ex_iff)
  then show "validate_typed_capabilities p req gr = UngrantedCapabilities ks \<longleftrightarrow>
      Unknown \<notin> set req \<union> set gr \<and> ks \<noteq> [] \<and>
      ks = map kind (filter (\<lambda>r. \<not> (\<exists>g \<in> set gr. permissions r \<subseteq> permissions g)) req)"
    by (auto simp: validate_typed_capabilities_def Let_def filter_Unknown)
qed

text \<open>
  The check is monotone: a plugin that registers keeps registering when it requires
  less and the operator grants more, whatever the order and repetition of the lists and
  whatever the plugin's name, as long as the new grants hold no unknown capability.
\<close>

theorem boot_check_monotone:
  assumes "is_satisfied (validate_typed_capabilities p req gr)"
    and "set req' \<subseteq> set req" and "set gr \<subseteq> set gr'" and "Unknown \<notin> set gr'"
  shows "is_satisfied (validate_typed_capabilities p' req' gr')"
  using assms unfolding is_satisfied_iff validate_satisfied by (meson subsetD)

theorem boot_check_monotone_witness:
  "is_satisfied (validate_typed_capabilities ''q'' [AuditWrite]
     [FilesystemRead [''/a'', ''/b''], MetricEmit, AuditWrite])"
  by (rule boot_check_monotone [where p = "''p''" and req = "[FilesystemRead [''/a''], AuditWrite]"
        and gr = "[AuditWrite, FilesystemRead [''/a'', ''/b'']]"]) code_simp+

text \<open>
  Grants of one kind do not add up: two grants that between them list every argument a
  plugin requires satisfy it exactly when one of the two already lists them all. This
  holds for each of the five kinds that carry arguments.
\<close>

theorem grants_do_not_accumulate:
  assumes "mk \<in> {FilesystemRead, FilesystemWrite, SecretsRead, CredentialIssue, ConfigRead}"
  shows "is_satisfied (validate_typed_capabilities p [mk (xs @ ys)] [mk xs, mk ys]) \<longleftrightarrow>
    set ys \<subseteq> set xs \<or> set xs \<subseteq> set ys"
  using assms unfolding is_satisfied_iff validate_satisfied by (auto simp: is_superset_iff)

theorem grants_do_not_accumulate_witness:
  "\<not> is_satisfied (validate_typed_capabilities ''p'' [FilesystemRead [''/a'', ''/b'']]
     [FilesystemRead [''/a''], FilesystemRead [''/b'']])"
  using grants_do_not_accumulate [of FilesystemRead "''p''" "[''/a'']" "[''/b'']"] by simp

subsection \<open>JSON Schema, for the keywords the generator emits\<close>

text \<open>
  \<open>schema_valid s v\<close>: the value \<open>v\<close> is valid under the schema \<open>s\<close>, as the JSON Schema
  specification defines \<open>type\<close>, \<open>const\<close>, \<open>enum\<close>, \<open>required\<close>, \<open>properties\<close>,
  \<open>additionalProperties\<close>, \<open>items\<close> and \<open>oneOf\<close>.
\<close>

definition has_type :: "string \<Rightarrow> json \<Rightarrow> bool" where
  "has_type t v =
     (case v of JString _ \<Rightarrow> t = ''string'' | JArray _ \<Rightarrow> t = ''array'' | JObject _ \<Rightarrow> t = ''object''
      | JBool _ \<Rightarrow> t = ''boolean'' | JNull \<Rightarrow> t = ''null'' | JNumber _ \<Rightarrow> t = ''number'')"

definition object_map :: "json option \<Rightarrow> json_map" where
  "object_map v = (case v of Some (JObject m) \<Rightarrow> m | _ \<Rightarrow> [])"

definition array_list :: "json option \<Rightarrow> json list" where
  "array_list v = (case v of Some (JArray xs) \<Rightarrow> xs | _ \<Rightarrow> [])"

lemma bt_get_size: "bt_get m k = Some x \<Longrightarrow> size x < Suc (size_list (size_prod (\<lambda>_. 0) size) m)"
  by (induction m) (auto split: if_splits)

lemma object_map_size: "(k, x) \<in> set (object_map (bt_get m f)) \<Longrightarrow>
    size x < Suc (size_list (size_prod (\<lambda>_. 0) size) m)"
proof -
  assume a: "(k, x) \<in> set (object_map (bt_get m f))"
  then obtain ps where ps: "bt_get m f = Some (JObject ps)" "(k, x) \<in> set ps"
    by (cases "bt_get m f") (auto simp: object_map_def split: json.splits)
  from ps(2) have "size x < size (JObject ps)"
    by (induction ps) auto
  with bt_get_size [OF ps(1)] show ?thesis by linarith
qed

lemma array_list_size: "x \<in> set (array_list (bt_get m f)) \<Longrightarrow>
    size x < Suc (size_list (size_prod (\<lambda>_. 0) size) m)"
proof -
  assume a: "x \<in> set (array_list (bt_get m f))"
  then obtain xs where xs: "bt_get m f = Some (JArray xs)" "x \<in> set xs"
    by (cases "bt_get m f") (auto simp: array_list_def split: json.splits)
  from xs(2) have "size x < size (JArray xs)"
    by (induction xs) auto
  with bt_get_size [OF xs(1)] show ?thesis by linarith
qed

function schema_valid :: "json \<Rightarrow> json \<Rightarrow> bool" where
  "schema_valid (JObject s) v \<longleftrightarrow>
     (case bt_get s ''type'' of Some (JString t) \<Rightarrow> has_type t v | _ \<Rightarrow> True) \<and>
     (case bt_get s ''const'' of Some c \<Rightarrow> v = c | None \<Rightarrow> True) \<and>
     (case bt_get s ''enum'' of Some es \<Rightarrow> v \<in> set (array_list (Some es)) | None \<Rightarrow> True) \<and>
     (case v of
        JObject m \<Rightarrow>
          list_all (\<lambda>f. \<exists>k \<in> fst ` set m. f = JString k) (array_list (bt_get s ''required'')) \<and>
          list_all (\<lambda>(k, sub). case bt_get m k of None \<Rightarrow> True | Some x \<Rightarrow> schema_valid sub x)
            (object_map (bt_get s ''properties'')) \<and>
          (bt_get s ''additionalProperties'' = Some (JBool False) \<longrightarrow>
             fst ` set m \<subseteq> fst ` set (object_map (bt_get s ''properties'')))
      | JArray xs \<Rightarrow>
          (case bt_get s ''items'' of None \<Rightarrow> True | Some sub \<Rightarrow> list_all (schema_valid sub) xs)
      | _ \<Rightarrow> True) \<and>
     (bt_get s ''oneOf'' \<noteq> None \<longrightarrow>
        length (filter (\<lambda>sub. schema_valid sub v) (array_list (bt_get s ''oneOf''))) = 1)"
| "schema_valid (JBool b) v \<longleftrightarrow> b"
| "schema_valid JNull v \<longleftrightarrow> False"
| "schema_valid (JNumber n) v \<longleftrightarrow> False"
| "schema_valid (JString t) v \<longleftrightarrow> False"
| "schema_valid (JArray xs) v \<longleftrightarrow> False"
  by pat_completeness auto
termination
  by (relation "measure (\<lambda>(s, _). size s)")
    (auto simp: bt_get_size array_list_size dest: object_map_size)

declare schema_valid.simps(1) [simp del]

lemma string_item_valid: "schema_valid (json_obj [(''type'', JString ''string'')]) v \<longleftrightarrow> (\<exists>s. v = JString s)"
  by (cases v) (simp_all add: json_obj_def bt_collect_def schema_valid.simps(1) has_type_def)

lemma strings_valid:
  "schema_valid (json_obj [(''type'', JString ''array''), (''items'', json_obj [(''type'', JString ''string'')])]) v \<longleftrightarrow>
     (\<exists>xs. v = json_strings xs)"
proof -
  have "list_all (\<lambda>v. \<exists>s. v = JString s) ys \<longleftrightarrow> (\<exists>xs. ys = map JString xs)" for ys
    by (auto simp: list_all_iff dest: ex_map_conv [THEN iffD2] intro: ex_map_conv [THEN iffD2])
  then show ?thesis
    by (cases v) (simp_all add: json_obj_def [of "[a, b]" for a b] bt_collect_def schema_valid.simps(1)
        has_type_def json_strings_def string_item_valid [abs_def])
qed

lemma const_valid: "schema_valid (json_obj [(''type'', JString ''string''), (''const'', JString k)]) v \<longleftrightarrow> v = JString k"
  by (cases v) (auto simp: json_obj_def bt_collect_def schema_valid.simps(1) has_type_def)

lemma bare_valid:
  "schema_valid (json_obj [(''type'', JString ''string''), (''enum'', json_strings ks)]) v \<longleftrightarrow>
     (\<exists>k \<in> set ks. v = JString k)"
  by (cases v) (auto simp: json_obj_def bt_collect_def schema_valid.simps(1) has_type_def array_list_def json_strings_def)

text \<open>The objects a branch accepts: the kind, its argument list, nothing else.\<close>

definition branch_object :: "string \<Rightarrow> json_map \<Rightarrow> bool" where
  "branch_object k m \<longleftrightarrow>
     bt_get m ''type'' = Some (JString k) \<and>
     (case arg_field_for_kind k of
        None \<Rightarrow> fst ` set m \<subseteq> {''type''}
      | Some f \<Rightarrow> (\<exists>xs. bt_get m f = Some (json_strings xs)) \<and> fst ` set m \<subseteq> {''type'', f})"

lemma arg_field_cases: "arg_field_for_kind k \<in> {None, Some ''paths'', Some ''schemes'', Some ''kinds''}"
  by (simp add: arg_field_for_kind_def)

lemma kind_branch_eq:
  "kind_branch k = JObject
     [(''additionalProperties'', JBool False),
      (''properties'', JObject
         ((case arg_field_for_kind k of None \<Rightarrow> []
           | Some f \<Rightarrow> [(f, json_obj [(''type'', JString ''array''),
               (''items'', json_obj [(''type'', JString ''string'')])])]) @
          [(''type'', json_obj [(''type'', JString ''string''), (''const'', JString k)])])),
      (''required'', JArray
         (JString ''type'' # (case arg_field_for_kind k of None \<Rightarrow> [] | Some f \<Rightarrow> [JString f]))),
      (''type'', JString ''object'')]"
  using arg_field_cases [of k]
  by (auto simp: kind_branch_def json_obj_def [of "a # b # c # es" for a b c es] bt_collect_def)

lemma kind_branch_valid:
  "schema_valid (kind_branch k) v \<longleftrightarrow> (\<exists>m. v = JObject m \<and> branch_object k m)"
proof (cases v)
  case (JObject m)
  show ?thesis
    unfolding JObject kind_branch_eq branch_object_def
    by (cases "arg_field_for_kind k")
      (auto simp: schema_valid.simps(1) has_type_def object_map_def array_list_def bt_get_key_bex const_valid strings_valid)
qed (simp_all add: kind_branch_eq schema_valid.simps(1) has_type_def)

lemma filter_const: "distinct xs \<Longrightarrow> filter (\<lambda>x. x = a \<and> Q) xs = (if a \<in> set xs \<and> Q then [a] else [])"
  by (induction xs) auto

lemma branch_object_kind: "branch_object k m \<longleftrightarrow> bt_get m ''type'' = Some (JString k) \<and> branch_object k m"
  by (auto simp: branch_object_def)

lemma items_schema_object:
  "schema_valid items_json_schema (JObject m) \<longleftrightarrow> (\<exists>k \<in> set known_names. branch_object k m)"
proof -
  have "schema_valid items_json_schema (JObject m) \<longleftrightarrow>
      length (filter (\<lambda>k. branch_object k m) known_names) = 1"
    by (simp add: items_json_schema_def json_obj_def [of "[(''oneOf'', x)]" for x] bt_collect_def
        schema_valid.simps(1) array_list_def object_map_def bare_valid kind_branch_valid filter_map comp_def)
  also have "\<dots> \<longleftrightarrow> (\<exists>k \<in> set known_names. branch_object k m)"
  proof (cases "\<exists>t. bt_get m ''type'' = Some (JString t)")
    case True
    then obtain t where t: "bt_get m ''type'' = Some (JString t)" by auto
    have "branch_object k m \<longleftrightarrow> k = t \<and> branch_object t m" for k
      using t by (metis branch_object_kind json.inject(3) option.inject)
    then have "filter (\<lambda>k. branch_object k m) known_names = filter (\<lambda>k. k = t \<and> branch_object t m) known_names"
        and only: "(\<exists>k \<in> set known_names. branch_object k m) \<longleftrightarrow> t \<in> set known_names \<and> branch_object t m"
      by metis+
    moreover have "distinct known_names" by (simp add: known_names_def)
    ultimately have "filter (\<lambda>k. branch_object k m) known_names =
        (if t \<in> set known_names \<and> branch_object t m then [t] else [])"
      by (simp only: filter_const)
    with only show ?thesis by simp
  next
    case False
    then have "\<not> branch_object k m" for k by (simp add: branch_object_def)
    then show ?thesis by simp
  qed
  finally show ?thesis .
qed

lemma items_schema_other:
  "\<nexists>m. v = JObject m \<Longrightarrow> schema_valid items_json_schema v \<longleftrightarrow>
     (\<exists>k \<in> set known_names. \<not> has_args k \<and> v = JString k)"
  by (cases v) (auto simp: items_json_schema_def json_obj_def [of "[(''oneOf'', x)]" for x] bt_collect_def
      schema_valid.simps(1) array_list_def bare_valid kind_branch_valid filter_map comp_def)

lemma arg_field_kind: "arg_field_for_kind (kind c) = map_option fst (capability_args c)"
  by (cases c) (simp_all add: arg_field_for_kind_def)

lemma kind_with_args:
  "k \<in> set known_names \<Longrightarrow> arg_field_for_kind k = Some f \<Longrightarrow>
     \<exists>c. c \<noteq> Unknown \<and> kind c = k \<and> capability_args c = Some (f, xs)"
  by (simp add: known_names_def arg_field_for_kind_def split: if_splits)
    (metis capability_args.simps kind.simps capability.distinct)+

lemma kind_without_args:
  "k \<in> set known_names \<Longrightarrow> arg_field_for_kind k = None \<Longrightarrow>
     \<exists>c. c \<noteq> Unknown \<and> kind c = k \<and> capability_args c = None"
  using known_kind [of k] by (simp add: has_args_def arg_field_for_kind_def split: if_splits) metis

definition capability_entries :: "capability \<Rightarrow> string \<Rightarrow> json option" where
  "capability_entries c = (case capability_args c of None \<Rightarrow> Map.empty | Some (f, xs) \<Rightarrow> [f \<mapsto> json_strings xs])
     (''type'' \<mapsto> JString (kind c))"

lemma encode_entries:
  "\<exists>m. encode_capability c = JObject m \<and> bt_wf m \<and> bt_get m = capability_entries c"
  by (cases c) (auto simp: encode_capability_def json_obj_def bt_collect_def capability_entries_def bt_wf_def fun_eq_iff)

lemma capability_args_field: "capability_args c = Some (f, xs) \<Longrightarrow> f \<noteq> ''type''"
  by (cases c) auto

lemma branch_object_entries:
  "branch_object (kind c) m \<and> accepted_form c (JObject m) \<longleftrightarrow> bt_get m = capability_entries c"
proof (cases "capability_args c")
  case None
  then have "dom (capability_entries c) = {''type''}"
    by (simp add: capability_entries_def)
  then show ?thesis
    unfolding bt_get_eq_iff [OF \<open>dom _ = _\<close>]
    by (auto simp: None branch_object_def accepted_form_def capability_entries_def arg_field_kind)
next
  case (Some a)
  then obtain f xs where a: "capability_args c = Some (f, xs)" by (cases a) auto
  then have "dom (capability_entries c) = {''type'', f}"
    by (auto simp: capability_entries_def)
  then show ?thesis
    unfolding bt_get_eq_iff [OF \<open>dom _ = _\<close>]
    using capability_args_field [OF a]
    by (auto simp: a branch_object_def accepted_form_def capability_entries_def arg_field_kind)
qed

lemma branch_object_accepted:
  assumes "branch_object k m" and "k \<in> set known_names"
  shows "\<exists>c. c \<noteq> Unknown \<and> kind c = k \<and> accepted_form c (JObject m)"
proof (cases "arg_field_for_kind k")
  case None
  with assms kind_without_args show ?thesis by (fastforce simp: branch_object_def accepted_form_def)
next
  case (Some f)
  with assms(1) obtain xs where "bt_get m f = Some (json_strings xs)" by (auto simp: branch_object_def)
  with assms Some kind_with_args [OF assms(2) Some, of xs] show ?thesis
    by (fastforce simp: branch_object_def accepted_form_def)
qed

text \<open>
  C11: The generated schema accepts exactly the canonical entries: the encoding of a
  capability other than \<open>Unknown\<close>, or the bare kind of one without arguments. With the
  exactness of the loose parser, whatever the schema accepts the parser accepts too.
\<close>

theorem items_schema_exact:
  assumes "json_wf v"
  shows "schema_valid items_json_schema v \<longleftrightarrow>
    (\<exists>c. c \<noteq> Unknown \<and> (v = encode_capability c \<or> (capability_args c = None \<and> v = JString (kind c))))"
proof (cases "\<exists>m. v = JObject m")
  case True
  then obtain m where v: "v = JObject m" by auto
  with assms have wf: "bt_wf m" by simp
  have "(\<exists>k \<in> set known_names. branch_object k m) \<longleftrightarrow> (\<exists>c. c \<noteq> Unknown \<and> bt_get m = capability_entries c)"
    using branch_object_accepted [of _ m] branch_object_entries [of _ m] by (metis kind_in_known)
  also have "\<dots> \<longleftrightarrow> (\<exists>c. c \<noteq> Unknown \<and> JObject m = encode_capability c)"
    using encode_entries wf by (metis bt.get_extensional json.inject(5))
  finally show ?thesis using items_schema_object [of m] by (simp add: v)
next
  case False
  then show ?thesis
    using items_schema_other [of v] encode_entries known_kind by (metis has_args_kind kind_in_known)
qed

theorem items_schema_exact_witness:
  "schema_valid items_json_schema (JObject [(''schemes'', json_strings [''vault'']), (''type'', JString ''secrets_read'')])"
proof -
  have "encode_capability (SecretsRead [''vault'']) =
      JObject [(''schemes'', json_strings [''vault'']), (''type'', JString ''secrets_read'')]"
    by (simp add: encode_capability_def json_obj_def bt_collect_def)
  then show ?thesis
    by (subst items_schema_exact) (simp add: bt_wf_def json_strings_def, metis capability.distinct)
qed

end
