(* ===== verification/Credential_Uri.thy ===== *)
theory Credential_Uri
  imports Prelude
begin

section \<open>Credential URIs and the token grammar\<close>

text \<open>
  \<open>src/src/credential.rs\<close>: the \<open>cred://plugin/target#part\<close> references, and the
  \<open>${cred://...}\<close> tokens that configuration text may hold: finding the brace that closes a
  block, collecting the references, and substituting resolved values. The grammar of a
  block is given a second time, as the inductive \<open>balanced\<close>, and both scanners are
  shown to work on the same segmentation of the text.
\<close>

subsection \<open>References\<close>

definition CRED_SCHEME :: string where
  "CRED_SCHEME = ''cred://''"

record cred_ref =
  cr_plugin_id :: string
  cr_target :: string
  cr_part :: "string option"

definition cred_ref_parse :: "string \<Rightarrow> cred_ref option" where
  "cred_ref_parse uri =
     Option.bind (strip_prefix uri CRED_SCHEME) (\<lambda>rest.
       Option.bind
         (case split_once CHR ''#'' rest of
            Some (p, frag) \<Rightarrow> if frag \<noteq> [] then Some (p, Some frag) else None
          | None \<Rightarrow> Some (rest, None)) (\<lambda>(path, part).
         Option.bind (split_once CHR ''/'' path) (\<lambda>(plugin_id, target).
           if plugin_id = [] \<or> target = [] then None
           else Some \<lparr>cr_plugin_id = plugin_id, cr_target = target, cr_part = part\<rparr>)))"

definition cred_ref_to_uri :: "cred_ref \<Rightarrow> string" where
  "cred_ref_to_uri r =
     (case cr_part r of
        Some p \<Rightarrow> CRED_SCHEME @ cr_plugin_id r @ ''/'' @ cr_target r @ ''#'' @ p
      | None \<Rightarrow> CRED_SCHEME @ cr_plugin_id r @ ''/'' @ cr_target r)"

definition cred_ref_cache_key :: "cred_ref \<Rightarrow> string \<times> string" where
  "cred_ref_cache_key r = (cr_plugin_id r, cr_target r)"

definition is_cred_uri :: "string \<Rightarrow> bool" where
  "is_cred_uri s \<longleftrightarrow> starts_with s CRED_SCHEME"

subsection \<open>Matching a block\<close>

text \<open>The loop of \<open>find_matching_brace\<close>: its variables are \<open>i\<close>, \<open>depth\<close>,
  \<open>in_string\<close> and \<open>escaped\<close>; the list is what is left of the bytes.\<close>

fun brace_loop :: "string \<Rightarrow> nat \<Rightarrow> i32 \<Rightarrow> bool \<Rightarrow> bool \<Rightarrow> nat option" where
  "brace_loop [] i depth in_string escaped = None"
| "brace_loop (b # bs) i depth in_string escaped =
     (if in_string then
        (if escaped then brace_loop bs (i + 1) depth in_string False
         else if b = CHR 0x5C then brace_loop bs (i + 1) depth in_string True
         else if b = CHR 0x22 then brace_loop bs (i + 1) depth False escaped
         else brace_loop bs (i + 1) depth in_string escaped)
      else if b = CHR 0x22 then brace_loop bs (i + 1) depth True escaped
      else if b = CHR ''{'' then brace_loop bs (i + 1) (depth + 1) in_string escaped
      else if b = CHR ''}'' then
        (if depth - 1 = 0 then Some i else brace_loop bs (i + 1) (depth - 1) in_string escaped)
      else brace_loop bs (i + 1) depth in_string escaped)"

definition find_matching_brace :: "string \<Rightarrow> nat \<Rightarrow> nat option" where
  "find_matching_brace s start = brace_loop (drop start s) start 1 False False"

lemma brace_loop_bounds: "brace_loop bs i d q e = Some j \<Longrightarrow> i \<le> j \<and> j < i + length bs"
  by (induction bs arbitrary: i d q e) (fastforce split: if_splits)+

lemma find_matching_brace_bounds:
  "find_matching_brace s start = Some j \<Longrightarrow> start \<le> j \<and> j < length s"
  using brace_loop_bounds [of "drop start s" start] by (fastforce simp: find_matching_brace_def)

text \<open>The block that opens at \<open>i\<close>, if one does: the index of its closing brace.\<close>

definition block_at :: "string \<Rightarrow> nat \<Rightarrow> nat option" where
  "block_at s i =
     (if i + 1 < length s \<and> s ! i = CHR ''$'' \<and> s ! (i + 1) = CHR ''{''
      then find_matching_brace s (i + 2) else None)"

lemma block_at_bounds: "block_at s i = Some j \<Longrightarrow> i + 2 \<le> j \<and> j < length s"
  by (auto simp: block_at_def dest: find_matching_brace_bounds split: if_splits)

definition inner :: "string \<Rightarrow> nat \<Rightarrow> nat \<Rightarrow> string" where
  "inner s i j = trim (take (j - (i + 2)) (drop (i + 2) s))"

subsection \<open>Collecting and substituting tokens\<close>

function cred_tokens_from :: "string \<Rightarrow> nat \<Rightarrow> string list" where
  "cred_tokens_from s i =
     (if i + 1 < length s then
        (case block_at s i of
           Some j \<Rightarrow>
             (if starts_with (inner s i j) ''cred://'' then [inner s i j] else [])
             @ cred_tokens_from s (j + 1)
         | None \<Rightarrow> cred_tokens_from s (i + 1))
      else [])"
  by pat_completeness auto
termination
  by (relation "measure (\<lambda>(s, i). length s - i)") (auto dest: block_at_bounds)

definition cred_tokens :: "string \<Rightarrow> string list" where
  "cred_tokens s = cred_tokens_from s 0"

function substitute_from :: "string \<Rightarrow> (string \<rightharpoonup> string) \<Rightarrow> nat \<Rightarrow> string" where
  "substitute_from s resolved i =
     (if i < length s then
        (case block_at s i of
           Some j \<Rightarrow>
             (if starts_with (inner s i j) ''cred://'' then
                (case resolved (inner s i j) of
                   Some v \<Rightarrow> v
                 | None \<Rightarrow> take (j + 1 - i) (drop i s))
              else take (j + 1 - i) (drop i s))
             @ substitute_from s resolved (j + 1)
         | None \<Rightarrow> push_byte_as_char (s ! i) @ substitute_from s resolved (i + 1))
      else [])"
  by pat_completeness auto
termination
  by (relation "measure (\<lambda>(s, r, i). length s - i)") (auto dest: block_at_bounds)

definition substitute_cred_tokens :: "string \<Rightarrow> (string \<rightharpoonup> string) \<Rightarrow> string" where
  "substitute_cred_tokens s resolved = substitute_from s resolved 0"

declare cred_tokens_from.simps [simp del] substitute_from.simps [simp del]

subsection \<open>References: proofs\<close>

text \<open>A reference the URI form can carry: its delimiters stay where they are written.\<close>

definition cred_ref_wf :: "cred_ref \<Rightarrow> bool" where
  "cred_ref_wf r \<longleftrightarrow>
     cr_plugin_id r \<noteq> [] \<and> CHR ''/'' \<notin> set (cr_plugin_id r) \<and> CHR ''#'' \<notin> set (cr_plugin_id r) \<and>
     cr_target r \<noteq> [] \<and> CHR ''#'' \<notin> set (cr_target r) \<and> cr_part r \<noteq> Some []"

text \<open>
  C17: Parsing and rendering are inverse on exactly the references the form can carry: a URI
  parses to \<open>r\<close> iff it is what \<open>to_uri\<close> writes for \<open>r\<close> and \<open>r\<close> has a
  non-empty plugin id without slash or hash, a non-empty target without hash, and a part that
  is absent or not empty. In particular rendering a parsed URI gives back its text.
\<close>

theorem cred_ref_parse_exact:
  "cred_ref_parse uri = Some r \<longleftrightarrow> cred_ref_to_uri r = uri \<and> cred_ref_wf r"
proof
  assume parsed: "cred_ref_parse uri = Some r"
  then obtain rest where uri: "strip_prefix uri CRED_SCHEME = Some rest"
    by (cases "strip_prefix uri CRED_SCHEME") (simp_all add: cred_ref_parse_def)
  show "cred_ref_to_uri r = uri \<and> cred_ref_wf r"
  proof (cases "split_once CHR ''#'' rest")
    case None
    then show ?thesis
      using parsed uri by (auto simp: cred_ref_parse_def bind_eq_Some_conv strip_prefix_Some split_once_Some
        cred_ref_to_uri_def cred_ref_wf_def split: if_splits)
  next
    case (Some a)
    then obtain path frag where "split_once CHR ''#'' rest = Some (path, frag)" by (cases a) auto
    then show ?thesis
      using parsed uri by (auto simp: cred_ref_parse_def bind_eq_Some_conv strip_prefix_Some split_once_Some
        cred_ref_to_uri_def cred_ref_wf_def split: if_splits)
  qed
next
  assume r: "cred_ref_to_uri r = uri \<and> cred_ref_wf r"
  show "cred_ref_parse uri = Some r"
  proof (cases "cr_part r")
    case None
    have "CHR ''#'' \<notin> set (cr_plugin_id r @ CHR ''/'' # cr_target r)"
      using r by (auto simp: cred_ref_wf_def)
    then have "split_once CHR ''#'' (cr_plugin_id r @ CHR ''/'' # cr_target r) = None"
      by (simp only: split_once_None not_False_eq_True)
    with r None show ?thesis
      by (auto simp: cred_ref_parse_def cred_ref_to_uri_def cred_ref_wf_def)
  next
    case (Some p)
    have "split_once CHR ''#'' ((cr_plugin_id r @ CHR ''/'' # cr_target r) @ CHR ''#'' # p)
        = Some (cr_plugin_id r @ CHR ''/'' # cr_target r, p)"
      by (rule split_once_append) (use r in \<open>auto simp: cred_ref_wf_def\<close>)
    with r Some show ?thesis
      by (auto simp: cred_ref_parse_def cred_ref_to_uri_def cred_ref_wf_def)
  qed
qed

subsection \<open>The grammar of a block\<close>

fun string_body :: "string \<Rightarrow> bool" where
  "string_body [] \<longleftrightarrow> True"
| "string_body (c # cs) \<longleftrightarrow>
     (if c = CHR 0x5C then cs \<noteq> [] \<and> string_body (tl cs) else c \<noteq> CHR 0x22 \<and> string_body cs)"

inductive balanced :: "string \<Rightarrow> bool" where
  Empty: "balanced []"
| Plain: "c \<noteq> CHR 0x22 \<Longrightarrow> c \<noteq> CHR ''{'' \<Longrightarrow> c \<noteq> CHR ''}'' \<Longrightarrow> balanced s \<Longrightarrow> balanced (c # s)"
| Quoted: "string_body q \<Longrightarrow> balanced s \<Longrightarrow> balanced (CHR 0x22 # q @ CHR 0x22 # s)"
| Braces: "balanced a \<Longrightarrow> balanced s \<Longrightarrow> balanced (CHR ''{'' # a @ CHR ''}'' # s)"

lemma brace_loop_string:
  "string_body q \<Longrightarrow>
     brace_loop (q @ CHR 0x22 # s) i d True False = brace_loop s (i + length q + 1) d False False"
proof (induction q arbitrary: i rule: string_body.induct)
  case (2 c cs)
  show ?case
  proof (cases "c = CHR 0x5C")
    case True
    then obtain c' cs' where "cs = c' # cs'" using 2(3) by (cases cs) auto
    then show ?thesis using True 2(1) [of "i + 2"] 2(3) by simp
  next
    case False
    then show ?thesis using 2(2) [of "i + 1"] 2(3) by simp
  qed
qed simp

lemma brace_loop_balanced:
  "balanced a \<Longrightarrow> 0 < unat d \<Longrightarrow> unat d + length a < 2 ^ 31 \<Longrightarrow>
     brace_loop (a @ s) i d False False = brace_loop s (i + length a) d False False"
proof (induction arbitrary: i d s rule: balanced.induct)
  case (Quoted q t)
  then show ?case
    using brace_loop_string [OF Quoted.hyps(1), of "t @ s" "i + 1" d] Quoted.IH [of d s]
    by (simp add: add.assoc)
next
  case (Braces a t)
  have d: "unat (d + 1) = unat d + 1"
    using Braces.prems by (simp add: unat_word_ariths)
  then have "d \<noteq> 0" "unat (d + 1) + length a < 2 ^ 31"
    using Braces.prems by auto
  then have "brace_loop (CHR ''{'' # a @ CHR ''}'' # t @ s) i d False False =
      brace_loop (t @ s) (i + length a + 2) d False False"
    using Braces.IH(1) [of "d + 1" "CHR ''}'' # t @ s" "i + 1"] d by simp
  also have "\<dots> = brace_loop s (i + length a + 2 + length t) d False False"
    using Braces.IH(2) [of d s] Braces.prems by simp
  finally show ?case by (simp add: add.assoc)
qed simp_all

lemma brace_loop_string_conv:
  "brace_loop s i d True False = Some e \<Longrightarrow>
     \<exists>q r. string_body q \<and> s = q @ CHR 0x22 # r \<and> brace_loop r (i + length q + 1) d False False = Some e"
proof (induction s arbitrary: i rule: string_body.induct)
  case (2 c cs)
  note IH = 2
  consider "c = CHR 0x5C" | "c = CHR 0x22" | "c \<noteq> CHR 0x5C" "c \<noteq> CHR 0x22" by blast
  then show ?case
  proof cases
    case 1
    then obtain c' cs' where cs: "cs = c' # cs'" using IH(3) by (cases cs) auto
    then have "brace_loop cs' (i + 2) d True False = Some e" using 1 IH(3) by simp
    then obtain q r where q: "string_body q" "cs' = q @ CHR 0x22 # r"
        "brace_loop r (i + 2 + length q + 1) d False False = Some e"
      using IH(1) [of "i + 2"] 1 cs by auto
    then show ?thesis using 1 cs by (intro exI [of _ "c # c' # q"] exI [of _ r]) simp
  next
    case 2
    with IH(3) show ?thesis by (intro exI [of _ "[]"] exI [of _ cs]) simp
  next
    case 3
    then obtain q r where q: "string_body q" "cs = q @ CHR 0x22 # r"
        "brace_loop r (i + 1 + length q + 1) d False False = Some e"
      using IH(2) [of "i + 1"] IH(3) by auto
    then show ?thesis using 3 by (intro exI [of _ "c # q"] exI [of _ r]) simp
  qed
qed simp

lemma brace_loop_conv:
  "brace_loop s i d False False = Some e \<Longrightarrow> 0 < unat d \<Longrightarrow> unat d + length s < 2 ^ 31 \<Longrightarrow>
     \<exists>a r. balanced a \<and> s = a @ CHR ''}'' # r \<and>
       (if d = 1 then e = i + length a else brace_loop r (i + length a + 1) (d - 1) False False = Some e)"
proof (induction "length s" arbitrary: s i d rule: less_induct)
  case less
  obtain c cs where s: "s = c # cs" using less.prems(1) by (cases s) auto
  consider "c = CHR 0x22" | "c = CHR ''{''" | "c = CHR ''}''"
    | "c \<noteq> CHR 0x22" "c \<noteq> CHR ''{''" "c \<noteq> CHR ''}''" by blast
  then show ?case
  proof cases
    case 1
    then have "brace_loop cs (i + 1) d True False = Some e" using less.prems(1) s by simp
    then obtain q t where q: "string_body q" "cs = q @ CHR 0x22 # t"
        "brace_loop t (i + 1 + length q + 1) d False False = Some e"
      using brace_loop_string_conv by blast
    then obtain a r where a: "balanced a" "t = a @ CHR ''}'' # r"
        "if d = 1 then e = i + 1 + length q + 1 + length a
         else brace_loop r (i + 1 + length q + 1 + length a + 1) (d - 1) False False = Some e"
      using less.hyps [of t "i + 1 + length q + 1" d] less.prems s by auto
    with q 1 s show ?thesis
      by (intro exI [of _ "CHR 0x22 # q @ CHR 0x22 # a"] exI [of _ r])
        (simp add: balanced.Quoted add_ac split: if_splits)
  next
    case 2
    have d: "unat (d + 1) = unat d + 1"
      using less.prems s by (simp add: unat_word_ariths)
    then have "d + 1 \<noteq> 1" "d \<noteq> 0" using less.prems(2) by auto
    moreover have "brace_loop cs (i + 1) (d + 1) False False = Some e"
      using 2 less.prems(1) s by simp
    ultimately obtain a r where a: "balanced a" "cs = a @ CHR ''}'' # r"
        "brace_loop r (i + 1 + length a + 1) d False False = Some e"
      using less.hyps [of cs "i + 1" "d + 1"] less.prems s d by auto
    then obtain b t where b: "balanced b" "r = b @ CHR ''}'' # t"
        "if d = 1 then e = i + 1 + length a + 1 + length b
         else brace_loop t (i + 1 + length a + 1 + length b + 1) (d - 1) False False = Some e"
      using less.hyps [of r "i + 1 + length a + 1" d] less.prems s by auto
    with a 2 s show ?thesis
      by (intro exI [of _ "CHR ''{'' # a @ CHR ''}'' # b"] exI [of _ t])
        (simp add: balanced.Braces add_ac split: if_splits)
  next
    case 3
    then show ?thesis
      using less.prems(1) s
      by (intro exI [of _ "[]"] exI [of _ cs]) (auto simp: balanced.Empty split: if_splits)
  next
    case 4
    then have "brace_loop cs (i + 1) d False False = Some e" using less.prems(1) s by simp
    then obtain a r where a: "balanced a" "cs = a @ CHR ''}'' # r"
        "if d = 1 then e = i + 1 + length a
         else brace_loop r (i + 1 + length a + 1) (d - 1) False False = Some e"
      using less.hyps [of cs "i + 1" d] less.prems s by auto
    with 4 s show ?thesis
      by (intro exI [of _ "c # a"] exI [of _ r]) (simp add: balanced.Plain split: if_splits)
  qed
qed

text \<open>
  C3: \<open>find_matching_brace\<close> finds exactly the brace that closes the block: it answers
  \<open>e\<close> iff the text from \<open>start\<close> is a balanced text, in which braces pair up and quoted
  strings hide theirs, followed at \<open>e\<close> by a closing brace. The bound keeps the nesting
  depth inside its 32 bits.
\<close>

theorem find_matching_brace_exact:
  assumes "length s < 2 ^ 31 - 1"
  shows "find_matching_brace s start = Some e \<longleftrightarrow>
    (\<exists>b r. balanced b \<and> drop start s = b @ CHR ''}'' # r \<and> e = start + length b)"
proof
  assume "find_matching_brace s start = Some e"
  moreover have "unat (1 :: i32) + length (drop start s) < 2 ^ 31" using assms by simp
  ultimately show "\<exists>b r. balanced b \<and> drop start s = b @ CHR ''}'' # r \<and> e = start + length b"
    using brace_loop_conv [of "drop start s" start 1 e] unfolding find_matching_brace_def by fastforce
next
  assume "\<exists>b r. balanced b \<and> drop start s = b @ CHR ''}'' # r \<and> e = start + length b"
  then obtain b r where b: "balanced b" "drop start s = b @ CHR ''}'' # r" "e = start + length b" by auto
  have "length (b @ CHR ''}'' # r) \<le> length s" using b(2) by (metis diff_le_self length_drop)
  with assms have "unat (1 :: i32) + length b < 2 ^ 31" by simp
  with b show "find_matching_brace s start = Some e"
    using brace_loop_balanced [of b 1] by (simp add: find_matching_brace_def)
qed

theorem find_matching_brace_exact_witness:
  "\<exists>b r. balanced b \<and> ''a{\"}\"}}z'' = b @ CHR ''}'' # r \<and> (6::nat) = 0 + length b"
  using find_matching_brace_exact [of "''a{\"}\"}}z''" 0 6] by (simp add: find_matching_brace_def)

lemma brace_loop_char: "brace_loop bs i d q e = Some j \<Longrightarrow> \<exists>k. j = i + k \<and> bs ! k = CHR ''}''"
proof (induction bs arbitrary: i d q e)
  case (Cons b bs)
  have step: "\<exists>k. j = i + k \<and> (c # bs) ! k = CHR ''}''"
    if "brace_loop bs (i + 1) d' q' e' = Some j" for c d' q' e'
  proof -
    from that have "\<exists>k. j = i + 1 + k \<and> bs ! k = CHR ''}''" by (rule Cons.IH)
    then obtain k where "j = i + 1 + k" "bs ! k = CHR ''}''" by blast
    then show ?thesis by (intro exI [of _ "Suc k"]) simp
  qed
  show ?case
    using Cons.prems by (auto split: if_splits intro: step)
qed simp

subsection \<open>One segmentation for both scanners\<close>

datatype segment = Literal char | Block string

function segments_from :: "string \<Rightarrow> nat \<Rightarrow> segment list" where
  "segments_from s i =
     (if i < length s then
        (case block_at s i of
           Some j \<Rightarrow> Block (take (j - (i + 2)) (drop (i + 2) s)) # segments_from s (j + 1)
         | None \<Rightarrow> Literal (s ! i) # segments_from s (i + 1))
      else [])"
  by pat_completeness auto
termination
  by (relation "measure (\<lambda>(s, i). length s - i)") (auto dest: block_at_bounds)

declare segments_from.simps [simp del]

fun segment_text :: "segment \<Rightarrow> string" where
  "segment_text (Literal c) = [c]"
| "segment_text (Block b) = ''${'' @ b @ ''}''"

fun segment_tokens :: "segment \<Rightarrow> string list" where
  "segment_tokens (Literal c) = []"
| "segment_tokens (Block b) = (if starts_with (trim b) CRED_SCHEME then [trim b] else [])"

fun segment_result :: "(string \<rightharpoonup> string) \<Rightarrow> segment \<Rightarrow> string" where
  "segment_result m (Literal c) = push_byte_as_char c"
| "segment_result m (Block b) =
     (case (if starts_with (trim b) CRED_SCHEME then m (trim b) else None) of
        Some v \<Rightarrow> v | None \<Rightarrow> segment_text (Block b))"

lemma block_text:
  assumes "block_at s i = Some j"
  shows "drop i s = segment_text (Block (take (j - (i + 2)) (drop (i + 2) s))) @ drop (j + 1) s"
    and "take (j + 1 - i) (drop i s) = segment_text (Block (take (j - (i + 2)) (drop (i + 2) s)))"
proof -
  let ?b = "take (j - (i + 2)) (drop (i + 2) s)"
  from assms have at: "i + 1 < length s" "s ! i = CHR ''$''" "s ! (i + 1) = CHR ''{''"
      and j: "i + 2 \<le> j" "j < length s" and loop: "find_matching_brace s (i + 2) = Some j"
    by (auto simp: block_at_def dest: find_matching_brace_bounds split: if_splits)
  have open': "drop i s = CHR ''$'' # CHR ''{'' # drop (i + 2) s"
    using at by (metis Cons_nth_drop_Suc Suc_eq_plus1 Suc_lessD add_2_eq_Suc')
  obtain k where "j = i + 2 + k" "drop (i + 2) s ! k = CHR ''}''"
    using loop brace_loop_char unfolding find_matching_brace_def by blast
  with j have "s ! j = CHR ''}''" by simp
  then have close: "drop j s = CHR ''}'' # drop (j + 1) s"
    using j by (metis Cons_nth_drop_Suc Suc_eq_plus1)
  have "drop (i + 2) s = ?b @ drop (j - (i + 2)) (drop (i + 2) s)"
    by (rule append_take_drop_id [symmetric])
  also have "drop (j - (i + 2)) (drop (i + 2) s) = drop j s"
    using j by (simp only: drop_drop le_add_diff_inverse2)
  finally show split: "drop i s = segment_text (Block ?b) @ drop (j + 1) s"
    using open' close by simp
  have "length (segment_text (Block ?b)) = j + 1 - i" using j by simp
  with split show "take (j + 1 - i) (drop i s) = segment_text (Block ?b)"
    by (metis append_eq_conv_conj)
qed

lemma segments_text: "concat (map segment_text (segments_from s i)) = drop i s"
proof (induction s i rule: segments_from.induct)
  case (1 s i)
  then show ?case
    by (subst segments_from.simps) (auto simp: block_text(1) Cons_nth_drop_Suc split: option.splits)
qed

lemma segments_end: "\<not> i < length s \<Longrightarrow> segments_from s i = []"
  by (simp add: segments_from.simps)

lemma cred_tokens_end: "\<not> i + 1 < length s \<Longrightarrow> cred_tokens_from s i = []"
  by (simp add: cred_tokens_from.simps)

lemma segments_tokens: "concat (map segment_tokens (segments_from s i)) = cred_tokens_from s i"
proof (induction s i rule: segments_from.induct)
  case (1 s i)
  show ?case
  proof (cases "i + 1 < length s")
    case True
    with 1 show ?thesis
      by (subst segments_from.simps, subst cred_tokens_from.simps)
       (auto simp: inner_def CRED_SCHEME_def split: option.splits)
  next
    case False
    then have "block_at s i = None" by (simp add: block_at_def)
    with False show ?thesis
      by (subst segments_from.simps) (simp add: cred_tokens_end segments_end)
  qed
qed

lemma segments_result: "concat (map (segment_result m) (segments_from s i)) = substitute_from s m i"
proof (induction s i rule: segments_from.induct)
  case (1 s i)
  then show ?case
    by (subst segments_from.simps, subst substitute_from.simps)
     (auto simp: inner_def CRED_SCHEME_def block_text(2) [simplified] split: option.splits)
qed

definition segments :: "string \<Rightarrow> segment list" where
  "segments s = segments_from s 0"

text \<open>
  C16: Collecting and substituting read the text alike: there is one segmentation of \<open>s\<close>
  into literal bytes and \<open>${...}\<close> blocks whose texts concatenate to \<open>s\<close>, the tokens are
  the trimmed blocks that start with the scheme, in order, and substitution replaces exactly
  the blocks whose token is resolved, in one pass, so an inserted value is never scanned again.
\<close>

theorem token_grammars_agree:
  "concat (map segment_text (segments s)) = s \<and>
   cred_tokens s = concat (map segment_tokens (segments s)) \<and>
   substitute_cred_tokens s m = concat (map (segment_result m) (segments s))"
  by (simp add: segments_def segments_text segments_tokens segments_result
      cred_tokens_def substitute_cred_tokens_def)

lemma segment_result_cong:
  "(\<And>t. t \<in> set (segment_tokens g) \<Longrightarrow> m t = m' t) \<Longrightarrow> segment_result m g = segment_result m' g"
  by (cases g) auto

lemma substitute_segments: "substitute_cred_tokens s m = concat (map (segment_result m) (segments s))"
  by (simp add: segments_def segments_result substitute_cred_tokens_def)

lemma cred_tokens_segments: "set (cred_tokens s) = (\<Union>g \<in> set (segments s). set (segment_tokens g))"
  by (simp add: segments_def segments_tokens [symmetric] cred_tokens_def)

text \<open>
  Substitution reads the resolved values of the collected tokens and nothing else: two
  maps that agree on \<open>cred_tokens s\<close> give the same text, so no other credential can leak in.
\<close>

theorem substitute_uses_only_tokens:
  assumes "m |` set (cred_tokens s) = m' |` set (cred_tokens s)"
  shows "substitute_cred_tokens s m = substitute_cred_tokens s m'"
proof -
  have "m t = m' t" if "t \<in> set (cred_tokens s)" for t
    using assms that by (metis restrict_in)
  then have "segment_result m g = segment_result m' g" if "g \<in> set (segments s)" for g
    using that by (intro segment_result_cong) (auto simp: cred_tokens_segments)
  then show ?thesis by (simp add: substitute_segments cong: map_cong)
qed

theorem substitute_uses_only_tokens_witness:
  "substitute_cred_tokens ''x ${ cred://p/t } cred://q/u'' [''cred://p/t'' \<mapsto> ''v''] =
   substitute_cred_tokens ''x ${ cred://p/t } cred://q/u''
     [''cred://p/t'' \<mapsto> ''v'', ''cred://q/u'' \<mapsto> ''w'']"
proof -
  have "cred_tokens ''x ${ cred://p/t } cred://q/u'' = [''cred://p/t'']"
    by code_simp
  then show ?thesis
    by (intro substitute_uses_only_tokens) (simp add: fun_eq_iff restrict_map_def)
qed

definition literal_ascii :: "segment \<Rightarrow> bool" where
  "literal_ascii g = (case g of Literal c \<Rightarrow> is_ascii c | Block b \<Rightarrow> True)"

lemma push_byte_length: "length (push_byte_as_char c) = (if is_ascii c then 1 else 2)"
  by (simp add: push_byte_as_char_def is_ascii_def Let_def)

text \<open>
  With no token resolved, substitution is the identity exactly when every byte outside
  the blocks is ASCII. A byte of a multi-byte character outside a block is read as a character
  of its own and re-encoded, so other text comes back longer than it went in.
\<close>

theorem substitute_unresolved:
  assumes "dom m \<inter> set (cred_tokens s) = {}"
  shows "substitute_cred_tokens s m = s \<longleftrightarrow> list_all literal_ascii (segments s)"
proof -
  have whole: "s = concat (map segment_text (segments s))"
    by (simp add: segments_def segments_text)
  have ascii: "literal_ascii g \<Longrightarrow> segment_result m g = segment_text g"
    and longer: "length (segment_result m g) = length (segment_text g) + (if literal_ascii g then 0 else 1)"
    if "g \<in> set (segments s)" for g
  proof -
    have "m t = None" if "t \<in> set (segment_tokens g)" for t
      using assms \<open>g \<in> _\<close> that by (auto simp: cred_tokens_segments dom_def)
    then show "literal_ascii g \<Longrightarrow> segment_result m g = segment_text g"
      and "length (segment_result m g) = length (segment_text g) + (if literal_ascii g then 0 else 1)"
      by (cases g; auto simp: literal_ascii_def push_byte_length)+
  qed
  have "length (concat (map (segment_result m) gs)) =
      length (concat (map segment_text gs)) + length (filter (\<lambda>g. \<not> literal_ascii g) gs)"
    if "set gs \<subseteq> set (segments s)" for gs
    using that longer by (induction gs) auto
  from this [of "segments s"] have
    "length (substitute_cred_tokens s m) = length s + length (filter (\<lambda>g. \<not> literal_ascii g) (segments s))"
    by (simp add: substitute_segments whole [symmetric])
  moreover have "list_all literal_ascii (segments s) \<Longrightarrow> substitute_cred_tokens s m = s"
    using ascii whole by (simp add: substitute_segments list_all_iff cong: map_cong)
  ultimately show ?thesis
    by (auto simp: filter_empty_conv list_all_iff)
qed

theorem substitute_unresolved_witness:
  "substitute_cred_tokens [CHR 0xC3, CHR 0xA9] Map.empty \<noteq> [CHR 0xC3, CHR 0xA9] \<and>
   substitute_cred_tokens ''x${cred://p/t}'' Map.empty = ''x${cred://p/t}''"
proof -
  have "\<not> list_all literal_ascii (segments [CHR 0xC3, CHR 0xA9])"
    and "list_all literal_ascii (segments ''x${cred://p/t}'')" by code_simp+
  then show ?thesis
    using substitute_unresolved [of Map.empty "[CHR 0xC3, CHR 0xA9]"]
      substitute_unresolved [of Map.empty "''x${cred://p/t}''"] by simp
qed

end
