(* ===== verification/Types.thy ===== *)
theory Types
  imports Json
begin

section \<open>Shared wire types\<close>

text \<open>
  \<open>src/src/types.rs\<close>: the context, the caller's identity, the request metadata and the
  decisions that cross the plugin boundary, with the JSON form their derives give them.
  Each codec interprets the contract of \<^theory_text>\<open>codec\<close>.
\<close>

definition default_surface_tool :: string where
  "default_surface_tool = ''tool''"

definition default_transport_http :: string where
  "default_transport_http = ''http''"

subsection \<open>Types and codecs\<close>

record plugin_identity =
  pi_kind :: string
  pi_trust_level :: string
  pi_subject_id :: "string option"
  pi_auth_provider :: "string option"
  pi_issuer :: "string option"
  pi_roles :: "string list"
  pi_groups :: "string list"
  pi_scopes :: "string list"
  pi_attributes :: "(string \<times> string) list"

definition encode_plugin_identity :: "plugin_identity \<Rightarrow> json" where
  "encode_plugin_identity x = JObject (fields_map
     [(''kind'', Some (JString (pi_kind x))),
      (''trust_level'', Some (JString (pi_trust_level x))),
      (''subject_id'', Some (opt_null JString (pi_subject_id x))),
      (''auth_provider'', Some (opt_null JString (pi_auth_provider x))),
      (''issuer'', Some (opt_null JString (pi_issuer x))),
      (''roles'', vec_skip JString (pi_roles x)),
      (''groups'', vec_skip JString (pi_groups x)),
      (''scopes'', vec_skip JString (pi_scopes x)),
      (''attributes'', map_skip JString (pi_attributes x))])"

definition decode_plugin_identity :: "json \<Rightarrow> de_error + plugin_identity" where
  "decode_plugin_identity v = res_bind (de_object v) (\<lambda>m.
     res_bind (de_field m ''kind'' de_string) (\<lambda>kind0.
     res_bind (de_field m ''trust_level'' de_string) (\<lambda>trust_level.
     res_bind (de_opt m ''subject_id'' de_string) (\<lambda>subject_id.
     res_bind (de_opt m ''auth_provider'' de_string) (\<lambda>auth_provider.
     res_bind (de_opt m ''issuer'' de_string) (\<lambda>issuer.
     res_bind (de_field_default m ''roles'' [] (de_vec de_string)) (\<lambda>roles.
     res_bind (de_field_default m ''groups'' [] (de_vec de_string)) (\<lambda>groups.
     res_bind (de_field_default m ''scopes'' [] (de_vec de_string)) (\<lambda>scopes.
     res_bind (de_field_default m ''attributes'' [] (de_map de_string)) (\<lambda>attributes.
       Inr \<lparr>pi_kind = kind0, pi_trust_level = trust_level, pi_subject_id = subject_id, pi_auth_provider = auth_provider, pi_issuer = issuer, pi_roles = roles, pi_groups = groups, pi_scopes = scopes, pi_attributes = attributes\<rparr>))))))))))"

interpretation plugin_identity_codec: codec encode_plugin_identity decode_plugin_identity "\<lambda>_. True"
  by unfold_locales (simp_all add: encode_plugin_identity_def decode_plugin_identity_def codec_simps)

declare plugin_identity_codec.roundtrip [simp] plugin_identity_codec.nonnull [simp]

record plugin_context =
  pc_request_id :: string
  pc_session_id :: "string option"
  pc_tool_name :: string
  pc_surface :: string
  pc_identity :: plugin_identity
  pc_transport :: string

definition encode_plugin_context :: "plugin_context \<Rightarrow> json" where
  "encode_plugin_context x = JObject (fields_map
     [(''request_id'', Some (JString (pc_request_id x))),
      (''session_id'', Some (opt_null JString (pc_session_id x))),
      (''tool_name'', Some (JString (pc_tool_name x))),
      (''surface'', Some (JString (pc_surface x))),
      (''identity'', Some (encode_plugin_identity (pc_identity x))),
      (''transport'', Some (JString (pc_transport x)))])"

definition decode_plugin_context :: "json \<Rightarrow> de_error + plugin_context" where
  "decode_plugin_context v = res_bind (de_object v) (\<lambda>m.
     res_bind (de_field m ''request_id'' de_string) (\<lambda>request_id.
     res_bind (de_opt m ''session_id'' de_string) (\<lambda>session_id.
     res_bind (de_field m ''tool_name'' de_string) (\<lambda>tool_name.
     res_bind (de_field_default m ''surface'' default_surface_tool de_string) (\<lambda>surface.
     res_bind (de_field m ''identity'' decode_plugin_identity) (\<lambda>identity.
     res_bind (de_field m ''transport'' de_string) (\<lambda>transport.
       Inr \<lparr>pc_request_id = request_id, pc_session_id = session_id, pc_tool_name = tool_name, pc_surface = surface, pc_identity = identity, pc_transport = transport\<rparr>)))))))"

interpretation plugin_context_codec: codec encode_plugin_context decode_plugin_context "\<lambda>_. True"
  by unfold_locales (simp_all add: encode_plugin_context_def decode_plugin_context_def codec_simps)

declare plugin_context_codec.roundtrip [simp] plugin_context_codec.nonnull [simp]

record tls_info =
  tls_sni :: "string option"
  tls_client_cert_present :: bool
  tls_client_cert_chain_der :: "(u8 list) list"
  tls_client_cert_subject_dn :: "string option"
  tls_client_cert_issuer_dn :: "string option"
  tls_client_cert_san_uris :: "string list"
  tls_client_cert_san_dns :: "string list"
  tls_client_cert_san_emails :: "string list"
  tls_client_cert_chain_sha256 :: "string list"
  tls_client_cert_not_before :: "string option"
  tls_client_cert_not_after :: "string option"

definition encode_tls_info :: "tls_info \<Rightarrow> json" where
  "encode_tls_info x = JObject (fields_map
     [(''sni'', map_option JString (tls_sni x)),
      (''client_cert_present'', Some (JBool (tls_client_cert_present x))),
      (''client_cert_chain_der'', vec_skip (vec en_uint) (tls_client_cert_chain_der x)),
      (''client_cert_subject_dn'', map_option JString (tls_client_cert_subject_dn x)),
      (''client_cert_issuer_dn'', map_option JString (tls_client_cert_issuer_dn x)),
      (''client_cert_san_uris'', vec_skip JString (tls_client_cert_san_uris x)),
      (''client_cert_san_dns'', vec_skip JString (tls_client_cert_san_dns x)),
      (''client_cert_san_emails'', vec_skip JString (tls_client_cert_san_emails x)),
      (''client_cert_chain_sha256'', vec_skip JString (tls_client_cert_chain_sha256 x)),
      (''client_cert_not_before'', map_option JString (tls_client_cert_not_before x)),
      (''client_cert_not_after'', map_option JString (tls_client_cert_not_after x))])"

definition decode_tls_info :: "json \<Rightarrow> de_error + tls_info" where
  "decode_tls_info v = res_bind (de_object v) (\<lambda>m.
     res_bind (de_opt m ''sni'' de_string) (\<lambda>sni.
     res_bind (de_field_default m ''client_cert_present'' False de_bool) (\<lambda>client_cert_present.
     res_bind (de_field_default m ''client_cert_chain_der'' [] (de_vec (de_vec de_uint))) (\<lambda>client_cert_chain_der.
     res_bind (de_opt m ''client_cert_subject_dn'' de_string) (\<lambda>client_cert_subject_dn.
     res_bind (de_opt m ''client_cert_issuer_dn'' de_string) (\<lambda>client_cert_issuer_dn.
     res_bind (de_field_default m ''client_cert_san_uris'' [] (de_vec de_string)) (\<lambda>client_cert_san_uris.
     res_bind (de_field_default m ''client_cert_san_dns'' [] (de_vec de_string)) (\<lambda>client_cert_san_dns.
     res_bind (de_field_default m ''client_cert_san_emails'' [] (de_vec de_string)) (\<lambda>client_cert_san_emails.
     res_bind (de_field_default m ''client_cert_chain_sha256'' [] (de_vec de_string)) (\<lambda>client_cert_chain_sha256.
     res_bind (de_opt m ''client_cert_not_before'' de_string) (\<lambda>client_cert_not_before.
     res_bind (de_opt m ''client_cert_not_after'' de_string) (\<lambda>client_cert_not_after.
       Inr \<lparr>tls_sni = sni, tls_client_cert_present = client_cert_present, tls_client_cert_chain_der = client_cert_chain_der, tls_client_cert_subject_dn = client_cert_subject_dn, tls_client_cert_issuer_dn = client_cert_issuer_dn, tls_client_cert_san_uris = client_cert_san_uris, tls_client_cert_san_dns = client_cert_san_dns, tls_client_cert_san_emails = client_cert_san_emails, tls_client_cert_chain_sha256 = client_cert_chain_sha256, tls_client_cert_not_before = client_cert_not_before, tls_client_cert_not_after = client_cert_not_after\<rparr>))))))))))))"

interpretation tls_info_codec: codec encode_tls_info decode_tls_info "\<lambda>_. True"
  by unfold_locales (simp_all add: encode_tls_info_def decode_tls_info_def codec_simps)

declare tls_info_codec.roundtrip [simp] tls_info_codec.nonnull [simp]

record request_metadata =
  rm_remote_addr :: "string option"
  rm_tls :: "tls_info option"
  rm_transport :: string
  rm_path :: "string option"
  rm_method :: "string option"
  rm_query :: "string option"

definition encode_request_metadata :: "request_metadata \<Rightarrow> json" where
  "encode_request_metadata x = JObject (fields_map
     [(''remote_addr'', map_option JString (rm_remote_addr x)),
      (''tls'', map_option encode_tls_info (rm_tls x)),
      (''transport'', Some (JString (rm_transport x))),
      (''path'', map_option JString (rm_path x)),
      (''method'', map_option JString (rm_method x)),
      (''query'', map_option JString (rm_query x))])"

definition decode_request_metadata :: "json \<Rightarrow> de_error + request_metadata" where
  "decode_request_metadata v = res_bind (de_object v) (\<lambda>m.
     res_bind (de_opt m ''remote_addr'' de_string) (\<lambda>remote_addr.
     res_bind (de_opt m ''tls'' decode_tls_info) (\<lambda>tls.
     res_bind (de_field_default m ''transport'' default_transport_http de_string) (\<lambda>transport.
     res_bind (de_opt m ''path'' de_string) (\<lambda>pth.
     res_bind (de_opt m ''method'' de_string) (\<lambda>meth.
     res_bind (de_opt m ''query'' de_string) (\<lambda>query.
       Inr \<lparr>rm_remote_addr = remote_addr, rm_tls = tls, rm_transport = transport, rm_path = pth, rm_method = meth, rm_query = query\<rparr>)))))))"

interpretation request_metadata_codec: codec encode_request_metadata decode_request_metadata "\<lambda>_. True"
  by unfold_locales (simp_all add: encode_request_metadata_def decode_request_metadata_def codec_simps)

declare request_metadata_codec.roundtrip [simp] request_metadata_codec.nonnull [simp]

datatype gate_decision =
    Allow "json option" "json option" "json option"
  | Deny u16 i32 string "json option"
  | Challenge u16 i32 string json
  | PendingApproval string string string "string list" "json option"

fun encode_gate_decision :: "gate_decision \<Rightarrow> json" where
  "encode_gate_decision (Allow modified_arguments modified_result metadata) = JObject (fields_map
     [(''decision'', Some (JString ''allow'')),
      (''modified_arguments'', modified_arguments),
      (''modified_result'', modified_result),
      (''metadata'', metadata)])"
| "encode_gate_decision (Deny http_status code message error_data) = JObject (fields_map
     [(''decision'', Some (JString ''deny'')),
      (''http_status'', Some (en_uint http_status)),
      (''code'', Some (en_int code)),
      (''message'', Some (JString message)),
      (''error_data'', error_data)])"
| "encode_gate_decision (Challenge http_status code message challenge_data) = JObject (fields_map
     [(''decision'', Some (JString ''challenge'')),
      (''http_status'', Some (en_uint http_status)),
      (''code'', Some (en_int code)),
      (''message'', Some (JString message)),
      (''challenge_data'', Some challenge_data)])"
| "encode_gate_decision (PendingApproval approval_id deadline_at summary target_notifiers metadata) = JObject (fields_map
     [(''decision'', Some (JString ''pending_approval'')),
      (''approval_id'', Some (JString approval_id)),
      (''deadline_at'', Some (JString deadline_at)),
      (''summary'', Some (JString summary)),
      (''target_notifiers'', vec_skip JString target_notifiers),
      (''metadata'', metadata)])"

definition decode_gate_decision :: "json \<Rightarrow> de_error + gate_decision" where
  "decode_gate_decision v = res_bind (de_object v) (\<lambda>m. res_bind (de_field m ''decision'' de_string) (\<lambda>t.
     if t = ''allow'' then
       res_bind (de_opt m ''modified_arguments'' de_value) (\<lambda>modified_arguments.
       res_bind (de_opt m ''modified_result'' de_value) (\<lambda>modified_result.
       res_bind (de_opt m ''metadata'' de_value) (\<lambda>metadata.
         Inr (Allow modified_arguments modified_result metadata))))
     else
     if t = ''deny'' then
       res_bind (de_field m ''http_status'' de_uint) (\<lambda>http_status.
       res_bind (de_field m ''code'' de_int) (\<lambda>code.
       res_bind (de_field m ''message'' de_string) (\<lambda>message.
       res_bind (de_opt m ''error_data'' de_value) (\<lambda>error_data.
         Inr (Deny http_status code message error_data)))))
     else
     if t = ''challenge'' then
       res_bind (de_field m ''http_status'' de_uint) (\<lambda>http_status.
       res_bind (de_field m ''code'' de_int) (\<lambda>code.
       res_bind (de_field m ''message'' de_string) (\<lambda>message.
       res_bind (de_field m ''challenge_data'' de_value) (\<lambda>challenge_data.
         Inr (Challenge http_status code message challenge_data)))))
     else
     if t = ''pending_approval'' then
       res_bind (de_field m ''approval_id'' de_string) (\<lambda>approval_id.
       res_bind (de_field m ''deadline_at'' de_string) (\<lambda>deadline_at.
       res_bind (de_field m ''summary'' de_string) (\<lambda>summary.
       res_bind (de_field_default m ''target_notifiers'' [] (de_vec de_string)) (\<lambda>target_notifiers.
       res_bind (de_opt m ''metadata'' de_value) (\<lambda>metadata.
         Inr (PendingApproval approval_id deadline_at summary target_notifiers metadata))))))
     else
     Inl (UnknownVariant t)))"

definition gate_decision_exact :: "gate_decision \<Rightarrow> bool" where
  "gate_decision_exact x = (case x of Allow modified_arguments modified_result metadata \<Rightarrow> modified_arguments \<noteq> Some JNull \<and> modified_result \<noteq> Some JNull \<and> metadata \<noteq> Some JNull | Deny _ _ _ error_data \<Rightarrow> error_data \<noteq> Some JNull | PendingApproval _ _ _ _ metadata \<Rightarrow> metadata \<noteq> Some JNull | _ \<Rightarrow> True)"

interpretation gate_decision_codec: codec encode_gate_decision decode_gate_decision gate_decision_exact
proof unfold_locales
  fix x
  assume "gate_decision_exact x"
  then show "decode_gate_decision (encode_gate_decision x) = Inr x"
    by (cases x) (simp_all add: decode_gate_decision_def codec_simps gate_decision_exact_def non_null_def)
next
  fix x
  show "encode_gate_decision x \<noteq> JNull" by (cases x) simp_all
qed

declare gate_decision_codec.roundtrip [simp] gate_decision_codec.nonnull [simp]

datatype transform_result =
    Unchanged
  | Modified json
  | TransformError string

fun encode_transform_result :: "transform_result \<Rightarrow> json" where
  "encode_transform_result Unchanged = JObject (fields_map
     [(''outcome'', Some (JString ''unchanged''))])"
| "encode_transform_result (Modified val) = JObject (fields_map
     [(''outcome'', Some (JString ''modified'')),
      (''value'', Some val)])"
| "encode_transform_result (TransformError message) = JObject (fields_map
     [(''outcome'', Some (JString ''error'')),
      (''message'', Some (JString message))])"

definition decode_transform_result :: "json \<Rightarrow> de_error + transform_result" where
  "decode_transform_result v = res_bind (de_object v) (\<lambda>m. res_bind (de_field m ''outcome'' de_string) (\<lambda>t.
     if t = ''unchanged'' then
         Inr Unchanged
     else
     if t = ''modified'' then
       res_bind (de_field m ''value'' de_value) (\<lambda>val.
         Inr (Modified val))
     else
     if t = ''error'' then
       res_bind (de_field m ''message'' de_string) (\<lambda>message.
         Inr (TransformError message))
     else
     Inl (UnknownVariant t)))"

interpretation transform_result_codec: codec encode_transform_result decode_transform_result "\<lambda>_. True"
proof unfold_locales
  fix x
  show "decode_transform_result (encode_transform_result x) = Inr x"
    by (cases x) (simp_all add: decode_transform_result_def codec_simps)
next
  fix x
  show "encode_transform_result x \<noteq> JNull" by (cases x) simp_all
qed

declare transform_result_codec.roundtrip [simp] transform_result_codec.nonnull [simp]

datatype identity_resolution =
    Resolved plugin_identity
  | NoIdentity
  | InvalidIdentity string "(string \<times> string) list"

fun encode_identity_resolution :: "identity_resolution \<Rightarrow> json" where
  "encode_identity_resolution (Resolved identity) = JObject (fields_map
     [(''outcome'', Some (JString ''resolved'')),
      (''identity'', Some (encode_plugin_identity identity))])"
| "encode_identity_resolution NoIdentity = JObject (fields_map
     [(''outcome'', Some (JString ''none''))])"
| "encode_identity_resolution (InvalidIdentity reason response_headers) = JObject (fields_map
     [(''outcome'', Some (JString ''invalid'')),
      (''reason'', Some (JString reason)),
      (''response_headers'', vec_skip pair response_headers)])"

definition decode_identity_resolution :: "json \<Rightarrow> de_error + identity_resolution" where
  "decode_identity_resolution v = res_bind (de_object v) (\<lambda>m. res_bind (de_field m ''outcome'' de_string) (\<lambda>t.
     if t = ''resolved'' then
       res_bind (de_field m ''identity'' decode_plugin_identity) (\<lambda>identity.
         Inr (Resolved identity))
     else
     if t = ''none'' then
         Inr NoIdentity
     else
     if t = ''invalid'' then
       res_bind (de_field m ''reason'' de_string) (\<lambda>reason.
       res_bind (de_field_default m ''response_headers'' [] (de_vec de_pair)) (\<lambda>response_headers.
         Inr (InvalidIdentity reason response_headers)))
     else
     Inl (UnknownVariant t)))"

interpretation identity_resolution_codec: codec encode_identity_resolution decode_identity_resolution "\<lambda>_. True"
proof unfold_locales
  fix x
  show "decode_identity_resolution (encode_identity_resolution x) = Inr x"
    by (cases x) (simp_all add: decode_identity_resolution_def codec_simps)
next
  fix x
  show "encode_identity_resolution x \<noteq> JNull" by (cases x) simp_all
qed

declare identity_resolution_codec.roundtrip [simp] identity_resolution_codec.nonnull [simp]

subsection \<open>Decisions\<close>

definition gate_allow :: gate_decision where
  "gate_allow = Allow None None None"

text \<open>The default body of \<open>ToolGatePlugin::evaluate_post_dispatch\<close> (\<open>src/src/traits.rs\<close>).\<close>

definition default_evaluate_post_dispatch ::
  "plugin_context \<Rightarrow> json \<Rightarrow> json \<Rightarrow> u64 \<Rightarrow> json \<Rightarrow> gate_decision" where
  "default_evaluate_post_dispatch ctx arguments tool_result execution_duration_ms config = gate_allow"

definition gate_allow_with_metadata :: "json \<Rightarrow> gate_decision" where
  "gate_allow_with_metadata metadata = Allow None None (Some metadata)"

fun gate_is_allow :: "gate_decision \<Rightarrow> bool" where
  "gate_is_allow (Allow _ _ _) \<longleftrightarrow> True"
| "gate_is_allow _ \<longleftrightarrow> False"

text \<open>What the wire keeps of a decision: an optional value that is null is an absent one.\<close>

fun gate_normal :: "gate_decision \<Rightarrow> gate_decision" where
  "gate_normal (Allow a r d) = Allow (non_null a) (non_null r) (non_null d)"
| "gate_normal (Deny s c msg d) = Deny s c msg (non_null d)"
| "gate_normal (PendingApproval i t s ns d) = PendingApproval i t s ns (non_null d)"
| "gate_normal g = g"

text \<open>
  Every shared type survives its JSON form: identity, context, TLS and request metadata,
  transform results and identity resolutions come back unchanged, and a gate decision comes
  back up to optional values that are null, so its verdict never changes in transit.
\<close>

theorem shared_types_roundtrip:
  "decode_plugin_identity (encode_plugin_identity i) = Inr i \<and>
   decode_plugin_context (encode_plugin_context c) = Inr c \<and>
   decode_request_metadata (encode_request_metadata r) = Inr r \<and>
   decode_transform_result (encode_transform_result t) = Inr t \<and>
   decode_identity_resolution (encode_identity_resolution ir) = Inr ir \<and>
   decode_gate_decision (encode_gate_decision g) = Inr (gate_normal g)"
proof -
  have "decode_gate_decision (encode_gate_decision g) = Inr (gate_normal g)"
    by (cases g) (simp_all add: decode_gate_decision_def codec_simps)
  then show ?thesis by simp
qed

text \<open>
  Payloads of older peers keep decoding: a context without \<open>surface\<close> is read as
  serving a tool, and request metadata without \<open>transport\<close> as HTTP, all other fields kept.
\<close>

theorem legacy_payloads_decode:
  "(\<exists>m. encode_plugin_context c = JObject m \<and>
      decode_plugin_context (JObject (bt_remove ''surface'' m)) = Inr (c\<lparr>pc_surface := ''tool''\<rparr>)) \<and>
   (\<exists>m. encode_request_metadata r = JObject m \<and>
      decode_request_metadata (JObject (bt_remove ''transport'' m)) = Inr (r\<lparr>rm_transport := ''http''\<rparr>))"
  by (simp add: encode_plugin_context_def encode_request_metadata_def decode_plugin_context_def
      decode_request_metadata_def bt_get_remove default_surface_tool_def default_transport_http_def codec_simps)

end
