(* ===== verification/Identity_Hash.thy ===== *)
theory Identity_Hash
  imports Types "HOL-Library.Product_Lexorder" "HOL-Library.Multiset"
begin

section \<open>The identity hash\<close>

text \<open>
  \<open>identity_hash\<close> and \<open>identity_hash_with_attrs\<close> of \<open>src/src/credential.rs\<close>: the
  bytes fed to the digest, in order. The digest and its hexadecimal text are the crates
  \<open>sha2\<close> and \<open>hex\<close>: parameters. The specification side is the tuple of what the hash is
  meant to depend on, and the preimage is shown to be an injective encoding of it.
\<close>

definition SUBJECT_TOKEN_ATTRIBUTE :: string where
  "SUBJECT_TOKEN_ATTRIBUTE = ''subject_token''"

definition SUBJECT_TOKEN_SOURCE_ATTRIBUTE :: string where
  "SUBJECT_TOKEN_SOURCE_ATTRIBUTE = ''subject_token_source''"

definition SUBJECT_TOKEN_SOURCE_IDP_VAULT :: string where
  "SUBJECT_TOKEN_SOURCE_IDP_VAULT = ''idp_vault''"

definition SUBJECT_TOKEN_BINDING_ATTRIBUTE :: string where
  "SUBJECT_TOKEN_BINDING_ATTRIBUTE = ''subject_token_binding''"

text \<open>\<open>to_le_bytes\<close> of a length cast to \<open>k\<close> bytes, higher bytes dropped by the cast.\<close>

primrec le_bytes :: "nat \<Rightarrow> nat \<Rightarrow> string" where
  "le_bytes 0 n = []"
| "le_bytes (Suc k) n = char_of (n mod 256) # le_bytes k (n div 256)"

definition feed :: "string \<Rightarrow> string \<Rightarrow> string" where
  "feed label val = le_bytes 4 (length label) @ label @ le_bytes 8 (length val) @ val"

definition unwrap_or_empty :: "string option \<Rightarrow> string" where
  "unwrap_or_empty x = (case x of None \<Rightarrow> [] | Some s \<Rightarrow> s)"

definition feed_list :: "string \<Rightarrow> string list \<Rightarrow> string" where
  "feed_list label xs = le_bytes 8 (length xs) @ concat (map (feed label) xs)"

definition vault_binding :: "plugin_identity \<Rightarrow> bool" where
  "vault_binding i \<longleftrightarrow>
     bt_get (pi_attributes i) SUBJECT_TOKEN_SOURCE_ATTRIBUTE = Some SUBJECT_TOKEN_SOURCE_IDP_VAULT \<and>
     bt_get (pi_attributes i) SUBJECT_TOKEN_BINDING_ATTRIBUTE \<noteq> None"

definition subject_key :: "plugin_identity \<Rightarrow> string" where
  "subject_key i = (if vault_binding i then SUBJECT_TOKEN_BINDING_ATTRIBUTE else SUBJECT_TOKEN_ATTRIBUTE)"

definition folded_attrs :: "plugin_identity \<Rightarrow> string list \<Rightarrow> (string \<times> string) list" where
  "folded_attrs i key_attributes =
     (let keys = filter (\<lambda>k. \<not> (vault_binding i \<and> k = SUBJECT_TOKEN_ATTRIBUTE)) key_attributes
                 @ [subject_key i];
          attrs = List.map_filter (\<lambda>k. map_option (Pair k) (bt_get (pi_attributes i) k)) keys
      in remdups_adj (sort attrs))"

definition feed_attr :: "string \<times> string \<Rightarrow> string" where
  "feed_attr p = feed ''attr.k'' (fst p) @ feed ''attr.v'' (snd p)"

definition hash_preimage :: "plugin_identity \<Rightarrow> string list \<Rightarrow> string" where
  "hash_preimage i key_attributes =
     ''mcpg.identity_hash.v3'' @ [CHR 0x00] @
     feed ''kind'' (pi_kind i) @
     feed ''trust_level'' (pi_trust_level i) @
     feed ''subject_id'' (unwrap_or_empty (pi_subject_id i)) @
     feed ''auth_provider'' (unwrap_or_empty (pi_auth_provider i)) @
     feed ''issuer'' (unwrap_or_empty (pi_issuer i)) @
     feed_list ''role'' (sort (pi_roles i)) @
     feed_list ''group'' (sort (pi_groups i)) @
     feed_list ''scope'' (sort (pi_scopes i)) @
     (let attrs = folded_attrs i key_attributes
      in le_bytes 8 (length attrs) @ concat (map feed_attr attrs))"

definition identity_hash_with_attrs ::
  "(string \<Rightarrow> string) \<Rightarrow> (string \<Rightarrow> string) \<Rightarrow> plugin_identity \<Rightarrow> string list \<Rightarrow> string" where
  "identity_hash_with_attrs sha256 hex_encode i key_attributes =
     hex_encode (sha256 (hash_preimage i key_attributes))"

definition identity_hash :: "(string \<Rightarrow> string) \<Rightarrow> (string \<Rightarrow> string) \<Rightarrow> plugin_identity \<Rightarrow> string" where
  "identity_hash sha256 hex_encode i = identity_hash_with_attrs sha256 hex_encode i []"

subsection \<open>Prefix codes\<close>

text \<open>
  An encoding whose values can be read off the front of a text: what makes a concatenation
  of them unambiguous.
\<close>

locale prefix_code =
  fixes enc :: "'a \<Rightarrow> string" and valid :: "'a \<Rightarrow> bool"
  assumes split: "valid x \<Longrightarrow> valid y \<Longrightarrow> enc x @ r = enc y @ s \<longleftrightarrow> x = y \<and> r = s"
begin

lemma concat_split:
  "list_all valid xs \<Longrightarrow> list_all valid ys \<Longrightarrow> length xs = length ys \<Longrightarrow>
     concat (map enc xs) @ r = concat (map enc ys) @ s \<longleftrightarrow> xs = ys \<and> r = s"
proof (induction xs arbitrary: ys)
  case (Cons x xs)
  then show ?case by (cases ys) (auto simp: split)
qed simp

end

lemma le_bytes_length [simp]: "length (le_bytes k n) = k"
  by (induction k arbitrary: n) simp_all

lemma le_bytes_inject: "n < 256 ^ k \<Longrightarrow> m < 256 ^ k \<Longrightarrow> le_bytes k n = le_bytes k m \<longleftrightarrow> n = m"
proof (induction k arbitrary: n m)
  case (Suc k)
  have "n div 256 < 256 ^ k" "m div 256 < 256 ^ k"
    using Suc.prems by (auto intro!: less_mult_imp_div_less simp: mult.commute)
  then have "le_bytes k (n div 256) = le_bytes k (m div 256) \<longleftrightarrow> n div 256 = m div 256"
    by (rule Suc.IH)
  moreover have "(char_of (n mod 256) :: char) = char_of (m mod 256) \<longleftrightarrow> n mod 256 = m mod 256"
    by (metis mod_mod_trivial of_char_of)
  ultimately show ?case
    by simp (metis div_mult_mod_eq)
qed simp

definition short :: "string \<Rightarrow> bool" where
  "short s \<longleftrightarrow> length s < 2 ^ 64"

interpretation le8: prefix_code "le_bytes 8" "\<lambda>n. n < 2 ^ 64"
  by unfold_locales (simp add: le_bytes_inject)

lemma feed_split: "short v \<Longrightarrow> short w \<Longrightarrow> feed l v @ r = feed l w @ s \<longleftrightarrow> v = w \<and> r = s"
  using le8.split [of "length v" "length w" "v @ r" "w @ s"]
  by (auto simp: feed_def short_def)

interpretation feed_code: prefix_code "feed l" short for l
  by unfold_locales (rule feed_split)

interpretation feed_attr_code: prefix_code feed_attr "\<lambda>p. short (fst p) \<and> short (snd p)"
  by unfold_locales (auto simp: feed_attr_def feed_split prod_eq_iff)

definition counted :: "('a \<Rightarrow> string) \<Rightarrow> 'a list \<Rightarrow> string" where
  "counted enc xs = le_bytes 8 (length xs) @ concat (map enc xs)"

context prefix_code
begin

lemma counted_split:
  assumes "list_all valid xs" "list_all valid ys" "length xs < 2 ^ 64" "length ys < 2 ^ 64"
  shows "counted enc xs @ r = counted enc ys @ s \<longleftrightarrow> xs = ys \<and> r = s"
proof -
  have "counted enc xs @ r = counted enc ys @ s \<longleftrightarrow>
      length xs = length ys \<and> concat (map enc xs) @ r = concat (map enc ys) @ s"
    using le8.split [of "length xs" "length ys"] assms by (simp add: counted_def)
  then show ?thesis using concat_split [OF assms(1,2)] by auto
qed

end

subsection \<open>What the hash depends on\<close>

text \<open>
  The canonical identity: the normalised fields, the roles, groups and scopes as multisets,
  and the finite map of the attributes that are folded in.
\<close>

definition folded_keys :: "plugin_identity \<Rightarrow> string list \<Rightarrow> string set" where
  "folded_keys i ks =
     (if vault_binding i then set ks - {SUBJECT_TOKEN_ATTRIBUTE} else set ks) \<union> {subject_key i}"

definition canonical_attrs :: "plugin_identity \<Rightarrow> string list \<Rightarrow> string \<rightharpoonup> string" where
  "canonical_attrs i ks = bt_get (pi_attributes i) |` folded_keys i ks"

definition canonical_identity where
  "canonical_identity i ks =
     ([pi_kind i, pi_trust_level i, unwrap_or_empty (pi_subject_id i),
       unwrap_or_empty (pi_auth_provider i), unwrap_or_empty (pi_issuer i)],
      [mset (pi_roles i), mset (pi_groups i), mset (pi_scopes i)],
      canonical_attrs i ks)"

text \<open>Every length fits the 64 bits it is written in, as every length on a 64-bit machine does.\<close>

definition identity_fits :: "plugin_identity \<Rightarrow> bool" where
  "identity_fits i \<longleftrightarrow>
     list_all short [pi_kind i, pi_trust_level i, unwrap_or_empty (pi_subject_id i),
       unwrap_or_empty (pi_auth_provider i), unwrap_or_empty (pi_issuer i)] \<and>
     list_all (\<lambda>xs. list_all short xs \<and> length xs < 2 ^ 64) [pi_roles i, pi_groups i, pi_scopes i] \<and>
     list_all (\<lambda>(k, v). short k \<and> short v) (pi_attributes i) \<and> length (pi_attributes i) < 2 ^ 64"

lemma sort_eq_iff_mset: "sort xs = sort ys \<longleftrightarrow> mset xs = mset ys"
  by (metis mset_sort sorted_list_of_multiset_mset)

lemma remdups_adj_sort: fixes xs :: "'a::linorder list" shows "remdups_adj (sort xs) = sorted_list_of_set (set xs)"
proof -
  have "sorted ys \<Longrightarrow> sorted_wrt (<) (remdups_adj ys)" for ys :: "'a list"
    by (induction ys rule: remdups_adj.induct) auto
  then have "sorted_wrt (<) (remdups_adj (sort xs))" by simp
  then show ?thesis
    by (metis remdups_adj_set set_sort strict_sorted_equal sorted_list_of_set.set_sorted_key_list_of_set
        sorted_list_of_set.strict_sorted_key_list_of_set List.finite_set)
qed

lemma folded_attrs_set:
  "folded_attrs i ks = sorted_list_of_set {(k, v). canonical_attrs i ks k = Some v}"
proof -
  have "set (List.map_filter (\<lambda>k. map_option (Pair k) (bt_get (pi_attributes i) k)) xs) =
      {(k, v). k \<in> set xs \<and> bt_get (pi_attributes i) k = Some v}" for xs
    by (induction xs) (auto simp: List.map_filter_simps split: option.splits)
  moreover have "set (filter (\<lambda>k. \<not> (vault_binding i \<and> k = SUBJECT_TOKEN_ATTRIBUTE)) ks @ [subject_key i]) =
      folded_keys i ks"
    by (auto simp: folded_keys_def)
  moreover have "canonical_attrs i ks k = Some v \<longleftrightarrow> k \<in> folded_keys i ks \<and> bt_get (pi_attributes i) k = Some v" for k v
    by (simp add: canonical_attrs_def restrict_map_def)
  ultimately show ?thesis
    by (simp add: folded_attrs_def Let_def remdups_adj_sort)
qed

lemma canonical_graph_finite: "finite {(k, v). canonical_attrs i ks k = Some v}"
proof (rule finite_subset)
  show "{(k, v). canonical_attrs i ks k = Some v} \<subseteq> set (pi_attributes i)"
    by (auto simp: canonical_attrs_def restrict_map_def bt_get_def dest: map_of_SomeD split: if_splits)
qed simp

lemma folded_attrs_eq: "folded_attrs i ks = folded_attrs j ls \<longleftrightarrow> canonical_attrs i ks = canonical_attrs j ls"
proof
  assume "folded_attrs i ks = folded_attrs j ls"
  then have "{(k, v). canonical_attrs i ks k = Some v} = {(k, v). canonical_attrs j ls k = Some v}"
    unfolding folded_attrs_set by (metis canonical_graph_finite set_sorted_list_of_set)
  then show "canonical_attrs i ks = canonical_attrs j ls"
    by (auto simp: set_eq_iff fun_eq_iff) (metis not_None_eq)
qed (simp add: folded_attrs_set)

lemma folded_attrs_fit:
  assumes "identity_fits i"
  shows "list_all (\<lambda>p. short (fst p) \<and> short (snd p)) (folded_attrs i ks)" and "length (folded_attrs i ks) < 2 ^ 64"
proof -
  have sub: "set (folded_attrs i ks) \<subseteq> set (pi_attributes i)"
    using canonical_graph_finite [of i ks]
    by (auto simp: folded_attrs_set canonical_attrs_def restrict_map_def bt_get_def dest: map_of_SomeD split: if_splits)
  with assms show "list_all (\<lambda>p. short (fst p) \<and> short (snd p)) (folded_attrs i ks)"
    by (auto simp: identity_fits_def list_all_iff case_prod_unfold dest!: subsetD)
  have "distinct (folded_attrs i ks)"
    by (simp add: folded_attrs_set)
  then have "length (folded_attrs i ks) \<le> length (pi_attributes i)"
    using sub by (metis card_length card_mono distinct_card finite_set le_trans)
  with assms show "length (folded_attrs i ks) < 2 ^ 64"
    by (simp add: identity_fits_def)
qed

lemma hash_preimage_counted:
  "hash_preimage i ks =
     ''mcpg.identity_hash.v3'' @ [CHR 0x00] @
     feed ''kind'' (pi_kind i) @ feed ''trust_level'' (pi_trust_level i) @
     feed ''subject_id'' (unwrap_or_empty (pi_subject_id i)) @
     feed ''auth_provider'' (unwrap_or_empty (pi_auth_provider i)) @
     feed ''issuer'' (unwrap_or_empty (pi_issuer i)) @
     counted (feed ''role'') (sort (pi_roles i)) @
     counted (feed ''group'') (sort (pi_groups i)) @
     counted (feed ''scope'') (sort (pi_scopes i)) @
     counted feed_attr (folded_attrs i ks) @ []"
  by (simp add: hash_preimage_def feed_list_def counted_def Let_def)

lemma preimage_canonical:
  assumes "identity_fits i" and "identity_fits j"
  shows "hash_preimage i ks = hash_preimage j ls \<longleftrightarrow> canonical_identity i ks = canonical_identity j ls"
proof -
  note fits = assms [unfolded identity_fits_def]
  have lists: "counted (feed l) (sort xs) @ r = counted (feed l) (sort ys) @ s \<longleftrightarrow> mset xs = mset ys \<and> r = s"
    if "list_all short xs" "length xs < 2 ^ 64" "list_all short ys" "length ys < 2 ^ 64" for l xs ys r s
    using feed_code.counted_split [of "sort xs" "sort ys" l r s] that
    by (simp add: list_all_iff sort_eq_iff_mset)
  have attrs: "counted feed_attr (folded_attrs i ks) @ r = counted feed_attr (folded_attrs j ls) @ s \<longleftrightarrow>
      canonical_attrs i ks = canonical_attrs j ls \<and> r = s" for r s
    using feed_attr_code.counted_split [OF folded_attrs_fit(1) [OF assms(1)] folded_attrs_fit(1) [OF assms(2)]
        folded_attrs_fit(2) [OF assms(1)] folded_attrs_fit(2) [OF assms(2)]]
    by (simp add: folded_attrs_eq)
  show ?thesis
    using fits unfolding hash_preimage_counted canonical_identity_def
    by (simp add: feed_split lists attrs [of "[]" "[]", simplified])
qed

text \<open>
  C1: The bytes that are hashed encode the canonical identity without ambiguity: two calls
  feed the digest the same bytes exactly when the normalised fields agree, roles, groups and
  scopes agree up to order, and the folded attributes agree. Neither moving a boundary
  between fields nor reordering a list can make two identities collide before the digest.
\<close>

theorem hash_preimage_exact:
  assumes "identity_fits i" and "identity_fits j"
  shows "hash_preimage i ks = hash_preimage j ls \<longleftrightarrow> canonical_identity i ks = canonical_identity j ls"
  by (rule preimage_canonical [OF assms])

definition sample_identity :: plugin_identity where
  "sample_identity = \<lparr>pi_kind = ''verified'', pi_trust_level = ''verified'', pi_subject_id = Some ''a'',
     pi_auth_provider = None, pi_issuer = Some ''b'', pi_roles = [''r1'', ''r2''], pi_groups = [],
     pi_scopes = [''s''],
     pi_attributes = [(''subject_token'', ''t1''), (''subject_token_binding'', ''b1''),
       (''subject_token_source'', ''idp_vault'')]\<rparr>"

theorem hash_preimage_exact_witness:
  "hash_preimage sample_identity [''tenant''] =
     hash_preimage (sample_identity\<lparr>pi_roles := [''r2'', ''r1''], pi_auth_provider := Some []\<rparr>) [] \<and>
   hash_preimage sample_identity [] \<noteq>
     hash_preimage (sample_identity\<lparr>pi_subject_id := Some ''ab'', pi_issuer := Some []\<rparr>) []"
proof -
  have fits: "identity_fits sample_identity"
    "identity_fits (sample_identity\<lparr>pi_roles := [''r2'', ''r1''], pi_auth_provider := Some []\<rparr>)"
    "identity_fits (sample_identity\<lparr>pi_subject_id := Some ''ab'', pi_issuer := Some []\<rparr>)"
    by (simp_all add: identity_fits_def sample_identity_def short_def unwrap_or_empty_def)
  have "canonical_identity sample_identity [''tenant''] =
      canonical_identity (sample_identity\<lparr>pi_roles := [''r2'', ''r1''], pi_auth_provider := Some []\<rparr>) []"
    by (auto simp: canonical_identity_def canonical_attrs_def folded_keys_def subject_key_def vault_binding_def
        sample_identity_def unwrap_or_empty_def restrict_map_def fun_eq_iff
        SUBJECT_TOKEN_ATTRIBUTE_def SUBJECT_TOKEN_SOURCE_ATTRIBUTE_def SUBJECT_TOKEN_SOURCE_IDP_VAULT_def
        SUBJECT_TOKEN_BINDING_ATTRIBUTE_def)
  moreover have "canonical_identity sample_identity [] \<noteq>
      canonical_identity (sample_identity\<lparr>pi_subject_id := Some ''ab'', pi_issuer := Some []\<rparr>) []"
    by (simp add: canonical_identity_def sample_identity_def unwrap_or_empty_def)
  ultimately show ?thesis
    using hash_preimage_exact [OF fits(1) fits(2)] hash_preimage_exact [OF fits(1) fits(3)] by blast
qed

text \<open>
  C27: A credential cached for a stored sign-in outlives the rotation of its token: while the
  vault binding is in force, replacing the subject token changes no hash, whatever attributes
  the operator folds in and whatever the digest.
\<close>

theorem vault_rotation_keeps_hash:
  assumes "bt_wf (pi_attributes i)" and "vault_binding i"
  shows "identity_hash_with_attrs sha hex
      (i\<lparr>pi_attributes := bt_insert SUBJECT_TOKEN_ATTRIBUTE t (pi_attributes i)\<rparr>) ks
    = identity_hash_with_attrs sha hex i ks"
proof -
  let ?j = "i\<lparr>pi_attributes := bt_insert SUBJECT_TOKEN_ATTRIBUTE t (pi_attributes i)\<rparr>"
  have "vault_binding ?j"
    using assms by (simp add: vault_binding_def bt_get_insert SUBJECT_TOKEN_ATTRIBUTE_def
        SUBJECT_TOKEN_SOURCE_ATTRIBUTE_def SUBJECT_TOKEN_BINDING_ATTRIBUTE_def)
  then have "canonical_attrs ?j ks = canonical_attrs i ks"
    using assms by (auto simp: canonical_attrs_def folded_keys_def subject_key_def bt_get_insert
        restrict_map_def fun_eq_iff SUBJECT_TOKEN_ATTRIBUTE_def SUBJECT_TOKEN_BINDING_ATTRIBUTE_def)
  then have "folded_attrs ?j ks = folded_attrs i ks" by (simp add: folded_attrs_eq)
  then show ?thesis by (simp add: identity_hash_with_attrs_def hash_preimage_def)
qed

theorem vault_rotation_keeps_hash_witness:
  "identity_hash_with_attrs rev id (sample_identity\<lparr>pi_attributes := [(''subject_token'', ''t2''),
       (''subject_token_binding'', ''b1''), (''subject_token_source'', ''idp_vault'')]\<rparr>) [''subject_token'']
   = identity_hash_with_attrs rev id sample_identity [''subject_token'']"
proof -
  have "bt_wf (pi_attributes sample_identity)" "vault_binding sample_identity"
    by code_simp+
  from vault_rotation_keeps_hash [OF this, of rev id "''t2''" "[''subject_token'']"] show ?thesis
    by (simp add: sample_identity_def SUBJECT_TOKEN_ATTRIBUTE_def)
qed

text \<open>
  C9: Two bearers never share a cached credential: outside a vault sign-in, two callers with
  different subject tokens get different hashes, even when every resolved field matches and
  whatever the operator folds in, as long as the digest and its printing do not confuse the
  two preimages.
\<close>

theorem bearer_tokens_separate:
  assumes "identity_fits i" and "identity_fits j"
    and "\<not> vault_binding i" and "\<not> vault_binding j"
    and "bt_get (pi_attributes i) SUBJECT_TOKEN_ATTRIBUTE \<noteq> bt_get (pi_attributes j) SUBJECT_TOKEN_ATTRIBUTE"
    and "hex (sha (hash_preimage i ks)) = hex (sha (hash_preimage j ks)) \<Longrightarrow>
      hash_preimage i ks = hash_preimage j ks"
  shows "identity_hash_with_attrs sha hex i ks \<noteq> identity_hash_with_attrs sha hex j ks"
proof -
  have "canonical_attrs k ks SUBJECT_TOKEN_ATTRIBUTE = bt_get (pi_attributes k) SUBJECT_TOKEN_ATTRIBUTE"
    if "\<not> vault_binding k" for k
    using that by (simp add: canonical_attrs_def folded_keys_def subject_key_def)
  from this [OF assms(3)] this [OF assms(4)] assms(5)
  have "canonical_attrs i ks \<noteq> canonical_attrs j ks" by metis
  then have "canonical_identity i ks \<noteq> canonical_identity j ks"
    by (simp add: canonical_identity_def)
  then show ?thesis
    using preimage_canonical [OF assms(1,2)] assms(6) by (auto simp: identity_hash_with_attrs_def)
qed

theorem bearer_tokens_separate_witness:
  "identity_hash rev id (sample_identity\<lparr>pi_attributes := [(''subject_token'', ''t1'')]\<rparr>)
    \<noteq> identity_hash rev id (sample_identity\<lparr>pi_attributes := [(''subject_token'', ''t2'')]\<rparr>)"
  unfolding identity_hash_def
  by (rule bearer_tokens_separate)
    (simp_all add: identity_fits_def sample_identity_def short_def unwrap_or_empty_def vault_binding_def
      SUBJECT_TOKEN_ATTRIBUTE_def SUBJECT_TOKEN_SOURCE_ATTRIBUTE_def)

end
