(* ===== verification/Redact.thy ===== *)
theory Redact
  imports Json
begin

section \<open>Redaction\<close>

text \<open>
  \<open>src/src/redact.rs\<close>: removing the userinfo of a URL, withholding query and header
  values, and scrubbing the URLs inside a text or the strings of a JSON value.
\<close>

definition REDACTED :: string where
  "REDACTED = ''[redacted]''"

definition redact_header_values :: "(string \<times> string) list \<Rightarrow> (string \<times> string) list" where
  "redact_header_values headers = bt_collect (map (\<lambda>nm. (nm, REDACTED)) (map fst headers))"

text \<open>The text after the last occurrence of a character: what follows \<open>rfind\<close>.\<close>

fun after_last :: "char \<Rightarrow> string \<Rightarrow> string option" where
  "after_last c [] = None"
| "after_last c (x # xs) =
     (case after_last c xs of Some r \<Rightarrow> Some r | None \<Rightarrow> if x = c then Some xs else None)"

definition is_authority :: "char \<Rightarrow> bool" where
  "is_authority c \<longleftrightarrow> c \<notin> {CHR ''/'', CHR ''?'', CHR ''#''}"

definition redact_url_password :: "string \<Rightarrow> string" where
  "redact_url_password url =
     (case split_once_str ''://'' url of
        None \<Rightarrow> url
      | Some (scheme, rest) \<Rightarrow>
          let authority = takeWhile is_authority rest in
          (case after_last CHR ''@'' authority of
             Some host \<Rightarrow> scheme @ ''://'' @ host @ dropWhile is_authority rest
           | None \<Rightarrow> url))"

definition redact_pair :: "string \<Rightarrow> string" where
  "redact_pair p =
     (case split_once CHR ''='' p of
        Some (nm, _) \<Rightarrow> nm @ ''='' @ REDACTED
      | None \<Rightarrow> p)"

definition redact_url_for_display :: "string \<Rightarrow> string" where
  "redact_url_for_display raw =
     (let url = redact_url_password raw;
          (before_fragment, fragment) =
            (case split_once CHR ''#'' url of
               Some (before, fragment) \<Rightarrow> (before, Some fragment)
             | None \<Rightarrow> (url, None))
      in case split_once CHR ''?'' before_fragment of
           None \<Rightarrow> url
         | Some (base, query) \<Rightarrow>
             let query' = join ''&'' (map redact_pair (split_char CHR ''&'' query)) in
             (case fragment of
                Some fragment \<Rightarrow> base @ ''?'' @ query' @ ''#'' @ fragment
              | None \<Rightarrow> base @ ''?'' @ query'))"

definition is_trailing_punct :: "char \<Rightarrow> bool" where
  "is_trailing_punct c \<longleftrightarrow>
     c \<in> set [CHR '')'', CHR '']'', CHR ''}'', CHR ''>'', CHR '','', CHR ''.'', CHR '';'', CHR '':'', CHR 0x22, CHR 0x27]"

definition split_trailing_punct :: "string \<Rightarrow> string \<times> string" where
  "split_trailing_punct tok =
     (let trail = rev (takeWhile is_trailing_punct (rev tok))
      in (take (length tok - length trail) tok, trail))"

definition redact_token :: "string \<Rightarrow> string" where
  "redact_token tok =
     (case split_trailing_punct tok of (core, trail) \<Rightarrow>
        if split_once_str ''://'' core \<noteq> None then
          let redacted = redact_url_password core in
          if redacted = core then tok else redacted @ trail
        else tok)"

definition redact_in_text :: "string \<Rightarrow> string" where
  "redact_in_text txt = join '' '' (map redact_token (split_whitespace txt))"

fun redact_value :: "json \<Rightarrow> json" where
  "redact_value (JString s) = (let red = redact_in_text s in if red \<noteq> s then JString red else JString s)"
| "redact_value (JArray items) = JArray (map redact_value items)"
| "redact_value (JObject m) = JObject (map (\<lambda>(k, v). (k, redact_value v)) m)"
| "redact_value v = v"

subsection \<open>One URL\<close>

lemma after_last_None [simp]: "after_last c s = None \<longleftrightarrow> c \<notin> set s"
  by (induction s) (auto split: option.splits)

lemma after_last_absent [simp]: "c \<notin> set s \<Longrightarrow> after_last c s = None"
  by simp

lemma after_last_Some: "after_last c s = Some h \<longleftrightarrow> (\<exists>u. s = u @ c # h) \<and> c \<notin> set h"
proof (induction s arbitrary: h)
  case (Cons x s)
  show ?case
  proof (cases "after_last c s")
    case None
    then have "c \<notin> set s" by simp
    then show ?thesis using None by (auto simp: Cons_eq_append_conv)
  next
    case (Some r)
    then have "c \<in> set s" using after_last_None [of c s] by auto
    then show ?thesis using Some Cons.IH [of h] Cons.IH [of r] by (auto simp: Cons_eq_append_conv)
  qed
qed simp

lemma after_last_append [simp]: "c \<notin> set h \<Longrightarrow> after_last c (u @ c # h) = Some h"
  by (auto simp: after_last_Some)

text \<open>\<open>scheme\<close> is followed by the first \<open>://\<close> of the text it starts.\<close>

definition first_scheme :: "string \<Rightarrow> bool" where
  "first_scheme s \<longleftrightarrow> split_once_str ''://'' (s @ ''://'') = Some (s, [])"

lemma first_scheme_split: "first_scheme s \<Longrightarrow> split_once_str ''://'' (s @ ''://'' @ r) = Some (s, r)"
  unfolding first_scheme_def by (rule split_once_str_extend)

lemma split_once_str_first: "split_once_str ''://'' t = Some (s, r) \<Longrightarrow> first_scheme s"
proof (induction t arbitrary: s)
  case (Cons x xs)
  show ?case
  proof (cases "starts_with (x # xs) ''://''")
    case True
    with Cons.prems show ?thesis by (simp add: first_scheme_def starts_with_def)
  next
    case False
    then obtain s' where s': "s = x # s'" "split_once_str ''://'' xs = Some (s', r)"
      using Cons.prems by auto
    have "\<not> starts_with (x # s' @ ''://'') ''://''"
    proof
      assume "starts_with (x # s' @ ''://'') ''://''"
      then have "starts_with ((x # s' @ ''://'') @ r) ''://''"
        using starts_with_iff append_assoc by metis
      with False split_once_str_Some [OF s'(2)] show False by simp
    qed
    with Cons.IH [OF s'(2)] show ?thesis by (simp add: first_scheme_def s'(1))
  qed
qed simp

text \<open>What ends an authority: nothing, or a path, a query or a fragment.\<close>

definition authority_end :: "string \<Rightarrow> bool" where
  "authority_end t \<longleftrightarrow> t = [] \<or> \<not> is_authority (hd t)"

lemma authority_split:
  assumes "list_all is_authority a" and "authority_end t"
  shows "takeWhile is_authority (a @ t) = a" and "dropWhile is_authority (a @ t) = t"
  using assms by (cases t; auto simp: authority_end_def list_all_iff takeWhile_append dropWhile_append)+

lemma at_is_authority [simp]: "is_authority CHR ''@''"
  by (simp add: is_authority_def)

lemma redact_url_userinfo:
  assumes "first_scheme s" "list_all is_authority u" "list_all is_authority h" "CHR ''@'' \<notin> set h" "authority_end t"
  shows "redact_url_password (s @ ''://'' @ u @ ''@'' @ h @ t) = s @ ''://'' @ h @ t"
proof -
  have "list_all is_authority (u @ ''@'' @ h)" using assms by simp
  from authority_split [OF this assms(5)]
  have "takeWhile is_authority (u @ ''@'' @ h @ t) = u @ ''@'' @ h"
    "dropWhile is_authority (u @ ''@'' @ h @ t) = t" by simp_all
  with assms show ?thesis
    using first_scheme_split [OF assms(1), of "u @ ''@'' @ h @ t"] by (simp add: redact_url_password_def)
qed

lemma redact_url_plain:
  assumes "first_scheme s" "CHR ''@'' \<notin> set (takeWhile is_authority r)"
  shows "redact_url_password (s @ ''://'' @ r) = s @ ''://'' @ r"
  using first_scheme_split [OF assms(1), of r] assms(2) by (simp add: redact_url_password_def)

lemma redact_url_cases:
  obtains "redact_url_password url = url"
  | s u h t where "url = s @ ''://'' @ u @ ''@'' @ h @ t" "first_scheme s" "list_all is_authority u"
      "list_all is_authority h" "CHR ''@'' \<notin> set h" "authority_end t"
proof (cases "redact_url_password url = url")
  case False
  then obtain s r where sr: "split_once_str ''://'' url = Some (s, r)"
    by (cases "split_once_str ''://'' url") (auto simp: redact_url_password_def)
  with False obtain host where host: "after_last CHR ''@'' (takeWhile is_authority r) = Some host"
    by (cases "after_last CHR ''@'' (takeWhile is_authority r)") (simp_all add: redact_url_password_def)
  then obtain u where u: "takeWhile is_authority r = u @ CHR ''@'' # host" "CHR ''@'' \<notin> set host"
    by (auto simp: after_last_Some)
  have auth: "list_all is_authority (u @ CHR ''@'' # host)"
    unfolding u(1) [symmetric] by (auto simp: list_all_iff dest: set_takeWhileD)
  have "r = (u @ CHR ''@'' # host) @ dropWhile is_authority r"
    unfolding u(1) [symmetric] by simp
  then have "url = s @ ''://'' @ u @ ''@'' @ host @ dropWhile is_authority r"
    using split_once_str_Some [OF sr] by simp
  moreover have "authority_end (dropWhile is_authority r)"
    using hd_dropWhile [of is_authority r] by (cases "dropWhile is_authority r = []") (auto simp: authority_end_def)
  ultimately show ?thesis
    using that(2) split_once_str_first [OF sr] auth u(2) by auto
qed

text \<open>
  C4: \<open>redact_url_password\<close> removes exactly the userinfo: between the first \<open>://\<close> and
  the last at sign of the authority everything goes, whatever it holds, and scheme, host and
  all that follows the authority stay, even if they hold at signs or further URLs. A second
  pass changes nothing.
\<close>

theorem redact_url_exact:
  assumes "first_scheme s" and "list_all is_authority u" and "list_all is_authority h"
    and "CHR ''@'' \<notin> set h" and "authority_end t"
  shows "redact_url_password (s @ ''://'' @ u @ ''@'' @ h @ t) = s @ ''://'' @ h @ t \<and>
    redact_url_password (s @ ''://'' @ h @ t) = s @ ''://'' @ h @ t"
  using redact_url_userinfo [OF assms] redact_url_plain [OF assms(1), of "h @ t"]
    authority_split [OF assms(3,5)] assms(4) by simp

theorem redact_url_exact_witness:
  "redact_url_password ''https://u:p@db:1/x?e=a@b'' = ''https://db:1/x?e=a@b''"
  using redact_url_exact [of "''https''" "''u:p''" "''db:1''" "''/x?e=a@b''"]
  by (simp add: first_scheme_def starts_with_def is_authority_def authority_end_def)

subsection \<open>Display form\<close>

fun pair_text :: "string \<times> string option \<Rightarrow> string" where
  "pair_text (k, None) = k"
| "pair_text (k, Some v) = k @ ''='' @ v"

definition query_text :: "(string \<times> string option) list \<Rightarrow> string" where
  "query_text qs = join ''&'' (map pair_text qs)"

definition query_ok :: "(string \<times> string option) list \<Rightarrow> bool" where
  "query_ok qs \<longleftrightarrow> qs \<noteq> [] \<and>
     list_all (\<lambda>q. CHR ''='' \<notin> set (fst q) \<and> CHR ''&'' \<notin> set (pair_text q) \<and> CHR ''#'' \<notin> set (pair_text q)) qs"

definition withhold :: "(string \<times> string option) list \<Rightarrow> (string \<times> string option) list" where
  "withhold qs = map (\<lambda>(k, v). (k, map_option (\<lambda>_. REDACTED) v)) qs"

lemma redact_pair_text: "CHR ''='' \<notin> set k \<Longrightarrow> redact_pair (pair_text (k, v)) = pair_text (k, map_option (\<lambda>_. REDACTED) v)"
  by (cases v) (simp_all add: redact_pair_def)

lemma redact_query:
  assumes "query_ok qs"
  shows "join ''&'' (map redact_pair (split_char CHR ''&'' (query_text qs))) = query_text (withhold qs)"
proof -
  have "split_char CHR ''&'' (query_text qs) = map pair_text qs"
    unfolding query_text_def using assms by (intro split_char_join) (auto simp: query_ok_def list_all_iff)
  moreover have "map redact_pair (map pair_text qs) = map pair_text (withhold qs)"
    using assms by (auto simp: query_ok_def list_all_iff withhold_def redact_pair_text)
  ultimately show ?thesis by (simp add: query_text_def)
qed

lemma set_join: "x \<in> set (join sep xs) \<Longrightarrow> x \<in> set sep \<or> (\<exists>y \<in> set xs. x \<in> set y)"
  by (induction sep xs rule: join.induct) auto

lemma query_text_free: "query_ok qs \<Longrightarrow> CHR ''#'' \<notin> set (query_text qs)"
  using set_join [of "CHR ''#''" "''&''" "map pair_text qs"]
  by (auto simp: query_text_def query_ok_def list_all_iff simp del: pair_text.simps)

text \<open>The parts of a URL that may be absent.\<close>

definition userinfo :: "string option \<Rightarrow> string" where
  "userinfo u = (case u of None \<Rightarrow> [] | Some x \<Rightarrow> x @ ''@'')"

definition url_part :: "char \<Rightarrow> string option \<Rightarrow> string" where
  "url_part c x = (case x of None \<Rightarrow> [] | Some y \<Rightarrow> c # y)"

lemma redact_url_optional:
  assumes "first_scheme s" and "list_all is_authority (userinfo u)" and "list_all is_authority h"
    and "CHR ''@'' \<notin> set h" and "authority_end t"
  shows "redact_url_password (s @ ''://'' @ userinfo u @ h @ t) = s @ ''://'' @ h @ t"
proof (cases u)
  case None
  then show ?thesis
    using redact_url_plain [OF assms(1), of "h @ t"] authority_split [OF assms(3,5)] assms(4)
    by (simp add: userinfo_def)
next
  case (Some x)
  then show ?thesis
    using redact_url_userinfo [OF assms(1) _ assms(3-5), of x] assms(2) by (simp add: userinfo_def)
qed

lemma display_parts:
  assumes "redact_url_password raw = base @ url_part CHR ''?'' (map_option query_text qs) @ url_part CHR ''#'' frag"
    and "CHR ''?'' \<notin> set base" and "CHR ''#'' \<notin> set base" and "pred_option query_ok qs"
  shows "redact_url_for_display raw =
    base @ url_part CHR ''?'' (map_option (\<lambda>q. query_text (withhold q)) qs) @ url_part CHR ''#'' frag"
proof -
  let ?b = "base @ url_part CHR ''?'' (map_option query_text qs)"
  have hash: "CHR ''#'' \<notin> set ?b"
    using assms(3,4) query_text_free by (cases qs) (auto simp: url_part_def)
  have frag: "(case split_once CHR ''#'' (?b @ url_part CHR ''#'' frag) of
      Some (before, f) \<Rightarrow> (before, Some f) | None \<Rightarrow> (?b @ url_part CHR ''#'' frag, None)) = (?b, frag)"
  proof (cases frag)
    case (Some f)
    then show ?thesis using split_once_append [OF hash, of f] by (simp add: url_part_def)
  qed (use hash in \<open>simp add: url_part_def\<close>)
  have raw: "redact_url_password raw = ?b @ url_part CHR ''#'' frag" using assms(1) by simp
  show ?thesis
  proof (cases qs)
    case None
    have "split_once CHR ''?'' ?b = None" using assms(2) None by (simp add: url_part_def)
    then show ?thesis
      unfolding redact_url_for_display_def Let_def raw frag prod.case by (simp add: None url_part_def)
  next
    case (Some q)
    have "split_once CHR ''?'' ?b = Some (base, query_text q)"
      using split_once_append [OF assms(2)] Some by (simp add: url_part_def)
    moreover have "query_ok q" using assms(4) Some by simp
    ultimately show ?thesis
      unfolding redact_url_for_display_def Let_def raw frag prod.case
      by (cases frag) (simp_all add: redact_query Some url_part_def)
  qed
qed

text \<open>
  C35: The display form of a URL withholds the userinfo and every query value and keeps scheme,
  host, path, query names, flags without value, and fragment, whichever of userinfo, query and
  fragment the URL has: the result is a function of the kept parts alone.
\<close>

theorem redact_display_exact:
  assumes "first_scheme s" and "CHR ''?'' \<notin> set s" and "CHR ''#'' \<notin> set s"
    and "list_all is_authority (userinfo u)" and "list_all is_authority h" and "CHR ''@'' \<notin> set h"
    and "p = [] \<or> hd p = CHR ''/''" and "CHR ''?'' \<notin> set p" and "CHR ''#'' \<notin> set p"
    and "pred_option query_ok qs"
  shows "redact_url_for_display
      (s @ ''://'' @ userinfo u @ h @ p @ url_part CHR ''?'' (map_option query_text qs) @ url_part CHR ''#'' frag) =
    s @ ''://'' @ h @ p @ url_part CHR ''?'' (map_option (\<lambda>q. query_text (withhold q)) qs) @ url_part CHR ''#'' frag"
proof -
  let ?t = "p @ url_part CHR ''?'' (map_option query_text qs) @ url_part CHR ''#'' frag"
  let ?base = "s @ ''://'' @ h @ p"
  have "authority_end ?t"
    using assms(7) by (cases p; cases qs; cases frag) (auto simp: authority_end_def is_authority_def url_part_def)
  then have "redact_url_password (s @ ''://'' @ userinfo u @ h @ ?t) = s @ ''://'' @ h @ ?t"
    by (rule redact_url_optional [OF assms(1,4-6)])
  moreover have "CHR ''?'' \<notin> set ?base" "CHR ''#'' \<notin> set ?base"
    using assms by (auto simp: list_all_iff is_authority_def)
  ultimately show ?thesis
    using display_parts [of _ ?base qs frag] assms(10) by simp
qed

theorem redact_display_exact_witness:
  "redact_url_for_display ''https://u:p@db/x?token=s3cr&flag&k=#f'' =
     ''https://db/x?token=[redacted]&flag&k=[redacted]#f'' \<and>
   redact_url_for_display ''https://db/x?token=s3cr'' = ''https://db/x?token=[redacted]''"
  using redact_display_exact [of "''https''" "Some ''u:p''" "''db''" "''/x''"
      "Some [(''token'', Some ''s3cr''), (''flag'', None), (''k'', Some [])]" "Some ''f''"]
    redact_display_exact [of "''https''" None "''db''" "''/x''" "Some [(''token'', Some ''s3cr'')]" None]
  by (simp add: first_scheme_def starts_with_def is_authority_def query_ok_def query_text_def withhold_def
      REDACTED_def userinfo_def url_part_def)

text \<open>
  Of the headers of a request only the names are shown: the result has the same names and
  no value but the placeholder, so it is the same for any two requests with the same names.
\<close>

theorem redact_headers_exact:
  "bt_get (redact_header_values hs) = (\<lambda>k. if bt_get hs k = None then None else Some REDACTED) \<and>
   bt_wf (redact_header_values hs)"
proof -
  have "bt_get (redact_header_values hs) k = (if bt_get hs k = None then None else Some REDACTED)" for k
  proof -
    have "map_of (rev (map (\<lambda>nm. (nm, REDACTED)) ns)) k = (if k \<in> set ns then Some REDACTED else None)" for ns
      by (induction ns) (auto simp: map_add_def split: option.splits)
    from this [of "map fst hs"] show ?thesis
      using bt_get_key [of k hs] unfolding redact_header_values_def bt_get_collect by auto
  qed
  then show ?thesis by (auto simp: redact_header_values_def bt_wf_collect)
qed

subsection \<open>Whitespace\<close>

definition ws_free :: "string \<Rightarrow> bool" where
  "ws_free s \<longleftrightarrow> (\<forall>k < length s. ws_len (drop k s) = 0)"

lemma ws_len_prefix: "ws_len (a @ b) = 0 \<Longrightarrow> ws_len a = 0"
  by (cases a rule: list.exhaust; cases "tl a"; cases "tl (tl a)"; cases b)
    (auto simp: ws_len_def split: if_splits list.splits)

text \<open>An ASCII character that is no whitespace is part of no whitespace sequence.\<close>

definition graphic :: "char \<Rightarrow> bool" where
  "graphic c \<longleftrightarrow> 32 < (of_char c :: nat) \<and> (of_char c :: nat) < 128"

lemma ws_len_ascii: "(of_char c :: nat) < 128 \<Longrightarrow> a \<noteq> [] \<Longrightarrow> ws_len a = 0 \<Longrightarrow> ws_len (a @ c # b) = 0"
proof -
  assume c: "(of_char c :: nat) < 128" and "a \<noteq> []" and ws: "ws_len a = 0"
  have no2: "\<not> ws_seq2 x (of_char c)" and no3: "\<not> ws_seq3 x (of_char c) y" "\<not> ws_seq3 x y (of_char c)" for x y
    using c by (auto simp: ws_seq2_def ws_seq3_def)
  obtain x a' where a: "a = x # a'" using \<open>a \<noteq> []\<close> by (cases a) auto
  consider "a' = []" | y where "a' = [y]" | y z a'' where "a' = y # z # a''"
    by (metis neq_Nil_conv)
  then show ?thesis
    using ws no2 no3 by cases (auto simp: a ws_len_def split: if_splits list.splits)
qed

lemma ws_len_graphic: "graphic c \<Longrightarrow> ws_len (c # b) = 0"
  by (auto simp: graphic_def ws_len_def ws_seq2_def ws_seq3_def split: list.splits)

lemma ws_free_append:
  assumes "ws_free (a @ [c])" and "graphic c" and "ws_free b"
  shows "ws_free (a @ c # b)"
  unfolding ws_free_def
proof (intro allI impI)
  fix k
  assume k: "k < length (a @ c # b)"
  consider "k < length a" | "k = length a" | j where "k = Suc (length a + j)" "j < length b"
    using k that(3) [of "k - Suc (length a)"] by (cases "k < length a"; cases "k = length a") auto
  then show "ws_len (drop k (a @ c # b)) = 0"
  proof cases
    case 1
    then have "ws_len (drop k a @ [c]) = 0" using assms(1) by (force simp: ws_free_def)
    then have "ws_len (drop k a) = 0" by (rule ws_len_prefix)
    with 1 assms(2) show ?thesis by (simp add: ws_len_ascii graphic_def)
  next
    case 2
    then show ?thesis using assms(2) by (simp add: ws_len_graphic)
  next
    case 3
    then show ?thesis using assms(3) by (simp add: ws_free_def)
  qed
qed

lemma ws_free_prefix: "ws_free (a @ b) \<Longrightarrow> ws_free a"
  unfolding ws_free_def
proof (intro allI impI)
  fix k
  assume h: "\<forall>k < length (a @ b). ws_len (drop k (a @ b)) = 0" and k: "k < length a"
  from h [rule_format, of k] k have "ws_len (drop k (a @ b)) = 0" by simp
  with k show "ws_len (drop k a) = 0" by (simp add: ws_len_prefix)
qed

lemma ws_free_suffix: "ws_free (a @ b) \<Longrightarrow> ws_free b"
  unfolding ws_free_def
proof (intro allI impI)
  fix k
  assume h: "\<forall>k < length (a @ b). ws_len (drop k (a @ b)) = 0" and k: "k < length b"
  from h [rule_format, of "length a + k"] k have "ws_len (drop (length a + k) (a @ b)) = 0" by simp
  then show "ws_len (drop k b) = 0" by simp
qed

text \<open>The tokens of a text are non-empty and hold no whitespace.\<close>

lemma split_ws_tokens:
  assumes "\<And>k. k < length cur \<Longrightarrow> ws_len (drop k (rev cur) @ s) = 0" and "t \<in> set (split_ws cur s)"
  shows "t \<noteq> [] \<and> ws_free t"
  using assms
proof (induction cur s rule: split_ws.induct)
  case (1 cur)
  then show ?case by (auto simp: ws_free_def split: if_splits)
next
  case (2 cur x xs)
  show ?case
  proof (cases "ws_len (x # xs) = 0")
    case True
    have "ws_len (drop k (rev (x # cur)) @ xs) = 0" if "k < length (x # cur)" for k
      using 2(3) [of k] True that by (cases "k = length cur") (auto simp: less_Suc_eq)
    then show ?thesis using 2(1) [OF refl True] 2(4) True by simp
  next
    case False
    have cur: "ws_free (rev cur)"
      using 2(3) ws_len_prefix by (auto simp: ws_free_def)
    show ?thesis using 2(2) [OF refl False] 2(4) False cur by (auto simp: Let_def split: if_splits)
  qed
qed

lemma tokens_ws_free: "t \<in> set (split_whitespace s) \<Longrightarrow> t \<noteq> [] \<and> ws_free t"
  unfolding split_whitespace_def by (rule split_ws_tokens) simp_all

lemma split_ws_token:
  assumes "ws_free t" and "r = [] \<or> (\<exists>b. r = CHR '' '' # b)"
  shows "split_ws cur (t @ r) = split_ws (rev t @ cur) r"
  using assms(1)
proof (induction t arbitrary: cur)
  case (Cons x t)
  have "ws_len (x # t) = 0" using Cons.prems by (force simp: ws_free_def)
  then have "ws_len (x # t @ r) = 0"
    using assms(2) ws_len_ascii [of "CHR '' ''" "x # t"] by auto
  moreover have "ws_free t" using Cons.prems ws_free_suffix [of "[x]" t] by simp
  ultimately show ?case using Cons.IH [of "x # cur"] by simp
qed simp

lemma split_join_tokens:
  "list_all (\<lambda>t. t \<noteq> [] \<and> ws_free t) ts \<Longrightarrow> split_whitespace (join '' '' ts) = ts"
proof (induction "'' ''" ts rule: join.induct)
  case (2 t)
  then show ?case using split_ws_token [of t "[]" "[]"] by (simp add: split_whitespace_def)
next
  case (3 t u ts)
  then show ?case
    using split_ws_token [of t "'' '' @ join '' '' (u # ts)" "[]"]
    by (simp add: split_whitespace_def ws_len_def)
qed (simp add: split_whitespace_def)

subsection \<open>Tokens and texts\<close>

lemma split_trailing_exact:
  "split_trailing_punct tok = (core, trail) \<longleftrightarrow>
     tok = core @ trail \<and> list_all is_trailing_punct trail \<and> (core = [] \<or> \<not> is_trailing_punct (last core))"
proof -
  let ?t = "takeWhile is_trailing_punct (rev tok)" and ?d = "dropWhile is_trailing_punct (rev tok)"
  have tok: "tok = rev ?d @ rev ?t"
    by (metis rev_append rev_rev_ident takeWhile_dropWhile_id)
  have len: "length tok - length (rev ?t) = length (rev ?d)"
    by (metis add_diff_cancel_right' length_append tok)
  have value_: "split_trailing_punct tok = (rev ?d, rev ?t)"
    unfolding split_trailing_punct_def Let_def len
    by (metis append_eq_conv_conj tok)
  show ?thesis
  proof
    assume "split_trailing_punct tok = (core, trail)"
    then have "core = rev ?d" "trail = rev ?t" using value_ by simp_all
    moreover have "list_all is_trailing_punct (rev ?t)"
      by (auto simp: list_all_iff dest: set_takeWhileD)
    moreover have "?d = [] \<or> \<not> is_trailing_punct (last (rev ?d))"
      using hd_dropWhile [of is_trailing_punct "rev tok"] by (auto simp: last_rev)
    ultimately show "tok = core @ trail \<and> list_all is_trailing_punct trail \<and> (core = [] \<or> \<not> is_trailing_punct (last core))"
      using tok by simp
  next
    assume r: "tok = core @ trail \<and> list_all is_trailing_punct trail \<and> (core = [] \<or> \<not> is_trailing_punct (last core))"
    then have "rev tok = rev trail @ rev core" by simp
    moreover have "takeWhile is_trailing_punct (rev core) = []" "dropWhile is_trailing_punct (rev core) = rev core"
      using r by (cases core rule: rev_cases; simp)+
    ultimately have "?t = rev trail" "?d = rev core"
      using r by (simp_all add: takeWhile_append dropWhile_append list_all_iff)
    with value_ show "split_trailing_punct tok = (core, trail)" by simp
  qed
qed

lemma redact_token_cases:
  obtains "redact_token tok = tok"
  | s u h t trail where
      "tok = s @ ''://'' @ u @ ''@'' @ h @ t @ trail" "redact_token tok = s @ ''://'' @ h @ t @ trail"
      "redact_token (s @ ''://'' @ h @ t @ trail) = s @ ''://'' @ h @ t @ trail"
proof -
  obtain core trail where ct: "split_trailing_punct tok = (core, trail)" by (cases "split_trailing_punct tok")
  note parts = ct [unfolded split_trailing_exact]
  show ?thesis
  proof (cases "split_once_str ''://'' core = None \<or> redact_url_password core = core")
    case True
    then have "redact_token tok = tok" by (auto simp: redact_token_def ct)
    then show ?thesis by (rule that(1))
  next
    case False
    then show ?thesis
    proof (cases rule: redact_url_cases [of core])
      case (2 s u h t)
      let ?core = "s @ ''://'' @ h @ t"
      have red: "redact_url_password core = ?core"
        unfolding 2(1) by (rule redact_url_userinfo [OF 2(2-6)])
      have plain: "redact_url_password ?core = ?core"
        using redact_url_plain [OF 2(2), of "h @ t"] authority_split [OF 2(4,6)] 2(5) by simp
      have "\<not> is_trailing_punct (last ?core)"
      proof (cases "h @ t = []")
        case True
        then show ?thesis by (simp add: is_trailing_punct_def)
      next
        case False
        have "last ?core = last core"
          using last_appendR [OF False, of "s @ ''://''"] last_appendR [OF False, of "s @ ''://'' @ u @ ''@''"]
          unfolding 2(1) append_assoc by argo
        with parts 2(1) show ?thesis by auto
      qed
      then have "split_trailing_punct (?core @ trail) = (?core, trail)"
        using parts by (simp add: split_trailing_exact)
      then have "redact_token (?core @ trail) = ?core @ trail"
        using plain by (simp add: redact_token_def)
      moreover have "redact_token tok = ?core @ trail"
        using False ct red by (auto simp: redact_token_def)
      moreover have "tok = s @ ''://'' @ u @ ''@'' @ h @ t @ trail"
        using parts 2(1) by simp
      ultimately show ?thesis using that(2) by simp
    qed simp
  qed
qed

lemma redact_token_idem: "redact_token (redact_token tok) = redact_token tok"
  by (rule redact_token_cases [of tok]) simp_all

lemma redact_token_ws_free:
  assumes "t \<noteq> [] \<and> ws_free t"
  shows "redact_token t \<noteq> [] \<and> ws_free (redact_token t)"
proof (cases rule: redact_token_cases [of t])
  case (2 s u h r trail)
  have "ws_free (s @ '':/'' @ [CHR ''/''])"
    using assms ws_free_prefix [of "s @ ''://''" "u @ ''@'' @ h @ r @ trail"] 2(1) by simp
  moreover have "ws_free (h @ r @ trail)"
    using assms ws_free_suffix [of "s @ ''://'' @ u @ ''@''" "h @ r @ trail"] 2(1) by simp
  ultimately have "ws_free ((s @ '':/'') @ CHR ''/'' # h @ r @ trail)"
    using ws_free_append [of "s @ '':/''" "CHR ''/''" "h @ r @ trail"] by (simp add: graphic_def)
  with 2(2) show ?thesis by simp
qed (use assms in simp)

lemma tokens_redact_in_text:
  "split_whitespace (redact_in_text txt) = map redact_token (split_whitespace txt)"
  unfolding redact_in_text_def
  by (rule split_join_tokens) (use tokens_ws_free redact_token_ws_free in \<open>auto simp: list_all_iff\<close>)

lemma redact_in_text_idem: "redact_in_text (redact_in_text txt) = redact_in_text txt"
  unfolding redact_in_text_def [of "redact_in_text txt"] tokens_redact_in_text
  by (simp add: redact_in_text_def redact_token_idem comp_def)


text \<open>
  A text in which no token holds \<open>://\<close> keeps its tokens, but not its spacing: every run
  of whitespace comes back as one blank, and leading and trailing whitespace is dropped.
\<close>

theorem redact_plain_text:
  assumes "list_all (\<lambda>tok. split_once_str ''://'' tok = None) (split_whitespace txt)"
  shows "redact_in_text txt = join '' '' (split_whitespace txt)"
proof -
  have "redact_token tok = tok" if none: "split_once_str ''://'' tok = None" for tok
  proof (rule redact_token_cases [of tok])
    fix s u h t trail
    assume tok: "tok = s @ ''://'' @ u @ ''@'' @ h @ t @ trail"
    have "split_once_str ''://'' (a @ ''://'' @ b) \<noteq> None" for a b
      by (induction a) (auto simp: starts_with_def)
    with none tok show ?thesis by blast
  qed
  with assms show ?thesis by (simp add: redact_in_text_def list_all_iff cong: map_cong)
qed

theorem redact_plain_text_witness:
  "redact_in_text ''  a   b '' = ''a b''"
  using redact_plain_text [of "''  a   b ''"] by code_simp

text \<open>The strings of a value in order, and its shape with every string blanked.\<close>

fun string_leaves :: "json \<Rightarrow> string list" where
  "string_leaves (JString s) = [s]"
| "string_leaves (JArray xs) = concat (map string_leaves xs)"
| "string_leaves (JObject m) = concat (map (\<lambda>e. string_leaves (snd e)) m)"
| "string_leaves _ = []"

fun json_shape :: "json \<Rightarrow> json" where
  "json_shape (JString s) = JString []"
| "json_shape (JArray xs) = JArray (map json_shape xs)"
| "json_shape (JObject m) = JObject (map (\<lambda>e. (fst e, json_shape (snd e))) m)"
| "json_shape v = v"

text \<open>
  Scrubbing a JSON value scrubs every string leaf at any depth and touches nothing else:
  keys, order, numbers, booleans and nulls stay, and a second pass changes nothing.
\<close>

theorem redact_value_exact:
  "string_leaves (redact_value v) = map redact_in_text (string_leaves v) \<and>
   json_shape (redact_value v) = json_shape v \<and>
   redact_value (redact_value v) = redact_value v"
proof (induction v)
  case (JArray xs)
  then show ?case by (simp add: map_concat comp_def cong: map_cong)
next
  case (JObject m)
  then have "string_leaves (redact_value (snd e)) = map redact_in_text (string_leaves (snd e))"
    "json_shape (redact_value (snd e)) = json_shape (snd e)"
    "redact_value (redact_value (snd e)) = redact_value (snd e)" if "e \<in> set m" for e
    using that by (cases e; fastforce)+
  then show ?case by (simp add: map_concat comp_def case_prod_unfold cong: map_cong)
qed (simp_all add: Let_def redact_in_text_idem)

end
