(* ===== verification/Envelope.thy ===== *)
theory Envelope
  imports Json
begin

section \<open>The result envelope\<close>

text \<open>
  \<open>src/src/result_envelope.rs\<close>: the \<open>{"ok": ...}\<close> / \<open>{"err": ...}\<close> text in which
  every fallible slot returns its result. The text codec of \<open>serde_json\<close> and the codecs
  of the two payload types are parameters: \<open>print\<close> writes a value, \<open>parse\<close> yields the
  entries of an object in the order of the text, repeated keys included, as they are handed
  to the visitor.
\<close>

datatype ('t, 'e) result_envelope = EnvOk 't | EnvErr 'e

fun visit_map ::
  "(json \<Rightarrow> de_error + 't) \<Rightarrow> (json \<Rightarrow> de_error + 'e) \<Rightarrow> (string \<times> json) list \<Rightarrow>
   ('t, 'e) result_envelope option \<Rightarrow> de_error + ('t, 'e) result_envelope"
where
  "visit_map de_ok de_err [] out =
     (case out of
        Some env \<Rightarrow> Inr env
      | None \<Rightarrow> Inl (DeCustom ''result envelope missing both `ok` and `err`''))"
| "visit_map de_ok de_err ((key, v) # es) out =
     (if key = ''ok'' then res_bind (de_ok v) (\<lambda>x. visit_map de_ok de_err es (Some (EnvOk x)))
      else if key = ''err'' then res_bind (de_err v) (\<lambda>e. visit_map de_ok de_err es (Some (EnvErr e)))
      else visit_map de_ok de_err es out)"

fun into_result :: "('t, 'e) result_envelope \<Rightarrow> 'e + 't" where
  "into_result (EnvOk x) = Inr x"
| "into_result (EnvErr e) = Inl e"

fun envelope_from :: "'e + 't \<Rightarrow> ('t, 'e) result_envelope" where
  "envelope_from (Inr x) = EnvOk x"
| "envelope_from (Inl e) = EnvErr e"

text \<open>The derived untagged encoder: the variant's one field.\<close>

fun encode_envelope :: "('t \<Rightarrow> json) \<Rightarrow> ('e \<Rightarrow> json) \<Rightarrow> ('t, 'e) result_envelope \<Rightarrow> json" where
  "encode_envelope en_ok en_err (EnvOk x) = json_obj [(''ok'', en_ok x)]"
| "encode_envelope en_ok en_err (EnvErr e) = json_obj [(''err'', en_err e)]"

text \<open>
  \<open>json!\<close> converts its argument with \<open>to_value\<close> and unwraps the result, so an encoder
  that fails makes it panic; a printer that fails gives the empty text.
\<close>

definition json_macro :: "string \<Rightarrow> de_error + json \<Rightarrow> panic + json" where
  "json_macro key v = (case v of Inl _ \<Rightarrow> Inl Panicked | Inr j \<Rightarrow> Inr (json_obj [(key, j)]))"

definition print_or_default :: "(json \<Rightarrow> de_error + string) \<Rightarrow> json \<Rightarrow> string" where
  "print_or_default print j = (case print j of Inl _ \<Rightarrow> [] | Inr s \<Rightarrow> s)"

definition respond_ok_rstring ::
  "(json \<Rightarrow> de_error + string) \<Rightarrow> ('t \<Rightarrow> de_error + json) \<Rightarrow> 't \<Rightarrow> panic + string" where
  "respond_ok_rstring print ser v =
     res_bind (json_macro ''ok'' (ser v)) (\<lambda>j. Inr (print_or_default print j))"

definition respond_err_rstring ::
  "(json \<Rightarrow> de_error + string) \<Rightarrow> ('e \<Rightarrow> de_error + json) \<Rightarrow> 'e \<Rightarrow> panic + string" where
  "respond_err_rstring print ser e =
     res_bind (json_macro ''err'' (ser e)) (\<lambda>j. Inr (print_or_default print j))"

definition respond_result_rstring ::
  "(json \<Rightarrow> de_error + string) \<Rightarrow> ('t \<Rightarrow> de_error + json) \<Rightarrow> ('e \<Rightarrow> de_error + json) \<Rightarrow> 'e + 't \<Rightarrow> panic + string" where
  "respond_result_rstring print ser_ok ser_err r =
     (case r of Inr x \<Rightarrow> respond_ok_rstring print ser_ok x
      | Inl e \<Rightarrow> respond_err_rstring print ser_err e)"

definition decode_result_envelope ::
  "(string \<Rightarrow> de_error + (string \<times> json) list) \<Rightarrow> (json \<Rightarrow> de_error + 't) \<Rightarrow>
   (json \<Rightarrow> de_error + 'e) \<Rightarrow> string \<Rightarrow> de_error + ('e + 't)" where
  "decode_result_envelope parse de_ok de_err s =
     res_bind (parse s) (\<lambda>es.
       res_bind (visit_map de_ok de_err es None) (\<lambda>env. Inr (into_result env)))"

subsection \<open>What the decoder answers\<close>

text \<open>One entry's contribution: nothing, a result, or a decoding error.\<close>

definition entry_result ::
  "(json \<Rightarrow> de_error + 't) \<Rightarrow> (json \<Rightarrow> de_error + 'e) \<Rightarrow> string \<times> json \<Rightarrow> (de_error + ('e + 't)) option" where
  "entry_result de_ok de_err = (\<lambda>(key, v).
     if key = ''ok'' then Some (res_bind (de_ok v) (\<lambda>x. Inr (Inr x)))
     else if key = ''err'' then Some (res_bind (de_err v) (\<lambda>e. Inr (Inl e)))
     else None)"

definition missing_both :: de_error where
  "missing_both = DeCustom ''result envelope missing both `ok` and `err`''"

lemma visit_map_results:
  "res_bind (visit_map de_ok de_err es out) (\<lambda>env. Inr (into_result env)) =
     res_bind (collect_results (List.map_filter (entry_result de_ok de_err) es)) (\<lambda>rs.
       if rs = [] then (case out of None \<Rightarrow> Inl missing_both | Some env \<Rightarrow> Inr (into_result env))
       else Inr (last rs))"
proof (induction es arbitrary: out)
  case Nil
  then show ?case by (simp add: List.map_filter_simps missing_both_def split: option.splits)
next
  case (Cons e es)
  obtain key v where e: "e = (key, v)" by (cases e)
  consider "key = ''ok''" | "key = ''err''" | "key \<noteq> ''ok''" "key \<noteq> ''err''" by blast
  then show ?case
  proof cases
    case 1
    then show ?thesis
      by (cases "de_ok v"; cases "collect_results (List.map_filter (entry_result de_ok de_err) es)")
        (simp_all add: e List.map_filter_simps entry_result_def [of de_ok de_err] Cons.IH)
  next
    case 2
    then show ?thesis
      by (cases "de_err v"; cases "collect_results (List.map_filter (entry_result de_ok de_err) es)")
        (simp_all add: e List.map_filter_simps entry_result_def [of de_ok de_err] Cons.IH)
  next
    case 3
    then show ?thesis
      by (simp add: e List.map_filter_simps entry_result_def [of de_ok de_err] Cons.IH)
  qed
qed

lemma decode_envelope:
  "decode_result_envelope parse de_ok de_err s =
     res_bind (parse s) (\<lambda>es.
       res_bind (collect_results (List.map_filter (entry_result de_ok de_err) es)) (\<lambda>rs.
         if rs = [] then Inl missing_both else Inr (last rs)))"
  by (simp add: decode_result_envelope_def visit_map_results cong: if_cong)

text \<open>
  The decoder dispatches on the keys present: it reads the \<open>ok\<close> and \<open>err\<close> entries in
  the order of the text, each with the decoder of its own side, ignores every other entry,
  reports the first entry that does not decode, takes the last one that counts, and refuses
  a text that has neither.
\<close>

theorem decode_envelope_exact:
  "decode_result_envelope parse de_ok de_err s =
     res_bind (parse s) (\<lambda>es.
       res_bind (collect_results (List.map_filter (entry_result de_ok de_err) es)) (\<lambda>rs.
         if rs = [] then Inl missing_both else Inr (last rs)))"
  by (rule decode_envelope)

text \<open>
  C12: A plugin's error is never read as a success: whatever the payload type accepts, null and
  absent values included, a text without an \<open>ok\<close> entry decodes to no success, and one with
  the single entry \<open>err\<close> decodes to the error it holds.
\<close>

theorem error_never_swallowed:
  assumes "parse s = Inr es" and "''ok'' \<notin> fst ` set es"
  shows "decode_result_envelope parse de_ok de_err s \<noteq> Inr (Inr x) \<and>
    (es = [(''err'', v)] \<and> de_err v = Inr e \<longrightarrow> decode_result_envelope parse de_ok de_err s = Inr (Inl e))"
proof
  have no: "Inr x \<notin> set rs" if "List.map_filter (entry_result de_ok de_err) es = map Inr rs" for rs
  proof
    assume "Inr x \<in> set rs"
    then have "Inr (Inr x) \<in> set (List.map_filter (entry_result de_ok de_err) es)" using that by simp
    then obtain key y where "(key, y) \<in> set es" "entry_result de_ok de_err (key, y) = Some (Inr (Inr x))"
      by (auto simp: List.map_filter_def)
    with assms(2) show False
      by (auto simp: entry_result_def res_bind_Inr image_iff split: if_splits)
  qed
  show "decode_result_envelope parse de_ok de_err s \<noteq> Inr (Inr x)"
    using no by (auto simp: decode_envelope assms(1) res_bind_Inr collect_results_Inr split: if_splits)
      (metis last_in_set)
  show "es = [(''err'', v)] \<and> de_err v = Inr e \<longrightarrow> decode_result_envelope parse de_ok de_err s = Inr (Inl e)"
    by (auto simp: decode_envelope assms(1) List.map_filter_simps entry_result_def)
qed

theorem error_never_swallowed_witness:
  "decode_result_envelope (\<lambda>_. Inr [(''err'', JString ''boom'')]) (de_option de_string) de_string
     ''{..}'' = Inr (Inl ''boom'')"
  using error_never_swallowed [of "\<lambda>_. Inr [(''err'', JString ''boom'')]" "''{..}''"
      "[(''err'', JString ''boom'')]" "de_option de_string" de_string _ "JString ''boom''" "''boom''"]
  by simp

text \<open>
  Host and plugin agree: a result whose payload its own codec brings back, and whose text
  the JSON codec brings back, is decoded from the text the plugin writes as the same result,
  success or error, a void or absent success included.
\<close>

theorem envelope_roundtrip:
  assumes "\<And>x. r = Inr x \<Longrightarrow> ser_ok x = Inr j \<and> de_ok j = Inr x"
    and "\<And>e. r = Inl e \<Longrightarrow> ser_err e = Inr j \<and> de_err j = Inr e"
    and "key = (case r of Inr _ \<Rightarrow> ''ok'' | Inl _ \<Rightarrow> ''err'')"
    and "print (json_obj [(key, j)]) = Inr s" and "parse s = Inr [(key, j)]"
  shows "respond_result_rstring print ser_ok ser_err r = Inr s \<and>
    decode_result_envelope parse de_ok de_err s = Inr r"
  using assms by (cases r)
    (simp_all add: respond_result_rstring_def respond_ok_rstring_def respond_err_rstring_def json_macro_def
      print_or_default_def decode_envelope List.map_filter_simps entry_result_def)

theorem envelope_roundtrip_witness:
  "respond_result_rstring (\<lambda>j. if j = json_obj [(''ok'', JNull)] then Inr ''t'' else Inl Syntax)
     (\<lambda>x. Inr (opt_null JString x)) (\<lambda>e. Inr (JString e)) (Inr None :: string + string option) = Inr ''t''"
  using envelope_roundtrip [of "Inr None :: string + string option" "\<lambda>x. Inr (opt_null JString x)" JNull
      "de_option de_string" "\<lambda>e. Inr (JString e)" de_string "''ok''"
      "\<lambda>j. if j = json_obj [(''ok'', JNull)] then Inr ''t'' else Inl Syntax" "''t''" "\<lambda>_. Inr [(''ok'', JNull)]"]
  by (simp add: opt_null_def)

text \<open>
  The two ways writing an envelope can fail are told apart: a payload that does not encode
  makes the helper panic, and a value that does not print gives the empty text.
\<close>

theorem respond_failures:
  "(respond_ok_rstring print ser x = Inl Panicked \<longleftrightarrow> \<not> is_ok (ser x)) \<and>
   (respond_err_rstring print ser' e = Inl Panicked \<longleftrightarrow> \<not> is_ok (ser' e)) \<and>
   (respond_ok_rstring print ser x = Inr [] \<longleftrightarrow>
      (\<exists>j. ser x = Inr j \<and> (case print (json_obj [(''ok'', j)]) of Inl _ \<Rightarrow> True | Inr t \<Rightarrow> t = [])))"
proof -
  have "is_ok v \<longleftrightarrow> (\<exists>a. v = Inr a)" for v :: "de_error + 'b" by (cases v) simp_all
  then show ?thesis
    by (cases "ser x"; cases "ser' e")
      (auto simp: respond_ok_rstring_def respond_err_rstring_def json_macro_def print_or_default_def
        split: sum.splits)
qed

end
