(* ===== verification/Schema.thy ===== *)
theory Schema
  imports Json
begin

section \<open>Schema composition\<close>

text \<open>
  \<open>merge_schema\<close> of \<open>src/src/schema.rs\<close>: an operator's overlay on a derived JSON Schema.
  The loop over the overlay's entries is \<open>merge_entries\<close>; its map is the base object,
  updated entry by entry.
\<close>

definition entries_size :: "json_map \<Rightarrow> nat" where
  "entries_size m = Suc (size_list (size_prod (\<lambda>_. 0) size) m)"

function (sequential) merge_schema :: "json \<Rightarrow> json \<Rightarrow> json"
  and merge_entries :: "json_map \<Rightarrow> json_map \<Rightarrow> json_map"
where
  "merge_schema (JObject b) (JObject o') = JObject (merge_entries b o')"
| "merge_schema base overlay = overlay"
| "merge_entries b [] = b"
| "merge_entries b ((k, v) # o') =
     (let existing = (case bt_get b k of None \<Rightarrow> JNull | Some x \<Rightarrow> x);
          removed = bt_remove k b;
          merged = (if existing = JNull then v else merge_schema existing v)
      in merge_entries (bt_insert k merged removed) o')"
  by pat_completeness auto
termination
  by (relation "measure (\<lambda>x. case x of Inl (_, v) \<Rightarrow> 2 * size v | Inr (_, m) \<Rightarrow> 2 * entries_size m - 1)")
    (auto simp: entries_size_def)

subsection \<open>Key by key\<close>

text \<open>What the merged object holds under a key, from what the two objects hold.\<close>

definition merge_key :: "json option \<Rightarrow> json option \<Rightarrow> json option" where
  "merge_key x y =
     (case y of None \<Rightarrow> x
      | Some v \<Rightarrow> (case x of None \<Rightarrow> Some v | Some e \<Rightarrow> Some (merge_schema e v)))"

lemma merge_key_simps [simp]:
  "merge_key x None = x" "merge_key None y = y" "merge_key (Some e) (Some v) = Some (merge_schema e v)"
  by (simp_all add: merge_key_def split: option.splits)

lemma merge_null [simp]: "merge_schema JNull v = v"
  by (cases v) simp_all

lemma merge_entries_step:
  "merge_entries b ((k, v) # o') =
     merge_entries (bt_insert k (case bt_get b k of None \<Rightarrow> v | Some e \<Rightarrow> merge_schema e v) (bt_remove k b)) o'"
  by (cases "bt_get b k") (simp_all add: Let_def)

declare merge_entries.simps(2) [simp del]

lemma merge_non_object: "(\<forall>m. overlay \<noteq> JObject m) \<Longrightarrow> merge_schema base overlay = overlay"
  by (cases base; cases overlay) simp_all

lemma merge_entries_get:
  "bt_wf b \<Longrightarrow> bt_wf o' \<Longrightarrow>
     bt_wf (merge_entries b o') \<and> bt_get (merge_entries b o') k = merge_key (bt_get b k) (bt_get o' k)"
proof (induction o' arbitrary: b)
  case (Cons e o')
  obtain k' v where e: "e = (k', v)" by (cases e)
  have wf: "bt_wf (bt_insert k' x (bt_remove k' b))" for x
    using Cons.prems by (intro bt_wf_insert bt_wf_remove)
  have "bt_get o' k' = None" "bt_wf o'"
    using Cons.prems(2) bt_wf_distinct by (auto simp: e bt_wf_Cons)
  then show ?case
    using Cons.IH [OF wf] Cons.prems(1)
    by (auto simp: e merge_entries_step bt_get_insert bt_wf_remove bt_get_remove split: option.splits)
qed simp

lemma merge_schema_wf: "json_wf base \<Longrightarrow> json_wf overlay \<Longrightarrow> json_wf (merge_schema base overlay)"
proof (induction overlay arbitrary: base)
  case (JObject o')
  show ?case
  proof (cases base)
    case (JObject b)
    have wf: "bt_wf b" "bt_wf o'" using JObject JObject.prems by simp_all
    have "json_wf x" if "bt_get (merge_entries b o') k = Some x" for k x
    proof -
      have x: "merge_key (bt_get b k) (bt_get o' k) = Some x"
        using merge_entries_get [OF wf, of k] that by simp
      have b: "json_wf e" if "bt_get b k = Some e" for e
        using that JObject JObject.prems(1) by (simp add: json_wf_object del: json_wf.simps)
      have o: "json_wf v" if "bt_get o' k = Some v" for v
        using that JObject.prems(2) by (simp add: json_wf_object del: json_wf.simps)
      have "json_wf (merge_schema e v)" if "json_wf e" "bt_get o' k = Some v" for e v
        using JObject.IH [OF bt_get_set [OF that(2)]] that(1) o [OF that(2)] by simp
      with x b o show ?thesis by (auto simp: merge_key_def split: option.splits)
    qed
    then show ?thesis
      using merge_entries_get [OF wf] by (simp add: JObject json_wf_object del: json_wf.simps)
  qed (use JObject.prems in simp_all)
qed (simp_all add: merge_non_object)

subsection \<open>Path by path\<close>

fun at_path :: "string list \<Rightarrow> json \<Rightarrow> json option" where
  "at_path [] v = Some v"
| "at_path (k # p) (JObject m) = Option.bind (bt_get m k) (at_path p)"
| "at_path (k # p) v = None"

text \<open>The overlay says nothing at \<open>p\<close>: it is an object down to a key it does not have.\<close>

fun silent_at :: "string list \<Rightarrow> json \<Rightarrow> bool" where
  "silent_at (k # p) (JObject m) \<longleftrightarrow>
     (case bt_get m k of None \<Rightarrow> True | Some v \<Rightarrow> silent_at p v)"
| "silent_at p v \<longleftrightarrow> False"

definition is_object :: "json \<Rightarrow> bool" where
  "is_object v \<longleftrightarrow> (\<exists>m. v = JObject m)"

text \<open>What the result holds at a path, from what base and overlay hold there.\<close>

definition merged_at :: "string list \<Rightarrow> json \<Rightarrow> json \<Rightarrow> json option \<Rightarrow> bool" where
  "merged_at p base overlay x \<longleftrightarrow>
     (case at_path p overlay of
        None \<Rightarrow> x = (if silent_at p overlay then at_path p base else None)
      | Some v \<Rightarrow>
          if is_object v \<and> (\<exists>b. at_path p base = Some b \<and> is_object b) then \<exists>m. x = Some (JObject m)
          else x = Some v)"

lemma merge_at_path:
  "json_wf base \<Longrightarrow> json_wf overlay \<Longrightarrow> merged_at p base overlay (at_path p (merge_schema base overlay))"
proof (induction p arbitrary: base overlay)
  case Nil
  show ?case
    by (cases base; cases overlay) (simp_all add: merged_at_def is_object_def)
next
  case (Cons k p)
  show ?case
  proof (cases "\<exists>b o'. base = JObject b \<and> overlay = JObject o'")
    case True
    then obtain b o' where obj: "base = JObject b" "overlay = JObject o'" by blast
    then have wf: "bt_wf b" "bt_wf o'" "\<And>e. bt_get b k = Some e \<Longrightarrow> json_wf e"
      "\<And>v. bt_get o' k = Some v \<Longrightarrow> json_wf v"
      using Cons.prems by (auto simp: json_wf_object simp del: json_wf.simps)
    note get = merge_entries_get [OF wf(1,2), of k]
    show ?thesis
    proof (cases "\<exists>e v. bt_get b k = Some e \<and> bt_get o' k = Some v")
      case True
      then obtain e v where ev: "bt_get b k = Some e" "bt_get o' k = Some v" by blast
      with Cons.IH [of e v] wf(3,4) have "merged_at p e v (at_path p (merge_schema e v))" by simp
      moreover have "at_path (k # p) base = at_path p e" "at_path (k # p) overlay = at_path p v"
        "silent_at (k # p) overlay = silent_at p v"
        "at_path (k # p) (merge_schema base overlay) = at_path p (merge_schema e v)"
        using get ev by (simp_all add: obj)
      ultimately show ?thesis unfolding merged_at_def by (simp only:)
    next
      case False
      then show ?thesis
        using get by (cases "bt_get b k"; cases "bt_get o' k") (auto simp: obj merged_at_def split: option.splits)
    qed
  next
    case False
    then have "at_path (k # p) base = None \<or> \<not> is_object overlay"
      by (cases base) (auto simp: is_object_def)
    moreover have "merge_schema base overlay = overlay"
      using False by (cases base; cases overlay) simp_all
    ultimately show ?thesis
      by (cases overlay) (auto simp: merged_at_def is_object_def split: option.splits)
  qed
qed

text \<open>
  C38: The operator wins wherever the overlay speaks and the plugin's schema survives wherever
  it is silent. At every path of keys: where the overlay has a value, the result has that value,
  unless overlay and base both have an object there, and then it has an object; where the
  overlay is an object down to a key it does not have, the result has what the base has, and
  nothing if the base has nothing; and below a value of the overlay that is no object the result
  has nothing. So overlay leaves and arrays replace wholesale, base values survive untouched
  and nothing else appears. The result is well formed.
\<close>

theorem merge_schema_paths:
  assumes "json_wf base" and "json_wf overlay"
  shows "json_wf (merge_schema base overlay) \<and>
    (case at_path p overlay of
        None \<Rightarrow> at_path p (merge_schema base overlay) = (if silent_at p overlay then at_path p base else None)
      | Some v \<Rightarrow>
          if is_object v \<and> (\<exists>b. at_path p base = Some b \<and> is_object b)
          then \<exists>m. at_path p (merge_schema base overlay) = Some (JObject m)
          else at_path p (merge_schema base overlay) = Some v)"
  using merge_at_path [OF assms, of p] merge_schema_wf [OF assms] unfolding merged_at_def by (rule conjI [rotated])

theorem merge_schema_paths_witness:
  "at_path [''p'', ''d''] (merge_schema (JObject [(''p'', JObject [(''d'', JNull), (''t'', JBool True)])])
      (JObject [(''p'', JObject [(''d'', JString ''x'')])])) = Some (JString ''x'') \<and>
   at_path [''p'', ''t''] (merge_schema (JObject [(''p'', JObject [(''d'', JNull), (''t'', JBool True)])])
      (JObject [(''p'', JObject [(''d'', JString ''x'')])])) = Some (JBool True)"
  using merge_schema_paths [of "JObject [(''p'', JObject [(''d'', JNull), (''t'', JBool True)])]"
      "JObject [(''p'', JObject [(''d'', JString ''x'')])]" "[''p'', ''d'']"]
    merge_schema_paths [of "JObject [(''p'', JObject [(''d'', JNull), (''t'', JBool True)])]"
      "JObject [(''p'', JObject [(''d'', JString ''x'')])]" "[''p'', ''t'']"]
  by (simp add: bt_wf_def is_object_def)

end
