(* ===== verification/Backend_Types.thy ===== *)
theory Backend_Types
  imports Types
begin

section \<open>Backend messages and errors\<close>

text \<open>
  The data of \<open>src/src/backend.rs\<close>: resources, invocation contexts, requests, responses,
  stream chunks, listings, events, the error types with their labels, HTTP statuses and
  messages, and the usage envelope a backend sends with its result.
\<close>

subsection \<open>Types, codecs and errors\<close>

record backend_resource =
  br_id :: string
  br_uri :: string
  br_size_bytes :: u64
  br_mime_type :: string
  br_content_hash :: string
  br_expires_at_unix :: "i64 option"

definition encode_backend_resource :: "backend_resource \<Rightarrow> json" where
  "encode_backend_resource x = JObject (fields_map
     [(''id'', Some (JString (br_id x))),
      (''uri'', Some (JString (br_uri x))),
      (''size_bytes'', Some (en_u64 (br_size_bytes x))),
      (''mime_type'', Some (JString (br_mime_type x))),
      (''content_hash'', Some (JString (br_content_hash x))),
      (''expires_at_unix'', map_option en_int (br_expires_at_unix x))])"

definition decode_backend_resource :: "json \<Rightarrow> de_error + backend_resource" where
  "decode_backend_resource v = res_bind (de_object v) (\<lambda>m.
     res_bind (de_field m ''id'' de_string) (\<lambda>ident.
     res_bind (de_field m ''uri'' de_string) (\<lambda>uri.
     res_bind (de_field m ''size_bytes'' de_u64) (\<lambda>size_bytes.
     res_bind (de_field m ''mime_type'' de_string) (\<lambda>mime_type.
     res_bind (de_field m ''content_hash'' de_string) (\<lambda>content_hash.
     res_bind (de_opt m ''expires_at_unix'' de_int) (\<lambda>expires_at_unix.
       Inr \<lparr>br_id = ident, br_uri = uri, br_size_bytes = size_bytes, br_mime_type = mime_type, br_content_hash = content_hash, br_expires_at_unix = expires_at_unix\<rparr>)))))))"

interpretation backend_resource_codec: codec encode_backend_resource decode_backend_resource "\<lambda>_. True"
  by unfold_locales (simp_all add: encode_backend_resource_def decode_backend_resource_def codec_simps)

declare backend_resource_codec.roundtrip [simp] backend_resource_codec.nonnull [simp]

record backend_invocation_context =
  bic_parent_request_id :: string
  bic_session_id :: "string option"
  bic_initiating_backend :: string
  bic_depth :: u32
  bic_identity :: "plugin_identity option"

definition encode_backend_invocation_context :: "backend_invocation_context \<Rightarrow> json" where
  "encode_backend_invocation_context x = JObject (fields_map
     [(''parent_request_id'', Some (JString (bic_parent_request_id x))),
      (''session_id'', Some (opt_null JString (bic_session_id x))),
      (''initiating_backend'', Some (JString (bic_initiating_backend x))),
      (''depth'', Some (en_uint (bic_depth x))),
      (''identity'', map_option encode_plugin_identity (bic_identity x))])"

definition decode_backend_invocation_context :: "json \<Rightarrow> de_error + backend_invocation_context" where
  "decode_backend_invocation_context v = res_bind (de_object v) (\<lambda>m.
     res_bind (de_field m ''parent_request_id'' de_string) (\<lambda>parent_request_id.
     res_bind (de_opt m ''session_id'' de_string) (\<lambda>session_id.
     res_bind (de_field m ''initiating_backend'' de_string) (\<lambda>initiating_backend.
     res_bind (de_field m ''depth'' de_uint) (\<lambda>depth.
     res_bind (de_opt m ''identity'' decode_plugin_identity) (\<lambda>identity.
       Inr \<lparr>bic_parent_request_id = parent_request_id, bic_session_id = session_id, bic_initiating_backend = initiating_backend, bic_depth = depth, bic_identity = identity\<rparr>))))))"

interpretation backend_invocation_context_codec: codec encode_backend_invocation_context decode_backend_invocation_context "\<lambda>_. True"
  by unfold_locales (simp_all add: encode_backend_invocation_context_def decode_backend_invocation_context_def codec_simps)

declare backend_invocation_context_codec.roundtrip [simp] backend_invocation_context_codec.nonnull [simp]

datatype backend_error =
    ProfileNotFound string
  | InvalidSpec string
  | Timeout u64
  | Transport string

fun encode_backend_error :: "backend_error \<Rightarrow> json" where
  "encode_backend_error (ProfileNotFound backend_name) = JObject (fields_map
     [(''error'', Some (JString ''profile_not_found'')),
      (''backend_name'', Some (JString backend_name))])"
| "encode_backend_error (InvalidSpec message) = JObject (fields_map
     [(''error'', Some (JString ''invalid_spec'')),
      (''message'', Some (JString message))])"
| "encode_backend_error (Timeout timeout_ms) = JObject (fields_map
     [(''error'', Some (JString ''timeout'')),
      (''timeout_ms'', Some (en_u64 timeout_ms))])"
| "encode_backend_error (Transport message) = JObject (fields_map
     [(''error'', Some (JString ''transport'')),
      (''message'', Some (JString message))])"

definition decode_backend_error :: "json \<Rightarrow> de_error + backend_error" where
  "decode_backend_error v = res_bind (de_object v) (\<lambda>m. res_bind (de_field m ''error'' de_string) (\<lambda>t.
     if t = ''profile_not_found'' then
       res_bind (de_field m ''backend_name'' de_string) (\<lambda>backend_name.
         Inr (ProfileNotFound backend_name))
     else
     if t = ''invalid_spec'' then
       res_bind (de_field m ''message'' de_string) (\<lambda>message.
         Inr (InvalidSpec message))
     else
     if t = ''timeout'' then
       res_bind (de_field m ''timeout_ms'' de_u64) (\<lambda>timeout_ms.
         Inr (Timeout timeout_ms))
     else
     if t = ''transport'' then
       res_bind (de_field m ''message'' de_string) (\<lambda>message.
         Inr (Transport message))
     else
     Inl (UnknownVariant t)))"

interpretation backend_error_codec: codec encode_backend_error decode_backend_error "\<lambda>_. True"
proof unfold_locales
  fix x
  show "decode_backend_error (encode_backend_error x) = Inr x"
    by (cases x) (simp_all add: decode_backend_error_def codec_simps)
next
  fix x
  show "encode_backend_error x \<noteq> JNull" by (cases x) simp_all
qed

declare backend_error_codec.roundtrip [simp] backend_error_codec.nonnull [simp]

fun kind_label_backend_error :: "backend_error \<Rightarrow> string" where
  "kind_label_backend_error (ProfileNotFound _) = ''profile_not_found''"
| "kind_label_backend_error (InvalidSpec _) = ''invalid_spec''"
| "kind_label_backend_error (Timeout _) = ''timeout''"
| "kind_label_backend_error (Transport _) = ''transport''"

fun http_status_backend_error :: "backend_error \<Rightarrow> nat" where
  "http_status_backend_error (ProfileNotFound _) = 500"
| "http_status_backend_error (InvalidSpec _) = 500"
| "http_status_backend_error (Timeout _) = 504"
| "http_status_backend_error (Transport _) = 502"

fun display_backend_error :: "backend_error \<Rightarrow> string" where
  "display_backend_error (ProfileNotFound backend_name) = ''no execution profile registered for '' @ [CHR 0x27] @ backend_name @ [CHR 0x27]"
| "display_backend_error (InvalidSpec message) = ''invalid binding spec: '' @ message"
| "display_backend_error (Timeout timeout_ms) = ''binding timed out after '' @ show_nat (unat timeout_ms) @ ''ms''"
| "display_backend_error (Transport message) = ''binding transport error: '' @ message"

datatype backend_host_error =
    NotFound string
  | PolicyDenied string
  | DepthExceeded string u32
  | Cycle string "string list"
  | Backend string backend_error
  | NotImplemented

fun encode_backend_host_error :: "backend_host_error \<Rightarrow> json" where
  "encode_backend_host_error (NotFound tool_name) = JObject (fields_map
     [(''error'', Some (JString ''not_found'')),
      (''tool_name'', Some (JString tool_name))])"
| "encode_backend_host_error (PolicyDenied tool_name) = JObject (fields_map
     [(''error'', Some (JString ''policy_denied'')),
      (''tool_name'', Some (JString tool_name))])"
| "encode_backend_host_error (DepthExceeded tool_name depth) = JObject (fields_map
     [(''error'', Some (JString ''depth_exceeded'')),
      (''tool_name'', Some (JString tool_name)),
      (''depth'', Some (en_uint depth))])"
| "encode_backend_host_error (Cycle tool_name pth) = JObject (fields_map
     [(''error'', Some (JString ''cycle'')),
      (''tool_name'', Some (JString tool_name)),
      (''path'', Some (vec JString pth))])"
| "encode_backend_host_error (Backend tool_name cause) = JObject (fields_map
     [(''error'', Some (JString ''backend'')),
      (''tool_name'', Some (JString tool_name)),
      (''cause'', Some (encode_backend_error cause))])"
| "encode_backend_host_error NotImplemented = JObject (fields_map
     [(''error'', Some (JString ''not_implemented''))])"

definition decode_backend_host_error :: "json \<Rightarrow> de_error + backend_host_error" where
  "decode_backend_host_error v = res_bind (de_object v) (\<lambda>m. res_bind (de_field m ''error'' de_string) (\<lambda>t.
     if t = ''not_found'' then
       res_bind (de_field m ''tool_name'' de_string) (\<lambda>tool_name.
         Inr (NotFound tool_name))
     else
     if t = ''policy_denied'' then
       res_bind (de_field m ''tool_name'' de_string) (\<lambda>tool_name.
         Inr (PolicyDenied tool_name))
     else
     if t = ''depth_exceeded'' then
       res_bind (de_field m ''tool_name'' de_string) (\<lambda>tool_name.
       res_bind (de_field m ''depth'' de_uint) (\<lambda>depth.
         Inr (DepthExceeded tool_name depth)))
     else
     if t = ''cycle'' then
       res_bind (de_field m ''tool_name'' de_string) (\<lambda>tool_name.
       res_bind (de_field m ''path'' (de_vec de_string)) (\<lambda>pth.
         Inr (Cycle tool_name pth)))
     else
     if t = ''backend'' then
       res_bind (de_field m ''tool_name'' de_string) (\<lambda>tool_name.
       res_bind (de_field m ''cause'' decode_backend_error) (\<lambda>cause.
         Inr (Backend tool_name cause)))
     else
     if t = ''not_implemented'' then
         Inr NotImplemented
     else
     Inl (UnknownVariant t)))"

interpretation backend_host_error_codec: codec encode_backend_host_error decode_backend_host_error "\<lambda>_. True"
proof unfold_locales
  fix x
  show "decode_backend_host_error (encode_backend_host_error x) = Inr x"
    by (cases x) (simp_all add: decode_backend_host_error_def codec_simps)
next
  fix x
  show "encode_backend_host_error x \<noteq> JNull" by (cases x) simp_all
qed

declare backend_host_error_codec.roundtrip [simp] backend_host_error_codec.nonnull [simp]

fun kind_label_backend_host_error :: "backend_host_error \<Rightarrow> string" where
  "kind_label_backend_host_error (NotFound _) = ''not_found''"
| "kind_label_backend_host_error (PolicyDenied _) = ''policy_denied''"
| "kind_label_backend_host_error (DepthExceeded _ _) = ''depth_exceeded''"
| "kind_label_backend_host_error (Cycle _ _) = ''cycle''"
| "kind_label_backend_host_error (Backend _ _) = ''backend''"
| "kind_label_backend_host_error NotImplemented = ''not_implemented''"

fun http_status_backend_host_error :: "backend_host_error \<Rightarrow> nat" where
  "http_status_backend_host_error (NotFound _) = 404"
| "http_status_backend_host_error (PolicyDenied _) = 403"
| "http_status_backend_host_error (DepthExceeded _ _) = 508"
| "http_status_backend_host_error (Cycle _ _) = 508"
| "http_status_backend_host_error (Backend _ cause) = http_status_backend_error cause"
| "http_status_backend_host_error NotImplemented = 501"

fun display_backend_host_error :: "backend_host_error \<Rightarrow> string" where
  "display_backend_host_error (NotFound tool_name) = ''child tool '' @ [CHR 0x27] @ tool_name @ [CHR 0x27] @ '' not registered in this gateway''"
| "display_backend_host_error (PolicyDenied tool_name) = ''child tool '' @ [CHR 0x27] @ tool_name @ [CHR 0x27] @ '' denied by policy''"
| "display_backend_host_error (DepthExceeded tool_name depth) = ''child tool '' @ [CHR 0x27] @ tool_name @ [CHR 0x27] @ '' refused: dispatch depth '' @ show_nat (unat depth) @ '' exceeds cap''"
| "display_backend_host_error (Cycle tool_name pth) = ''child tool '' @ [CHR 0x27] @ tool_name @ [CHR 0x27] @ '' refused: cycle in dispatch graph ('' @ join ('' '' @ [CHR 0xE2, CHR 0x86, CHR 0x92] @ '' '') pth @ '')''"
| "display_backend_host_error (Backend tool_name cause) = ''child tool '' @ [CHR 0x27] @ tool_name @ [CHR 0x27] @ '' failed: '' @ display_backend_error cause"
| "display_backend_host_error NotImplemented = ''backend host has no dispatcher wired''"

datatype watch_error =
    WatchInvalidSpec string
  | Subscribe string

fun encode_watch_error :: "watch_error \<Rightarrow> json" where
  "encode_watch_error (WatchInvalidSpec message) = JObject (fields_map
     [(''error'', Some (JString ''invalid_spec'')),
      (''message'', Some (JString message))])"
| "encode_watch_error (Subscribe message) = JObject (fields_map
     [(''error'', Some (JString ''subscribe'')),
      (''message'', Some (JString message))])"

definition decode_watch_error :: "json \<Rightarrow> de_error + watch_error" where
  "decode_watch_error v = res_bind (de_object v) (\<lambda>m. res_bind (de_field m ''error'' de_string) (\<lambda>t.
     if t = ''invalid_spec'' then
       res_bind (de_field m ''message'' de_string) (\<lambda>message.
         Inr (WatchInvalidSpec message))
     else
     if t = ''subscribe'' then
       res_bind (de_field m ''message'' de_string) (\<lambda>message.
         Inr (Subscribe message))
     else
     Inl (UnknownVariant t)))"

interpretation watch_error_codec: codec encode_watch_error decode_watch_error "\<lambda>_. True"
proof unfold_locales
  fix x
  show "decode_watch_error (encode_watch_error x) = Inr x"
    by (cases x) (simp_all add: decode_watch_error_def codec_simps)
next
  fix x
  show "encode_watch_error x \<noteq> JNull" by (cases x) simp_all
qed

declare watch_error_codec.roundtrip [simp] watch_error_codec.nonnull [simp]

fun kind_label_watch_error :: "watch_error \<Rightarrow> string" where
  "kind_label_watch_error (WatchInvalidSpec _) = ''invalid_spec''"
| "kind_label_watch_error (Subscribe _) = ''subscribe''"

fun display_watch_error :: "watch_error \<Rightarrow> string" where
  "display_watch_error (WatchInvalidSpec message) = ''invalid watch spec: '' @ message"
| "display_watch_error (Subscribe message) = ''watch subscribe failed: '' @ message"

record listed_resource =
  lr_uri :: string
  lr_name :: "string option"
  lr_description :: "string option"
  lr_mime_type :: "string option"

definition encode_listed_resource :: "listed_resource \<Rightarrow> json" where
  "encode_listed_resource x = JObject (fields_map
     [(''uri'', Some (JString (lr_uri x))),
      (''name'', map_option JString (lr_name x)),
      (''description'', map_option JString (lr_description x)),
      (''mimeType'', map_option JString (lr_mime_type x))])"

definition decode_listed_resource :: "json \<Rightarrow> de_error + listed_resource" where
  "decode_listed_resource v = res_bind (de_object v) (\<lambda>m.
     res_bind (de_field m ''uri'' de_string) (\<lambda>uri.
     res_bind (de_opt m ''name'' de_string) (\<lambda>nam.
     res_bind (de_opt m ''description'' de_string) (\<lambda>description.
     res_bind (de_opt m ''mimeType'' de_string) (\<lambda>mime_type.
       Inr \<lparr>lr_uri = uri, lr_name = nam, lr_description = description, lr_mime_type = mime_type\<rparr>)))))"

interpretation listed_resource_codec: codec encode_listed_resource decode_listed_resource "\<lambda>_. True"
  by unfold_locales (simp_all add: encode_listed_resource_def decode_listed_resource_def codec_simps)

declare listed_resource_codec.roundtrip [simp] listed_resource_codec.nonnull [simp]

record resource_page =
  rp_resources :: "listed_resource list"
  rp_next_cursor :: "string option"

definition encode_resource_page :: "resource_page \<Rightarrow> json" where
  "encode_resource_page x = JObject (fields_map
     [(''resources'', Some (vec encode_listed_resource (rp_resources x))),
      (''next_cursor'', map_option JString (rp_next_cursor x))])"

definition decode_resource_page :: "json \<Rightarrow> de_error + resource_page" where
  "decode_resource_page v = res_bind (de_object v) (\<lambda>m.
     res_bind (de_field_default m ''resources'' [] (de_vec decode_listed_resource)) (\<lambda>resources.
     res_bind (de_opt m ''next_cursor'' de_string) (\<lambda>next_cursor.
       Inr \<lparr>rp_resources = resources, rp_next_cursor = next_cursor\<rparr>)))"

interpretation resource_page_codec: codec encode_resource_page decode_resource_page "\<lambda>_. True"
  by unfold_locales (simp_all add: encode_resource_page_def decode_resource_page_def codec_simps)

declare resource_page_codec.roundtrip [simp] resource_page_codec.nonnull [simp]

record expanded_tool =
  et_name :: string
  et_title :: "string option"
  et_description :: string
  et_input_schema :: json
  et_output_schema :: "json option"
  et_annotations :: "json option"
  et_meta :: "json option"
  et_backend_kind :: string
  et_backend_spec :: json
  et_governance :: "json option"
  et_retry :: "json option"

definition encode_expanded_tool :: "expanded_tool \<Rightarrow> json" where
  "encode_expanded_tool x = JObject (fields_map
     [(''name'', Some (JString (et_name x))),
      (''title'', map_option JString (et_title x)),
      (''description'', Some (JString (et_description x))),
      (''input_schema'', Some (et_input_schema x)),
      (''output_schema'', (et_output_schema x)),
      (''annotations'', (et_annotations x)),
      (''meta'', (et_meta x)),
      (''backend_kind'', Some (JString (et_backend_kind x))),
      (''backend_spec'', Some (et_backend_spec x)),
      (''governance'', (et_governance x)),
      (''retry'', (et_retry x))])"

definition decode_expanded_tool :: "json \<Rightarrow> de_error + expanded_tool" where
  "decode_expanded_tool v = res_bind (de_object v) (\<lambda>m.
     res_bind (de_field m ''name'' de_string) (\<lambda>nam.
     res_bind (de_opt m ''title'' de_string) (\<lambda>title.
     res_bind (de_field_default m ''description'' [] de_string) (\<lambda>description.
     res_bind (de_field m ''input_schema'' de_value) (\<lambda>input_schema.
     res_bind (de_opt m ''output_schema'' de_value) (\<lambda>output_schema.
     res_bind (de_opt m ''annotations'' de_value) (\<lambda>annotations.
     res_bind (de_opt m ''meta'' de_value) (\<lambda>meta.
     res_bind (de_field m ''backend_kind'' de_string) (\<lambda>backend_kind.
     res_bind (de_field m ''backend_spec'' de_value) (\<lambda>backend_spec.
     res_bind (de_opt m ''governance'' de_value) (\<lambda>governance.
     res_bind (de_opt m ''retry'' de_value) (\<lambda>retry.
       Inr \<lparr>et_name = nam, et_title = title, et_description = description, et_input_schema = input_schema, et_output_schema = output_schema, et_annotations = annotations, et_meta = meta, et_backend_kind = backend_kind, et_backend_spec = backend_spec, et_governance = governance, et_retry = retry\<rparr>))))))))))))"

interpretation expanded_tool_codec: codec encode_expanded_tool decode_expanded_tool "\<lambda>x. et_output_schema x \<noteq> Some JNull \<and> et_annotations x \<noteq> Some JNull \<and> et_meta x \<noteq> Some JNull \<and> et_governance x \<noteq> Some JNull \<and> et_retry x \<noteq> Some JNull"
  by unfold_locales (simp_all add: encode_expanded_tool_def decode_expanded_tool_def codec_simps non_null_def)

declare expanded_tool_codec.roundtrip [simp] expanded_tool_codec.nonnull [simp]

record expanded_resource_template =
  ert_name :: string
  ert_uri_template :: string
  ert_description :: string
  ert_mime_type :: "string option"
  ert_meta :: "json option"
  ert_backend_kind :: string
  ert_backend_spec :: json
  ert_governance :: "json option"
  ert_retry :: "json option"

definition encode_expanded_resource_template :: "expanded_resource_template \<Rightarrow> json" where
  "encode_expanded_resource_template x = JObject (fields_map
     [(''name'', Some (JString (ert_name x))),
      (''uri_template'', Some (JString (ert_uri_template x))),
      (''description'', Some (JString (ert_description x))),
      (''mime_type'', map_option JString (ert_mime_type x)),
      (''meta'', (ert_meta x)),
      (''backend_kind'', Some (JString (ert_backend_kind x))),
      (''backend_spec'', Some (ert_backend_spec x)),
      (''governance'', (ert_governance x)),
      (''retry'', (ert_retry x))])"

definition decode_expanded_resource_template :: "json \<Rightarrow> de_error + expanded_resource_template" where
  "decode_expanded_resource_template v = res_bind (de_object v) (\<lambda>m.
     res_bind (de_field m ''name'' de_string) (\<lambda>nam.
     res_bind (de_field m ''uri_template'' de_string) (\<lambda>uri_template.
     res_bind (de_field_default m ''description'' [] de_string) (\<lambda>description.
     res_bind (de_opt m ''mime_type'' de_string) (\<lambda>mime_type.
     res_bind (de_opt m ''meta'' de_value) (\<lambda>meta.
     res_bind (de_field m ''backend_kind'' de_string) (\<lambda>backend_kind.
     res_bind (de_field m ''backend_spec'' de_value) (\<lambda>backend_spec.
     res_bind (de_opt m ''governance'' de_value) (\<lambda>governance.
     res_bind (de_opt m ''retry'' de_value) (\<lambda>retry.
       Inr \<lparr>ert_name = nam, ert_uri_template = uri_template, ert_description = description, ert_mime_type = mime_type, ert_meta = meta, ert_backend_kind = backend_kind, ert_backend_spec = backend_spec, ert_governance = governance, ert_retry = retry\<rparr>))))))))))"

interpretation expanded_resource_template_codec: codec encode_expanded_resource_template decode_expanded_resource_template "\<lambda>x. ert_meta x \<noteq> Some JNull \<and> ert_governance x \<noteq> Some JNull \<and> ert_retry x \<noteq> Some JNull"
  by unfold_locales (simp_all add: encode_expanded_resource_template_def decode_expanded_resource_template_def codec_simps non_null_def)

declare expanded_resource_template_codec.roundtrip [simp] expanded_resource_template_codec.nonnull [simp]

record capability_set =
  cs_tools :: "expanded_tool list"
  cs_resource_templates :: "expanded_resource_template list"

definition encode_capability_set :: "capability_set \<Rightarrow> json" where
  "encode_capability_set x = JObject (fields_map
     [(''tools'', Some (vec encode_expanded_tool (cs_tools x))),
      (''resource_templates'', Some (vec encode_expanded_resource_template (cs_resource_templates x)))])"

definition decode_capability_set :: "json \<Rightarrow> de_error + capability_set" where
  "decode_capability_set v = res_bind (de_object v) (\<lambda>m.
     res_bind (de_field_default m ''tools'' [] (de_vec decode_expanded_tool)) (\<lambda>tools.
     res_bind (de_field_default m ''resource_templates'' [] (de_vec decode_expanded_resource_template)) (\<lambda>resource_templates.
       Inr \<lparr>cs_tools = tools, cs_resource_templates = resource_templates\<rparr>)))"

record client_info =
  ci_name :: string
  ci_version :: "string option"

definition encode_client_info :: "client_info \<Rightarrow> json" where
  "encode_client_info x = JObject (fields_map
     [(''name'', Some (JString (ci_name x))),
      (''version'', map_option JString (ci_version x))])"

definition decode_client_info :: "json \<Rightarrow> de_error + client_info" where
  "decode_client_info v = res_bind (de_object v) (\<lambda>m.
     res_bind (de_field m ''name'' de_string) (\<lambda>nam.
     res_bind (de_opt m ''version'' de_string) (\<lambda>version.
       Inr \<lparr>ci_name = nam, ci_version = version\<rparr>)))"

interpretation client_info_codec: codec encode_client_info decode_client_info "\<lambda>_. True"
  by unfold_locales (simp_all add: encode_client_info_def decode_client_info_def codec_simps)

declare client_info_codec.roundtrip [simp] client_info_codec.nonnull [simp]

record idempotency_hint =
  ih_key :: string
  ih_scope_hash :: string

definition encode_idempotency_hint :: "idempotency_hint \<Rightarrow> json" where
  "encode_idempotency_hint x = JObject (fields_map
     [(''key'', Some (JString (ih_key x))),
      (''scope_hash'', Some (JString (ih_scope_hash x)))])"

definition decode_idempotency_hint :: "json \<Rightarrow> de_error + idempotency_hint" where
  "decode_idempotency_hint v = res_bind (de_object v) (\<lambda>m.
     res_bind (de_field m ''key'' de_string) (\<lambda>key.
     res_bind (de_field m ''scope_hash'' de_string) (\<lambda>scope_hash.
       Inr \<lparr>ih_key = key, ih_scope_hash = scope_hash\<rparr>)))"

interpretation idempotency_hint_codec: codec encode_idempotency_hint decode_idempotency_hint "\<lambda>_. True"
  by unfold_locales (simp_all add: encode_idempotency_hint_def decode_idempotency_hint_def codec_simps)

declare idempotency_hint_codec.roundtrip [simp] idempotency_hint_codec.nonnull [simp]

datatype backend_health =
    Healthy
  | Unhealthy "string option"
  | HealthUnknown

fun encode_backend_health :: "backend_health \<Rightarrow> json" where
  "encode_backend_health Healthy = JObject (fields_map
     [(''status'', Some (JString ''healthy''))])"
| "encode_backend_health (Unhealthy reason) = JObject (fields_map
     [(''status'', Some (JString ''unhealthy'')),
      (''reason'', map_option JString reason)])"
| "encode_backend_health HealthUnknown = JObject (fields_map
     [(''status'', Some (JString ''unknown''))])"

definition decode_backend_health :: "json \<Rightarrow> de_error + backend_health" where
  "decode_backend_health v = res_bind (de_object v) (\<lambda>m. res_bind (de_field m ''status'' de_string) (\<lambda>t.
     if t = ''healthy'' then
         Inr Healthy
     else
     if t = ''unhealthy'' then
       res_bind (de_opt m ''reason'' de_string) (\<lambda>reason.
         Inr (Unhealthy reason))
     else
     if t = ''unknown'' then
         Inr HealthUnknown
     else
     Inl (UnknownVariant t)))"

interpretation backend_health_codec: codec encode_backend_health decode_backend_health "\<lambda>_. True"
proof unfold_locales
  fix x
  show "decode_backend_health (encode_backend_health x) = Inr x"
    by (cases x) (simp_all add: decode_backend_health_def codec_simps)
next
  fix x
  show "encode_backend_health x \<noteq> JNull" by (cases x) simp_all
qed

declare backend_health_codec.roundtrip [simp] backend_health_codec.nonnull [simp]

record watch_event =
  we_user_id :: "string option"
  we_session_id :: "string option"
  we_event_id :: "string option"
  we_event_type :: "string option"
  we_occurred_at :: "string option"
  we_data :: "json option"
  we_upstream_cursor :: "json option"
  we_gap :: bool

definition encode_watch_event :: "watch_event \<Rightarrow> json" where
  "encode_watch_event x = JObject (fields_map
     [(''user_id'', map_option JString (we_user_id x)),
      (''session_id'', map_option JString (we_session_id x)),
      (''event_id'', map_option JString (we_event_id x)),
      (''event_type'', map_option JString (we_event_type x)),
      (''occurred_at'', map_option JString (we_occurred_at x)),
      (''data'', (we_data x)),
      (''upstream_cursor'', (we_upstream_cursor x)),
      (''gap'', flag_skip (we_gap x))])"

definition decode_watch_event :: "json \<Rightarrow> de_error + watch_event" where
  "decode_watch_event v = res_bind (de_object v) (\<lambda>m.
     res_bind (de_opt m ''user_id'' de_string) (\<lambda>user_id.
     res_bind (de_opt m ''session_id'' de_string) (\<lambda>session_id.
     res_bind (de_opt m ''event_id'' de_string) (\<lambda>event_id.
     res_bind (de_opt m ''event_type'' de_string) (\<lambda>event_type.
     res_bind (de_opt m ''occurred_at'' de_string) (\<lambda>occurred_at.
     res_bind (de_opt m ''data'' de_value) (\<lambda>dta.
     res_bind (de_opt m ''upstream_cursor'' de_value) (\<lambda>upstream_cursor.
     res_bind (de_field_default m ''gap'' False de_bool) (\<lambda>gap.
       Inr \<lparr>we_user_id = user_id, we_session_id = session_id, we_event_id = event_id, we_event_type = event_type, we_occurred_at = occurred_at, we_data = dta, we_upstream_cursor = upstream_cursor, we_gap = gap\<rparr>)))))))))"

interpretation watch_event_codec: codec encode_watch_event decode_watch_event "\<lambda>x. we_data x \<noteq> Some JNull \<and> we_upstream_cursor x \<noteq> Some JNull"
  by unfold_locales (simp_all add: encode_watch_event_def decode_watch_event_def codec_simps non_null_def)

declare watch_event_codec.roundtrip [simp] watch_event_codec.nonnull [simp]

interpretation capability_set_codec: codec encode_capability_set decode_capability_set
  "\<lambda>x. list_all (\<lambda>t. et_output_schema t \<noteq> Some JNull \<and> et_annotations t \<noteq> Some JNull \<and>
      et_meta t \<noteq> Some JNull \<and> et_governance t \<noteq> Some JNull \<and> et_retry t \<noteq> Some JNull) (cs_tools x) \<and>
    list_all (\<lambda>t. ert_meta t \<noteq> Some JNull \<and> ert_governance t \<noteq> Some JNull \<and> ert_retry t \<noteq> Some JNull)
      (cs_resource_templates x)"
  by unfold_locales
    (simp_all add: encode_capability_set_def decode_capability_set_def wire_simps
      expanded_tool_codec.vec_roundtrip expanded_resource_template_codec.vec_roundtrip)

definition root_context :: "string \<Rightarrow> string option \<Rightarrow> string \<Rightarrow> backend_invocation_context" where
  "root_context parent_request_id session_id initiating_backend =
     \<lparr>bic_parent_request_id = parent_request_id, bic_session_id = session_id,
      bic_initiating_backend = initiating_backend, bic_depth = 0, bic_identity = None\<rparr>"

definition empty_page :: resource_page where
  "empty_page = \<lparr>rp_resources = [], rp_next_cursor = None\<rparr>"

definition default_capability_set :: capability_set where
  "default_capability_set = \<lparr>cs_tools = [], cs_resource_templates = []\<rparr>"

subsection \<open>Requests, responses and chunks\<close>

text \<open>
  Payload bytes travel as base64 text. The base64 codec is a crate: an encoder and a
  decoder that are arguments of the codecs below.
\<close>

definition de_b64 :: "(string \<Rightarrow> de_error + string) \<Rightarrow> json \<Rightarrow> de_error + string" where
  "de_b64 b64_decode v = res_bind (de_string v) b64_decode"

record backend_request =
  bq_payload :: string
  bq_headers :: "(string \<times> string) list"
  bq_request_id :: string
  bq_session_id :: "string option"
  bq_identity :: "plugin_identity option"
  bq_idempotency :: "idempotency_hint option"
  bq_client :: "client_info option"

definition encode_backend_request :: "(string \<Rightarrow> string) \<Rightarrow> backend_request \<Rightarrow> json" where
  "encode_backend_request b64_encode x = JObject (fields_map
     [(''payload'', Some (JString (b64_encode (bq_payload x)))),
      (''headers'', Some (vec pair (bq_headers x))),
      (''request_id'', Some (JString (bq_request_id x))),
      (''session_id'', Some (opt_null JString (bq_session_id x))),
      (''identity'', map_option encode_plugin_identity (bq_identity x)),
      (''idempotency'', map_option encode_idempotency_hint (bq_idempotency x)),
      (''client'', map_option encode_client_info (bq_client x))])"

definition decode_backend_request ::
  "(string \<Rightarrow> de_error + string) \<Rightarrow> json \<Rightarrow> de_error + backend_request" where
  "decode_backend_request b64_decode v = res_bind (de_object v) (\<lambda>m.
     res_bind (de_field m ''payload'' (de_b64 b64_decode)) (\<lambda>payload.
     res_bind (de_field m ''headers'' (de_vec de_pair)) (\<lambda>headers.
     res_bind (de_field m ''request_id'' de_string) (\<lambda>request_id.
     res_bind (de_opt m ''session_id'' de_string) (\<lambda>session_id.
     res_bind (de_opt m ''identity'' decode_plugin_identity) (\<lambda>identity.
     res_bind (de_opt m ''idempotency'' decode_idempotency_hint) (\<lambda>idempotency.
     res_bind (de_opt m ''client'' decode_client_info) (\<lambda>client.
       Inr \<lparr>bq_payload = payload, bq_headers = headers, bq_request_id = request_id,
         bq_session_id = session_id, bq_identity = identity, bq_idempotency = idempotency,
         bq_client = client\<rparr>))))))))"

record backend_response =
  bresp_payload :: string
  bresp_truncated :: bool

definition response_fields :: "(string \<Rightarrow> string) \<Rightarrow> backend_response \<Rightarrow> (string \<times> json option) list" where
  "response_fields b64_encode x =
     [(''payload'', Some (JString (b64_encode (bresp_payload x)))),
      (''truncated'', Some (JBool (bresp_truncated x)))]"

definition decode_response_fields ::
  "(string \<Rightarrow> de_error + string) \<Rightarrow> json_map \<Rightarrow> de_error + backend_response" where
  "decode_response_fields b64_decode m =
     res_bind (de_field m ''payload'' (de_b64 b64_decode)) (\<lambda>payload.
     res_bind (de_field m ''truncated'' de_bool) (\<lambda>truncated.
       Inr \<lparr>bresp_payload = payload, bresp_truncated = truncated\<rparr>))"

definition encode_backend_response :: "(string \<Rightarrow> string) \<Rightarrow> backend_response \<Rightarrow> json" where
  "encode_backend_response b64_encode x = JObject (fields_map (response_fields b64_encode x))"

definition decode_backend_response ::
  "(string \<Rightarrow> de_error + string) \<Rightarrow> json \<Rightarrow> de_error + backend_response" where
  "decode_backend_response b64_decode v = res_bind (de_object v) (decode_response_fields b64_decode)"

datatype backend_chunk =
    TextDelta string
  | ToolCall string string json
  | ToolResult string json
  | Usage u32 u32 u32
  | IterationBoundary u32
  | Progress u32 "u32 option" string
  | Done backend_response

text \<open>The fields of \<open>Done\<close> are those of the response, beside the tag.\<close>

fun encode_backend_chunk :: "(string \<Rightarrow> string) \<Rightarrow> backend_chunk \<Rightarrow> json" where
  "encode_backend_chunk b64 (TextDelta delta) = JObject (fields_map
     [(''type'', Some (JString ''text_delta'')), (''delta'', Some (JString delta))])"
| "encode_backend_chunk b64 (ToolCall i n arguments) = JObject (fields_map
     [(''type'', Some (JString ''tool_call'')), (''id'', Some (JString i)),
      (''name'', Some (JString n)), (''arguments'', Some arguments)])"
| "encode_backend_chunk b64 (ToolResult i result) = JObject (fields_map
     [(''type'', Some (JString ''tool_result'')), (''id'', Some (JString i)), (''result'', Some result)])"
| "encode_backend_chunk b64 (Usage input_tokens output_tokens cached) = JObject (fields_map
     [(''type'', Some (JString ''usage'')), (''input_tokens'', Some (en_uint input_tokens)),
      (''output_tokens'', Some (en_uint output_tokens)), (''cached_input_tokens'', Some (en_uint cached))])"
| "encode_backend_chunk b64 (IterationBoundary iteration) = JObject (fields_map
     [(''type'', Some (JString ''iteration_boundary'')), (''iteration'', Some (en_uint iteration))])"
| "encode_backend_chunk b64 (Progress progress tot message) = JObject (fields_map
     [(''type'', Some (JString ''progress'')), (''progress'', Some (en_uint progress)),
      (''total'', Some (opt_null en_uint tot)), (''message'', Some (JString message))])"
| "encode_backend_chunk b64 (Done response) = JObject (fields_map
     ((''type'', Some (JString ''done'')) # response_fields b64 response))"

definition decode_backend_chunk ::
  "(string \<Rightarrow> de_error + string) \<Rightarrow> json \<Rightarrow> de_error + backend_chunk" where
  "decode_backend_chunk b64_decode v = res_bind (de_object v) (\<lambda>m. res_bind (de_field m ''type'' de_string) (\<lambda>t.
     if t = ''text_delta'' then
       res_bind (de_field m ''delta'' de_string) (\<lambda>delta. Inr (TextDelta delta))
     else if t = ''tool_call'' then
       res_bind (de_field m ''id'' de_string) (\<lambda>i.
       res_bind (de_field m ''name'' de_string) (\<lambda>n.
       res_bind (de_field m ''arguments'' de_value) (\<lambda>arguments. Inr (ToolCall i n arguments))))
     else if t = ''tool_result'' then
       res_bind (de_field m ''id'' de_string) (\<lambda>i.
       res_bind (de_field m ''result'' de_value) (\<lambda>result. Inr (ToolResult i result)))
     else if t = ''usage'' then
       res_bind (de_field m ''input_tokens'' de_uint) (\<lambda>a.
       res_bind (de_field m ''output_tokens'' de_uint) (\<lambda>b.
       res_bind (de_field_default m ''cached_input_tokens'' 0 de_uint) (\<lambda>c. Inr (Usage a b c))))
     else if t = ''iteration_boundary'' then
       res_bind (de_field m ''iteration'' de_uint) (\<lambda>n. Inr (IterationBoundary n))
     else if t = ''progress'' then
       res_bind (de_field m ''progress'' de_uint) (\<lambda>p.
       res_bind (de_opt m ''total'' de_uint) (\<lambda>tot.
       res_bind (de_field m ''message'' de_string) (\<lambda>message. Inr (Progress p tot message))))
     else if t = ''done'' then
       res_bind (decode_response_fields b64_decode m) (\<lambda>r. Inr (Done r))
     else Inl (UnknownVariant t)))"

text \<open>
  Requests, responses and stream chunks survive the wire when the base64 codec brings
  their payload back: headers keep their order and repetitions, and the terminal chunk
  carries its response beside the tag.
\<close>

theorem backend_messages_roundtrip:
  assumes "b64_decode (b64_encode (bq_payload q)) = Inr (bq_payload q)"
    and "b64_decode (b64_encode (bresp_payload r)) = Inr (bresp_payload r)"
    and "\<And>x. c = Done x \<Longrightarrow> b64_decode (b64_encode (bresp_payload x)) = Inr (bresp_payload x)"
  shows "decode_backend_request b64_decode (encode_backend_request b64_encode q) = Inr q \<and>
    decode_backend_response b64_decode (encode_backend_response b64_encode r) = Inr r \<and>
    decode_backend_chunk b64_decode (encode_backend_chunk b64_encode c) = Inr c"
proof (intro conjI)
  show "decode_backend_request b64_decode (encode_backend_request b64_encode q) = Inr q"
    using assms(1) by (simp add: decode_backend_request_def encode_backend_request_def de_b64_def codec_simps)
  show "decode_backend_response b64_decode (encode_backend_response b64_encode r) = Inr r"
    using assms(2) by (simp add: decode_backend_response_def encode_backend_response_def response_fields_def
        decode_response_fields_def de_b64_def codec_simps)
  show "decode_backend_chunk b64_decode (encode_backend_chunk b64_encode c) = Inr c"
    using assms(3) by (cases c) (simp_all add: decode_backend_chunk_def response_fields_def
        decode_response_fields_def de_b64_def codec_simps)
qed

theorem backend_messages_roundtrip_witness:
  "decode_backend_chunk Inr (encode_backend_chunk id (Done \<lparr>bresp_payload = ''x'', bresp_truncated = True\<rparr>))
     = Inr (Done \<lparr>bresp_payload = ''x'', bresp_truncated = True\<rparr>)"
  using backend_messages_roundtrip [of Inr id undefined "\<lparr>bresp_payload = ''x'', bresp_truncated = True\<rparr>"
      "Done \<lparr>bresp_payload = ''x'', bresp_truncated = True\<rparr>"] by simp

subsection \<open>Usage accounting\<close>

record backend_usage =
  bu_input_tokens :: u64
  bu_output_tokens :: u64
  bu_cost_usd :: "f64 option"

definition USAGE_KEY :: string where
  "USAGE_KEY = ''__mcpg_usage''"

definition USAGE_VALUE_KEY :: string where
  "USAGE_VALUE_KEY = ''__mcpg_value''"

definition ACCEPT_USAGE_HEADER :: string where
  "ACCEPT_USAGE_HEADER = ''mcpg-accept-usage''"

text \<open>A float is finite unless all bits of its exponent are set; JSON has no other floats.\<close>

definition f64_finite :: "f64 \<Rightarrow> bool" where
  "f64_finite x \<longleftrightarrow> (unat x div 2 ^ 52) mod 2 ^ 11 \<noteq> 2 ^ 11 - 1"

definition en_f64 :: "f64 \<Rightarrow> json" where
  "en_f64 x = (if f64_finite x then JNumber (Float x) else JNull)"

text \<open>An integer where a float is expected is converted: \<open>of_int\<close> is that conversion.\<close>

definition de_f64 :: "(int \<Rightarrow> f64) \<Rightarrow> json \<Rightarrow> de_error + f64" where
  "de_f64 of_int' v = (case v of
      JNumber (Float x) \<Rightarrow> Inr x
    | JNumber (PosInt n) \<Rightarrow> Inr (of_int' (uint n))
    | JNumber (NegInt n) \<Rightarrow> Inr (of_int' (sint n))
    | _ \<Rightarrow> Inl WrongType)"

definition encode_backend_usage :: "backend_usage \<Rightarrow> json" where
  "encode_backend_usage u = JObject (fields_map
     [(''input_tokens'', Some (en_u64 (bu_input_tokens u))),
      (''output_tokens'', Some (en_u64 (bu_output_tokens u))),
      (''cost_usd'', map_option en_f64 (bu_cost_usd u))])"

definition decode_usage_fields :: "(int \<Rightarrow> f64) \<Rightarrow> json_map \<Rightarrow> de_error + backend_usage" where
  "decode_usage_fields of_int' m =
     res_bind (de_field_default m ''input_tokens'' 0 de_u64) (\<lambda>i.
     res_bind (de_field_default m ''output_tokens'' 0 de_u64) (\<lambda>out.
     res_bind (de_opt m ''cost_usd'' (de_f64 of_int')) (\<lambda>cost.
       Inr \<lparr>bu_input_tokens = i, bu_output_tokens = out, bu_cost_usd = cost\<rparr>)))"

text \<open>A struct may also be written as the array of its fields, here with defaults at the end.\<close>

definition decode_backend_usage :: "(int \<Rightarrow> f64) \<Rightarrow> json \<Rightarrow> de_error + backend_usage" where
  "decode_backend_usage of_int' v = (case v of
      JObject m \<Rightarrow> decode_usage_fields of_int' m
    | JArray xs \<Rightarrow>
        if length xs \<le> 3
        then decode_usage_fields of_int' (zip [''input_tokens'', ''output_tokens'', ''cost_usd''] xs)
        else Inl WrongType
    | _ \<Rightarrow> Inl WrongType)"

definition ascii_lower :: "char \<Rightarrow> char" where
  "ascii_lower c = (if 65 \<le> (of_char c :: nat) \<and> (of_char c :: nat) \<le> 90 then char_of ((of_char c :: nat) + 32) else c)"

definition eq_ignore_ascii_case :: "string \<Rightarrow> string \<Rightarrow> bool" where
  "eq_ignore_ascii_case a b \<longleftrightarrow> map ascii_lower a = map ascii_lower b"

definition usage_accepted_by :: "(string \<times> string) list \<Rightarrow> bool" where
  "usage_accepted_by headers \<longleftrightarrow>
     list_ex (\<lambda>(nm, _). eq_ignore_ascii_case nm ACCEPT_USAGE_HEADER) headers"

definition usage_wrap :: "backend_usage \<Rightarrow> json \<Rightarrow> json" where
  "usage_wrap u result = json_obj [(USAGE_KEY, encode_backend_usage u), (USAGE_VALUE_KEY, result)]"

definition usage_split :: "(int \<Rightarrow> f64) \<Rightarrow> json \<Rightarrow> json \<times> backend_usage option" where
  "usage_split of_int' value' =
     (case value' of
        JObject object' \<Rightarrow>
          if length object' \<noteq> 2 \<or> bt_get object' USAGE_VALUE_KEY = None then (JObject object', None)
          else (case Option.bind (bt_get object' USAGE_KEY) (\<lambda>u. ok (decode_backend_usage of_int' u)) of
                  Some usage \<Rightarrow>
                    ((case bt_get object' USAGE_VALUE_KEY of Some r \<Rightarrow> r | None \<Rightarrow> JNull), Some usage)
                | None \<Rightarrow> (JObject object', None))
      | _ \<Rightarrow> (value', None))"

lemma usage_keys [simp]: "USAGE_KEY \<noteq> USAGE_VALUE_KEY" "USAGE_VALUE_KEY \<noteq> USAGE_KEY"
  by (simp_all add: USAGE_KEY_def USAGE_VALUE_KEY_def)

lemma decode_encode_usage:
  "decode_backend_usage of_int' (encode_backend_usage u) =
     Inr (u\<lparr>bu_cost_usd := (case bu_cost_usd u of Some x \<Rightarrow> if f64_finite x then Some x else None | None \<Rightarrow> None)\<rparr>)"
  by (cases "bu_cost_usd u")
    (simp_all add: decode_backend_usage_def encode_backend_usage_def decode_usage_fields_def codec_simps
      en_f64_def de_f64_def)

text \<open>
  C28: A result that travels with its usage is taken apart again: splitting what \<open>wrap\<close>
  built gives the very result, nested envelopes included, and the usage, whose cost is lost
  exactly when it is not finite.
\<close>

theorem usage_wrap_split:
  "usage_split of_int' (usage_wrap u v) =
     (v, Some (u\<lparr>bu_cost_usd := (case bu_cost_usd u of
        Some x \<Rightarrow> if f64_finite x then Some x else None | None \<Rightarrow> None)\<rparr>))"
proof -
  have "usage_wrap u v = JObject [(USAGE_KEY, encode_backend_usage u), (USAGE_VALUE_KEY, v)]"
    by (simp add: usage_wrap_def json_obj_def bt_collect_def USAGE_KEY_def USAGE_VALUE_KEY_def)
  then show ?thesis by (simp add: usage_split_def decode_encode_usage)
qed

text \<open>
  A payload is taken for a usage envelope only when it is an object with the two reserved
  keys and no other and the usage decodes; every other value is served unchanged.
\<close>

theorem usage_split_exact:
  assumes "json_wf v"
  shows "(usage_split of_int' v = (r, Some u) \<longleftrightarrow>
      (\<exists>j. v = JObject [(USAGE_KEY, j), (USAGE_VALUE_KEY, r)] \<and> decode_backend_usage of_int' j = Inr u)) \<and>
    (snd (usage_split of_int' v) = None \<longrightarrow> fst (usage_split of_int' v) = v)"
proof -
  have order: "USAGE_KEY < USAGE_VALUE_KEY" by (simp add: USAGE_KEY_def USAGE_VALUE_KEY_def)
  have two: "m = [(USAGE_KEY, j), (USAGE_VALUE_KEY, r)]"
    if "bt_wf m" "length m = 2" "bt_get m USAGE_KEY = Some j" "bt_get m USAGE_VALUE_KEY = Some r" for m j r
  proof -
    note two_entries = \<open>length m = 2\<close>
    obtain k1 v1 k2 v2 where m: "m = [(k1, v1), (k2, v2)]"
      using two_entries by (metis (no_types) length_0_conv length_Suc_conv numeral_2_eq_2 surj_pair)
    then show ?thesis using that order by (auto simp: bt_wf_def split: if_splits)
  qed
  have okS: "ok x = Some a \<longleftrightarrow> x = Inr a" for x :: "de_error + backend_usage" and a
    by (cases x) simp_all
  show ?thesis
  proof (cases v)
    case (JObject m)
    then have wf: "bt_wf m" using assms by simp
    have split: "usage_split of_int' (JObject m) = (r, Some u) \<longleftrightarrow>
        length m = 2 \<and> bt_get m USAGE_VALUE_KEY = Some r \<and>
        (\<exists>j. bt_get m USAGE_KEY = Some j \<and> decode_backend_usage of_int' j = Inr u)"
      by (cases "bt_get m USAGE_KEY"; cases "bt_get m USAGE_VALUE_KEY")
        (auto simp: usage_split_def okS split: option.splits)
    have same: "snd (usage_split of_int' (JObject m)) = None \<Longrightarrow> fst (usage_split of_int' (JObject m)) = JObject m"
      by (auto simp: usage_split_def split: option.splits if_splits)
    have "length m = 2 \<and> bt_get m USAGE_VALUE_KEY = Some r \<and> bt_get m USAGE_KEY = Some j \<longleftrightarrow>
        m = [(USAGE_KEY, j), (USAGE_VALUE_KEY, r)]" for j
      using two [OF wf] by auto
    with split same show ?thesis unfolding JObject by blast
  qed (simp_all add: usage_split_def)
qed

theorem usage_split_exact_witness:
  "usage_split (\<lambda>_. 0) (JObject [(''__mcpg_usage'', JArray []), (''__mcpg_value'', JNull), (''z'', JNull)]) =
     (JObject [(''__mcpg_usage'', JArray []), (''__mcpg_value'', JNull), (''z'', JNull)], None)"
proof -
  let ?v = "JObject [(''__mcpg_usage'', JArray []), (''__mcpg_value'', JNull), (''z'', JNull)]"
  have wf: "json_wf ?v" by (simp add: bt_wf_def)
  have "snd (usage_split (\<lambda>_. 0) ?v) = None"
    using usage_split_exact [OF wf, of "\<lambda>_. 0" "fst (usage_split (\<lambda>_. 0) ?v)" "the (snd (usage_split (\<lambda>_. 0) ?v))"]
    by (cases "snd (usage_split (\<lambda>_. 0) ?v)") (auto simp: prod_eq_iff)
  then show ?thesis
    using usage_split_exact [OF wf, of "\<lambda>_. 0"] by (simp add: prod_eq_iff)
qed

end
