(* ===== verification/Late_Bound.thy ===== *)
theory Late_Bound
  imports Backend_Types
begin

section \<open>The backend host and its late-bound form\<close>

text \<open>
  The \<open>BackendHost\<close> trait of \<open>src/src/backend.rs\<close> with its default methods, the no-op
  host, and \<open>LateBoundBackendHost\<close>: a host that is bound later, buffers the
  subscriptions made before, and replays them on every host it is bound to.

  A method of a host is a function of its arguments. The subscriptions are a state machine:
  the state is the two locked parts of the struct, and a log of what is done to the inner
  hosts: every subscription object obtained from one, numbered, and every one dropped. The
  two statements of \<open>set\<close>, the write of \<open>inner\<close> and the replay, are two steps, because
  they take two locks; every other operation holds the lock of the subscriptions throughout.
\<close>

subsection \<open>Hosts\<close>

record backend_host =
  bh_invoke_tool :: "backend_invocation_context \<Rightarrow> string \<Rightarrow> json \<Rightarrow> backend_host_error + json"
  bh_store_content ::
    "backend_invocation_context \<Rightarrow> string \<Rightarrow> string \<Rightarrow> duration option \<Rightarrow> backend_host_error + backend_resource"
  bh_fetch_content :: "backend_invocation_context \<Rightarrow> string \<Rightarrow> backend_host_error + string option"
  bh_cache_get :: "backend_invocation_context \<Rightarrow> string \<Rightarrow> backend_host_error + string option"
  bh_cache_put :: "backend_invocation_context \<Rightarrow> string \<Rightarrow> string \<Rightarrow> duration \<Rightarrow> backend_host_error + unit"
  bh_cache_invalidate :: "backend_invocation_context \<Rightarrow> string \<Rightarrow> backend_host_error + unit"
  bh_resolve_credentials :: "backend_invocation_context \<Rightarrow> json \<Rightarrow> json \<times> (backend_host_error + nat)"

text \<open>What a host that implements \<open>invoke_tool\<close> alone gets from the trait.\<close>

definition trait_defaults ::
  "(backend_invocation_context \<Rightarrow> string \<Rightarrow> json \<Rightarrow> backend_host_error + json) \<Rightarrow> backend_host" where
  "trait_defaults invoke =
     \<lparr>bh_invoke_tool = invoke,
      bh_store_content = (\<lambda>ctx bytes mime_type ttl. Inl NotImplemented),
      bh_fetch_content = (\<lambda>ctx uri. Inl NotImplemented),
      bh_cache_get = (\<lambda>ctx key. Inr None),
      bh_cache_put = (\<lambda>ctx key val ttl. Inr ()),
      bh_cache_invalidate = (\<lambda>ctx key. Inr ()),
      bh_resolve_credentials = (\<lambda>ctx val. (val, Inl NotImplemented))\<rparr>"

definition noop_backend_host :: backend_host where
  "noop_backend_host = trait_defaults (\<lambda>ctx tool_name args. Inl NotImplemented)"

text \<open>
  What a subscribing method hands out: a box around a guard whose drop unsubscribes. The provided
  methods ignore the callback and hand out a box without a guard.
\<close>

datatype 'g subscription = Subscription "'g option"

definition new_subscription :: "'g \<Rightarrow> 'g subscription" where
  "new_subscription inner = Subscription (Some inner)"

definition noop_subscription :: "'g subscription" where
  "noop_subscription = Subscription None"

definition default_subscribe :: "'cb \<Rightarrow> 'g subscription" where
  "default_subscribe cb = noop_subscription"

text \<open>The late-bound host: \<open>inner\<close> as its methods find it.\<close>

definition late_bound_host :: "backend_host option \<Rightarrow> backend_host" where
  "late_bound_host inner =
     (trait_defaults (\<lambda>ctx tool_name args.
        case inner of Some host \<Rightarrow> bh_invoke_tool host ctx tool_name args | None \<Rightarrow> Inl NotImplemented))
     \<lparr>bh_store_content := (\<lambda>ctx bytes mime_type ttl.
        case inner of Some host \<Rightarrow> bh_store_content host ctx bytes mime_type ttl | None \<Rightarrow> Inl NotImplemented),
      bh_fetch_content := (\<lambda>ctx uri.
        case inner of Some host \<Rightarrow> bh_fetch_content host ctx uri | None \<Rightarrow> Inl NotImplemented),
      bh_cache_get := (\<lambda>ctx key.
        case inner of Some host \<Rightarrow> bh_cache_get host ctx key | None \<Rightarrow> Inr None),
      bh_cache_put := (\<lambda>ctx key val ttl.
        case inner of Some host \<Rightarrow> bh_cache_put host ctx key val ttl | None \<Rightarrow> Inr ()),
      bh_cache_invalidate := (\<lambda>ctx key.
        case inner of Some host \<Rightarrow> bh_cache_invalidate host ctx key | None \<Rightarrow> Inr ())\<rparr>"

text \<open>
  An unbound host is indistinguishable from the no-op host, and a bound one from the host
  it is bound to in every method but one: \<open>resolve_credentials\<close> is not forwarded, and
  answers \<open>NotImplemented\<close> whatever the inner host would do.
\<close>

theorem late_bound_forwards:
  "late_bound_host None = noop_backend_host \<and>
   late_bound_host (Some h) = h\<lparr>bh_resolve_credentials := (\<lambda>ctx v. (v, Inl NotImplemented))\<rparr>"
  by (simp add: late_bound_host_def noop_backend_host_def trait_defaults_def)

subsection \<open>Subscriptions: state and operations\<close>

datatype channel = Revocation | Rotation

datatype ('h, 'cb) host_event = Subscribed nat 'h channel 'cb | Released nat

record 'cb slot =
  slot_id :: u64
  slot_callback :: 'cb
  slot_real :: "nat option"

record ('h, 'cb) late_bound =
  lb_inner :: "'h option"
  lb_next_id :: u64
  lb_revocation :: "'cb slot list"
  lb_rotation :: "'cb slot list"
  lb_log :: "('h, 'cb) host_event list"

definition new_late_bound :: "('h, 'cb) late_bound" where
  "new_late_bound =
     \<lparr>lb_inner = None, lb_next_id = 0, lb_revocation = [], lb_rotation = [], lb_log = []\<rparr>"

definition is_bound :: "('h, 'cb) late_bound \<Rightarrow> bool" where
  "is_bound st \<longleftrightarrow> lb_inner st \<noteq> None"

text \<open>Subscribing on a host yields a fresh object; dropping an \<open>Option\<close> of one releases it.\<close>

definition acquire ::
  "'h \<Rightarrow> channel \<Rightarrow> 'cb \<Rightarrow> ('h, 'cb) host_event list \<Rightarrow> nat \<times> ('h, 'cb) host_event list" where
  "acquire host ch cb log = (length log, log @ [Subscribed (length log) host ch cb])"

definition release :: "nat option \<Rightarrow> ('h, 'cb) host_event list \<Rightarrow> ('h, 'cb) host_event list" where
  "release real log = (case real of None \<Rightarrow> log | Some ob \<Rightarrow> log @ [Released ob])"

fun replay_slots ::
  "'h \<Rightarrow> channel \<Rightarrow> 'cb slot list \<Rightarrow> ('h, 'cb) host_event list \<Rightarrow> 'cb slot list \<times> ('h, 'cb) host_event list" where
  "replay_slots host ch [] log = ([], log)"
| "replay_slots host ch (slot # rest) log =
     (let (ob, log') = acquire host ch (slot_callback slot) (release (slot_real slot) log);
          (rest', log'') = replay_slots host ch rest log'
      in (slot\<lparr>slot_real := Some ob\<rparr> # rest', log''))"

definition set_write :: "'h \<Rightarrow> ('h, 'cb) late_bound \<Rightarrow> ('h, 'cb) late_bound" where
  "set_write host st = st\<lparr>lb_inner := Some host\<rparr>"

definition set_replay :: "'h \<Rightarrow> ('h, 'cb) late_bound \<Rightarrow> ('h, 'cb) late_bound" where
  "set_replay host st =
     (let (rev', log') = replay_slots host Revocation (lb_revocation st) (lb_log st);
          (rot', log'') = replay_slots host Rotation (lb_rotation st) log'
      in st\<lparr>lb_revocation := rev', lb_rotation := rot', lb_log := log''\<rparr>)"

definition set_host :: "'h \<Rightarrow> ('h, 'cb) late_bound \<Rightarrow> ('h, 'cb) late_bound" where
  "set_host host st = set_replay host (set_write host st)"

definition slots :: "channel \<Rightarrow> ('h, 'cb) late_bound \<Rightarrow> 'cb slot list" where
  "slots ch st = (case ch of Revocation \<Rightarrow> lb_revocation st | Rotation \<Rightarrow> lb_rotation st)"

definition with_slots :: "channel \<Rightarrow> 'cb slot list \<Rightarrow> ('h, 'cb) late_bound \<Rightarrow> ('h, 'cb) late_bound" where
  "with_slots ch ss st =
     (case ch of Revocation \<Rightarrow> st\<lparr>lb_revocation := ss\<rparr> | Rotation \<Rightarrow> st\<lparr>lb_rotation := ss\<rparr>)"

text \<open>The two subscribing methods are the same code on their own list; the result is the
  identifier the returned guard holds.\<close>

definition subscribe :: "channel \<Rightarrow> 'cb \<Rightarrow> ('h, 'cb) late_bound \<Rightarrow> u64 \<times> ('h, 'cb) late_bound" where
  "subscribe ch cb st =
     (let ident = lb_next_id st + 1;
          (real, log') = (case lb_inner st of
             None \<Rightarrow> (None, lb_log st)
           | Some host \<Rightarrow> map_prod Some id (acquire host ch cb (lb_log st)))
      in (ident, with_slots ch
            (slots ch st @ [\<lparr>slot_id = ident, slot_callback = cb, slot_real = real\<rparr>])
            (st\<lparr>lb_next_id := ident, lb_log := log'\<rparr>)))"

definition subscribe_credential_revoked ::
  "'cb \<Rightarrow> ('h, 'cb) late_bound \<Rightarrow> u64 \<times> ('h, 'cb) late_bound" where
  "subscribe_credential_revoked = subscribe Revocation"

definition subscribe_secret_rotation ::
  "'cb \<Rightarrow> ('h, 'cb) late_bound \<Rightarrow> u64 \<times> ('h, 'cb) late_bound" where
  "subscribe_secret_rotation = subscribe Rotation"

text \<open>Dropping a guard: \<open>retain\<close> drops the slots that hold its identifier, in order.\<close>

definition drop_guard :: "channel \<Rightarrow> u64 \<Rightarrow> ('h, 'cb) late_bound \<Rightarrow> ('h, 'cb) late_bound" where
  "drop_guard ch ident st =
     with_slots ch (filter (\<lambda>slot. slot_id slot \<noteq> ident) (slots ch st))
       (st\<lparr>lb_log := fold (\<lambda>slot. release (slot_real slot))
          (filter (\<lambda>slot. slot_id slot = ident) (slots ch st)) (lb_log st)\<rparr>)"

subsection \<open>Threads\<close>

text \<open>
  A configuration: the state, the hosts whose \<open>set\<close> has written \<open>inner\<close> and not yet
  replayed, and the number of subscriptions made. \<open>serial\<close> asks that no \<open>set\<close> starts
  while another is under way.
\<close>

type_synonym ('h, 'cb) config = "('h, 'cb) late_bound \<times> 'h list \<times> nat"

inductive lb_step :: "bool \<Rightarrow> ('h, 'cb) config \<Rightarrow> ('h, 'cb) config \<Rightarrow> bool" for serial where
  Set_Write: "(serial \<Longrightarrow> pending = []) \<Longrightarrow>
     lb_step serial (st, pending, n) (set_write h st, h # pending, n)"
| Set_Replay: "h \<in> set pending \<Longrightarrow>
     lb_step serial (st, pending, n) (set_replay h st, remove1 h pending, n)"
| Subscribe: "lb_step serial (st, pending, n) (snd (subscribe ch cb st), pending, Suc n)"
| Drop: "lb_step serial (st, pending, n) (drop_guard ch ident st, pending, n)"

inductive reachable :: "bool \<Rightarrow> ('h, 'cb) config \<Rightarrow> bool" for serial where
  Start: "reachable serial (new_late_bound, [], 0)"
| Step: "reachable serial c \<Longrightarrow> lb_step serial c c' \<Longrightarrow> reachable serial c'"

inductive_cases lb_stepE: "lb_step serial c c'"

subsection \<open>Live subscriptions\<close>

text \<open>The subscription objects obtained and not yet dropped, with what each one carries.\<close>

fun live_step :: "(nat \<rightharpoonup> 'h \<times> channel \<times> 'cb) \<Rightarrow> ('h, 'cb) host_event \<Rightarrow> (nat \<rightharpoonup> 'h \<times> channel \<times> 'cb)" where
  "live_step m (Subscribed ob h ch cb) = m(ob \<mapsto> (h, ch, cb))"
| "live_step m (Released ob) = m(ob := None)"

definition live :: "('h, 'cb) host_event list \<Rightarrow> (nat \<rightharpoonup> 'h \<times> channel \<times> 'cb)" where
  "live log = fold (\<lambda>e m. live_step m e) log Map.empty"

lemma live_Nil [simp]: "live [] = Map.empty"
  by (simp add: live_def)

lemma live_snoc [simp]: "live (log @ [e]) = live_step (live log) e"
  by (simp add: live_def)

definition objects :: "(channel \<times> 'cb slot) list \<Rightarrow> nat list" where
  "objects ps = concat (map (\<lambda>p. case slot_real (snd p) of None \<Rightarrow> [] | Some ob \<Rightarrow> [ob]) ps)"

lemma objects_simps [simp]:
  "objects [] = []" "objects (ps @ qs) = objects ps @ objects qs"
  "objects ((ch, s) # ps) = (case slot_real s of None \<Rightarrow> [] | Some ob \<Rightarrow> [ob]) @ objects ps"
  by (simp_all add: objects_def)

text \<open>
  The slots \<open>ps\<close> own exactly the live objects: each object is held by one slot, and
  carries the slot's channel and callback.
\<close>

definition wired :: "(channel \<times> 'cb slot) list \<Rightarrow> ('h, 'cb) host_event list \<Rightarrow> bool" where
  "wired ps log \<longleftrightarrow>
     distinct (objects ps) \<and> dom (live log) = set (objects ps) \<and>
     (\<forall>ob \<in> dom (live log). ob < length log) \<and>
     (\<forall>p \<in> set ps. \<forall>ob. slot_real (snd p) = Some ob \<longrightarrow>
        (\<exists>h. live log ob = Some (h, fst p, slot_callback (snd p))))"

lemma objects_mem: "ob \<in> set (objects ps) \<longleftrightarrow> (\<exists>p \<in> set ps. slot_real (snd p) = Some ob)"
  by (induction ps) (auto split: option.splits)

lemma wired_facts:
  assumes "wired ps log"
  shows "distinct (objects ps)" and "dom (live log) = set (objects ps)"
    and "\<And>ob. ob \<in> set (objects ps) \<Longrightarrow> ob < length log"
    and "\<And>p ob. p \<in> set ps \<Longrightarrow> slot_real (snd p) = Some ob \<Longrightarrow>
      \<exists>h. live log ob = Some (h, fst p, slot_callback (snd p))"
  using assms by (auto simp: wired_def)

lemma wired_drop:
  assumes "wired (ps @ (ch, s) # qs) log"
  shows "wired (ps @ qs) (release (slot_real s) log)"
proof (cases "slot_real s")
  case None
  with assms show ?thesis by (simp add: wired_def release_def)
next
  case (Some ob)
  note w = wired_facts [OF assms]
  have fresh: "ob \<notin> set (objects (ps @ qs))" and disj: "distinct (objects (ps @ qs))"
    and dom: "dom (live log) = insert ob (set (objects (ps @ qs)))"
    using w(1,2) Some by auto
  show ?thesis
    unfolding wired_def Some release_def option.case
  proof (intro conjI ballI allI impI)
    show "distinct (objects (ps @ qs))" by (rule disj)
    show dom': "dom (live (log @ [Released ob])) = set (objects (ps @ qs))"
      using dom fresh by auto
    show "x < length (log @ [Released ob])" if "x \<in> dom (live (log @ [Released ob]))" for x
      using that w(3) [of x] unfolding dom' by (auto simp: Some)
    show "\<exists>h. live (log @ [Released ob]) x = Some (h, fst p, slot_callback (snd p))"
      if "p \<in> set (ps @ qs)" "slot_real (snd p) = Some x" for p x
      using that w(4) [of p x] fresh objects_mem [of x "ps @ qs"] by auto
  qed
qed

lemma wired_add_unbound:
  assumes "wired (ps @ qs) log" and "slot_real s = None"
  shows "wired (ps @ (ch, s) # qs) log"
  using assms by (auto simp: wired_def)

lemma wired_add_bound:
  assumes "wired (ps @ qs) log" and "acquire h ch (slot_callback s) log = (ob, log')" and "slot_real s = Some ob"
  shows "wired (ps @ (ch, s) # qs) log'"
proof -
  have ob: "ob = length log" "log' = log @ [Subscribed ob h ch (slot_callback s)]"
    using assms(2) by (auto simp: acquire_def)
  note w = wired_facts [OF assms(1)]
  have fresh: "ob \<notin> set (objects (ps @ qs))"
    using w(3) ob(1) by blast
  show ?thesis
    unfolding wired_def ob(2)
  proof (intro conjI ballI allI impI)
    show "distinct (objects (ps @ (ch, s) # qs))" using w(1) fresh assms(3) by auto
    show dom': "dom (live (log @ [Subscribed ob h ch (slot_callback s)])) = set (objects (ps @ (ch, s) # qs))"
      using w(2) assms(3) by auto
    show "x < length (log @ [Subscribed ob h ch (slot_callback s)])"
      if "x \<in> dom (live (log @ [Subscribed ob h ch (slot_callback s)]))" for x
      using that w(3) [of x] ob(1) assms(3) unfolding dom' by auto
    show "\<exists>h'. live (log @ [Subscribed ob h ch (slot_callback s)]) x = Some (h', fst p, slot_callback (snd p))"
      if "p \<in> set (ps @ (ch, s) # qs)" "slot_real (snd p) = Some x" for p x
      using that w(4) [of p x] fresh objects_mem [of x "ps @ qs"] assms(3) by (cases "p = (ch, s)") auto
  qed
qed

lemma wired_resubscribe:
  assumes "wired (ps @ (ch, s) # qs) log"
    and "acquire h ch (slot_callback s) (release (slot_real s) log) = (ob, log')"
  shows "wired (ps @ (ch, s\<lparr>slot_real := Some ob\<rparr>) # qs) log'"
  by (rule wired_add_bound [OF wired_drop [OF assms(1)]]) (use assms(2) in simp_all)

subsection \<open>Ownership\<close>

definition all_slots :: "('h, 'cb) late_bound \<Rightarrow> (channel \<times> 'cb slot) list" where
  "all_slots st = map (Pair Revocation) (lb_revocation st) @ map (Pair Rotation) (lb_rotation st)"

lemma replay_wired:
  "wired (cs @ map (Pair ch) ss @ ds) log \<Longrightarrow> replay_slots h ch ss log = (ss', log') \<Longrightarrow>
     wired (cs @ map (Pair ch) ss' @ ds) log'"
proof (induction ss arbitrary: cs log ss' log')
  case (Cons s ss)
  obtain ob l1 where a: "acquire h ch (slot_callback s) (release (slot_real s) log) = (ob, l1)"
    by (cases "acquire h ch (slot_callback s) (release (slot_real s) log)")
  obtain t l2 where r: "replay_slots h ch ss l1 = (t, l2)" by (cases "replay_slots h ch ss l1")
  have res: "ss' = s\<lparr>slot_real := Some ob\<rparr> # t" "log' = l2"
    using Cons.prems(2) by (simp_all add: a r)
  have "wired (cs @ (ch, s\<lparr>slot_real := Some ob\<rparr>) # map (Pair ch) ss @ ds) l1"
    using wired_resubscribe [OF _ a] Cons.prems(1) by simp
  then have "wired ((cs @ [(ch, s\<lparr>slot_real := Some ob\<rparr>)]) @ map (Pair ch) ss @ ds) l1" by simp
  from Cons.IH [OF this r] show ?case by (simp add: res)
qed simp

lemma drop_wired:
  "wired (cs @ map (Pair ch) ss @ ds) log \<Longrightarrow>
     wired (cs @ map (Pair ch) (filter (\<lambda>s. \<not> P s) ss) @ ds)
       (fold (\<lambda>s. release (slot_real s)) (filter P ss) log)"
proof (induction ss arbitrary: cs log)
  case (Cons s ss)
  show ?case
  proof (cases "P s")
    case True
    have "wired (cs @ map (Pair ch) ss @ ds) (release (slot_real s) log)"
      using wired_drop [of cs ch s] Cons.prems by simp
    with True show ?thesis using Cons.IH by simp
  next
    case False
    then show ?thesis using Cons.IH [of "cs @ [(ch, s)]" log] Cons.prems by simp
  qed
qed simp

lemma wired_start: "wired (all_slots new_late_bound) (lb_log new_late_bound)"
  by (simp add: wired_def all_slots_def new_late_bound_def)

lemma wired_replay: "wired (all_slots st) (lb_log st) \<Longrightarrow> wired (all_slots (set_replay h st)) (lb_log (set_replay h st))"
proof -
  assume w: "wired (all_slots st) (lb_log st)"
  obtain r l1 where r: "replay_slots h Revocation (lb_revocation st) (lb_log st) = (r, l1)" by fastforce
  obtain t l2 where t: "replay_slots h Rotation (lb_rotation st) l1 = (t, l2)" by fastforce
  have "wired (map (Pair Revocation) r @ map (Pair Rotation) (lb_rotation st)) l1"
    using replay_wired [of "[]", OF _ r] w by (simp add: all_slots_def)
  then have "wired (map (Pair Revocation) r @ map (Pair Rotation) t) l2"
    using replay_wired [of _ _ _ "[]", OF _ t] by simp
  then show ?thesis by (simp add: set_replay_def all_slots_def r t)
qed

lemma wired_subscribe: "wired (all_slots st) (lb_log st) \<Longrightarrow>
    wired (all_slots (snd (subscribe ch cb st))) (lb_log (snd (subscribe ch cb st)))"
proof -
  assume w: "wired (all_slots st) (lb_log st)"
  obtain cs ds where parts: "all_slots st = cs @ ds"
      "\<And>s l nid. all_slots (with_slots ch (slots ch st @ [s]) (st\<lparr>lb_next_id := nid, lb_log := l\<rparr>)) = cs @ (ch, s) # ds"
    using that [of "map (Pair Revocation) (lb_revocation st)" "map (Pair Rotation) (lb_rotation st)"]
      that [of "all_slots st" "[]"]
    by (cases ch) (simp_all add: all_slots_def with_slots_def slots_def)
  have log: "lb_log (with_slots ch ss (st\<lparr>lb_next_id := nid, lb_log := l\<rparr>)) = l" for ss nid l
    by (cases ch) (simp_all add: with_slots_def)
  have same: "all_slots (with_slots ch (slots ch st @ [s]) (st\<lparr>lb_next_id := nid\<rparr>)) = cs @ (ch, s) # ds"
    "lb_log (with_slots ch ss (st\<lparr>lb_next_id := nid\<rparr>)) = lb_log st" for s nid ss
    using parts(2) [of s "lb_log st" nid] log [of ss "lb_log st" nid] by simp_all
  show ?thesis
  proof (cases "lb_inner st")
    case None
    then show ?thesis
      using wired_add_unbound [of cs ds "lb_log st"] w
      by (simp add: subscribe_def Let_def parts(1) same)
  next
    case (Some h)
    obtain ob l where a: "acquire h ch cb (lb_log st) = (ob, l)" by fastforce
    then show ?thesis
      using wired_add_bound [of cs ds "lb_log st" h ch] w Some
      by (simp add: subscribe_def Let_def parts log)
  qed
qed

lemma wired_drop_guard: "wired (all_slots st) (lb_log st) \<Longrightarrow>
    wired (all_slots (drop_guard ch i st)) (lb_log (drop_guard ch i st))"
  using drop_wired [of "[]" Revocation "lb_revocation st" "map (Pair Rotation) (lb_rotation st)" "lb_log st" "\<lambda>s. slot_id s = i"]
    drop_wired [of "map (Pair Revocation) (lb_revocation st)" Rotation "lb_rotation st" "[]" "lb_log st" "\<lambda>s. slot_id s = i"]
  by (cases ch) (simp_all add: drop_guard_def all_slots_def with_slots_def slots_def)

lemma reachable_wired: "reachable serial c \<Longrightarrow> wired (all_slots (fst c)) (lb_log (fst c))"
proof (induction rule: reachable.induct)
  case (Step c c')
  from Step(2) Step(3) show ?case
    by (cases rule: lb_step.cases)
      (simp_all add: wired_replay wired_subscribe wired_drop_guard, simp add: set_write_def all_slots_def)
qed (simp add: wired_start)

text \<open>
  C13: No subscription leaks and none is lost, in any interleaving of any number of threads:
  in every reachable state the live objects obtained from inner hosts are exactly those the
  slots own, each owned by one slot and carrying the channel and the callback of that slot.
\<close>

theorem late_bound_owns_exactly:
  assumes "reachable serial (st, pending, n)"
  shows "distinct (objects (all_slots st)) \<and> dom (live (lb_log st)) = set (objects (all_slots st)) \<and>
    (\<forall>(ch, s) \<in> set (all_slots st). \<forall>ob. slot_real s = Some ob \<longrightarrow>
       (\<exists>h. live (lb_log st) ob = Some (h, ch, slot_callback s)))"
  using wired_facts [OF reachable_wired [OF assms]] by (simp add: case_prod_unfold)

definition race :: "bool \<Rightarrow> (nat, nat) config" where
  "race late =
     (let st = snd (subscribe Revocation 7 (new_late_bound :: (nat, nat) late_bound));
          both = set_write 2 (set_write 1 st)
      in (if late then set_replay 1 (set_replay 2 both) else set_replay 2 (set_replay 1 both), [], 1))"

lemma race_reachable: "reachable False (race late)"
proof -
  let ?st = "snd (subscribe Revocation 7 (new_late_bound :: (nat, nat) late_bound))"
  have 1: "reachable False (?st, [], 1)"
    using reachable.Step [OF reachable.Start lb_step.Subscribe] by simp
  have 2: "reachable False (set_write 1 ?st, [1], 1)"
    by (rule reachable.Step [OF 1 lb_step.Set_Write]) simp
  have 3: "reachable False (set_write 2 (set_write 1 ?st), [2, 1], 1)"
    by (rule reachable.Step [OF 2 lb_step.Set_Write]) simp
  have "reachable False (set_replay 1 (set_replay 2 (set_write 2 (set_write 1 ?st))), [], 1)"
    using reachable.Step [OF reachable.Step [OF 3 lb_step.Set_Replay [of 2]] lb_step.Set_Replay [of 1]] by simp
  moreover have "reachable False (set_replay 2 (set_replay 1 (set_write 2 (set_write 1 ?st))), [], 1)"
    using reachable.Step [OF reachable.Step [OF 3 lb_step.Set_Replay [of 1]] lb_step.Set_Replay [of 2]] by simp
  ultimately show ?thesis by (simp add: race_def Let_def)
qed

theorem late_bound_owns_exactly_witness:
  "dom (live (lb_log (fst (race False)))) = set (objects (all_slots (fst (race False))))"
  using late_bound_owns_exactly [of False "fst (race False)" "[]" 1] race_reachable [of False]
  by (simp add: race_def Let_def)

subsection \<open>Every slot lives on the current host\<close>

definition on_host :: "'h \<Rightarrow> channel \<Rightarrow> 'cb slot list \<Rightarrow> ('h, 'cb) host_event list \<Rightarrow> bool" where
  "on_host h ch ss log \<longleftrightarrow>
     (\<forall>s \<in> set ss. \<exists>ob. slot_real s = Some ob \<and> live log ob = Some (h, ch, slot_callback s))"

text \<open>What a plugin is promised: bound, its callback is live on the current host; unbound, it waits.\<close>

definition up_to_date :: "('h, 'cb) late_bound \<Rightarrow> bool" where
  "up_to_date st \<longleftrightarrow>
     (case lb_inner st of
        None \<Rightarrow> \<forall>p \<in> set (all_slots st). slot_real (snd p) = None
      | Some h \<Rightarrow> \<forall>ch. on_host h ch (slots ch st) (lb_log st))"

lemma objects_Pair_mem: "ob \<in> set (objects (map (Pair ch) ss)) \<longleftrightarrow> (\<exists>s \<in> set ss. slot_real s = Some ob)"
  by (auto simp: objects_mem)

lemma release_length: "length log \<le> length (release real log)"
  by (simp add: release_def split: option.splits)

lemma live_release: "live (release real log) ob = (if real = Some ob then None else live log ob)"
  by (auto simp: release_def split: option.splits)

lemma live_releases:
  "live (fold (\<lambda>s. release (slot_real s)) ss log) ob =
     (if ob \<in> set (objects (map (Pair ch) ss)) then None else live log ob)"
  by (induction ss arbitrary: log) (auto simp: live_release split: option.splits)

lemma replay_keeps:
  "replay_slots h ch ss log = (ss', log') \<Longrightarrow> ob < length log \<Longrightarrow> ob \<notin> set (objects (map (Pair ch) ss)) \<Longrightarrow>
     live log' ob = live log ob \<and> length log \<le> length log'"
proof (induction ss arbitrary: log ss' log')
  case (Cons s ss)
  let ?l = "release (slot_real s) log"
  obtain t l2 where r: "replay_slots h ch ss (?l @ [Subscribed (length ?l) h ch (slot_callback s)]) = (t, l2)"
    by fastforce
  have l2: "log' = l2" using Cons.prems(1) by (simp add: acquire_def Let_def r)
  have "ob < length ?l" using Cons.prems(2) release_length [of log "slot_real s"] by linarith
  then have "live l2 ob = live (?l @ [Subscribed (length ?l) h ch (slot_callback s)]) ob \<and>
      length (?l @ [Subscribed (length ?l) h ch (slot_callback s)]) \<le> length l2"
    using Cons.IH [OF r] Cons.prems(3) by (auto simp: objects_Pair_mem)
  moreover have "slot_real s \<noteq> Some ob" using Cons.prems(3) by auto
  ultimately show ?case
    using \<open>ob < length ?l\<close> release_length [of log "slot_real s"] by (auto simp: l2 live_release)
qed simp

lemma replay_on_host:
  "replay_slots h ch ss log = (ss', log') \<Longrightarrow> (\<And>ob. ob \<in> set (objects (map (Pair ch) ss)) \<Longrightarrow> ob < length log) \<Longrightarrow>
     on_host h ch ss' log'"
proof (induction ss arbitrary: log ss' log')
  case (Cons s ss)
  let ?l = "release (slot_real s) log"
  let ?l1 = "?l @ [Subscribed (length ?l) h ch (slot_callback s)]"
  obtain t l2 where r: "replay_slots h ch ss ?l1 = (t, l2)" by fastforce
  have res: "ss' = s\<lparr>slot_real := Some (length ?l)\<rparr> # t" "log' = l2"
    using Cons.prems(1) by (auto simp: acquire_def Let_def r)
  have bound: "ob < length ?l" if "ob \<in> set (objects (map (Pair ch) ss))" for ob
    using Cons.prems(2) [of ob] that release_length [of log "slot_real s"] by simp
  then have "length ?l \<notin> set (objects (map (Pair ch) ss))" by blast
  then have "live l2 (length ?l) = Some (h, ch, slot_callback s)"
    using replay_keeps [OF r, of "length ?l"] by simp
  moreover have "on_host h ch t l2"
    using Cons.IH [OF r] bound by fastforce
  ultimately show ?case by (auto simp: on_host_def res)
qed (simp add: on_host_def)

lemma replay_up_to_date:
  assumes "wired (all_slots st) (lb_log st)" and "lb_inner st = Some h"
  shows "up_to_date (set_replay h st)"
proof -
  note w = wired_facts [OF assms(1)]
  obtain r l1 where r: "replay_slots h Revocation (lb_revocation st) (lb_log st) = (r, l1)" by fastforce
  obtain t l2 where t: "replay_slots h Rotation (lb_rotation st) l1 = (t, l2)" by fastforce
  have old: "ob < length (lb_log st)"
    if "ob \<in> set (objects (map (Pair Revocation) (lb_revocation st))) \<union> set (objects (map (Pair Rotation) (lb_rotation st)))" for ob
    using w(3) that by (auto simp: all_slots_def)
  have rev_on: "on_host h Revocation r l1"
    using replay_on_host [OF r] old by blast
  have w1: "wired (map (Pair Revocation) r @ map (Pair Rotation) (lb_rotation st)) l1"
    using replay_wired [of "[]", OF _ r] assms(1) by (simp add: all_slots_def)
  note w1' = wired_facts [OF w1]
  have rot_on: "on_host h Rotation t l2"
    using replay_on_host [OF t] w1'(3) by simp
  have "on_host h Revocation r l2"
    unfolding on_host_def
  proof
    fix s
    assume s: "s \<in> set r"
    then obtain ob where ob: "slot_real s = Some ob" "live l1 ob = Some (h, Revocation, slot_callback s)"
      using rev_on by (auto simp: on_host_def)
    have "ob \<in> set (objects (map (Pair Revocation) r))"
      using s ob(1) by (auto simp: objects_Pair_mem)
    then have "ob < length l1" "ob \<notin> set (objects (map (Pair Rotation) (lb_rotation st)))"
      using w1'(1,3) by auto
    then show "\<exists>ob. slot_real s = Some ob \<and> live l2 ob = Some (h, Revocation, slot_callback s)"
      using replay_keeps [OF t] ob by auto
  qed
  then show ?thesis
    using rot_on assms(2) by (auto simp: up_to_date_def set_replay_def r t slots_def split: channel.splits)
qed

lemma on_host_step:
  assumes "wired (all_slots st) (lb_log st)" and "on_host h ch (slots ch st) (lb_log st)"
    and "set ss \<subseteq> set (slots ch st)"
    and "\<And>s ob. s \<in> set ss \<Longrightarrow> slot_real s = Some ob \<Longrightarrow> ob < length (lb_log st) \<Longrightarrow>
      live log' ob = live (lb_log st) ob"
  shows "on_host h ch ss log'"
  unfolding on_host_def
proof
  fix s
  assume s: "s \<in> set ss"
  with assms(2,3) obtain ob where ob: "slot_real s = Some ob" "live (lb_log st) ob = Some (h, ch, slot_callback s)"
    by (auto simp: on_host_def)
  then have "ob < length (lb_log st)"
    using wired_facts(2,3) [OF assms(1)] by blast
  then show "\<exists>ob. slot_real s = Some ob \<and> live log' ob = Some (h, ch, slot_callback s)"
    using assms(4) [OF s ob(1)] ob by auto
qed

lemma slots_with_slots [simp]:
  "slots ch (with_slots ch' ss st) = (if ch = ch' then ss else slots ch st)"
  "lb_log (with_slots ch' ss st) = lb_log st" "lb_inner (with_slots ch' ss st) = lb_inner st"
  "lb_next_id (with_slots ch' ss st) = lb_next_id st"
  by (cases ch; cases ch'; simp add: slots_def with_slots_def)+

lemma slots_update [simp]:
  "slots ch (st\<lparr>lb_next_id := i\<rparr>) = slots ch st" "slots ch (st\<lparr>lb_log := l\<rparr>) = slots ch st"
  "slots ch (st\<lparr>lb_inner := x\<rparr>) = slots ch st"
  by (cases ch; simp add: slots_def)+

lemma all_slots_slots: "p \<in> set (all_slots st) \<longleftrightarrow> snd p \<in> set (slots (fst p) st)"
  by (cases p; cases "fst p") (auto simp: all_slots_def slots_def)

lemma subscribe_simps:
  "lb_inner (snd (subscribe ch cb st)) = lb_inner st"
  "lb_next_id (snd (subscribe ch cb st)) = lb_next_id st + 1"
  "slots ch' (snd (subscribe ch cb st)) = (if ch' = ch then slots ch st @
     [\<lparr>slot_id = lb_next_id st + 1, slot_callback = cb,
       slot_real = (case lb_inner st of None \<Rightarrow> None | Some h \<Rightarrow> Some (length (lb_log st)))\<rparr>]
   else slots ch' st)"
  "lb_log (snd (subscribe ch cb st)) = (case lb_inner st of None \<Rightarrow> lb_log st
     | Some h \<Rightarrow> lb_log st @ [Subscribed (length (lb_log st)) h ch cb])"
  by (cases "lb_inner st"; simp add: subscribe_def Let_def acquire_def)+

lemma drop_guard_simps:
  "lb_inner (drop_guard ch i st) = lb_inner st" "lb_next_id (drop_guard ch i st) = lb_next_id st"
  "slots ch' (drop_guard ch i st) =
     (if ch' = ch then filter (\<lambda>s. slot_id s \<noteq> i) (slots ch st) else slots ch' st)"
  "lb_log (drop_guard ch i st) =
     fold (\<lambda>s. release (slot_real s)) (filter (\<lambda>s. slot_id s = i) (slots ch st)) (lb_log st)"
  by (simp_all add: drop_guard_def)

lemma other_slot_object:
  assumes "wired (all_slots st) log" and "s \<in> set (slots ch st)" "t \<in> set (slots ch' st)"
    and "slot_real s = Some ob" "slot_real t = Some ob"
  shows "ch = ch'" and "slot_callback s = slot_callback t"
  using wired_facts(4) [OF assms(1), of "(ch, s)" ob] wired_facts(4) [OF assms(1), of "(ch', t)" ob] assms(2-)
  by (auto simp: all_slots_slots)

lemma objects_distinct_slots:
  "distinct (objects ps) \<Longrightarrow> p \<in> set ps \<Longrightarrow> q \<in> set ps \<Longrightarrow> slot_real (snd p) = Some ob \<Longrightarrow>
     slot_real (snd q) = Some ob \<Longrightarrow> p = q"
  by (induction ps) (auto simp: objects_mem split: option.splits)

lemma up_to_date_subscribe:
  assumes "wired (all_slots st) (lb_log st)" and "up_to_date st"
  shows "up_to_date (snd (subscribe ch cb st))"
proof (cases "lb_inner st")
  case None
  then show ?thesis
    using assms(2) by (auto simp: up_to_date_def subscribe_simps all_slots_slots split: if_splits)
next
  case (Some h)
  have "on_host h ch' (slots ch' st) (lb_log st @ [Subscribed (length (lb_log st)) h ch cb])" for ch'
    using on_host_step [OF assms(1), of h ch' "slots ch' st"] assms(2) Some
    by (auto simp: up_to_date_def)
  then show ?thesis
    using Some by (auto simp: up_to_date_def subscribe_simps on_host_def)
qed

lemma up_to_date_drop:
  assumes "wired (all_slots st) (lb_log st)" and "up_to_date st"
  shows "up_to_date (drop_guard ch i st)"
proof (cases "lb_inner st")
  case None
  then show ?thesis
    using assms(2) by (auto simp: up_to_date_def drop_guard_simps all_slots_slots split: if_splits)
next
  case (Some h)
  let ?gone = "filter (\<lambda>s. slot_id s = i) (slots ch st)"
  have "on_host h ch' (slots ch' (drop_guard ch i st)) (lb_log (drop_guard ch i st))" for ch'
  proof (rule on_host_step [OF assms(1), of h ch'])
    show "on_host h ch' (slots ch' st) (lb_log st)"
      using assms(2) Some by (simp add: up_to_date_def)
    show "set (slots ch' (drop_guard ch i st)) \<subseteq> set (slots ch' st)"
      by (simp add: drop_guard_simps)
    fix s ob
    assume s: "s \<in> set (slots ch' (drop_guard ch i st))" "slot_real s = Some ob"
    have "ob \<notin> set (objects (map (Pair ch) ?gone))"
    proof
      assume "ob \<in> set (objects (map (Pair ch) ?gone))"
      then obtain t where t: "t \<in> set (slots ch st)" "slot_id t = i" "slot_real t = Some ob"
        by (auto simp: objects_Pair_mem)
      have "s \<in> set (slots ch' st)" using s(1) by (auto simp: drop_guard_simps split: if_splits)
      then have "(ch', s) = (ch, t)"
        using objects_distinct_slots [OF wired_facts(1) [OF assms(1)], of "(ch', s)" "(ch, t)" ob] s(2) t
        by (simp add: all_slots_slots)
      with s(1) t(2) show False by (simp add: drop_guard_simps)
    qed
    then show "live (lb_log (drop_guard ch i st)) ob = live (lb_log st) ob"
      by (simp add: drop_guard_simps live_releases [where ch = ch])
  qed
  then show ?thesis using Some by (simp add: up_to_date_def drop_guard_simps)
qed

lemma serial_invariant:
  "reachable True c \<Longrightarrow>
     (case c of (st, pending, n) \<Rightarrow>
        (pending = [] \<and> up_to_date st) \<or> (\<exists>h. pending = [h] \<and> lb_inner st = Some h))"
proof (induction rule: reachable.induct)
  case Start
  then show ?case by (simp add: up_to_date_def new_late_bound_def all_slots_def)
next
  case (Step c c')
  have w: "wired (all_slots (fst c)) (lb_log (fst c))" by (rule reachable_wired [OF Step(1)])
  from Step(2) Step(3) w show ?case
    by (cases rule: lb_step.cases)
      (auto simp: up_to_date_subscribe up_to_date_drop subscribe_simps drop_guard_simps set_write_def
        intro: replay_up_to_date)
qed

text \<open>
  C7: Plugins see live subscriptions: as long as no two \<open>set\<close> calls overlap, then whenever
  none is under way every slot is subscribed on the host that is bound now, with its own
  callback and on its own channel, through any number of host swaps, subscriptions and
  dropped guards; and while no host is bound every slot waits.
\<close>

theorem late_bound_up_to_date:
  assumes "reachable True (st, [], n)"
  shows "(case lb_inner st of
      None \<Rightarrow> \<forall>p \<in> set (all_slots st). slot_real (snd p) = None
    | Some h \<Rightarrow> \<forall>p \<in> set (all_slots st). \<exists>ob. slot_real (snd p) = Some ob \<and>
        live (lb_log st) ob = Some (h, fst p, slot_callback (snd p)))"
  using serial_invariant [OF assms]
  by (auto simp: up_to_date_def on_host_def all_slots_slots split: option.splits)

text \<open>Two sets one after the other, with a subscription before, between and after.\<close>

definition swap_run :: "(nat, nat) late_bound" where
  "swap_run =
     snd (subscribe Rotation 9 (set_host 2 (snd (subscribe Revocation 8
       (set_host 1 (snd (subscribe Revocation 7 new_late_bound)))))))"

lemma set_host_serial: "reachable True (st, [], n) \<Longrightarrow> reachable True (set_host h st, [], n)"
  using reachable.Step [OF reachable.Step [OF _ lb_step.Set_Write [of True "[]"]] lb_step.Set_Replay [of h]]
  by (fastforce simp: set_host_def)

lemma swap_run_reachable: "reachable True (swap_run, [], 3)"
proof -
  have sub: "reachable True (st, [], n) \<Longrightarrow> reachable True (snd (subscribe ch cb st), [], Suc n)"
    for st :: "(nat, nat) late_bound" and n ch cb
    by (rule reachable.Step [OF _ lb_step.Subscribe])
  have "reachable True (swap_run, [], Suc (Suc (Suc 0)))"
    unfolding swap_run_def by (intro sub set_host_serial reachable.Start)
  then show ?thesis by (simp add: numeral_3_eq_3)
qed

theorem late_bound_up_to_date_witness:
  "list_all (\<lambda>p. \<exists>ob. slot_real (snd p) = Some ob \<and>
     live (lb_log swap_run) ob = Some (2, fst p, slot_callback (snd p))) (all_slots swap_run)"
proof -
  have "lb_inner swap_run = Some 2" by code_simp
  then show ?thesis using late_bound_up_to_date [OF swap_run_reachable] by (simp add: list_all_iff)
qed

text \<open>
  C40: The promise breaks when two \<open>set\<close> calls overlap: \<open>inner\<close> keeps the host written
  last, but the subscriptions follow the replay that ran last, so a reachable state with no
  \<open>set\<close> under way forwards calls to one host and listens on another.
\<close>

theorem late_bound_race:
  "\<exists>st n. reachable False (st, [], n) \<and> lb_inner st = Some (2 :: nat) \<and>
     (\<exists>s ob. s \<in> set (slots Revocation st) \<and> slot_real s = Some ob \<and>
        live (lb_log st) ob = Some (1, Revocation, slot_callback s :: nat))"
proof -
  have "lb_inner (fst (race True)) = Some 2" by code_simp
  moreover have "slots Revocation (fst (race True)) = [\<lparr>slot_id = 1, slot_callback = 7, slot_real = Some 2\<rparr>]"
    by code_simp
  moreover have "live (lb_log (fst (race True))) 2 = Some (1, Revocation, 7)"
    by code_simp
  moreover have "race True = (fst (race True), [], 1)" by (simp add: race_def Let_def)
  ultimately show ?thesis using race_reachable [of True]
    by (intro exI [of _ "fst (race True)"] exI [of _ "1 :: nat"]) auto
qed

text \<open>What plugins may do between two \<open>set\<close> calls: subscribe, or drop a guard.\<close>

fun plugin_op :: "channel \<times> ('cb + u64) \<Rightarrow> ('h, 'cb) late_bound \<Rightarrow> ('h, 'cb) late_bound" where
  "plugin_op (ch, Inl cb) st = snd (subscribe ch cb st)"
| "plugin_op (ch, Inr ident) st = drop_guard ch ident st"

lemma plugin_ops_keep:
  "wired (all_slots st) (lb_log st) \<Longrightarrow> up_to_date st \<Longrightarrow>
     up_to_date (fold plugin_op ops st) \<and> lb_inner (fold plugin_op ops st) = lb_inner st"
proof (induction ops arbitrary: st)
  case (Cons p ops)
  obtain ch x where p: "p = (ch, x)" by fastforce
  have "wired (all_slots (plugin_op p st)) (lb_log (plugin_op p st))" "up_to_date (plugin_op p st)"
      "lb_inner (plugin_op p st) = lb_inner st"
    using wired_subscribe [OF Cons.prems(1)] wired_drop_guard [OF Cons.prems(1)]
      up_to_date_subscribe [OF Cons.prems] up_to_date_drop [OF Cons.prems]
    by (cases x; simp add: p subscribe_simps(1) drop_guard_simps(1))+
  with Cons.IH [of "plugin_op p st"] show ?case by simp
qed simp

text \<open>
  C14: A race heals at the next \<open>set\<close>: from every reachable state, including those that
  overlapping \<open>set\<close> calls left behind, one undisturbed \<open>set\<close> brings every waiting or
  misplaced subscription to the new host, and from then on every slot stays live there, with
  its own callback and on its own channel, whatever is subscribed and dropped afterwards.
\<close>

theorem late_bound_heals:
  assumes "reachable False (st, pending, n)"
  shows "lb_inner (fold plugin_op ops (set_host h st)) = Some h \<and>
    (\<forall>p \<in> set (all_slots (fold plugin_op ops (set_host h st))). \<exists>ob. slot_real (snd p) = Some ob \<and>
      live (lb_log (fold plugin_op ops (set_host h st))) ob = Some (h, fst p, slot_callback (snd p)))"
proof -
  have w: "wired (all_slots (set_write h st)) (lb_log (set_write h st))"
    using reachable_wired [OF assms] by (simp add: set_write_def all_slots_def)
  then have wired: "wired (all_slots (set_host h st)) (lb_log (set_host h st))"
    by (simp add: set_host_def wired_replay)
  have inner: "lb_inner (set_host h st) = Some h"
    by (simp add: set_host_def set_write_def set_replay_def case_prod_unfold Let_def)
  have "up_to_date (set_host h st)"
    unfolding set_host_def by (rule replay_up_to_date [OF w]) (simp add: set_write_def)
  from plugin_ops_keep [OF wired this, of ops] inner show ?thesis
    by (auto simp: up_to_date_def on_host_def all_slots_slots)
qed

theorem late_bound_heals_witness:
  "list_all (\<lambda>p. \<exists>ob. slot_real (snd p) = Some ob \<and>
     live (lb_log (set_host 3 (fst (race True)))) ob = Some (3, fst p, slot_callback (snd p)))
   (all_slots (set_host 3 (fst (race True))))"
proof -
  have "reachable False (fst (race True), [], 1)"
    using race_reachable [of True] by (simp add: race_def Let_def)
  from late_bound_heals [OF this, of "[]" 3] show ?thesis by (simp add: list_all_iff)
qed

subsection \<open>Guards\<close>

text \<open>Identifiers are handed out in order: those of a channel are increasing numbers up to the
  count of subscriptions, taken at 64 bits.\<close>

definition ids_below :: "nat \<Rightarrow> 'cb slot list \<Rightarrow> bool" where
  "ids_below n ss \<longleftrightarrow>
     (\<exists>ks. map slot_id ss = map of_nat ks \<and> sorted_wrt (<) ks \<and> list_all (\<lambda>k. k \<le> n) ks)"

lemma ids_below_Nil [simp]: "ids_below n []"
  by (simp add: ids_below_def)

lemma ids_below_cong: "map slot_id ss = map slot_id ts \<Longrightarrow> ids_below n ss \<longleftrightarrow> ids_below n ts"
  by (simp add: ids_below_def)

lemma ids_below_Suc: "ids_below n ss \<Longrightarrow> ids_below (Suc n) ss"
  by (fastforce simp: ids_below_def list_all_iff)

lemma ids_below_snoc: "ids_below n ss \<Longrightarrow> slot_id s = of_nat (Suc n) \<Longrightarrow> ids_below (Suc n) (ss @ [s])"
  unfolding ids_below_def
  by (elim exE, rename_tac ks, rule_tac x = "ks @ [Suc n]" in exI)
    (auto simp: sorted_wrt_append list_all_iff less_Suc_eq_le)

lemma ids_below_filter:
  assumes "ids_below n ss"
  shows "ids_below n (filter (\<lambda>s. slot_id s \<noteq> i) ss)"
proof -
  have "map slot_id (filter (\<lambda>s. slot_id s \<noteq> i) ss) = map of_nat (filter (\<lambda>k. of_nat k \<noteq> i) ks)"
    if "map slot_id ss = map of_nat ks" for ks
    using that by (induction ss arbitrary: ks) auto
  with assms show ?thesis
    unfolding ids_below_def by (metis (no_types, lifting) list.pred_set mem_Collect_eq set_filter sorted_wrt_filter)
qed

lemma replay_ids: "map slot_id (fst (replay_slots h ch ss log)) = map slot_id ss"
  by (induction ss arbitrary: log) (simp_all add: acquire_def Let_def case_prod_unfold)

lemma set_replay_ids:
  "map slot_id (slots ch (set_replay h st)) = map slot_id (slots ch st)"
  "lb_next_id (set_replay h st) = lb_next_id st"
  by (cases ch) (simp_all add: set_replay_def slots_def replay_ids case_prod_unfold Let_def)

lemma reachable_ids:
  "reachable serial c \<Longrightarrow>
     (case c of (st, pending, n) \<Rightarrow> lb_next_id st = of_nat n \<and> (\<forall>ch. ids_below n (slots ch st)))"
proof (induction rule: reachable.induct)
  case Start
  then show ?case by (simp add: new_late_bound_def slots_def split: channel.splits)
next
  case (Step c c')
  from Step(2) Step(3) show ?case
  proof (cases rule: lb_step.cases)
    case (Set_Write pending st n h)
    then show ?thesis using Step(3) by (simp add: set_write_def)
  next
    case (Set_Replay h pending st n)
    then show ?thesis using Step(3) by (simp add: set_replay_ids(2) ids_below_cong [OF set_replay_ids(1)])
  next
    case (Subscribe st pending n ch cb)
    then show ?thesis
      using Step(3) by (simp add: subscribe_simps ids_below_Suc ids_below_snoc add.commute)
  next
    case (Drop st pending n ch i)
    then show ?thesis
      using Step(3) by (simp add: drop_guard_simps ids_below_filter)
  qed
qed

lemma reachable_distinct_ids:
  assumes "reachable serial (st, pending, n)" and "n < 2 ^ 64"
  shows "distinct (map slot_id (slots ch st))"
proof -
  obtain ks where ks: "map slot_id (slots ch st) = map of_nat ks" "sorted_wrt (<) ks" "list_all (\<lambda>k. k \<le> n) ks"
    using reachable_ids [OF assms(1)] by (auto simp: ids_below_def)
  have "inj_on (of_nat :: nat \<Rightarrow> u64) (set ks)"
  proof (rule inj_onI)
    fix x y
    assume "x \<in> set ks" "y \<in> set ks" "(of_nat x :: u64) = of_nat y"
    moreover from this ks(3) assms(2) have "x < 2 ^ 64" "y < 2 ^ 64" by (auto simp: list_all_iff)
    ultimately have "unat (of_nat x :: u64) = unat (of_nat y :: u64)" "x < 2 ^ 64" "y < 2 ^ 64" by simp_all
    then show "x = y" by (simp add: unat_of_nat)
  qed
  moreover have "distinct ks" using ks(2) by (simp add: strict_sorted_iff)
  ultimately show ?thesis by (simp add: ks(1) distinct_map)
qed

text \<open>
  C15: Dropping a guard unsubscribes its own callback and nothing else: its slot disappears,
  its object is released, and every other slot of either channel and every other live object
  stay. This holds in every reachable state, races included, as long as fewer than \<open>2 ^ 64\<close>
  subscriptions were made, after which identifiers repeat.
\<close>

theorem drop_guard_exact:
  assumes "reachable serial (st, pending, n)" and "n < 2 ^ 64" and "s \<in> set (slots ch st)"
  shows "slots ch' (drop_guard ch (slot_id s) st) = (if ch' = ch then remove1 s (slots ch st) else slots ch' st) \<and>
    live (lb_log (drop_guard ch (slot_id s) st)) =
      (case slot_real s of None \<Rightarrow> live (lb_log st) | Some ob \<Rightarrow> (live (lb_log st))(ob := None))"
proof -
  have dist: "distinct (map slot_id (slots ch st))"
    by (rule reachable_distinct_ids [OF assms(1,2)])
  have "filter (\<lambda>t. slot_id t \<noteq> slot_id s) ss = remove1 s ss \<and> filter (\<lambda>t. slot_id t = slot_id s) ss = [s]"
    if "s \<in> set ss" "distinct (map slot_id ss)" for ss
  proof -
    have "slot_id t = slot_id s \<longleftrightarrow> t = s" if "t \<in> set ss" for t
      using \<open>s \<in> set ss\<close> \<open>distinct (map slot_id ss)\<close> that by (auto simp: distinct_map dest: inj_onD)
    then have "filter (\<lambda>t. slot_id t \<noteq> slot_id s) ss = filter (\<lambda>t. s \<noteq> t) ss"
      "filter (\<lambda>t. slot_id t = slot_id s) ss = filter (\<lambda>t. t = s) ss"
      by (auto intro: filter_cong)
    moreover have "distinct ss" using \<open>distinct (map slot_id ss)\<close> by (simp add: distinct_map)
    moreover from this have "filter (\<lambda>t. t = s) ss = [s]"
      using \<open>s \<in> set ss\<close> by (induction ss) (auto simp: filter_empty_conv)
    ultimately show ?thesis by (simp add: distinct_remove1_removeAll removeAll_filter_not_eq)
  qed
  from this [OF assms(3) dist] show ?thesis
    by (auto simp: drop_guard_simps live_release fun_eq_iff split: option.splits)
qed

theorem drop_guard_exact_witness:
  "slots Revocation (drop_guard Revocation 1 swap_run) = remove1 \<lparr>slot_id = 1, slot_callback = 7, slot_real = Some 3\<rparr>
     (slots Revocation swap_run)"
proof -
  have "\<lparr>slot_id = 1, slot_callback = 7, slot_real = Some 3\<rparr> \<in> set (slots Revocation swap_run)"
    by code_simp
  from drop_guard_exact [OF swap_run_reachable _ this, of Revocation] show ?thesis by simp
qed

end
