(* ===== verification/Late_Bound_Spec.thy ===== *)
theory Late_Bound_Spec
  imports Late_Bound "HOL-Library.Multiset"
begin

section \<open>What the late-bound host promises, as an abstract machine\<close>

text \<open>
  The doc of \<open>LateBoundBackendHost\<close> promises that plugins always see a live subscription for
  the lifetime of the guard they hold, on the most recent host. The abstract machine says this
  without slots, objects or a log: a current host and a registry of the guards that are alive.
  A locale for simulations carries the step-by-step correspondence to whole runs, and is
  interpreted on the model of the code.
\<close>

subsection \<open>Simulations\<close>

text \<open>A run all of whose operations are allowed where they happen.\<close>

fun allowed_run :: "('o \<Rightarrow> 'a \<Rightarrow> bool) \<Rightarrow> ('o \<Rightarrow> 'a \<Rightarrow> 'a) \<Rightarrow> 'o list \<Rightarrow> 'a \<Rightarrow> bool" where
  "allowed_run allowed step [] a \<longleftrightarrow> True"
| "allowed_run allowed step (ob # obs) a \<longleftrightarrow> allowed ob a \<and> allowed_run allowed step obs (step ob a)"

locale simulation =
  fixes start :: 's and step :: "'o \<Rightarrow> 's \<Rightarrow> 's"
    and astart :: 'a and astep :: "'o \<Rightarrow> 'a \<Rightarrow> 'a"
    and allowed :: "'o \<Rightarrow> 'a \<Rightarrow> bool" and rel :: "'s \<Rightarrow> 'a \<Rightarrow> bool"
  assumes rel_start: "rel start astart"
    and rel_step: "rel s a \<Longrightarrow> allowed ob a \<Longrightarrow> rel (step ob s) (astep ob a)"
begin

lemma rel_run: "rel s a \<Longrightarrow> allowed_run allowed astep obs a \<Longrightarrow> rel (fold step obs s) (fold astep obs a)"
  by (induction obs arbitrary: s a) (auto intro: rel_step)

lemma run_refines: "allowed_run allowed astep obs astart \<Longrightarrow> rel (fold step obs start) (fold astep obs astart)"
  by (rule rel_run [OF rel_start])

end

subsection \<open>Actions\<close>

text \<open>
  An action as a thread takes it: \<open>set\<close> is two, the write of \<open>inner\<close> and the replay, and what
  other threads subscribe and drop may come between. A guard is named by the number of the
  subscription that returned it. The state of the code is paired with the host whose \<open>set\<close> is
  under way.
\<close>

datatype ('h, 'cb) lb_act = Begin_Set 'h | End_Set | Subscribe_On channel 'cb | Drop_Guard channel nat

fun impl_act :: "('h, 'cb) lb_act \<Rightarrow> ('h, 'cb) late_bound \<times> 'h option \<Rightarrow> ('h, 'cb) late_bound \<times> 'h option" where
  "impl_act (Begin_Set h) (st, p) = (set_write h st, Some h)"
| "impl_act End_Set (st, p) = (case p of None \<Rightarrow> (st, None) | Some h \<Rightarrow> (set_replay h st, None))"
| "impl_act (Subscribe_On ch cb) (st, p) = (snd (subscribe ch cb st), p)"
| "impl_act (Drop_Guard ch k) (st, p) = (drop_guard ch (of_nat k) st, p)"

text \<open>The machine knows the host, the number of subscriptions made and the guards alive; a \<open>set\<close>
  takes effect at once, when it ends.\<close>

record ('h, 'cb) registry =
  rg_host :: "'h option"
  rg_setting :: "'h option"
  rg_made :: nat
  rg_guards :: "(nat \<times> channel \<times> 'cb) list"

definition empty_registry :: "('h, 'cb) registry" where
  "empty_registry = \<lparr>rg_host = None, rg_setting = None, rg_made = 0, rg_guards = []\<rparr>"

fun spec_act :: "('h, 'cb) lb_act \<Rightarrow> ('h, 'cb) registry \<Rightarrow> ('h, 'cb) registry" where
  "spec_act (Begin_Set h) r = r\<lparr>rg_setting := Some h\<rparr>"
| "spec_act End_Set r = r\<lparr>rg_host := rg_setting r, rg_setting := None\<rparr>"
| "spec_act (Subscribe_On ch cb) r =
     r\<lparr>rg_made := Suc (rg_made r), rg_guards := rg_guards r @ [(Suc (rg_made r), ch, cb)]\<rparr>"
| "spec_act (Drop_Guard ch k) r =
     r\<lparr>rg_guards := filter (\<lambda>(i, c, cb). (i, c) \<noteq> (k, ch)) (rg_guards r)\<rparr>"

text \<open>No \<open>set\<close> begins while another is under way; guards keep their numbers apart below
  \<open>2 ^ 64\<close> subscriptions.\<close>

fun in_range :: "('h, 'cb) lb_act \<Rightarrow> ('h, 'cb) registry \<Rightarrow> bool" where
  "in_range (Begin_Set h) r \<longleftrightarrow> rg_setting r = None"
| "in_range End_Set r \<longleftrightarrow> rg_setting r \<noteq> None"
| "in_range (Subscribe_On ch cb) r \<longleftrightarrow> Suc (rg_made r) < 2 ^ 64"
| "in_range (Drop_Guard ch k) r \<longleftrightarrow> k < 2 ^ 64"

text \<open>What an observer sees: which callback listens on which host and channel, how often.\<close>

definition spec_listening :: "('h, 'cb) registry \<Rightarrow> ('h \<times> channel \<times> 'cb) multiset" where
  "spec_listening r = (case rg_host r of None \<Rightarrow> {#}
     | Some h \<Rightarrow> image_mset (\<lambda>(i, ch, cb). (h, ch, cb)) (mset (rg_guards r)))"

definition listening :: "('h, 'cb) host_event list \<Rightarrow> ('h \<times> channel \<times> 'cb) multiset" where
  "listening log = image_mset (\<lambda>ob. the (live log ob)) (mset_set (dom (live log)))"

subsection \<open>The simulation\<close>

definition guards_on :: "channel \<Rightarrow> ('h, 'cb) registry \<Rightarrow> (nat \<times> 'cb) list" where
  "guards_on ch r = map (\<lambda>(i, c, cb). (i, cb)) (filter (\<lambda>(i, c, cb). c = ch) (rg_guards r))"

definition registered :: "('h, 'cb) late_bound \<Rightarrow> ('h, 'cb) registry \<Rightarrow> bool" where
  "registered st r \<longleftrightarrow>
     wired (all_slots st) (lb_log st) \<and> lb_next_id st = of_nat (rg_made r) \<and> rg_made r < 2 ^ 64 \<and>
     (\<forall>(i, ch, cb) \<in> set (rg_guards r). i \<le> rg_made r) \<and>
     (\<forall>ch. map (\<lambda>s. (slot_id s, slot_callback s)) (slots ch st) =
        map (\<lambda>(i, cb). (of_nat i, cb)) (guards_on ch r))"

fun represents :: "('h, 'cb) late_bound \<times> 'h option \<Rightarrow> ('h, 'cb) registry \<Rightarrow> bool" where
  "represents (st, p) r \<longleftrightarrow> registered st r \<and> p = rg_setting r \<and>
     (case p of None \<Rightarrow> lb_inner st = rg_host r \<and> up_to_date st | Some h \<Rightarrow> lb_inner st = Some h)"

lemma registeredD:
  assumes "registered st r"
  shows "wired (all_slots st) (lb_log st)" and "lb_next_id st = of_nat (rg_made r)"
    and "\<forall>(i, ch, cb) \<in> set (rg_guards r). i \<le> rg_made r"
    and "map (\<lambda>s. (slot_id s, slot_callback s)) (slots ch st) =
        map (\<lambda>(i, cb). (of_nat i, cb)) (guards_on ch r)"
    and "\<forall>(i, cb) \<in> set (guards_on ch r). i < 2 ^ 64"
  using assms by (auto simp: registered_def guards_on_def)

lemma replay_slots_kept:
  "map (\<lambda>s. (slot_id s, slot_callback s)) (slots ch (set_replay h st)) =
     map (\<lambda>s. (slot_id s, slot_callback s)) (slots ch st)"
proof -
  have "map (\<lambda>s. (slot_id s, slot_callback s)) (fst (replay_slots h c ss log)) =
      map (\<lambda>s. (slot_id s, slot_callback s)) ss" for c ss log
    by (induction ss arbitrary: log) (simp_all add: acquire_def Let_def case_prod_unfold)
  then show ?thesis
    by (cases ch) (simp_all add: set_replay_def slots_def Let_def case_prod_unfold)
qed

lemma set_replay_inner: "lb_inner (set_replay h st) = lb_inner st"
  by (simp add: set_replay_def case_prod_unfold Let_def)

lemma set_write_simps:
  "lb_inner (set_write h st) = Some h" "lb_next_id (set_write h st) = lb_next_id st"
  "lb_log (set_write h st) = lb_log st" "slots ch (set_write h st) = slots ch st"
  "all_slots (set_write h st) = all_slots st"
  by (simp_all add: set_write_def all_slots_def)

lemma of_nat_u64_eq: "i < 2 ^ 64 \<Longrightarrow> k < 2 ^ 64 \<Longrightarrow> (of_nat i :: u64) = of_nat k \<longleftrightarrow> i = k"
  by (auto simp: word_unat_eq_iff unat_of_nat)

lemma filter_ids:
  assumes "map (\<lambda>s. (slot_id s, slot_callback s)) ss = map (\<lambda>(i, cb). (of_nat i, cb)) gs"
    and "\<forall>(i, cb) \<in> set gs. i < 2 ^ 64" and "k < 2 ^ 64"
  shows "map (\<lambda>s. (slot_id s, slot_callback s)) (filter (\<lambda>s. slot_id s \<noteq> of_nat k) ss) =
    map (\<lambda>(i, cb). (of_nat i, cb)) (filter (\<lambda>(i, cb). i \<noteq> k) gs)"
  using assms by (induction ss arbitrary: gs) (auto simp: of_nat_u64_eq)

lemma guards_on_spec:
  "guards_on ch (r\<lparr>rg_host := x\<rparr>) = guards_on ch r" "guards_on ch (r\<lparr>rg_setting := x\<rparr>) = guards_on ch r"
  "guards_on ch (spec_act (Subscribe_On c cb) r) =
     (if ch = c then guards_on ch r @ [(Suc (rg_made r), cb)] else guards_on ch r)"
  "guards_on ch (spec_act (Drop_Guard c k) r) =
     (if ch = c then filter (\<lambda>(i, cb). i \<noteq> k) (guards_on ch r) else guards_on ch r)"
  by (auto simp: guards_on_def filter_map comp_def case_prod_unfold intro!: arg_cong [where f = "map _"] filter_cong)

lemma registered_write: "registered st r \<Longrightarrow> registered (set_write h st) (spec_act (Begin_Set h) r)"
  by (simp add: registered_def set_write_simps guards_on_spec)

lemma registered_replay: "registered st r \<Longrightarrow> registered (set_replay h st) (spec_act End_Set r)"
  by (simp add: registered_def wired_replay replay_slots_kept set_replay_ids(2) guards_on_spec)

lemma registered_subscribe:
  assumes "registered st r" and "Suc (rg_made r) < 2 ^ 64"
  shows "registered (snd (subscribe ch cb st)) (spec_act (Subscribe_On ch cb) r)"
proof -
  have "map (\<lambda>s. (slot_id s, slot_callback s)) (slots c (snd (subscribe ch cb st))) =
      map (\<lambda>(i, cb). (of_nat i, cb)) (guards_on c (spec_act (Subscribe_On ch cb) r))" for c
    using registeredD(2) [OF assms(1)] registeredD(4) [OF assms(1), of c]
    by (cases "c = ch") (simp_all add: guards_on_spec(3) subscribe_simps del: spec_act.simps)
  then show ?thesis
    using registeredD(2,3) [OF assms(1)] wired_subscribe [OF registeredD(1) [OF assms(1)]] assms(2)
    by (auto simp: registered_def subscribe_simps)
qed

lemma registered_drop:
  assumes "registered st r" and "k < 2 ^ 64"
  shows "registered (drop_guard ch (of_nat k) st) (spec_act (Drop_Guard ch k) r)"
proof -
  have "map (\<lambda>s. (slot_id s, slot_callback s)) (slots c (drop_guard ch (of_nat k) st)) =
      map (\<lambda>(i, cb). (of_nat i, cb)) (guards_on c (spec_act (Drop_Guard ch k) r))" for c
    using filter_ids [OF registeredD(4,5) [OF assms(1)] assms(2), of c] registeredD(4) [OF assms(1), of c]
    by (cases "c = ch") (simp_all add: guards_on_spec(4) drop_guard_simps del: spec_act.simps)
  then show ?thesis
    using wired_drop_guard [OF registeredD(1) [OF assms(1)]] registeredD(2,3) [OF assms(1)] assms(1)
    by (auto simp: registered_def drop_guard_simps)
qed

interpretation late_bound: simulation "(new_late_bound, None)" impl_act empty_registry spec_act in_range represents
proof
  have "registered new_late_bound empty_registry"
    using wired_start by (simp add: registered_def empty_registry_def guards_on_def new_late_bound_def slots_def
      split: channel.split)
  then show "represents (new_late_bound, None) empty_registry"
    by (simp add: empty_registry_def up_to_date_def all_slots_def new_late_bound_def)
next
  fix s :: "('h, 'cb) late_bound \<times> 'h option" and r act
  obtain st p where s: "s = (st, p)" by fastforce
  assume "represents s r" and ok: "in_range act r"
  then have reg: "registered st r" and p: "p = rg_setting r"
    and rep: "case p of None \<Rightarrow> lb_inner st = rg_host r \<and> up_to_date st | Some h \<Rightarrow> lb_inner st = Some h"
    by (auto simp: s)
  note w = registeredD(1) [OF reg]
  show "represents (impl_act act s) (spec_act act r)"
  proof (cases act)
    case (Begin_Set h)
    then show ?thesis using registered_write [OF reg, of h] by (simp add: s set_write_simps)
  next
    case End_Set
    with ok p obtain h where h: "p = Some h" by auto
    with rep have "up_to_date (set_replay h st)" by (simp add: replay_up_to_date [OF w])
    then show ?thesis
      using registered_replay [OF reg, of h] rep h p [symmetric] End_Set by (simp add: s set_replay_inner)
  next
    case (Subscribe_On ch cb)
    then show ?thesis
      using registered_subscribe [OF reg, of ch cb] up_to_date_subscribe [OF w, of ch cb] rep p ok
      by (auto simp: s subscribe_simps split: option.splits)
  next
    case (Drop_Guard ch k)
    then show ?thesis
      using registered_drop [OF reg, of k ch] up_to_date_drop [OF w] rep p ok
      by (auto simp: s drop_guard_simps split: option.splits)
  qed
qed

subsection \<open>What is observed\<close>

lemma mset_set_objects:
  assumes "wired ps log"
  shows "mset_set (dom (live log)) = mset (objects ps)"
  using wired_facts(1,2) [OF assms] by (simp add: mset_set_set)

lemma listening_slots:
  assumes "\<forall>p \<in> set ps. \<exists>ob. slot_real (snd p) = Some ob \<and> live log ob = Some (h, fst p, slot_callback (snd p))"
  shows "image_mset (\<lambda>ob. the (live log ob)) (mset (objects ps)) =
    mset (map (\<lambda>p. (h, fst p, slot_callback (snd p))) ps)"
  using assms by (induction ps) (auto simp: objects_def)

lemma guards_split:
  "image_mset (\<lambda>(i, cb). (h, Revocation, cb)) (mset (map (\<lambda>(i, c, cb). (i, cb)) (filter (\<lambda>(i, c, cb). c = Revocation) gs))) +
   image_mset (\<lambda>(i, cb). (h, Rotation, cb)) (mset (map (\<lambda>(i, c, cb). (i, cb)) (filter (\<lambda>(i, c, cb). c = Rotation) gs))) =
   image_mset (\<lambda>(i, ch, cb). (h, ch, cb)) (mset gs)"
proof (induction gs)
  case (Cons g gs)
  then show ?case by (cases g; cases "fst (snd g)") auto
qed simp

lemma listening_registered:
  assumes "registered st r"
    and "\<forall>p \<in> set (all_slots st). \<exists>ob. slot_real (snd p) = Some ob \<and>
      live (lb_log st) ob = Some (h, fst p, slot_callback (snd p))"
  shows "listening (lb_log st) = image_mset (\<lambda>(i, ch, cb). (h, ch, cb)) (mset (rg_guards r))"
proof -
  have "listening (lb_log st) = mset (map (\<lambda>p. (h, fst p, slot_callback (snd p))) (all_slots st))"
    unfolding listening_def mset_set_objects [OF registeredD(1) [OF assms(1)]]
    by (rule listening_slots [OF assms(2)])
  also have "\<dots> = image_mset (\<lambda>(i, cb). (h, Revocation, cb))
        (mset (map (\<lambda>s. (slot_id s, slot_callback s)) (slots Revocation st))) +
      image_mset (\<lambda>(i, cb). (h, Rotation, cb)) (mset (map (\<lambda>s. (slot_id s, slot_callback s)) (slots Rotation st)))"
    by (simp add: all_slots_def slots_def comp_def image_mset.compositionality)
  also have "\<dots> = image_mset (\<lambda>(i, cb). (h, Revocation, cb)) (mset (guards_on Revocation r)) +
      image_mset (\<lambda>(i, cb). (h, Rotation, cb)) (mset (guards_on Rotation r))"
    unfolding registeredD(4) [OF assms(1)] by (simp add: image_mset.compositionality comp_def case_prod_unfold)
  also have "\<dots> = image_mset (\<lambda>(i, ch, cb). (h, ch, cb)) (mset (rg_guards r))"
    unfolding guards_on_def by (rule guards_split)
  finally show ?thesis .
qed

lemma represents_listening:
  assumes "represents (st, None) r"
  shows "lb_inner st = rg_host r" and "listening (lb_log st) = spec_listening r"
proof -
  have reg: "registered st r" and host: "lb_inner st = rg_host r" and up: "up_to_date st"
    using assms by simp_all
  note w = registeredD(1) [OF reg]
  show "lb_inner st = rg_host r" by (rule host)
  show "listening (lb_log st) = spec_listening r"
  proof (cases "rg_host r")
    case None
    then have "objects (all_slots st) = []"
      using host up by (fastforce simp: up_to_date_def objects_def)
    then show ?thesis
      using mset_set_objects [OF w] None by (simp add: listening_def spec_listening_def)
  next
    case (Some h)
    then show ?thesis
      using listening_registered [OF reg, of h] host up
      by (auto simp: spec_listening_def up_to_date_def on_host_def all_slots_slots)
  qed
qed

text \<open>
  C6: The late-bound host refines the machine its doc describes, in every interleaving in which
  no two \<open>set\<close> calls overlap: run any sequence of actions, subscriptions and dropped guards
  falling anywhere, also between the two halves of a \<open>set\<close>, on the code's state and on a bare
  registry in which a \<open>set\<close> is one action. Whenever no \<open>set\<close> is under way, calls go to the same
  host, and the callbacks that listen on any inner host, with their channels and multiplicities,
  are exactly those of the guards alive, all on the host set last. Fewer than \<open>2 ^ 64\<close>
  subscriptions are made.
\<close>

theorem late_bound_refines:
  assumes "allowed_run in_range spec_act acts empty_registry"
    and "fold impl_act acts (new_late_bound, None) = (st, None)"
  shows "lb_inner st = rg_host (fold spec_act acts empty_registry) \<and>
    listening (lb_log st) = spec_listening (fold spec_act acts empty_registry)"
  using late_bound.run_refines [OF assms(1)] represents_listening unfolding assms(2) by blast

definition sample_run :: "(nat, nat) lb_act list" where
  "sample_run = [Subscribe_On Revocation 7, Begin_Set 1, Subscribe_On Rotation 8, End_Set,
     Subscribe_On Revocation 7, Begin_Set 2, Drop_Guard Revocation 1, End_Set]"

theorem late_bound_refines_witness:
  "listening (lb_log (fst (fold impl_act sample_run (new_late_bound, None)))) =
     {#(2, Rotation, 8), (2, Revocation, 7)#}"
proof -
  have "allowed_run in_range spec_act sample_run empty_registry"
    by (simp add: sample_run_def empty_registry_def)
  moreover have "snd (fold impl_act sample_run (new_late_bound, None)) = None"
    by (simp add: sample_run_def)
  then have "fold impl_act sample_run (new_late_bound, None) =
      (fst (fold impl_act sample_run (new_late_bound, None)), None)"
    by (metis prod.collapse)
  ultimately have "listening (lb_log (fst (fold impl_act sample_run (new_late_bound, None)))) =
      spec_listening (fold spec_act sample_run empty_registry)"
    using late_bound_refines by blast
  then show ?thesis by (simp add: sample_run_def empty_registry_def spec_listening_def)
qed

end
