(* ===== verification/Wire_Error.thy ===== *)
theory Wire_Error
  imports Json
begin

section \<open>Errors that cross the plugin boundary\<close>

text \<open>
  Every plugin kind has an error enum of its own, written as an object with its variant in a
  tag field, and a stable label for metrics. The contract below is what a host relies on when
  it reads such an error: the codec loses nothing, and the variant can be told from the tag
  alone. It is interpreted on the error types in the theories of their plugin kinds.
\<close>

locale tagged_error = codec enc dec "\<lambda>_. True"
  for enc :: "'e \<Rightarrow> json" and dec :: "json \<Rightarrow> de_error + 'e" +
  fixes tag :: string
    and label :: "'e \<Rightarrow> string"
  assumes tagged: "\<exists>m. enc e = JObject m \<and> bt_get m tag = Some (JString (label e))"
begin

lemma wire_label: "res_bind (de_object (enc e)) (\<lambda>m. de_field m tag de_string) = Inr (label e)"
  using tagged [of e] by (auto simp: de_field_def)

lemma labels_differ: "label e \<noteq> label e' \<Longrightarrow> enc e \<noteq> enc e'"
  using wire_label [of e] wire_label [of e'] by auto

lemma is_object: "enc e \<noteq> JString s" "enc e \<noteq> JArray xs"
  using tagged [of e] by auto

end

text \<open>The label the tag field of an encoded error carries.\<close>

definition wire_label_of :: "string \<Rightarrow> json \<Rightarrow> de_error + string" where
  "wire_label_of tag v = res_bind (de_object v) (\<lambda>m. de_field m tag de_string)"

end
