(* ===== verification/Store.thy ===== *)
theory Store
  imports Wire_Error
begin

section \<open>Stores and caches\<close>

text \<open>
  \<open>src/src/store.rs\<close> and \<open>src/src/cache.rs\<close>: the roles of a store, its values, pages and
  events with the mirror types that cross the boundary, the default \<open>append\<close>, and the two
  error enums. A \<open>Duration\<close> is its number of nanoseconds; bytes are a list of \<open>u8\<close>.
\<close>

subsection \<open>Roles\<close>

datatype store_role = Session | Task | Pipeline | Subscription | Replay | CustomRole string

fun display_store_role :: "store_role \<Rightarrow> string" where
  "display_store_role Session = ''session''"
| "display_store_role Task = ''task''"
| "display_store_role Pipeline = ''pipeline''"
| "display_store_role Subscription = ''subscription''"
| "display_store_role Replay = ''replay''"
| "display_store_role (CustomRole nam) = nam"

definition parse_store_role :: "string \<Rightarrow> store_role" where
  "parse_store_role s =
     (if s = ''session'' then Session
      else if s = ''task'' then Task
      else if s = ''pipeline'' then Pipeline
      else if s = ''subscription'' then Subscription
      else if s = ''replay'' then Replay
      else CustomRole s)"

definition as_label :: "store_role \<Rightarrow> string" where
  "as_label r = display_store_role r"

text \<open>On the wire a role is its bare name: the untagged variant catches every other string.\<close>

definition encode_store_role :: "store_role \<Rightarrow> json" where
  "encode_store_role r = JString (display_store_role r)"

definition decode_store_role :: "json \<Rightarrow> de_error + store_role" where
  "decode_store_role v = res_bind (de_string v) (\<lambda>s. Inr (parse_store_role s))"

subsection \<open>Values, pages and events\<close>

record store_value =
  sv_bytes :: "u8 list"
  sv_ttl :: "duration option"
  sv_metadata :: "(string \<times> string) list"

record store_page =
  sp_items :: "(string \<times> store_value) list"
  sp_next_cursor :: "string option"

datatype store_event = Put string store_value | Delete string

record append_result =
  ar_sequence :: u64

definition new_store_value :: "u8 list \<Rightarrow> store_value" where
  "new_store_value bytes = \<lparr>sv_bytes = bytes, sv_ttl = None, sv_metadata = []\<rparr>"

definition with_ttl :: "duration \<Rightarrow> store_value \<Rightarrow> store_value" where
  "with_ttl ttl v = v\<lparr>sv_ttl := Some ttl\<rparr>"

definition with_metadata :: "string \<Rightarrow> string \<Rightarrow> store_value \<Rightarrow> store_value" where
  "with_metadata key val v = v\<lparr>sv_metadata := bt_insert key val (sv_metadata v)\<rparr>"

definition default_append ::
  "(store_role \<Rightarrow> string \<Rightarrow> store_value \<Rightarrow> 'e + unit) \<Rightarrow> store_role \<Rightarrow> string \<Rightarrow> store_value \<Rightarrow> 'e + append_result" where
  "default_append put' role key val = res_bind (put' role key val) (\<lambda>_. Inr \<lparr>ar_sequence = 0\<rparr>)"

subsection \<open>Mirror types\<close>

record store_value_wire =
  svw_bytes :: "u8 list"
  svw_ttl_ms :: "u64 option"
  svw_metadata :: "(string \<times> string) list"

definition encode_store_value_wire :: "store_value_wire \<Rightarrow> json" where
  "encode_store_value_wire x = JObject (fields_map
     [(''bytes'', Some (vec en_uint (svw_bytes x))),
      (''ttl_ms'', map_option en_u64 (svw_ttl_ms x)),
      (''metadata'', map_skip JString (svw_metadata x))])"

definition decode_store_value_wire :: "json \<Rightarrow> de_error + store_value_wire" where
  "decode_store_value_wire v = res_bind (de_object v) (\<lambda>m.
     res_bind (de_field m ''bytes'' (de_vec de_uint)) (\<lambda>bytes.
     res_bind (de_opt m ''ttl_ms'' de_u64) (\<lambda>ttl_ms.
     res_bind (de_field_default m ''metadata'' [] (de_map de_string)) (\<lambda>metadata.
       Inr \<lparr>svw_bytes = bytes, svw_ttl_ms = ttl_ms, svw_metadata = metadata\<rparr>))))"

interpretation store_value_wire_codec: codec encode_store_value_wire decode_store_value_wire "\<lambda>_. True"
  by unfold_locales (simp_all add: encode_store_value_wire_def decode_store_value_wire_def codec_simps)

declare store_value_wire_codec.roundtrip [simp] store_value_wire_codec.nonnull [simp]

type_synonym keyed_value = "string \<times> store_value_wire"

definition encode_keyed_value :: "keyed_value \<Rightarrow> json" where
  "encode_keyed_value p = JArray [JString (fst p), encode_store_value_wire (snd p)]"

definition decode_keyed_value :: "json \<Rightarrow> de_error + keyed_value" where
  "decode_keyed_value v = (case v of
      JArray [a, b] \<Rightarrow> res_bind (de_string a) (\<lambda>k. res_bind (decode_store_value_wire b) (\<lambda>x. Inr (k, x)))
    | _ \<Rightarrow> Inl WrongType)"

interpretation keyed_value_codec: codec encode_keyed_value decode_keyed_value "\<lambda>_. True"
  by unfold_locales (simp_all add: encode_keyed_value_def decode_keyed_value_def)

declare keyed_value_codec.roundtrip [simp] keyed_value_codec.nonnull [simp]

record store_page_wire =
  spw_items :: "keyed_value list"
  spw_next_cursor :: "string option"

definition encode_store_page_wire :: "store_page_wire \<Rightarrow> json" where
  "encode_store_page_wire x = JObject (fields_map
     [(''items'', Some (vec encode_keyed_value (spw_items x))),
      (''next_cursor'', map_option JString (spw_next_cursor x))])"

definition decode_store_page_wire :: "json \<Rightarrow> de_error + store_page_wire" where
  "decode_store_page_wire v = res_bind (de_object v) (\<lambda>m.
     res_bind (de_field m ''items'' (de_vec decode_keyed_value)) (\<lambda>items.
     res_bind (de_opt m ''next_cursor'' de_string) (\<lambda>next_cursor.
       Inr \<lparr>spw_items = items, spw_next_cursor = next_cursor\<rparr>)))"

interpretation store_page_wire_codec: codec encode_store_page_wire decode_store_page_wire "\<lambda>_. True"
  by unfold_locales (simp_all add: encode_store_page_wire_def decode_store_page_wire_def codec_simps)

declare store_page_wire_codec.roundtrip [simp] store_page_wire_codec.nonnull [simp]

datatype store_event_wire =
    WirePut string store_value_wire
  | WireDelete string

fun encode_store_event_wire :: "store_event_wire \<Rightarrow> json" where
  "encode_store_event_wire (WirePut key val) = JObject (fields_map
     [(''kind'', Some (JString ''put'')),
      (''key'', Some (JString key)),
      (''value'', Some (encode_store_value_wire val))])"
| "encode_store_event_wire (WireDelete key) = JObject (fields_map
     [(''kind'', Some (JString ''delete'')),
      (''key'', Some (JString key))])"

definition decode_store_event_wire :: "json \<Rightarrow> de_error + store_event_wire" where
  "decode_store_event_wire v = res_bind (de_object v) (\<lambda>m. res_bind (de_field m ''kind'' de_string) (\<lambda>t.
     if t = ''put'' then
       res_bind (de_field m ''key'' de_string) (\<lambda>key.
       res_bind (de_field m ''value'' decode_store_value_wire) (\<lambda>val.
         Inr (WirePut key val)))
     else
     if t = ''delete'' then
       res_bind (de_field m ''key'' de_string) (\<lambda>key.
         Inr (WireDelete key))
     else
     Inl (UnknownVariant t)))"

interpretation store_event_wire_codec: codec encode_store_event_wire decode_store_event_wire "\<lambda>_. True"
proof unfold_locales
  fix x
  show "decode_store_event_wire (encode_store_event_wire x) = Inr x"
    by (cases x) (simp_all add: decode_store_event_wire_def codec_simps)
next
  fix x
  show "encode_store_event_wire x \<noteq> JNull" by (cases x) simp_all
qed

declare store_event_wire_codec.roundtrip [simp] store_event_wire_codec.nonnull [simp]

definition as_millis :: "duration \<Rightarrow> nat" where
  "as_millis d = d div 10 ^ 6"

definition from_millis :: "u64 \<Rightarrow> duration" where
  "from_millis ms = unat ms * 10 ^ 6"

definition store_value_to_wire :: "store_value \<Rightarrow> store_value_wire" where
  "store_value_to_wire v =
     \<lparr>svw_bytes = sv_bytes v,
      svw_ttl_ms = map_option (\<lambda>d. of_nat (min (as_millis d) (unat (- 1 :: u64)))) (sv_ttl v),
      svw_metadata = sv_metadata v\<rparr>"

definition store_value_of_wire :: "store_value_wire \<Rightarrow> store_value" where
  "store_value_of_wire v =
     \<lparr>sv_bytes = svw_bytes v, sv_ttl = map_option from_millis (svw_ttl_ms v), sv_metadata = svw_metadata v\<rparr>"

definition store_page_to_wire :: "store_page \<Rightarrow> store_page_wire" where
  "store_page_to_wire p =
     \<lparr>spw_items = map (\<lambda>(k, v). (k, store_value_to_wire v)) (sp_items p), spw_next_cursor = sp_next_cursor p\<rparr>"

definition store_page_of_wire :: "store_page_wire \<Rightarrow> store_page" where
  "store_page_of_wire p =
     \<lparr>sp_items = map (\<lambda>(k, v). (k, store_value_of_wire v)) (spw_items p), sp_next_cursor = spw_next_cursor p\<rparr>"

fun store_event_to_wire :: "store_event \<Rightarrow> store_event_wire" where
  "store_event_to_wire (Put key val) = WirePut key (store_value_to_wire val)"
| "store_event_to_wire (Delete key) = WireDelete key"

fun store_event_of_wire :: "store_event_wire \<Rightarrow> store_event" where
  "store_event_of_wire (WirePut key val) = Put key (store_value_of_wire val)"
| "store_event_of_wire (WireDelete key) = Delete key"

subsection \<open>Errors\<close>

datatype store_error =
    Backend string
  | CasMismatch
  | UnsupportedRole
  | Unsupported string
  | Throttled
  | NotFound

fun encode_store_error :: "store_error \<Rightarrow> json" where
  "encode_store_error (Backend reason) = JObject (fields_map
     [(''kind'', Some (JString ''backend'')),
      (''reason'', Some (JString reason))])"
| "encode_store_error CasMismatch = JObject (fields_map
     [(''kind'', Some (JString ''cas_mismatch''))])"
| "encode_store_error UnsupportedRole = JObject (fields_map
     [(''kind'', Some (JString ''unsupported_role''))])"
| "encode_store_error (Unsupported op) = JObject (fields_map
     [(''kind'', Some (JString ''unsupported'')),
      (''op'', Some (JString op))])"
| "encode_store_error Throttled = JObject (fields_map
     [(''kind'', Some (JString ''throttled''))])"
| "encode_store_error NotFound = JObject (fields_map
     [(''kind'', Some (JString ''not_found''))])"

definition decode_store_error :: "json \<Rightarrow> de_error + store_error" where
  "decode_store_error v = res_bind (de_object v) (\<lambda>m. res_bind (de_field m ''kind'' de_string) (\<lambda>t.
     if t = ''backend'' then
       res_bind (de_field m ''reason'' de_string) (\<lambda>reason.
         Inr (Backend reason))
     else
     if t = ''cas_mismatch'' then
         Inr CasMismatch
     else
     if t = ''unsupported_role'' then
         Inr UnsupportedRole
     else
     if t = ''unsupported'' then
       res_bind (de_field m ''op'' de_string) (\<lambda>op.
         Inr (Unsupported op))
     else
     if t = ''throttled'' then
         Inr Throttled
     else
     if t = ''not_found'' then
         Inr NotFound
     else
     Inl (UnknownVariant t)))"

interpretation store_error_codec: codec encode_store_error decode_store_error "\<lambda>_. True"
proof unfold_locales
  fix x
  show "decode_store_error (encode_store_error x) = Inr x"
    by (cases x) (simp_all add: decode_store_error_def codec_simps)
next
  fix x
  show "encode_store_error x \<noteq> JNull" by (cases x) simp_all
qed

declare store_error_codec.roundtrip [simp] store_error_codec.nonnull [simp]

fun kind_label_store_error :: "store_error \<Rightarrow> string" where
  "kind_label_store_error (Backend _) = ''backend''"
| "kind_label_store_error CasMismatch = ''cas_mismatch''"
| "kind_label_store_error UnsupportedRole = ''unsupported_role''"
| "kind_label_store_error (Unsupported _) = ''unsupported_op''"
| "kind_label_store_error Throttled = ''throttled''"
| "kind_label_store_error NotFound = ''not_found''"

fun display_store_error :: "store_error \<Rightarrow> string" where
  "display_store_error (Backend reason) = ''store backend: '' @ reason"
| "display_store_error CasMismatch = ''store CAS pre-condition failed''"
| "display_store_error UnsupportedRole = ''store role unsupported by this plugin''"
| "display_store_error (Unsupported op) = ''store op unsupported: '' @ op"
| "display_store_error Throttled = ''store backend throttled''"
| "display_store_error NotFound = ''store key not found''"

fun wire_tag_store_error :: "store_error \<Rightarrow> string" where
  "wire_tag_store_error (Backend _) = ''backend''"
| "wire_tag_store_error CasMismatch = ''cas_mismatch''"
| "wire_tag_store_error UnsupportedRole = ''unsupported_role''"
| "wire_tag_store_error (Unsupported _) = ''unsupported''"
| "wire_tag_store_error Throttled = ''throttled''"
| "wire_tag_store_error NotFound = ''not_found''"

interpretation store_error: tagged_error encode_store_error decode_store_error "''kind''" wire_tag_store_error
proof unfold_locales
  fix e
  show "\<exists>m. encode_store_error e = JObject m \<and> bt_get m ''kind'' = Some (JString (wire_tag_store_error e))"
    by (cases e) simp_all
qed

datatype cache_error =
    CacheBackend string
  | CacheUnsupported string
  | CacheThrottled
  | UnsupportedNamespace

fun encode_cache_error :: "cache_error \<Rightarrow> json" where
  "encode_cache_error (CacheBackend reason) = JObject (fields_map
     [(''kind'', Some (JString ''backend'')),
      (''reason'', Some (JString reason))])"
| "encode_cache_error (CacheUnsupported op) = JObject (fields_map
     [(''kind'', Some (JString ''unsupported'')),
      (''op'', Some (JString op))])"
| "encode_cache_error CacheThrottled = JObject (fields_map
     [(''kind'', Some (JString ''throttled''))])"
| "encode_cache_error UnsupportedNamespace = JObject (fields_map
     [(''kind'', Some (JString ''unsupported_namespace''))])"

definition decode_cache_error :: "json \<Rightarrow> de_error + cache_error" where
  "decode_cache_error v = res_bind (de_object v) (\<lambda>m. res_bind (de_field m ''kind'' de_string) (\<lambda>t.
     if t = ''backend'' then
       res_bind (de_field m ''reason'' de_string) (\<lambda>reason.
         Inr (CacheBackend reason))
     else
     if t = ''unsupported'' then
       res_bind (de_field m ''op'' de_string) (\<lambda>op.
         Inr (CacheUnsupported op))
     else
     if t = ''throttled'' then
         Inr CacheThrottled
     else
     if t = ''unsupported_namespace'' then
         Inr UnsupportedNamespace
     else
     Inl (UnknownVariant t)))"

interpretation cache_error_codec: codec encode_cache_error decode_cache_error "\<lambda>_. True"
proof unfold_locales
  fix x
  show "decode_cache_error (encode_cache_error x) = Inr x"
    by (cases x) (simp_all add: decode_cache_error_def codec_simps)
next
  fix x
  show "encode_cache_error x \<noteq> JNull" by (cases x) simp_all
qed

declare cache_error_codec.roundtrip [simp] cache_error_codec.nonnull [simp]

fun kind_label_cache_error :: "cache_error \<Rightarrow> string" where
  "kind_label_cache_error (CacheBackend _) = ''backend''"
| "kind_label_cache_error (CacheUnsupported _) = ''unsupported_op''"
| "kind_label_cache_error CacheThrottled = ''throttled''"
| "kind_label_cache_error UnsupportedNamespace = ''unsupported_namespace''"

fun display_cache_error :: "cache_error \<Rightarrow> string" where
  "display_cache_error (CacheBackend reason) = ''cache backend: '' @ reason"
| "display_cache_error (CacheUnsupported op) = ''cache op unsupported: '' @ op"
| "display_cache_error CacheThrottled = ''cache backend throttled''"
| "display_cache_error UnsupportedNamespace = ''cache namespace unsupported by this plugin''"

fun wire_tag_cache_error :: "cache_error \<Rightarrow> string" where
  "wire_tag_cache_error (CacheBackend _) = ''backend''"
| "wire_tag_cache_error (CacheUnsupported _) = ''unsupported''"
| "wire_tag_cache_error CacheThrottled = ''throttled''"
| "wire_tag_cache_error UnsupportedNamespace = ''unsupported_namespace''"

interpretation cache_error: tagged_error encode_cache_error decode_cache_error "''kind''" wire_tag_cache_error
proof unfold_locales
  fix e
  show "\<exists>m. encode_cache_error e = JObject m \<and> bt_get m ''kind'' = Some (JString (wire_tag_cache_error e))"
    by (cases e) simp_all
qed

subsection \<open>Round trips\<close>

text \<open>
  Parsing what a role displays gives the role back exactly when it is not a custom role
  with a canonical name: such a role is displayed, labelled and written like the canonical
  one and is read as it. Every string is the name of the role it parses to, so parsing loses
  nothing, and the JSON form agrees with \<open>parse\<close>.
\<close>

theorem store_role_names:
  "(parse_store_role (display_store_role r) = r \<longleftrightarrow>
      r \<notin> CustomRole ` {''session'', ''task'', ''pipeline'', ''subscription'', ''replay''}) \<and>
   as_label (parse_store_role s) = s \<and>
   decode_store_role (encode_store_role r) = Inr (parse_store_role (display_store_role r))"
  by (cases r) (auto simp: parse_store_role_def as_label_def decode_store_role_def encode_store_role_def)

definition ttl_on_wire :: "duration \<Rightarrow> duration" where
  "ttl_on_wire d = min (d div 10 ^ 6) (2 ^ 64 - 1) * 10 ^ 6"

lemma ttl_trip: "from_millis (of_nat (min (as_millis d) (unat (- 1 :: u64)))) = ttl_on_wire d"
proof -
  have max64: "unat (- 1 :: u64) = 2 ^ 64 - 1" by (simp add: unsigned_minus_1_eq_mask mask_eq_exp_minus_1)
  have "min (as_millis d) (2 ^ 64 - 1) < 2 ^ 64" by (simp add: min_def)
  then have "unat (of_nat (min (as_millis d) (2 ^ 64 - 1)) :: u64) = min (as_millis d) (2 ^ 64 - 1)"
    by (simp add: unsigned_of_nat take_bit_nat_eq_self)
  then show ?thesis by (simp add: max64 from_millis_def ttl_on_wire_def as_millis_def)
qed

definition value_on_wire :: "store_value \<Rightarrow> store_value" where
  "value_on_wire v = v\<lparr>sv_ttl := map_option ttl_on_wire (sv_ttl v)\<rparr>"

lemma value_trip [simp]: "store_value_of_wire (store_value_to_wire v) = value_on_wire v"
  by (simp add: store_value_of_wire_def store_value_to_wire_def value_on_wire_def option.map_comp comp_def ttl_trip)

text \<open>
  A value, a page and an event that cross the boundary come back with every byte, key,
  cursor and metadata entry; only a time to live is cut to whole milliseconds and to
  \<open>2 ^ 64 - 1\<close> of them, so nothing changes when it is such a number, and it never grows.
\<close>

theorem store_wire_roundtrip:
  "res_bind (decode_store_value_wire (encode_store_value_wire (store_value_to_wire v)))
     (\<lambda>w. Inr (store_value_of_wire w)) = Inr (value_on_wire v) \<and>
   res_bind (decode_store_page_wire (encode_store_page_wire (store_page_to_wire p)))
     (\<lambda>w. Inr (store_page_of_wire w)) =
       Inr (p\<lparr>sp_items := map (\<lambda>(k, x). (k, value_on_wire x)) (sp_items p)\<rparr>) \<and>
   res_bind (decode_store_event_wire (encode_store_event_wire (store_event_to_wire e)))
     (\<lambda>w. Inr (store_event_of_wire w)) =
       Inr (case e of Put k x \<Rightarrow> Put k (value_on_wire x) | Delete k \<Rightarrow> Delete k) \<and>
   (value_on_wire v = v \<longleftrightarrow>
      (case sv_ttl v of None \<Rightarrow> True | Some d \<Rightarrow> 10 ^ 6 dvd d \<and> d \<le> (2 ^ 64 - 1) * 10 ^ 6)) \<and>
   ttl_on_wire d \<le> d"
proof -
  have exact: "ttl_on_wire d = d \<longleftrightarrow> 10 ^ 6 dvd d \<and> d \<le> (2 ^ 64 - 1) * 10 ^ 6" for d
  proof -
    have "10 ^ 6 dvd d \<longleftrightarrow> d div 10 ^ 6 * 10 ^ 6 = d"
      by (metis dvd_div_mult_self dvd_triv_right)
    moreover have "(2 ^ 64 - 1) * 10 ^ 6 < d" if "2 ^ 64 - 1 < d div 10 ^ 6"
      using that by (simp add: less_le_trans div_le_dividend flip: less_eq_div_iff_mult_less_eq)
    ultimately show ?thesis by (auto simp: ttl_on_wire_def min_def)
  qed
  have "value_on_wire v = v \<longleftrightarrow>
      (case sv_ttl v of None \<Rightarrow> True | Some d \<Rightarrow> 10 ^ 6 dvd d \<and> d \<le> (2 ^ 64 - 1) * 10 ^ 6)"
    by (cases v) (simp add: value_on_wire_def exact split: option.splits)
  moreover have "ttl_on_wire d \<le> d"
  proof -
    have "ttl_on_wire d \<le> d div 10 ^ 6 * 10 ^ 6" by (simp add: ttl_on_wire_def)
    then show ?thesis using div_times_less_eq_dividend [of d "10 ^ 6"] by (rule le_trans)
  qed
  moreover have "store_page_of_wire (store_page_to_wire p) = p\<lparr>sp_items := map (\<lambda>(k, x). (k, value_on_wire x)) (sp_items p)\<rparr>"
    by (simp add: store_page_of_wire_def store_page_to_wire_def case_prod_unfold comp_def)
  moreover have "store_event_of_wire (store_event_to_wire e) =
      (case e of Put k x \<Rightarrow> Put k (value_on_wire x) | Delete k \<Rightarrow> Delete k)"
    by (cases e) simp_all
  ultimately show ?thesis by simp
qed

lemma ttl_cut: "ttl_on_wire x = min (x div 10 ^ 6 * 10 ^ 6) ((2 ^ 64 - 1) * 10 ^ 6)"
  by (simp add: ttl_on_wire_def min_def)

lemma ttl_on_wire_mono: "d \<le> e \<Longrightarrow> ttl_on_wire d \<le> ttl_on_wire e"
proof -
  assume "d \<le> e"
  then have "d div 10 ^ 6 * 10 ^ 6 \<le> e div 10 ^ 6 * 10 ^ 6" by (intro mult_le_mono1 div_le_mono)
  then show ?thesis unfolding ttl_cut by (rule min.mono) simp
qed

lemma ttl_on_wire_near: "ttl_on_wire d \<le> d \<and> min d ((2 ^ 64 - 1) * 10 ^ 6) < ttl_on_wire d + 10 ^ 6"
proof -
  have "d mod 10 ^ 6 < 10 ^ 6" by simp
  then have "d div 10 ^ 6 * 10 ^ 6 \<le> d \<and> d < d div 10 ^ 6 * 10 ^ 6 + 10 ^ 6"
    using div_mult_mod_eq [of d "10 ^ 6"] by linarith
  then show ?thesis unfolding ttl_cut min_def by fastforce
qed

text \<open>
  C32: A value never outlives its time to live by crossing the boundary, and none loses it: a
  value that expires arrives as one that expires, after the whole milliseconds of the time
  sent, clamped to \<open>2 ^ 64 - 1\<close> milliseconds. So the time that arrives is at most the one
  sent, less than a millisecond is lost below the limit, and of two values the one that was to
  live longer still does not live shorter. A value without a time to live arrives without one.
\<close>

theorem ttl_bounds:
  assumes "sv_ttl v = Some d" and "sv_ttl w = Some e"
  shows "\<exists>d' e'. sv_ttl (store_value_of_wire (store_value_to_wire v)) = Some d' \<and>
    sv_ttl (store_value_of_wire (store_value_to_wire w)) = Some e' \<and>
    d' = min (d div 10 ^ 6) (2 ^ 64 - 1) * 10 ^ 6 \<and>
    d' \<le> d \<and> min d ((2 ^ 64 - 1) * 10 ^ 6) < d' + 10 ^ 6 \<and> (d \<le> e \<longrightarrow> d' \<le> e') \<and>
    (sv_ttl (store_value_of_wire (store_value_to_wire u)) = None \<longleftrightarrow> sv_ttl u = None)"
proof (intro exI conjI)
  show "sv_ttl (store_value_of_wire (store_value_to_wire v)) = Some (ttl_on_wire d)"
    and "sv_ttl (store_value_of_wire (store_value_to_wire w)) = Some (ttl_on_wire e)"
    and "sv_ttl (store_value_of_wire (store_value_to_wire u)) = None \<longleftrightarrow> sv_ttl u = None"
    using assms by (simp_all add: value_on_wire_def)
qed (use ttl_on_wire_mono ttl_on_wire_near in \<open>auto simp: ttl_on_wire_def\<close>)

definition sample_value :: "duration \<Rightarrow> store_value" where
  "sample_value d = \<lparr>sv_bytes = [], sv_ttl = Some d, sv_metadata = []\<rparr>"

theorem ttl_bounds_witness:
  "sv_ttl (store_value_of_wire (store_value_to_wire (sample_value 1500000))) = Some 1000000"
proof -
  have "sv_ttl (sample_value 1500000) = Some 1500000" by (simp add: sample_value_def)
  from ttl_bounds [OF this this] show ?thesis by auto
qed

end
