(* ===== verification/Providers.thy ===== *)
theory Providers
  imports Wire_Error
begin

section \<open>Secrets, configuration and issued credentials\<close>

text \<open>
  \<open>src/src/secret.rs\<close>, \<open>src/src/config.rs\<close> and the provider side of
  \<open>src/src/credential.rs\<close>: the values a provider returns with their mirror types, the three
  error enums, the default methods of the provider traits and the parsers of the references
  that select a provider by its scheme.
\<close>

subsection \<open>Values\<close>

record secret_value =
  sec_bytes :: bytes
  sec_version :: "string option"
  sec_expires_at :: "string option"
  sec_metadata :: "(string \<times> string) list"

record secret_rotation =
  sr_new_value :: secret_value
  sr_reason :: string

definition new_secret_value :: "bytes \<Rightarrow> secret_value" where
  "new_secret_value bs = \<lparr>sec_bytes = bs, sec_version = None, sec_expires_at = None, sec_metadata = []\<rparr>"

record secret_value_wire =
  svx_bytes :: "u8 list"
  svx_version :: "string option"
  svx_expires_at :: "string option"
  svx_metadata :: "(string \<times> string) list"

definition encode_secret_value_wire :: "secret_value_wire \<Rightarrow> json" where
  "encode_secret_value_wire x = JObject (fields_map
     [(''bytes'', Some (vec en_uint (svx_bytes x))),
      (''version'', map_option JString (svx_version x)),
      (''expires_at'', map_option JString (svx_expires_at x)),
      (''metadata'', map_skip JString (svx_metadata x))])"

definition decode_secret_value_wire :: "json \<Rightarrow> de_error + secret_value_wire" where
  "decode_secret_value_wire v = res_bind (de_object v) (\<lambda>m.
     res_bind (de_field m ''bytes'' (de_vec de_uint)) (\<lambda>bytes.
     res_bind (de_opt m ''version'' de_string) (\<lambda>version.
     res_bind (de_opt m ''expires_at'' de_string) (\<lambda>expires_at.
     res_bind (de_field_default m ''metadata'' [] (de_map de_string)) (\<lambda>metadata.
       Inr \<lparr>svx_bytes = bytes, svx_version = version, svx_expires_at = expires_at, svx_metadata = metadata\<rparr>)))))"

interpretation secret_value_wire_codec: codec encode_secret_value_wire decode_secret_value_wire "\<lambda>_. True"
  by unfold_locales (simp_all add: encode_secret_value_wire_def decode_secret_value_wire_def codec_simps)

declare secret_value_wire_codec.roundtrip [simp] secret_value_wire_codec.nonnull [simp]

record secret_rotation_wire =
  srw_new_value :: secret_value_wire
  srw_reason :: string

definition encode_secret_rotation_wire :: "secret_rotation_wire \<Rightarrow> json" where
  "encode_secret_rotation_wire x = JObject (fields_map
     [(''new_value'', Some (encode_secret_value_wire (srw_new_value x))),
      (''reason'', Some (JString (srw_reason x)))])"

definition decode_secret_rotation_wire :: "json \<Rightarrow> de_error + secret_rotation_wire" where
  "decode_secret_rotation_wire v = res_bind (de_object v) (\<lambda>m.
     res_bind (de_field m ''new_value'' decode_secret_value_wire) (\<lambda>new_value.
     res_bind (de_field m ''reason'' de_string) (\<lambda>reason.
       Inr \<lparr>srw_new_value = new_value, srw_reason = reason\<rparr>)))"

interpretation secret_rotation_wire_codec: codec encode_secret_rotation_wire decode_secret_rotation_wire "\<lambda>_. True"
  by unfold_locales (simp_all add: encode_secret_rotation_wire_def decode_secret_rotation_wire_def codec_simps)

declare secret_rotation_wire_codec.roundtrip [simp] secret_rotation_wire_codec.nonnull [simp]

record config_snapshot =
  cfs_version :: string
  cfs_values :: json
  cfs_fetched_at :: string
  cfs_source :: string

definition encode_config_snapshot :: "config_snapshot \<Rightarrow> json" where
  "encode_config_snapshot x = JObject (fields_map
     [(''version'', Some (JString (cfs_version x))),
      (''values'', Some (cfs_values x)),
      (''fetched_at'', Some (JString (cfs_fetched_at x))),
      (''source'', Some (JString (cfs_source x)))])"

definition decode_config_snapshot :: "json \<Rightarrow> de_error + config_snapshot" where
  "decode_config_snapshot v = res_bind (de_object v) (\<lambda>m.
     res_bind (de_field m ''version'' de_string) (\<lambda>version.
     res_bind (de_field m ''values'' de_value) (\<lambda>values.
     res_bind (de_field m ''fetched_at'' de_string) (\<lambda>fetched_at.
     res_bind (de_field m ''source'' de_string) (\<lambda>src.
       Inr \<lparr>cfs_version = version, cfs_values = values, cfs_fetched_at = fetched_at, cfs_source = src\<rparr>)))))"

interpretation config_snapshot_codec: codec encode_config_snapshot decode_config_snapshot "\<lambda>_. True"
  by unfold_locales (simp_all add: encode_config_snapshot_def decode_config_snapshot_def codec_simps)

declare config_snapshot_codec.roundtrip [simp] config_snapshot_codec.nonnull [simp]

record config_delta =
  cfd_from_version :: string
  cfd_to_version :: string
  cfd_changed_paths :: "string list"
  cfd_snapshot :: config_snapshot

definition encode_config_delta :: "config_delta \<Rightarrow> json" where
  "encode_config_delta x = JObject (fields_map
     [(''from_version'', Some (JString (cfd_from_version x))),
      (''to_version'', Some (JString (cfd_to_version x))),
      (''changed_paths'', Some (vec JString (cfd_changed_paths x))),
      (''snapshot'', Some (encode_config_snapshot (cfd_snapshot x)))])"

definition decode_config_delta :: "json \<Rightarrow> de_error + config_delta" where
  "decode_config_delta v = res_bind (de_object v) (\<lambda>m.
     res_bind (de_field m ''from_version'' de_string) (\<lambda>from_version.
     res_bind (de_field m ''to_version'' de_string) (\<lambda>to_version.
     res_bind (de_field m ''changed_paths'' (de_vec de_string)) (\<lambda>changed_paths.
     res_bind (de_field m ''snapshot'' decode_config_snapshot) (\<lambda>snapshot.
       Inr \<lparr>cfd_from_version = from_version, cfd_to_version = to_version, cfd_changed_paths = changed_paths, cfd_snapshot = snapshot\<rparr>)))))"

interpretation config_delta_codec: codec encode_config_delta decode_config_delta "\<lambda>_. True"
  by unfold_locales (simp_all add: encode_config_delta_def decode_config_delta_def codec_simps)

declare config_delta_codec.roundtrip [simp] config_delta_codec.nonnull [simp]

record issued_credential =
  ic_value :: "string option"
  ic_parts :: "(string \<times> string) list"
  ic_ttl_seconds :: u64
  ic_lease_id :: "string option"
  ic_issued_at :: string
  ic_metadata :: "(string \<times> string) list"

definition encode_issued_credential :: "issued_credential \<Rightarrow> json" where
  "encode_issued_credential x = JObject (fields_map
     [(''value'', map_option JString (ic_value x)),
      (''parts'', map_skip JString (ic_parts x)),
      (''ttl_seconds'', Some (en_u64 (ic_ttl_seconds x))),
      (''lease_id'', map_option JString (ic_lease_id x)),
      (''issued_at'', Some (JString (ic_issued_at x))),
      (''metadata'', map_skip JString (ic_metadata x))])"

definition decode_issued_credential :: "json \<Rightarrow> de_error + issued_credential" where
  "decode_issued_credential v = res_bind (de_object v) (\<lambda>m.
     res_bind (de_opt m ''value'' de_string) (\<lambda>val.
     res_bind (de_field_default m ''parts'' [] (de_map de_string)) (\<lambda>prts.
     res_bind (de_field m ''ttl_seconds'' de_u64) (\<lambda>ttl_seconds.
     res_bind (de_opt m ''lease_id'' de_string) (\<lambda>lease_id.
     res_bind (de_field m ''issued_at'' de_string) (\<lambda>issued_at.
     res_bind (de_field_default m ''metadata'' [] (de_map de_string)) (\<lambda>metadata.
       Inr \<lparr>ic_value = val, ic_parts = prts, ic_ttl_seconds = ttl_seconds, ic_lease_id = lease_id, ic_issued_at = issued_at, ic_metadata = metadata\<rparr>)))))))"

interpretation issued_credential_codec: codec encode_issued_credential decode_issued_credential "\<lambda>_. True"
  by unfold_locales (simp_all add: encode_issued_credential_def decode_issued_credential_def codec_simps)

declare issued_credential_codec.roundtrip [simp] issued_credential_codec.nonnull [simp]

definition secret_value_to_wire :: "secret_value \<Rightarrow> secret_value_wire" where
  "secret_value_to_wire v =
     \<lparr>svx_bytes = sec_bytes v, svx_version = sec_version v, svx_expires_at = sec_expires_at v,
      svx_metadata = sec_metadata v\<rparr>"

definition secret_value_of_wire :: "secret_value_wire \<Rightarrow> secret_value" where
  "secret_value_of_wire v =
     \<lparr>sec_bytes = svx_bytes v, sec_version = svx_version v, sec_expires_at = svx_expires_at v,
      sec_metadata = svx_metadata v\<rparr>"

definition secret_rotation_to_wire :: "secret_rotation \<Rightarrow> secret_rotation_wire" where
  "secret_rotation_to_wire r =
     \<lparr>srw_new_value = secret_value_to_wire (sr_new_value r), srw_reason = sr_reason r\<rparr>"

definition secret_rotation_of_wire :: "secret_rotation_wire \<Rightarrow> secret_rotation" where
  "secret_rotation_of_wire r =
     \<lparr>sr_new_value = secret_value_of_wire (srw_new_value r), sr_reason = srw_reason r\<rparr>"

definition from_value :: "string \<Rightarrow> u64 \<Rightarrow> issued_credential" where
  "from_value val ttl_seconds =
     \<lparr>ic_value = Some val, ic_parts = [], ic_ttl_seconds = ttl_seconds, ic_lease_id = None,
      ic_issued_at = [], ic_metadata = []\<rparr>"

definition credential_part :: "issued_credential \<Rightarrow> string \<Rightarrow> string option" where
  "credential_part c nam = (if nam = ''value'' then ic_value c else bt_get (ic_parts c) nam)"

subsection \<open>Errors\<close>

datatype secret_error =
    SecretNotFound
  | SecretPermissionDenied
  | SecretBackend string
  | SecretInvalidReference string
  | SecretUnsupportedScheme string

fun encode_secret_error :: "secret_error \<Rightarrow> json" where
  "encode_secret_error SecretNotFound = JObject (fields_map
     [(''kind'', Some (JString ''not_found''))])"
| "encode_secret_error SecretPermissionDenied = JObject (fields_map
     [(''kind'', Some (JString ''permission_denied''))])"
| "encode_secret_error (SecretBackend reason) = JObject (fields_map
     [(''kind'', Some (JString ''backend'')),
      (''reason'', Some (JString reason))])"
| "encode_secret_error (SecretInvalidReference message) = JObject (fields_map
     [(''kind'', Some (JString ''invalid_reference'')),
      (''message'', Some (JString message))])"
| "encode_secret_error (SecretUnsupportedScheme scheme) = JObject (fields_map
     [(''kind'', Some (JString ''unsupported_scheme'')),
      (''scheme'', Some (JString scheme))])"

definition decode_secret_error :: "json \<Rightarrow> de_error + secret_error" where
  "decode_secret_error v = res_bind (de_object v) (\<lambda>m. res_bind (de_field m ''kind'' de_string) (\<lambda>t.
     if t = ''not_found'' then
         Inr SecretNotFound
     else
     if t = ''permission_denied'' then
         Inr SecretPermissionDenied
     else
     if t = ''backend'' then
       res_bind (de_field m ''reason'' de_string) (\<lambda>reason.
         Inr (SecretBackend reason))
     else
     if t = ''invalid_reference'' then
       res_bind (de_field m ''message'' de_string) (\<lambda>message.
         Inr (SecretInvalidReference message))
     else
     if t = ''unsupported_scheme'' then
       res_bind (de_field m ''scheme'' de_string) (\<lambda>scheme.
         Inr (SecretUnsupportedScheme scheme))
     else
     Inl (UnknownVariant t)))"

interpretation secret_error_codec: codec encode_secret_error decode_secret_error "\<lambda>_. True"
proof unfold_locales
  fix x
  show "decode_secret_error (encode_secret_error x) = Inr x"
    by (cases x) (simp_all add: decode_secret_error_def codec_simps)
next
  fix x
  show "encode_secret_error x \<noteq> JNull" by (cases x) simp_all
qed

declare secret_error_codec.roundtrip [simp] secret_error_codec.nonnull [simp]

fun kind_label_secret_error :: "secret_error \<Rightarrow> string" where
  "kind_label_secret_error SecretNotFound = ''not_found''"
| "kind_label_secret_error SecretPermissionDenied = ''permission_denied''"
| "kind_label_secret_error (SecretBackend _) = ''backend''"
| "kind_label_secret_error (SecretInvalidReference _) = ''invalid_reference''"
| "kind_label_secret_error (SecretUnsupportedScheme _) = ''unsupported_scheme''"

fun display_secret_error :: "secret_error \<Rightarrow> string" where
  "display_secret_error SecretNotFound = ''secret not found''"
| "display_secret_error SecretPermissionDenied = ''secret backend denied access''"
| "display_secret_error (SecretBackend reason) = ''secret backend: '' @ reason"
| "display_secret_error (SecretInvalidReference message) = ''invalid secret reference: '' @ message"
| "display_secret_error (SecretUnsupportedScheme scheme) = ''no secret provider bound to scheme '' @ [CHR 0x27] @ scheme @ [CHR 0x27]"

interpretation secret_error: tagged_error encode_secret_error decode_secret_error "''kind''" kind_label_secret_error
proof unfold_locales
  fix e
  show "\<exists>m. encode_secret_error e = JObject m \<and> bt_get m ''kind'' = Some (JString (kind_label_secret_error e))"
    by (cases e) simp_all
qed

datatype config_error =
    ConfigNotFound
  | ConfigPermissionDenied
  | ConfigBackend string
  | ConfigInvalidReference string
  | ConfigUnsupportedScheme string
  | ParseError string

fun encode_config_error :: "config_error \<Rightarrow> json" where
  "encode_config_error ConfigNotFound = JObject (fields_map
     [(''kind'', Some (JString ''not_found''))])"
| "encode_config_error ConfigPermissionDenied = JObject (fields_map
     [(''kind'', Some (JString ''permission_denied''))])"
| "encode_config_error (ConfigBackend reason) = JObject (fields_map
     [(''kind'', Some (JString ''backend'')),
      (''reason'', Some (JString reason))])"
| "encode_config_error (ConfigInvalidReference message) = JObject (fields_map
     [(''kind'', Some (JString ''invalid_reference'')),
      (''message'', Some (JString message))])"
| "encode_config_error (ConfigUnsupportedScheme scheme) = JObject (fields_map
     [(''kind'', Some (JString ''unsupported_scheme'')),
      (''scheme'', Some (JString scheme))])"
| "encode_config_error (ParseError reason) = JObject (fields_map
     [(''kind'', Some (JString ''parse_error'')),
      (''reason'', Some (JString reason))])"

definition decode_config_error :: "json \<Rightarrow> de_error + config_error" where
  "decode_config_error v = res_bind (de_object v) (\<lambda>m. res_bind (de_field m ''kind'' de_string) (\<lambda>t.
     if t = ''not_found'' then
         Inr ConfigNotFound
     else
     if t = ''permission_denied'' then
         Inr ConfigPermissionDenied
     else
     if t = ''backend'' then
       res_bind (de_field m ''reason'' de_string) (\<lambda>reason.
         Inr (ConfigBackend reason))
     else
     if t = ''invalid_reference'' then
       res_bind (de_field m ''message'' de_string) (\<lambda>message.
         Inr (ConfigInvalidReference message))
     else
     if t = ''unsupported_scheme'' then
       res_bind (de_field m ''scheme'' de_string) (\<lambda>scheme.
         Inr (ConfigUnsupportedScheme scheme))
     else
     if t = ''parse_error'' then
       res_bind (de_field m ''reason'' de_string) (\<lambda>reason.
         Inr (ParseError reason))
     else
     Inl (UnknownVariant t)))"

interpretation config_error_codec: codec encode_config_error decode_config_error "\<lambda>_. True"
proof unfold_locales
  fix x
  show "decode_config_error (encode_config_error x) = Inr x"
    by (cases x) (simp_all add: decode_config_error_def codec_simps)
next
  fix x
  show "encode_config_error x \<noteq> JNull" by (cases x) simp_all
qed

declare config_error_codec.roundtrip [simp] config_error_codec.nonnull [simp]

fun kind_label_config_error :: "config_error \<Rightarrow> string" where
  "kind_label_config_error ConfigNotFound = ''not_found''"
| "kind_label_config_error ConfigPermissionDenied = ''permission_denied''"
| "kind_label_config_error (ConfigBackend _) = ''backend''"
| "kind_label_config_error (ConfigInvalidReference _) = ''invalid_reference''"
| "kind_label_config_error (ConfigUnsupportedScheme _) = ''unsupported_scheme''"
| "kind_label_config_error (ParseError _) = ''parse_error''"

fun display_config_error :: "config_error \<Rightarrow> string" where
  "display_config_error ConfigNotFound = ''config not found''"
| "display_config_error ConfigPermissionDenied = ''config backend denied access''"
| "display_config_error (ConfigBackend reason) = ''config backend: '' @ reason"
| "display_config_error (ConfigInvalidReference message) = ''invalid config reference: '' @ message"
| "display_config_error (ConfigUnsupportedScheme scheme) = ''no config provider bound to scheme '' @ [CHR 0x27] @ scheme @ [CHR 0x27]"
| "display_config_error (ParseError reason) = ''config parse error: '' @ reason"

interpretation config_error: tagged_error encode_config_error decode_config_error "''kind''" kind_label_config_error
proof unfold_locales
  fix e
  show "\<exists>m. encode_config_error e = JObject m \<and> bt_get m ''kind'' = Some (JString (kind_label_config_error e))"
    by (cases e) simp_all
qed

datatype credential_error =
    CredentialBackend string
  | NotAuthorized string
  | Misconfigured string
  | Throttled string

fun encode_credential_error :: "credential_error \<Rightarrow> json" where
  "encode_credential_error (CredentialBackend reason) = JObject (fields_map
     [(''kind'', Some (JString ''backend'')),
      (''reason'', Some (JString reason))])"
| "encode_credential_error (NotAuthorized reason) = JObject (fields_map
     [(''kind'', Some (JString ''not_authorized'')),
      (''reason'', Some (JString reason))])"
| "encode_credential_error (Misconfigured reason) = JObject (fields_map
     [(''kind'', Some (JString ''misconfigured'')),
      (''reason'', Some (JString reason))])"
| "encode_credential_error (Throttled reason) = JObject (fields_map
     [(''kind'', Some (JString ''throttled'')),
      (''reason'', Some (JString reason))])"

definition decode_credential_error :: "json \<Rightarrow> de_error + credential_error" where
  "decode_credential_error v = res_bind (de_object v) (\<lambda>m. res_bind (de_field m ''kind'' de_string) (\<lambda>t.
     if t = ''backend'' then
       res_bind (de_field m ''reason'' de_string) (\<lambda>reason.
         Inr (CredentialBackend reason))
     else
     if t = ''not_authorized'' then
       res_bind (de_field m ''reason'' de_string) (\<lambda>reason.
         Inr (NotAuthorized reason))
     else
     if t = ''misconfigured'' then
       res_bind (de_field m ''reason'' de_string) (\<lambda>reason.
         Inr (Misconfigured reason))
     else
     if t = ''throttled'' then
       res_bind (de_field m ''reason'' de_string) (\<lambda>reason.
         Inr (Throttled reason))
     else
     Inl (UnknownVariant t)))"

interpretation credential_error_codec: codec encode_credential_error decode_credential_error "\<lambda>_. True"
proof unfold_locales
  fix x
  show "decode_credential_error (encode_credential_error x) = Inr x"
    by (cases x) (simp_all add: decode_credential_error_def codec_simps)
next
  fix x
  show "encode_credential_error x \<noteq> JNull" by (cases x) simp_all
qed

declare credential_error_codec.roundtrip [simp] credential_error_codec.nonnull [simp]

fun kind_label_credential_error :: "credential_error \<Rightarrow> string" where
  "kind_label_credential_error (CredentialBackend _) = ''backend''"
| "kind_label_credential_error (NotAuthorized _) = ''not_authorized''"
| "kind_label_credential_error (Misconfigured _) = ''misconfigured''"
| "kind_label_credential_error (Throttled _) = ''throttled''"

fun http_status_credential_error :: "credential_error \<Rightarrow> nat" where
  "http_status_credential_error (CredentialBackend _) = 503"
| "http_status_credential_error (NotAuthorized _) = 403"
| "http_status_credential_error (Misconfigured _) = 500"
| "http_status_credential_error (Throttled _) = 503"

fun display_credential_error :: "credential_error \<Rightarrow> string" where
  "display_credential_error (CredentialBackend reason) = ''backend: '' @ reason"
| "display_credential_error (NotAuthorized reason) = ''not_authorized: '' @ reason"
| "display_credential_error (Misconfigured reason) = ''misconfigured: '' @ reason"
| "display_credential_error (Throttled reason) = ''throttled: '' @ reason"

interpretation credential_error: tagged_error encode_credential_error decode_credential_error "''kind''" kind_label_credential_error
proof unfold_locales
  fix e
  show "\<exists>m. encode_credential_error e = JObject m \<and> bt_get m ''kind'' = Some (JString (kind_label_credential_error e))"
    by (cases e) simp_all
qed

subsection \<open>Provider defaults\<close>

definition secret_has :: "(string \<Rightarrow> secret_error + secret_value) \<Rightarrow> string \<Rightarrow> bool" where
  "secret_has get secret_ref = is_ok (get secret_ref)"

definition secret_watch_default :: "string \<Rightarrow> secret_error + 's" where
  "secret_watch_default secret_ref = Inl (SecretUnsupportedScheme ''watch'')"

definition config_watch_default :: "string \<Rightarrow> config_error + 's" where
  "config_watch_default reference = Inl (ConfigUnsupportedScheme ''watch'')"

subsection \<open>References\<close>

definition parse_secret_ref :: "string \<Rightarrow> (string \<times> string) option" where
  "parse_secret_ref reference =
     (case split_once_str ''://'' reference of
        None \<Rightarrow> None
      | Some (scheme, rest) \<Rightarrow> if scheme = [] then None else Some (scheme, rest))"

definition parse_config_ref :: "string \<Rightarrow> (string \<times> string) option" where
  "parse_config_ref reference =
     (case split_once_str ''://'' reference of
        None \<Rightarrow> None
      | Some (scheme, rest) \<Rightarrow> if scheme = [] then None else Some (scheme, rest))"

text \<open>\<open>split_once\<close> cuts at the first occurrence.\<close>

lemma split_once_str_iff:
  assumes "p \<noteq> []"
  shows "split_once_str p s = Some (a, b) \<longleftrightarrow>
    s = a @ p @ b \<and> (\<forall>n < length a. \<not> starts_with (drop n s) p)"
proof (induction s arbitrary: a)
  case Nil
  show ?case using assms by auto
next
  case (Cons x s)
  show ?case
  proof (cases "starts_with (x # s) p")
    case True
    then have "drop (length p) (x # s) = b \<longleftrightarrow> x # s = p @ b" by (auto simp: starts_with_iff)
    then show ?thesis using True by (cases a) auto
  next
    case False
    then have no: "a \<noteq> []" if "x # s = a @ p @ b" using that by (auto simp: starts_with_iff)
    show ?thesis
    proof (cases a)
      case Nil
      then show ?thesis using False no by auto
    next
      case (Cons y a')
      have "(\<forall>n < length a. \<not> starts_with (drop n (x # s)) p) \<longleftrightarrow>
          (\<forall>n < length a'. \<not> starts_with (drop n s) p)"
        using False Cons by (auto simp: less_Suc_eq_0_disj)
      then show ?thesis using False Cons Cons.IH [of a'] by auto
    qed
  qed
qed

lemma split_once_str_none:
  assumes "p \<noteq> []"
  shows "split_once_str p s = None \<longleftrightarrow> \<not> (\<exists>a b. s = a @ p @ b)"
proof (induction s)
  case Nil
  show ?case using assms by simp
next
  case (Cons x s)
  have "(\<exists>a b. x # s = a @ p @ b) \<longleftrightarrow> starts_with (x # s) p \<or> (\<exists>a b. s = a @ p @ b)"
    by (auto simp: starts_with_iff Cons_eq_append_conv)
  then show ?case using Cons.IH by auto
qed

text \<open>
  A reference is split at its first \<open>://\<close>, with a non-empty scheme before it and all that
  follows as the rest: this decides the result on every text, a reference built from a scheme
  without a colon is taken apart again whatever its rest is, and both provider kinds read
  references the same way.
\<close>

theorem parse_ref_exact:
  "(parse_secret_ref r = Some (scheme, rest) \<longleftrightarrow>
      scheme \<noteq> [] \<and> r = scheme @ ''://'' @ rest \<and> \<not> (\<exists>n < length scheme. starts_with (drop n r) ''://'')) \<and>
   (parse_secret_ref r \<noteq> None \<longleftrightarrow> \<not> starts_with r ''://'' \<and> (\<exists>a b. r = a @ ''://'' @ b)) \<and>
   parse_config_ref r = parse_secret_ref r"
proof -
  define sep where "sep = ''://''"
  have sep: "sep \<noteq> []" by (simp add: sep_def)
  have parse: "parse_secret_ref r = (case split_once_str sep r of
        None \<Rightarrow> None | Some (a, b) \<Rightarrow> if a = [] then None else Some (a, b))"
    by (simp add: parse_secret_ref_def sep_def)
  have "parse_secret_ref r = Some (scheme, rest) \<longleftrightarrow>
      scheme \<noteq> [] \<and> split_once_str sep r = Some (scheme, rest)"
    unfolding parse by (auto split: option.splits)
  moreover have "(\<exists>b. split_once_str sep r = Some ([], b)) \<longleftrightarrow> starts_with r sep"
    unfolding split_once_str_iff [OF sep] by (simp add: starts_with_iff)
  then have "parse_secret_ref r \<noteq> None \<longleftrightarrow> \<not> starts_with r sep \<and> split_once_str sep r \<noteq> None"
    unfolding parse by (auto split: option.splits)
  then have "parse_secret_ref r \<noteq> None \<longleftrightarrow> \<not> starts_with r sep \<and> (\<exists>a b. r = a @ sep @ b)"
    by (simp only: split_once_str_none [OF sep] not_not)
  moreover have "parse_config_ref r = parse_secret_ref r"
    by (simp add: parse_config_ref_def parse_secret_ref_def)
  ultimately show ?thesis
    unfolding sep_def [symmetric] split_once_str_iff [OF sep] by (intro conjI; (assumption | blast))
qed

text \<open>
  Secret values, rotations, configuration snapshots and deltas, and issued credentials
  cross the boundary unchanged.
\<close>

theorem provider_values_roundtrip:
  "res_bind (decode_secret_value_wire (encode_secret_value_wire (secret_value_to_wire s)))
     (\<lambda>w. Inr (secret_value_of_wire w)) = Inr s \<and>
   res_bind (decode_secret_rotation_wire (encode_secret_rotation_wire (secret_rotation_to_wire r)))
     (\<lambda>w. Inr (secret_rotation_of_wire w)) = Inr r \<and>
   decode_config_delta (encode_config_delta d) = Inr d \<and>
   decode_issued_credential (encode_issued_credential c) = Inr c"
proof -
  have "secret_value_of_wire (secret_value_to_wire s) = s" for s
    by (simp add: secret_value_of_wire_def secret_value_to_wire_def)
  then show ?thesis by (simp add: secret_rotation_of_wire_def secret_rotation_to_wire_def)
qed

end
