(* ===== verification/Http_Route.thy ===== *)
theory Http_Route
  imports Types Wire_Error
begin

section \<open>HTTP routes and transports\<close>

text \<open>
  \<open>src/src/http_route.rs\<close> and \<open>src/src/transport.rs\<close>: routes, requests, responses and
  chunks with the mirror types that cross the boundary, the response constructors, the
  dispatcher's responses and the error enums. A stream is opaque: a type of its own.
\<close>

subsection \<open>Requests and responses\<close>

record http_route_request =
  rq_method :: string
  rq_full_path :: string
  rq_path_params :: "(string \<times> string) list"
  rq_query :: "(string \<times> string) list"
  rq_headers :: "(string \<times> string) list"
  rq_body :: bytes
  rq_identity :: "plugin_identity option"
  rq_request_id :: string
  rq_remote_addr :: "string option"

datatype 's http_body = Bytes bytes | Stream 's

record 's http_route_response =
  rs_status :: u16
  rs_headers :: "(string \<times> string) list"
  rs_body :: "'s http_body"

datatype http_chunk = Data bytes | Event string bytes | End

record route_spec =
  rsp_method :: string
  rsp_path :: string
  rsp_requires_identity :: bool
  rsp_streaming :: bool
  rsp_max_body_bytes :: "u64 option"

definition encode_route_spec :: "route_spec \<Rightarrow> json" where
  "encode_route_spec x = JObject (fields_map
     [(''method'', Some (JString (rsp_method x))),
      (''path'', Some (JString (rsp_path x))),
      (''requires_identity'', Some (JBool (rsp_requires_identity x))),
      (''streaming'', Some (JBool (rsp_streaming x))),
      (''max_body_bytes'', map_option en_u64 (rsp_max_body_bytes x))])"

definition decode_route_spec :: "json \<Rightarrow> de_error + route_spec" where
  "decode_route_spec v = res_bind (de_object v) (\<lambda>m.
     res_bind (de_field m ''method'' de_string) (\<lambda>meth.
     res_bind (de_field m ''path'' de_string) (\<lambda>pth.
     res_bind (de_field_default m ''requires_identity'' False de_bool) (\<lambda>requires_identity.
     res_bind (de_field_default m ''streaming'' False de_bool) (\<lambda>streaming.
     res_bind (de_opt m ''max_body_bytes'' de_u64) (\<lambda>max_body_bytes.
       Inr \<lparr>rsp_method = meth, rsp_path = pth, rsp_requires_identity = requires_identity, rsp_streaming = streaming, rsp_max_body_bytes = max_body_bytes\<rparr>))))))"

interpretation route_spec_codec: codec encode_route_spec decode_route_spec "\<lambda>_. True"
  by unfold_locales (simp_all add: encode_route_spec_def decode_route_spec_def codec_simps)

declare route_spec_codec.roundtrip [simp] route_spec_codec.nonnull [simp]

record http_route_request_wire =
  rqw_method :: string
  rqw_full_path :: string
  rqw_path_params :: "(string \<times> string) list"
  rqw_query :: "(string \<times> string) list"
  rqw_headers :: "(string \<times> string) list"
  rqw_body :: "u8 list"
  rqw_identity :: "plugin_identity option"
  rqw_request_id :: string
  rqw_remote_addr :: "string option"

definition encode_http_route_request_wire :: "http_route_request_wire \<Rightarrow> json" where
  "encode_http_route_request_wire x = JObject (fields_map
     [(''method'', Some (JString (rqw_method x))),
      (''full_path'', Some (JString (rqw_full_path x))),
      (''path_params'', Some (map_obj JString (rqw_path_params x))),
      (''query'', Some (vec pair (rqw_query x))),
      (''headers'', Some (vec pair (rqw_headers x))),
      (''body'', Some (vec en_uint (rqw_body x))),
      (''identity'', Some (opt_null encode_plugin_identity (rqw_identity x))),
      (''request_id'', Some (JString (rqw_request_id x))),
      (''remote_addr'', Some (opt_null JString (rqw_remote_addr x)))])"

definition decode_http_route_request_wire :: "json \<Rightarrow> de_error + http_route_request_wire" where
  "decode_http_route_request_wire v = res_bind (de_object v) (\<lambda>m.
     res_bind (de_field m ''method'' de_string) (\<lambda>meth.
     res_bind (de_field m ''full_path'' de_string) (\<lambda>full_path.
     res_bind (de_field m ''path_params'' (de_map de_string)) (\<lambda>path_params.
     res_bind (de_field m ''query'' (de_vec de_pair)) (\<lambda>query.
     res_bind (de_field m ''headers'' (de_vec de_pair)) (\<lambda>headers.
     res_bind (de_field m ''body'' (de_vec de_uint)) (\<lambda>body.
     res_bind (de_opt m ''identity'' decode_plugin_identity) (\<lambda>identity.
     res_bind (de_field m ''request_id'' de_string) (\<lambda>request_id.
     res_bind (de_opt m ''remote_addr'' de_string) (\<lambda>remote_addr.
       Inr \<lparr>rqw_method = meth, rqw_full_path = full_path, rqw_path_params = path_params, rqw_query = query, rqw_headers = headers, rqw_body = body, rqw_identity = identity, rqw_request_id = request_id, rqw_remote_addr = remote_addr\<rparr>))))))))))"

interpretation http_route_request_wire_codec: codec encode_http_route_request_wire decode_http_route_request_wire "\<lambda>_. True"
  by unfold_locales (simp_all add: encode_http_route_request_wire_def decode_http_route_request_wire_def codec_simps)

declare http_route_request_wire_codec.roundtrip [simp] http_route_request_wire_codec.nonnull [simp]

record http_route_response_wire =
  rsw_status :: u16
  rsw_headers :: "(string \<times> string) list"
  rsw_body :: "u8 list"

definition encode_http_route_response_wire :: "http_route_response_wire \<Rightarrow> json" where
  "encode_http_route_response_wire x = JObject (fields_map
     [(''status'', Some (en_uint (rsw_status x))),
      (''headers'', Some (vec pair (rsw_headers x))),
      (''body'', Some (vec en_uint (rsw_body x)))])"

definition decode_http_route_response_wire :: "json \<Rightarrow> de_error + http_route_response_wire" where
  "decode_http_route_response_wire v = res_bind (de_object v) (\<lambda>m.
     res_bind (de_field m ''status'' de_uint) (\<lambda>status.
     res_bind (de_field m ''headers'' (de_vec de_pair)) (\<lambda>headers.
     res_bind (de_field m ''body'' (de_vec de_uint)) (\<lambda>body.
       Inr \<lparr>rsw_status = status, rsw_headers = headers, rsw_body = body\<rparr>))))"

interpretation http_route_response_wire_codec: codec encode_http_route_response_wire decode_http_route_response_wire "\<lambda>_. True"
  by unfold_locales (simp_all add: encode_http_route_response_wire_def decode_http_route_response_wire_def codec_simps)

declare http_route_response_wire_codec.roundtrip [simp] http_route_response_wire_codec.nonnull [simp]

datatype http_chunk_wire =
    DataWire "u8 list"
  | EventWire string "u8 list"
  | EndWire

fun encode_http_chunk_wire :: "http_chunk_wire \<Rightarrow> json" where
  "encode_http_chunk_wire (DataWire dta) = JObject (fields_map
     [(''kind'', Some (JString ''data'')),
      (''data'', Some (vec en_uint dta))])"
| "encode_http_chunk_wire (EventWire nam dta) = JObject (fields_map
     [(''kind'', Some (JString ''event'')),
      (''name'', Some (JString nam)),
      (''data'', Some (vec en_uint dta))])"
| "encode_http_chunk_wire EndWire = JObject (fields_map
     [(''kind'', Some (JString ''end''))])"

definition decode_http_chunk_wire :: "json \<Rightarrow> de_error + http_chunk_wire" where
  "decode_http_chunk_wire v = res_bind (de_object v) (\<lambda>m. res_bind (de_field m ''kind'' de_string) (\<lambda>t.
     if t = ''data'' then
       res_bind (de_field m ''data'' (de_vec de_uint)) (\<lambda>dta.
         Inr (DataWire dta))
     else
     if t = ''event'' then
       res_bind (de_field m ''name'' de_string) (\<lambda>nam.
       res_bind (de_field m ''data'' (de_vec de_uint)) (\<lambda>dta.
         Inr (EventWire nam dta)))
     else
     if t = ''end'' then
         Inr EndWire
     else
     Inl (UnknownVariant t)))"

interpretation http_chunk_wire_codec: codec encode_http_chunk_wire decode_http_chunk_wire "\<lambda>_. True"
proof unfold_locales
  fix x
  show "decode_http_chunk_wire (encode_http_chunk_wire x) = Inr x"
    by (cases x) (simp_all add: decode_http_chunk_wire_def codec_simps)
next
  fix x
  show "encode_http_chunk_wire x \<noteq> JNull" by (cases x) simp_all
qed

declare http_chunk_wire_codec.roundtrip [simp] http_chunk_wire_codec.nonnull [simp]

record http_stream_head =
  hsh_status :: u16
  hsh_headers :: "(string \<times> string) list"

definition encode_http_stream_head :: "http_stream_head \<Rightarrow> json" where
  "encode_http_stream_head x = JObject (fields_map
     [(''status'', Some (en_uint (hsh_status x))),
      (''headers'', Some (vec pair (hsh_headers x)))])"

definition decode_http_stream_head :: "json \<Rightarrow> de_error + http_stream_head" where
  "decode_http_stream_head v = res_bind (de_object v) (\<lambda>m.
     res_bind (de_field m ''status'' de_uint) (\<lambda>status.
     res_bind (de_field m ''headers'' (de_vec de_pair)) (\<lambda>headers.
       Inr \<lparr>hsh_status = status, hsh_headers = headers\<rparr>)))"

interpretation http_stream_head_codec: codec encode_http_stream_head decode_http_stream_head "\<lambda>_. True"
  by unfold_locales (simp_all add: encode_http_stream_head_def decode_http_stream_head_def codec_simps)

declare http_stream_head_codec.roundtrip [simp] http_stream_head_codec.nonnull [simp]

datatype http_route_ffi_error =
    Streaming

fun encode_http_route_ffi_error :: "http_route_ffi_error \<Rightarrow> json" where
  "encode_http_route_ffi_error Streaming = JObject (fields_map
     [(''error'', Some (JString ''streaming''))])"

definition decode_http_route_ffi_error :: "json \<Rightarrow> de_error + http_route_ffi_error" where
  "decode_http_route_ffi_error v = res_bind (de_object v) (\<lambda>m. res_bind (de_field m ''error'' de_string) (\<lambda>t.
     if t = ''streaming'' then
         Inr Streaming
     else
     Inl (UnknownVariant t)))"

interpretation http_route_ffi_error_codec: codec encode_http_route_ffi_error decode_http_route_ffi_error "\<lambda>_. True"
proof unfold_locales
  fix x
  show "decode_http_route_ffi_error (encode_http_route_ffi_error x) = Inr x"
    by (cases x) (simp_all add: decode_http_route_ffi_error_def codec_simps)
next
  fix x
  show "encode_http_route_ffi_error x \<noteq> JNull" by (cases x) simp_all
qed

declare http_route_ffi_error_codec.roundtrip [simp] http_route_ffi_error_codec.nonnull [simp]

fun display_http_route_ffi_error :: "http_route_ffi_error \<Rightarrow> string" where
  "display_http_route_ffi_error Streaming = ''streaming response bodies are not supported across the FFI boundary''"

subsection \<open>Constructors\<close>

text \<open>Building a JSON body may fail in the serializer: \<open>to_vec\<close> is what it returns.\<close>

definition bytes_of :: "string \<Rightarrow> bytes" where
  "bytes_of s = map of_char s"

definition ok_bytes :: "string \<Rightarrow> bytes \<Rightarrow> 's http_route_response" where
  "ok_bytes content_type body =
     \<lparr>rs_status = 200, rs_headers = [(''Content-Type'', content_type)], rs_body = Bytes body\<rparr>"

definition ok_json :: "('a \<Rightarrow> 'e + bytes) \<Rightarrow> 'a \<Rightarrow> 's http_route_response" where
  "ok_json to_vec val =
     ok_bytes ''application/json'' (case to_vec val of Inr body \<Rightarrow> body | Inl _ \<Rightarrow> bytes_of ''{}'')"

definition status_response :: "u16 \<Rightarrow> 's http_route_response" where
  "status_response code = \<lparr>rs_status = code, rs_headers = [], rs_body = Bytes []\<rparr>"

definition error_bytes :: "u16 \<Rightarrow> string \<Rightarrow> bytes \<Rightarrow> 's http_route_response" where
  "error_bytes status content_type body =
     \<lparr>rs_status = status, rs_headers = [(''Content-Type'', content_type)], rs_body = Bytes body\<rparr>"

definition error_json :: "(json \<Rightarrow> 'e + bytes) \<Rightarrow> u16 \<Rightarrow> string \<Rightarrow> 's http_route_response" where
  "error_json to_vec status msg =
     error_bytes status ''application/json''
       (case to_vec (json_obj [(''error'', JString msg)]) of Inr body \<Rightarrow> body | Inl _ \<Rightarrow> bytes_of ''{}'')"

subsection \<open>Crossing the boundary\<close>

definition request_to_wire :: "http_route_request \<Rightarrow> http_route_request_wire" where
  "request_to_wire src =
     \<lparr>rqw_method = rq_method src, rqw_full_path = rq_full_path src, rqw_path_params = rq_path_params src,
      rqw_query = rq_query src, rqw_headers = rq_headers src, rqw_body = rq_body src,
      rqw_identity = rq_identity src, rqw_request_id = rq_request_id src, rqw_remote_addr = rq_remote_addr src\<rparr>"

definition request_of_wire :: "http_route_request_wire \<Rightarrow> http_route_request" where
  "request_of_wire src =
     \<lparr>rq_method = rqw_method src, rq_full_path = rqw_full_path src, rq_path_params = rqw_path_params src,
      rq_query = rqw_query src, rq_headers = rqw_headers src, rq_body = rqw_body src,
      rq_identity = rqw_identity src, rq_request_id = rqw_request_id src, rq_remote_addr = rqw_remote_addr src\<rparr>"

definition response_to_wire :: "'s http_route_response \<Rightarrow> http_route_ffi_error + http_route_response_wire" where
  "response_to_wire src =
     (case rs_body src of
        Bytes b \<Rightarrow> Inr \<lparr>rsw_status = rs_status src, rsw_headers = rs_headers src, rsw_body = b\<rparr>
      | Stream _ \<Rightarrow> Inl Streaming)"

definition response_of_wire :: "http_route_response_wire \<Rightarrow> 's http_route_response" where
  "response_of_wire src =
     \<lparr>rs_status = rsw_status src, rs_headers = rsw_headers src, rs_body = Bytes (rsw_body src)\<rparr>"

fun chunk_to_wire :: "http_chunk \<Rightarrow> http_chunk_wire" where
  "chunk_to_wire (Data b) = DataWire b"
| "chunk_to_wire (Event nam dta) = EventWire nam dta"
| "chunk_to_wire End = EndWire"

fun chunk_of_wire :: "http_chunk_wire \<Rightarrow> http_chunk" where
  "chunk_of_wire (DataWire dta) = Data dta"
| "chunk_of_wire (EventWire nam dta) = Event nam dta"
| "chunk_of_wire EndWire = End"

text \<open>
  Requests and chunks cross the boundary unchanged. A response does exactly when its body
  is bytes; a streaming body is refused, never truncated or buffered, so the responses of all
  constructors cross.
\<close>

theorem http_messages_cross:
  "res_bind (decode_http_route_request_wire (encode_http_route_request_wire (request_to_wire q)))
     (\<lambda>w. Inr (request_of_wire w)) = Inr q \<and>
   res_bind (decode_http_chunk_wire (encode_http_chunk_wire (chunk_to_wire c)))
     (\<lambda>w. Inr (chunk_of_wire w)) = Inr c \<and>
   (case rs_body r of
      Bytes b \<Rightarrow> \<exists>w. response_to_wire r = Inr w \<and>
        res_bind (decode_http_route_response_wire (encode_http_route_response_wire w))
          (\<lambda>w. Inr (response_of_wire w)) = Inr r
    | Stream s \<Rightarrow> response_to_wire r = Inl Streaming) \<and>
   (\<exists>w. response_to_wire (error_json to_vec st msg :: 's http_route_response) = Inr w \<and> rsw_status w = st) \<and>
   (\<exists>w. response_to_wire (ok_json to_vec' val :: 's http_route_response) = Inr w \<and> rsw_status w = 200)"
proof -
  have "request_of_wire (request_to_wire q) = q"
    by (simp add: request_of_wire_def request_to_wire_def)
  moreover have "chunk_of_wire (chunk_to_wire c) = c" by (cases c) simp_all
  moreover have "r = response_of_wire w" if "response_to_wire r = Inr w" for w
    using that by (cases r) (auto simp: response_of_wire_def response_to_wire_def split: http_body.splits)
  moreover have "\<exists>w. response_to_wire r = Inr w" if "rs_body r = Bytes b" for b
    using that by (simp add: response_to_wire_def)
  ultimately show ?thesis
    by (auto simp: response_to_wire_def error_json_def error_bytes_def ok_json_def ok_bytes_def split: http_body.splits)
qed

subsection \<open>Transports\<close>

record 's dispatch_response =
  dr_reply :: "bytes option"
  dr_stream :: "'s option"

definition unary :: "bytes \<Rightarrow> 's dispatch_response" where
  "unary reply = \<lparr>dr_reply = Some reply, dr_stream = None\<rparr>"

definition streaming_response :: "'s \<Rightarrow> 's dispatch_response" where
  "streaming_response stream = \<lparr>dr_reply = None, dr_stream = Some stream\<rparr>"

definition ack :: "'s dispatch_response" where
  "ack = \<lparr>dr_reply = None, dr_stream = None\<rparr>"

datatype dispatcher_error =
    SessionNotFound
  | InvalidMessage string
  | Internal string
  | Shutdown

fun encode_dispatcher_error :: "dispatcher_error \<Rightarrow> json" where
  "encode_dispatcher_error SessionNotFound = JObject (fields_map
     [(''kind'', Some (JString ''session_not_found''))])"
| "encode_dispatcher_error (InvalidMessage reason) = JObject (fields_map
     [(''kind'', Some (JString ''invalid_message'')),
      (''reason'', Some (JString reason))])"
| "encode_dispatcher_error (Internal reason) = JObject (fields_map
     [(''kind'', Some (JString ''internal'')),
      (''reason'', Some (JString reason))])"
| "encode_dispatcher_error Shutdown = JObject (fields_map
     [(''kind'', Some (JString ''shutdown''))])"

definition decode_dispatcher_error :: "json \<Rightarrow> de_error + dispatcher_error" where
  "decode_dispatcher_error v = res_bind (de_object v) (\<lambda>m. res_bind (de_field m ''kind'' de_string) (\<lambda>t.
     if t = ''session_not_found'' then
         Inr SessionNotFound
     else
     if t = ''invalid_message'' then
       res_bind (de_field m ''reason'' de_string) (\<lambda>reason.
         Inr (InvalidMessage reason))
     else
     if t = ''internal'' then
       res_bind (de_field m ''reason'' de_string) (\<lambda>reason.
         Inr (Internal reason))
     else
     if t = ''shutdown'' then
         Inr Shutdown
     else
     Inl (UnknownVariant t)))"

interpretation dispatcher_error_codec: codec encode_dispatcher_error decode_dispatcher_error "\<lambda>_. True"
proof unfold_locales
  fix x
  show "decode_dispatcher_error (encode_dispatcher_error x) = Inr x"
    by (cases x) (simp_all add: decode_dispatcher_error_def codec_simps)
next
  fix x
  show "encode_dispatcher_error x \<noteq> JNull" by (cases x) simp_all
qed

declare dispatcher_error_codec.roundtrip [simp] dispatcher_error_codec.nonnull [simp]

fun kind_label_dispatcher_error :: "dispatcher_error \<Rightarrow> string" where
  "kind_label_dispatcher_error SessionNotFound = ''session_not_found''"
| "kind_label_dispatcher_error (InvalidMessage _) = ''invalid_message''"
| "kind_label_dispatcher_error (Internal _) = ''internal''"
| "kind_label_dispatcher_error Shutdown = ''shutdown''"

fun display_dispatcher_error :: "dispatcher_error \<Rightarrow> string" where
  "display_dispatcher_error SessionNotFound = ''session not found''"
| "display_dispatcher_error (InvalidMessage reason) = ''invalid message: '' @ reason"
| "display_dispatcher_error (Internal reason) = ''internal: '' @ reason"
| "display_dispatcher_error Shutdown = ''gateway shutting down''"

interpretation dispatcher_error: tagged_error encode_dispatcher_error decode_dispatcher_error "''kind''" kind_label_dispatcher_error
proof unfold_locales
  fix e
  show "\<exists>m. encode_dispatcher_error e = JObject m \<and> bt_get m ''kind'' = Some (JString (kind_label_dispatcher_error e))"
    by (cases e) simp_all
qed

datatype transport_error =
    BindFailed string
  | AlreadyListening
  | InvalidConfig string
  | UnknownTransport string
  | Io string
  | TransportShutdown

fun encode_transport_error :: "transport_error \<Rightarrow> json" where
  "encode_transport_error (BindFailed reason) = JObject (fields_map
     [(''kind'', Some (JString ''bind_failed'')),
      (''reason'', Some (JString reason))])"
| "encode_transport_error AlreadyListening = JObject (fields_map
     [(''kind'', Some (JString ''already_listening''))])"
| "encode_transport_error (InvalidConfig message) = JObject (fields_map
     [(''kind'', Some (JString ''invalid_config'')),
      (''message'', Some (JString message))])"
| "encode_transport_error (UnknownTransport nam) = JObject (fields_map
     [(''kind'', Some (JString ''unknown_transport'')),
      (''name'', Some (JString nam))])"
| "encode_transport_error (Io reason) = JObject (fields_map
     [(''kind'', Some (JString ''io'')),
      (''reason'', Some (JString reason))])"
| "encode_transport_error TransportShutdown = JObject (fields_map
     [(''kind'', Some (JString ''shutdown''))])"

definition decode_transport_error :: "json \<Rightarrow> de_error + transport_error" where
  "decode_transport_error v = res_bind (de_object v) (\<lambda>m. res_bind (de_field m ''kind'' de_string) (\<lambda>t.
     if t = ''bind_failed'' then
       res_bind (de_field m ''reason'' de_string) (\<lambda>reason.
         Inr (BindFailed reason))
     else
     if t = ''already_listening'' then
         Inr AlreadyListening
     else
     if t = ''invalid_config'' then
       res_bind (de_field m ''message'' de_string) (\<lambda>message.
         Inr (InvalidConfig message))
     else
     if t = ''unknown_transport'' then
       res_bind (de_field m ''name'' de_string) (\<lambda>nam.
         Inr (UnknownTransport nam))
     else
     if t = ''io'' then
       res_bind (de_field m ''reason'' de_string) (\<lambda>reason.
         Inr (Io reason))
     else
     if t = ''shutdown'' then
         Inr TransportShutdown
     else
     Inl (UnknownVariant t)))"

interpretation transport_error_codec: codec encode_transport_error decode_transport_error "\<lambda>_. True"
proof unfold_locales
  fix x
  show "decode_transport_error (encode_transport_error x) = Inr x"
    by (cases x) (simp_all add: decode_transport_error_def codec_simps)
next
  fix x
  show "encode_transport_error x \<noteq> JNull" by (cases x) simp_all
qed

declare transport_error_codec.roundtrip [simp] transport_error_codec.nonnull [simp]

fun kind_label_transport_error :: "transport_error \<Rightarrow> string" where
  "kind_label_transport_error (BindFailed _) = ''bind_failed''"
| "kind_label_transport_error AlreadyListening = ''already_listening''"
| "kind_label_transport_error (InvalidConfig _) = ''invalid_config''"
| "kind_label_transport_error (UnknownTransport _) = ''unknown_transport''"
| "kind_label_transport_error (Io _) = ''io''"
| "kind_label_transport_error TransportShutdown = ''shutdown''"

fun display_transport_error :: "transport_error \<Rightarrow> string" where
  "display_transport_error (BindFailed reason) = ''transport bind failed: '' @ reason"
| "display_transport_error AlreadyListening = ''transport already listening''"
| "display_transport_error (InvalidConfig message) = ''invalid transport config: '' @ message"
| "display_transport_error (UnknownTransport nam) = ''no transport registered with name '' @ [CHR 0x27] @ nam @ [CHR 0x27]"
| "display_transport_error (Io reason) = ''transport I/O: '' @ reason"
| "display_transport_error TransportShutdown = ''gateway shutting down''"

interpretation transport_error: tagged_error encode_transport_error decode_transport_error "''kind''" kind_label_transport_error
proof unfold_locales
  fix e
  show "\<exists>m. encode_transport_error e = JObject m \<and> bt_get m ''kind'' = Some (JString (kind_label_transport_error e))"
    by (cases e) simp_all
qed

end
