(* ===== verification/Sinks.thy ===== *)
theory Sinks
  imports Wire_Error Types Backend_Types
begin

section \<open>Audit, log, telemetry and metrics sinks\<close>

text \<open>
  \<open>src/src/audit.rs\<close>, \<open>src/src/logs.rs\<close>, \<open>src/src/telemetry.rs\<close> and
  \<open>src/src/metrics.rs\<close>: the events, records, spans and metric points that sinks receive,
  the error enums, and the default methods of the sink traits. Log levels are linearly
  ordered, as the derived \<open>Ord\<close> orders them.
\<close>

subsection \<open>Audit events\<close>

datatype audit_outcome = Success | Failure | Partial | Denied

fun encode_audit_outcome :: "audit_outcome \<Rightarrow> json" where
  "encode_audit_outcome Success = JString ''success''"
| "encode_audit_outcome Failure = JString ''failure''"
| "encode_audit_outcome Partial = JString ''partial''"
| "encode_audit_outcome Denied = JString ''denied''"

definition decode_audit_outcome :: "json \<Rightarrow> de_error + audit_outcome" where
  "decode_audit_outcome v = res_bind (de_string v) (\<lambda>t.
     if t = ''success'' then Inr Success else
     if t = ''failure'' then Inr Failure else
     if t = ''partial'' then Inr Partial else
     if t = ''denied'' then Inr Denied else
     Inl (UnknownVariant t))"

interpretation audit_outcome_codec: codec encode_audit_outcome decode_audit_outcome "\<lambda>_. True"
proof unfold_locales
  fix x
  show "decode_audit_outcome (encode_audit_outcome x) = Inr x" by (cases x) (simp_all add: decode_audit_outcome_def)
  show "encode_audit_outcome x \<noteq> JNull" by (cases x) simp_all
qed

declare audit_outcome_codec.roundtrip [simp] audit_outcome_codec.nonnull [simp]

record audit_event =
  ae_event_id :: string
  ae_occurred_at :: string
  ae_actor :: plugin_identity
  ae_action :: string
  ae_resource :: "string option"
  ae_outcome :: audit_outcome
  ae_request_id :: "string option"
  ae_upstream_request_id :: "string option"
  ae_node_id :: "string option"
  ae_details :: json
  ae_prev_event_hash :: "string option"

definition encode_audit_event :: "audit_event \<Rightarrow> json" where
  "encode_audit_event x = JObject (fields_map
     [(''event_id'', Some (JString (ae_event_id x))),
      (''occurred_at'', Some (JString (ae_occurred_at x))),
      (''actor'', Some (encode_plugin_identity (ae_actor x))),
      (''action'', Some (JString (ae_action x))),
      (''resource'', map_option JString (ae_resource x)),
      (''outcome'', Some (encode_audit_outcome (ae_outcome x))),
      (''request_id'', map_option JString (ae_request_id x)),
      (''upstream_request_id'', map_option JString (ae_upstream_request_id x)),
      (''node_id'', map_option JString (ae_node_id x)),
      (''details'', Some (ae_details x)),
      (''prev_event_hash'', map_option JString (ae_prev_event_hash x))])"

definition decode_audit_event :: "json \<Rightarrow> de_error + audit_event" where
  "decode_audit_event v = res_bind (de_object v) (\<lambda>m.
     res_bind (de_field m ''event_id'' de_string) (\<lambda>event_id.
     res_bind (de_field m ''occurred_at'' de_string) (\<lambda>occurred_at.
     res_bind (de_field m ''actor'' decode_plugin_identity) (\<lambda>actor.
     res_bind (de_field m ''action'' de_string) (\<lambda>action.
     res_bind (de_opt m ''resource'' de_string) (\<lambda>resource.
     res_bind (de_field m ''outcome'' decode_audit_outcome) (\<lambda>outcome.
     res_bind (de_opt m ''request_id'' de_string) (\<lambda>request_id.
     res_bind (de_opt m ''upstream_request_id'' de_string) (\<lambda>upstream_request_id.
     res_bind (de_opt m ''node_id'' de_string) (\<lambda>node_id.
     res_bind (de_field_default m ''details'' JNull de_value) (\<lambda>details.
     res_bind (de_opt m ''prev_event_hash'' de_string) (\<lambda>prev_event_hash.
       Inr \<lparr>ae_event_id = event_id, ae_occurred_at = occurred_at, ae_actor = actor, ae_action = action, ae_resource = resource, ae_outcome = outcome, ae_request_id = request_id, ae_upstream_request_id = upstream_request_id, ae_node_id = node_id, ae_details = details, ae_prev_event_hash = prev_event_hash\<rparr>))))))))))))"

interpretation audit_event_codec: codec encode_audit_event decode_audit_event "\<lambda>_. True"
  by unfold_locales (simp_all add: encode_audit_event_def decode_audit_event_def codec_simps)

declare audit_event_codec.roundtrip [simp] audit_event_codec.nonnull [simp]

record audit_receipt =
  ar_sink_id :: string
  ar_persisted_at :: string
  ar_durable_hash :: string

definition encode_audit_receipt :: "audit_receipt \<Rightarrow> json" where
  "encode_audit_receipt x = JObject (fields_map
     [(''sink_id'', Some (JString (ar_sink_id x))),
      (''persisted_at'', Some (JString (ar_persisted_at x))),
      (''durable_hash'', Some (JString (ar_durable_hash x)))])"

definition decode_audit_receipt :: "json \<Rightarrow> de_error + audit_receipt" where
  "decode_audit_receipt v = res_bind (de_object v) (\<lambda>m.
     res_bind (de_field m ''sink_id'' de_string) (\<lambda>sink_id.
     res_bind (de_field m ''persisted_at'' de_string) (\<lambda>persisted_at.
     res_bind (de_field m ''durable_hash'' de_string) (\<lambda>durable_hash.
       Inr \<lparr>ar_sink_id = sink_id, ar_persisted_at = persisted_at, ar_durable_hash = durable_hash\<rparr>))))"

interpretation audit_receipt_codec: codec encode_audit_receipt decode_audit_receipt "\<lambda>_. True"
  by unfold_locales (simp_all add: encode_audit_receipt_def decode_audit_receipt_def codec_simps)

declare audit_receipt_codec.roundtrip [simp] audit_receipt_codec.nonnull [simp]

datatype audit_error =
    WriteFailed string
  | AuditThrottled
  | AuditClosed
  | AuditTimeout

fun encode_audit_error :: "audit_error \<Rightarrow> json" where
  "encode_audit_error (WriteFailed reason) = JObject (fields_map
     [(''kind'', Some (JString ''write_failed'')),
      (''reason'', Some (JString reason))])"
| "encode_audit_error AuditThrottled = JObject (fields_map
     [(''kind'', Some (JString ''throttled''))])"
| "encode_audit_error AuditClosed = JObject (fields_map
     [(''kind'', Some (JString ''closed''))])"
| "encode_audit_error AuditTimeout = JObject (fields_map
     [(''kind'', Some (JString ''timeout''))])"

definition decode_audit_error :: "json \<Rightarrow> de_error + audit_error" where
  "decode_audit_error v = res_bind (de_object v) (\<lambda>m. res_bind (de_field m ''kind'' de_string) (\<lambda>t.
     if t = ''write_failed'' then
       res_bind (de_field m ''reason'' de_string) (\<lambda>reason.
         Inr (WriteFailed reason))
     else
     if t = ''throttled'' then
         Inr AuditThrottled
     else
     if t = ''closed'' then
         Inr AuditClosed
     else
     if t = ''timeout'' then
         Inr AuditTimeout
     else
     Inl (UnknownVariant t)))"

interpretation audit_error_codec: codec encode_audit_error decode_audit_error "\<lambda>_. True"
proof unfold_locales
  fix x
  show "decode_audit_error (encode_audit_error x) = Inr x"
    by (cases x) (simp_all add: decode_audit_error_def codec_simps)
next
  fix x
  show "encode_audit_error x \<noteq> JNull" by (cases x) simp_all
qed

declare audit_error_codec.roundtrip [simp] audit_error_codec.nonnull [simp]

fun kind_label_audit_error :: "audit_error \<Rightarrow> string" where
  "kind_label_audit_error (WriteFailed _) = ''write_failed''"
| "kind_label_audit_error AuditThrottled = ''throttled''"
| "kind_label_audit_error AuditClosed = ''closed''"
| "kind_label_audit_error AuditTimeout = ''timeout''"

fun display_audit_error :: "audit_error \<Rightarrow> string" where
  "display_audit_error (WriteFailed reason) = ''audit write failed: '' @ reason"
| "display_audit_error AuditThrottled = ''audit sink throttled''"
| "display_audit_error AuditClosed = ''audit sink closed''"
| "display_audit_error AuditTimeout = ''audit sink timeout''"

interpretation audit_error: tagged_error encode_audit_error decode_audit_error "''kind''" kind_label_audit_error
proof unfold_locales
  fix e
  show "\<exists>m. encode_audit_error e = JObject m \<and> bt_get m ''kind'' = Some (JString (kind_label_audit_error e))"
    by (cases e) simp_all
qed

fun display_audit_outcome :: "audit_outcome \<Rightarrow> string" where
  "display_audit_outcome Success = ''success''"
| "display_audit_outcome Failure = ''failure''"
| "display_audit_outcome Partial = ''partial''"
| "display_audit_outcome Denied = ''denied''"

definition with_upstream_request_id :: "audit_event \<Rightarrow> string option \<Rightarrow> audit_event" where
  "with_upstream_request_id ev ident = ev\<lparr>ae_upstream_request_id := ident\<rparr>"

definition audit_flush_default :: "u64 \<Rightarrow> audit_error + unit" where
  "audit_flush_default timeout_ms = Inr ()"

subsection \<open>Log records\<close>

datatype log_level = Trace | Debug | Info | Warn | Error

fun encode_log_level :: "log_level \<Rightarrow> json" where
  "encode_log_level Trace = JString ''trace''"
| "encode_log_level Debug = JString ''debug''"
| "encode_log_level Info = JString ''info''"
| "encode_log_level Warn = JString ''warn''"
| "encode_log_level Error = JString ''error''"

definition decode_log_level :: "json \<Rightarrow> de_error + log_level" where
  "decode_log_level v = res_bind (de_string v) (\<lambda>t.
     if t = ''trace'' then Inr Trace else
     if t = ''debug'' then Inr Debug else
     if t = ''info'' then Inr Info else
     if t = ''warn'' then Inr Warn else
     if t = ''error'' then Inr Error else
     Inl (UnknownVariant t))"

interpretation log_level_codec: codec encode_log_level decode_log_level "\<lambda>_. True"
proof unfold_locales
  fix x
  show "decode_log_level (encode_log_level x) = Inr x" by (cases x) (simp_all add: decode_log_level_def)
  show "encode_log_level x \<noteq> JNull" by (cases x) simp_all
qed

declare log_level_codec.roundtrip [simp] log_level_codec.nonnull [simp]

record log_record =
  lg_timestamp_ns :: u64
  lg_level :: log_level
  lg_target :: string
  lg_message :: string
  lg_fields :: "(string \<times> json) list"
  lg_span_id :: "string option"
  lg_trace_id :: "string option"
  lg_request_id :: "string option"
  lg_identity :: "plugin_identity option"
  lg_node_id :: "string option"
  lg_plugin_id :: "string option"

definition encode_log_record :: "log_record \<Rightarrow> json" where
  "encode_log_record x = JObject (fields_map
     [(''timestamp_ns'', Some (en_u64 (lg_timestamp_ns x))),
      (''level'', Some (encode_log_level (lg_level x))),
      (''target'', Some (JString (lg_target x))),
      (''message'', Some (JString (lg_message x))),
      (''fields'', map_skip (\<lambda>v. v) (lg_fields x)),
      (''span_id'', map_option JString (lg_span_id x)),
      (''trace_id'', map_option JString (lg_trace_id x)),
      (''request_id'', map_option JString (lg_request_id x)),
      (''identity'', map_option encode_plugin_identity (lg_identity x)),
      (''node_id'', map_option JString (lg_node_id x)),
      (''plugin_id'', map_option JString (lg_plugin_id x))])"

definition decode_log_record :: "json \<Rightarrow> de_error + log_record" where
  "decode_log_record v = res_bind (de_object v) (\<lambda>m.
     res_bind (de_field m ''timestamp_ns'' de_u64) (\<lambda>timestamp_ns.
     res_bind (de_field m ''level'' decode_log_level) (\<lambda>level.
     res_bind (de_field m ''target'' de_string) (\<lambda>target.
     res_bind (de_field m ''message'' de_string) (\<lambda>message.
     res_bind (de_field_default m ''fields'' [] (de_map de_value)) (\<lambda>fields0.
     res_bind (de_opt m ''span_id'' de_string) (\<lambda>span_id.
     res_bind (de_opt m ''trace_id'' de_string) (\<lambda>trace_id.
     res_bind (de_opt m ''request_id'' de_string) (\<lambda>request_id.
     res_bind (de_opt m ''identity'' decode_plugin_identity) (\<lambda>identity.
     res_bind (de_opt m ''node_id'' de_string) (\<lambda>node_id.
     res_bind (de_opt m ''plugin_id'' de_string) (\<lambda>plugin_id.
       Inr \<lparr>lg_timestamp_ns = timestamp_ns, lg_level = level, lg_target = target, lg_message = message, lg_fields = fields0, lg_span_id = span_id, lg_trace_id = trace_id, lg_request_id = request_id, lg_identity = identity, lg_node_id = node_id, lg_plugin_id = plugin_id\<rparr>))))))))))))"

interpretation log_record_codec: codec encode_log_record decode_log_record "\<lambda>_. True"
  by unfold_locales (simp_all add: encode_log_record_def decode_log_record_def codec_simps)

declare log_record_codec.roundtrip [simp] log_record_codec.nonnull [simp]

datatype log_error =
    LogBackend string
  | LogThrottled
  | LogClosed
  | LogTimeout

fun encode_log_error :: "log_error \<Rightarrow> json" where
  "encode_log_error (LogBackend reason) = JObject (fields_map
     [(''kind'', Some (JString ''backend'')),
      (''reason'', Some (JString reason))])"
| "encode_log_error LogThrottled = JObject (fields_map
     [(''kind'', Some (JString ''throttled''))])"
| "encode_log_error LogClosed = JObject (fields_map
     [(''kind'', Some (JString ''closed''))])"
| "encode_log_error LogTimeout = JObject (fields_map
     [(''kind'', Some (JString ''timeout''))])"

definition decode_log_error :: "json \<Rightarrow> de_error + log_error" where
  "decode_log_error v = res_bind (de_object v) (\<lambda>m. res_bind (de_field m ''kind'' de_string) (\<lambda>t.
     if t = ''backend'' then
       res_bind (de_field m ''reason'' de_string) (\<lambda>reason.
         Inr (LogBackend reason))
     else
     if t = ''throttled'' then
         Inr LogThrottled
     else
     if t = ''closed'' then
         Inr LogClosed
     else
     if t = ''timeout'' then
         Inr LogTimeout
     else
     Inl (UnknownVariant t)))"

interpretation log_error_codec: codec encode_log_error decode_log_error "\<lambda>_. True"
proof unfold_locales
  fix x
  show "decode_log_error (encode_log_error x) = Inr x"
    by (cases x) (simp_all add: decode_log_error_def codec_simps)
next
  fix x
  show "encode_log_error x \<noteq> JNull" by (cases x) simp_all
qed

declare log_error_codec.roundtrip [simp] log_error_codec.nonnull [simp]

fun kind_label_log_error :: "log_error \<Rightarrow> string" where
  "kind_label_log_error (LogBackend _) = ''backend''"
| "kind_label_log_error LogThrottled = ''throttled''"
| "kind_label_log_error LogClosed = ''closed''"
| "kind_label_log_error LogTimeout = ''timeout''"

fun display_log_error :: "log_error \<Rightarrow> string" where
  "display_log_error (LogBackend reason) = ''log backend: '' @ reason"
| "display_log_error LogThrottled = ''log sink throttled''"
| "display_log_error LogClosed = ''log sink closed''"
| "display_log_error LogTimeout = ''log sink timeout''"

interpretation log_error: tagged_error encode_log_error decode_log_error "''kind''" kind_label_log_error
proof unfold_locales
  fix e
  show "\<exists>m. encode_log_error e = JObject m \<and> bt_get m ''kind'' = Some (JString (kind_label_log_error e))"
    by (cases e) simp_all
qed

fun display_log_level :: "log_level \<Rightarrow> string" where
  "display_log_level Trace = ''trace''"
| "display_log_level Debug = ''debug''"
| "display_log_level Info = ''info''"
| "display_log_level Warn = ''warn''"
| "display_log_level Error = ''error''"

text \<open>The derived order is the order of declaration.\<close>

fun level_rank :: "log_level \<Rightarrow> nat" where
  "level_rank Trace = 0"
| "level_rank Debug = 1"
| "level_rank Info = 2"
| "level_rank Warn = 3"
| "level_rank Error = 4"

lemma level_rank_inject [simp]: "level_rank a = level_rank b \<longleftrightarrow> a = b"
  by (cases a; cases b) simp_all

instantiation log_level :: linorder
begin

definition less_eq_log_level :: "log_level \<Rightarrow> log_level \<Rightarrow> bool" where
  "less_eq_log_level a b \<longleftrightarrow> level_rank a \<le> level_rank b"

definition less_log_level :: "log_level \<Rightarrow> log_level \<Rightarrow> bool" where
  "less_log_level a b \<longleftrightarrow> level_rank a < level_rank b"

instance
  by standard (auto simp: less_eq_log_level_def less_log_level_def)

end

definition PLUGIN_LOG_EVENT :: string where
  "PLUGIN_LOG_EVENT = ''mcpg.log''"

definition PLUGIN_LOG_TARGET :: string where
  "PLUGIN_LOG_TARGET = ''mcpg.plugin.log''"

subsection \<open>Spans and metrics\<close>

datatype span_kind = InternalSpan | Server | Client | Producer | Consumer

fun encode_span_kind :: "span_kind \<Rightarrow> json" where
  "encode_span_kind InternalSpan = JString ''internal''"
| "encode_span_kind Server = JString ''server''"
| "encode_span_kind Client = JString ''client''"
| "encode_span_kind Producer = JString ''producer''"
| "encode_span_kind Consumer = JString ''consumer''"

definition decode_span_kind :: "json \<Rightarrow> de_error + span_kind" where
  "decode_span_kind v = res_bind (de_string v) (\<lambda>t.
     if t = ''internal'' then Inr InternalSpan else
     if t = ''server'' then Inr Server else
     if t = ''client'' then Inr Client else
     if t = ''producer'' then Inr Producer else
     if t = ''consumer'' then Inr Consumer else
     Inl (UnknownVariant t))"

interpretation span_kind_codec: codec encode_span_kind decode_span_kind "\<lambda>_. True"
proof unfold_locales
  fix x
  show "decode_span_kind (encode_span_kind x) = Inr x" by (cases x) (simp_all add: decode_span_kind_def)
  show "encode_span_kind x \<noteq> JNull" by (cases x) simp_all
qed

declare span_kind_codec.roundtrip [simp] span_kind_codec.nonnull [simp]

datatype span_status =
    SpanOk
  | SpanError string
  | Unset

fun encode_span_status :: "span_status \<Rightarrow> json" where
  "encode_span_status SpanOk = JObject (fields_map
     [(''kind'', Some (JString ''ok''))])"
| "encode_span_status (SpanError message) = JObject (fields_map
     [(''kind'', Some (JString ''error'')),
      (''message'', Some (JString message))])"
| "encode_span_status Unset = JObject (fields_map
     [(''kind'', Some (JString ''unset''))])"

definition decode_span_status :: "json \<Rightarrow> de_error + span_status" where
  "decode_span_status v = res_bind (de_object v) (\<lambda>m. res_bind (de_field m ''kind'' de_string) (\<lambda>t.
     if t = ''ok'' then
         Inr SpanOk
     else
     if t = ''error'' then
       res_bind (de_field m ''message'' de_string) (\<lambda>message.
         Inr (SpanError message))
     else
     if t = ''unset'' then
         Inr Unset
     else
     Inl (UnknownVariant t)))"

interpretation span_status_codec: codec encode_span_status decode_span_status "\<lambda>_. True"
proof unfold_locales
  fix x
  show "decode_span_status (encode_span_status x) = Inr x"
    by (cases x) (simp_all add: decode_span_status_def codec_simps)
next
  fix x
  show "encode_span_status x \<noteq> JNull" by (cases x) simp_all
qed

declare span_status_codec.roundtrip [simp] span_status_codec.nonnull [simp]

record span_event =
  se_name :: string
  se_timestamp_ns :: u64
  se_attributes :: "(string \<times> json) list"

definition encode_span_event :: "span_event \<Rightarrow> json" where
  "encode_span_event x = JObject (fields_map
     [(''name'', Some (JString (se_name x))),
      (''timestamp_ns'', Some (en_u64 (se_timestamp_ns x))),
      (''attributes'', map_skip (\<lambda>v. v) (se_attributes x))])"

definition decode_span_event :: "json \<Rightarrow> de_error + span_event" where
  "decode_span_event v = res_bind (de_object v) (\<lambda>m.
     res_bind (de_field m ''name'' de_string) (\<lambda>nam.
     res_bind (de_field m ''timestamp_ns'' de_u64) (\<lambda>timestamp_ns.
     res_bind (de_field_default m ''attributes'' [] (de_map de_value)) (\<lambda>attributes.
       Inr \<lparr>se_name = nam, se_timestamp_ns = timestamp_ns, se_attributes = attributes\<rparr>))))"

interpretation span_event_codec: codec encode_span_event decode_span_event "\<lambda>_. True"
  by unfold_locales (simp_all add: encode_span_event_def decode_span_event_def codec_simps)

declare span_event_codec.roundtrip [simp] span_event_codec.nonnull [simp]

record span_start =
  ss_trace_id :: string
  ss_span_id :: string
  ss_parent_id :: "string option"
  ss_name :: string
  ss_kind :: span_kind
  ss_start_ns :: u64
  ss_attributes :: "(string \<times> json) list"

definition encode_span_start :: "span_start \<Rightarrow> json" where
  "encode_span_start x = JObject (fields_map
     [(''trace_id'', Some (JString (ss_trace_id x))),
      (''span_id'', Some (JString (ss_span_id x))),
      (''parent_id'', map_option JString (ss_parent_id x)),
      (''name'', Some (JString (ss_name x))),
      (''kind'', Some (encode_span_kind (ss_kind x))),
      (''start_ns'', Some (en_u64 (ss_start_ns x))),
      (''attributes'', map_skip (\<lambda>v. v) (ss_attributes x))])"

definition decode_span_start :: "json \<Rightarrow> de_error + span_start" where
  "decode_span_start v = res_bind (de_object v) (\<lambda>m.
     res_bind (de_field m ''trace_id'' de_string) (\<lambda>trace_id.
     res_bind (de_field m ''span_id'' de_string) (\<lambda>span_id.
     res_bind (de_opt m ''parent_id'' de_string) (\<lambda>parent_id.
     res_bind (de_field m ''name'' de_string) (\<lambda>nam.
     res_bind (de_field m ''kind'' decode_span_kind) (\<lambda>kind0.
     res_bind (de_field m ''start_ns'' de_u64) (\<lambda>start_ns.
     res_bind (de_field_default m ''attributes'' [] (de_map de_value)) (\<lambda>attributes.
       Inr \<lparr>ss_trace_id = trace_id, ss_span_id = span_id, ss_parent_id = parent_id, ss_name = nam, ss_kind = kind0, ss_start_ns = start_ns, ss_attributes = attributes\<rparr>))))))))"

interpretation span_start_codec: codec encode_span_start decode_span_start "\<lambda>_. True"
  by unfold_locales (simp_all add: encode_span_start_def decode_span_start_def codec_simps)

declare span_start_codec.roundtrip [simp] span_start_codec.nonnull [simp]

record span_end =
  sd_trace_id :: string
  sd_span_id :: string
  sd_end_ns :: u64
  sd_status :: span_status
  sd_events :: "span_event list"
  sd_additional_attributes :: "(string \<times> json) list"

definition encode_span_end :: "span_end \<Rightarrow> json" where
  "encode_span_end x = JObject (fields_map
     [(''trace_id'', Some (JString (sd_trace_id x))),
      (''span_id'', Some (JString (sd_span_id x))),
      (''end_ns'', Some (en_u64 (sd_end_ns x))),
      (''status'', Some (encode_span_status (sd_status x))),
      (''events'', vec_skip encode_span_event (sd_events x)),
      (''additional_attributes'', map_skip (\<lambda>v. v) (sd_additional_attributes x))])"

definition decode_span_end :: "json \<Rightarrow> de_error + span_end" where
  "decode_span_end v = res_bind (de_object v) (\<lambda>m.
     res_bind (de_field m ''trace_id'' de_string) (\<lambda>trace_id.
     res_bind (de_field m ''span_id'' de_string) (\<lambda>span_id.
     res_bind (de_field m ''end_ns'' de_u64) (\<lambda>end_ns.
     res_bind (de_field m ''status'' decode_span_status) (\<lambda>status.
     res_bind (de_field_default m ''events'' [] (de_vec decode_span_event)) (\<lambda>events.
     res_bind (de_field_default m ''additional_attributes'' [] (de_map de_value)) (\<lambda>additional_attributes.
       Inr \<lparr>sd_trace_id = trace_id, sd_span_id = span_id, sd_end_ns = end_ns, sd_status = status, sd_events = events, sd_additional_attributes = additional_attributes\<rparr>)))))))"

interpretation span_end_codec: codec encode_span_end decode_span_end "\<lambda>_. True"
  by unfold_locales (simp_all add: encode_span_end_def decode_span_end_def codec_simps)

declare span_end_codec.roundtrip [simp] span_end_codec.nonnull [simp]

datatype metric_kind = Counter | Gauge | Histogram

fun encode_metric_kind :: "metric_kind \<Rightarrow> json" where
  "encode_metric_kind Counter = JString ''counter''"
| "encode_metric_kind Gauge = JString ''gauge''"
| "encode_metric_kind Histogram = JString ''histogram''"

definition decode_metric_kind :: "json \<Rightarrow> de_error + metric_kind" where
  "decode_metric_kind v = res_bind (de_string v) (\<lambda>t.
     if t = ''counter'' then Inr Counter else
     if t = ''gauge'' then Inr Gauge else
     if t = ''histogram'' then Inr Histogram else
     Inl (UnknownVariant t))"

interpretation metric_kind_codec: codec encode_metric_kind decode_metric_kind "\<lambda>_. True"
proof unfold_locales
  fix x
  show "decode_metric_kind (encode_metric_kind x) = Inr x" by (cases x) (simp_all add: decode_metric_kind_def)
  show "encode_metric_kind x \<noteq> JNull" by (cases x) simp_all
qed

declare metric_kind_codec.roundtrip [simp] metric_kind_codec.nonnull [simp]

datatype telemetry_error =
    TelemetryBackend string
  | TelemetryThrottled
  | TelemetryClosed
  | TelemetryTimeout

fun encode_telemetry_error :: "telemetry_error \<Rightarrow> json" where
  "encode_telemetry_error (TelemetryBackend reason) = JObject (fields_map
     [(''kind'', Some (JString ''backend'')),
      (''reason'', Some (JString reason))])"
| "encode_telemetry_error TelemetryThrottled = JObject (fields_map
     [(''kind'', Some (JString ''throttled''))])"
| "encode_telemetry_error TelemetryClosed = JObject (fields_map
     [(''kind'', Some (JString ''closed''))])"
| "encode_telemetry_error TelemetryTimeout = JObject (fields_map
     [(''kind'', Some (JString ''timeout''))])"

definition decode_telemetry_error :: "json \<Rightarrow> de_error + telemetry_error" where
  "decode_telemetry_error v = res_bind (de_object v) (\<lambda>m. res_bind (de_field m ''kind'' de_string) (\<lambda>t.
     if t = ''backend'' then
       res_bind (de_field m ''reason'' de_string) (\<lambda>reason.
         Inr (TelemetryBackend reason))
     else
     if t = ''throttled'' then
         Inr TelemetryThrottled
     else
     if t = ''closed'' then
         Inr TelemetryClosed
     else
     if t = ''timeout'' then
         Inr TelemetryTimeout
     else
     Inl (UnknownVariant t)))"

interpretation telemetry_error_codec: codec encode_telemetry_error decode_telemetry_error "\<lambda>_. True"
proof unfold_locales
  fix x
  show "decode_telemetry_error (encode_telemetry_error x) = Inr x"
    by (cases x) (simp_all add: decode_telemetry_error_def codec_simps)
next
  fix x
  show "encode_telemetry_error x \<noteq> JNull" by (cases x) simp_all
qed

declare telemetry_error_codec.roundtrip [simp] telemetry_error_codec.nonnull [simp]

fun kind_label_telemetry_error :: "telemetry_error \<Rightarrow> string" where
  "kind_label_telemetry_error (TelemetryBackend _) = ''backend''"
| "kind_label_telemetry_error TelemetryThrottled = ''throttled''"
| "kind_label_telemetry_error TelemetryClosed = ''closed''"
| "kind_label_telemetry_error TelemetryTimeout = ''timeout''"

fun display_telemetry_error :: "telemetry_error \<Rightarrow> string" where
  "display_telemetry_error (TelemetryBackend reason) = ''telemetry backend: '' @ reason"
| "display_telemetry_error TelemetryThrottled = ''telemetry sink throttled''"
| "display_telemetry_error TelemetryClosed = ''telemetry sink closed''"
| "display_telemetry_error TelemetryTimeout = ''telemetry sink timeout''"

interpretation telemetry_error: tagged_error encode_telemetry_error decode_telemetry_error "''kind''" kind_label_telemetry_error
proof unfold_locales
  fix e
  show "\<exists>m. encode_telemetry_error e = JObject m \<and> bt_get m ''kind'' = Some (JString (kind_label_telemetry_error e))"
    by (cases e) simp_all
qed

datatype metrics_error =
    MetricsBackend string
  | MetricsThrottled
  | MetricsClosed
  | MetricsTimeout

fun encode_metrics_error :: "metrics_error \<Rightarrow> json" where
  "encode_metrics_error (MetricsBackend reason) = JObject (fields_map
     [(''kind'', Some (JString ''backend'')),
      (''reason'', Some (JString reason))])"
| "encode_metrics_error MetricsThrottled = JObject (fields_map
     [(''kind'', Some (JString ''throttled''))])"
| "encode_metrics_error MetricsClosed = JObject (fields_map
     [(''kind'', Some (JString ''closed''))])"
| "encode_metrics_error MetricsTimeout = JObject (fields_map
     [(''kind'', Some (JString ''timeout''))])"

definition decode_metrics_error :: "json \<Rightarrow> de_error + metrics_error" where
  "decode_metrics_error v = res_bind (de_object v) (\<lambda>m. res_bind (de_field m ''kind'' de_string) (\<lambda>t.
     if t = ''backend'' then
       res_bind (de_field m ''reason'' de_string) (\<lambda>reason.
         Inr (MetricsBackend reason))
     else
     if t = ''throttled'' then
         Inr MetricsThrottled
     else
     if t = ''closed'' then
         Inr MetricsClosed
     else
     if t = ''timeout'' then
         Inr MetricsTimeout
     else
     Inl (UnknownVariant t)))"

interpretation metrics_error_codec: codec encode_metrics_error decode_metrics_error "\<lambda>_. True"
proof unfold_locales
  fix x
  show "decode_metrics_error (encode_metrics_error x) = Inr x"
    by (cases x) (simp_all add: decode_metrics_error_def codec_simps)
next
  fix x
  show "encode_metrics_error x \<noteq> JNull" by (cases x) simp_all
qed

declare metrics_error_codec.roundtrip [simp] metrics_error_codec.nonnull [simp]

fun kind_label_metrics_error :: "metrics_error \<Rightarrow> string" where
  "kind_label_metrics_error (MetricsBackend _) = ''backend''"
| "kind_label_metrics_error MetricsThrottled = ''throttled''"
| "kind_label_metrics_error MetricsClosed = ''closed''"
| "kind_label_metrics_error MetricsTimeout = ''timeout''"

fun display_metrics_error :: "metrics_error \<Rightarrow> string" where
  "display_metrics_error (MetricsBackend reason) = ''metrics backend: '' @ reason"
| "display_metrics_error MetricsThrottled = ''metrics sink throttled''"
| "display_metrics_error MetricsClosed = ''metrics sink closed''"
| "display_metrics_error MetricsTimeout = ''metrics sink timeout''"

interpretation metrics_error: tagged_error encode_metrics_error decode_metrics_error "''kind''" kind_label_metrics_error
proof unfold_locales
  fix e
  show "\<exists>m. encode_metrics_error e = JObject m \<and> bt_get m ''kind'' = Some (JString (kind_label_metrics_error e))"
    by (cases e) simp_all
qed

datatype metric_value = F64 f64 | I64 i64 | HistogramValue u64 f64 "f64 list"

record metric_point =
  mp_name :: string
  mp_unit :: "string option"
  mp_kind :: metric_kind
  mp_value :: metric_value
  mp_labels :: "(string \<times> string) list"
  mp_timestamp_ns :: u64

fun encode_metric_value :: "metric_value \<Rightarrow> json" where
  "encode_metric_value (F64 x) = JObject (fields_map
     [(''kind'', Some (JString ''f64'')), (''value'', Some (en_f64 x))])"
| "encode_metric_value (I64 n) = JObject (fields_map
     [(''kind'', Some (JString ''i64'')), (''value'', Some (en_int n))])"
| "encode_metric_value (HistogramValue n s xs) = JObject (fields_map
     [(''kind'', Some (JString ''histogram'')), (''count'', Some (en_u64 n)), (''sum'', Some (en_f64 s)),
      (''observations'', Some (vec en_f64 xs))])"

definition decode_metric_value :: "(int \<Rightarrow> f64) \<Rightarrow> json \<Rightarrow> de_error + metric_value" where
  "decode_metric_value of_int' v = res_bind (de_object v) (\<lambda>m. res_bind (de_field m ''kind'' de_string) (\<lambda>t.
     if t = ''f64'' then
       res_bind (de_field m ''value'' (de_f64 of_int')) (\<lambda>x. Inr (F64 x))
     else if t = ''i64'' then
       res_bind (de_field m ''value'' de_int) (\<lambda>n. Inr (I64 n))
     else if t = ''histogram'' then
       res_bind (de_field m ''count'' de_u64) (\<lambda>n.
       res_bind (de_field m ''sum'' (de_f64 of_int')) (\<lambda>s.
       res_bind (de_field m ''observations'' (de_vec (de_f64 of_int'))) (\<lambda>xs.
         Inr (HistogramValue n s xs))))
     else Inl (UnknownVariant t)))"

definition encode_metric_point :: "metric_point \<Rightarrow> json" where
  "encode_metric_point x = JObject (fields_map
     [(''name'', Some (JString (mp_name x))),
      (''unit'', map_option JString (mp_unit x)),
      (''kind'', Some (encode_metric_kind (mp_kind x))),
      (''value'', Some (encode_metric_value (mp_value x))),
      (''labels'', map_skip JString (mp_labels x)),
      (''timestamp_ns'', Some (en_u64 (mp_timestamp_ns x)))])"

definition decode_metric_point :: "(int \<Rightarrow> f64) \<Rightarrow> json \<Rightarrow> de_error + metric_point" where
  "decode_metric_point of_int' v = res_bind (de_object v) (\<lambda>m.
     res_bind (de_field m ''name'' de_string) (\<lambda>nam.
     res_bind (de_opt m ''unit'' de_string) (\<lambda>unt.
     res_bind (de_field m ''kind'' decode_metric_kind) (\<lambda>kind0.
     res_bind (de_field m ''value'' (decode_metric_value of_int')) (\<lambda>val.
     res_bind (de_field_default m ''labels'' [] (de_map de_string)) (\<lambda>labels.
     res_bind (de_field m ''timestamp_ns'' de_u64) (\<lambda>timestamp_ns.
       Inr \<lparr>mp_name = nam, mp_unit = unt, mp_kind = kind0, mp_value = val, mp_labels = labels,
         mp_timestamp_ns = timestamp_ns\<rparr>)))))))"

definition log_recorded_default :: "log_record \<Rightarrow> unit" where
  "log_recorded_default record = ()"

definition render_text_exposition_default :: "string option" where
  "render_text_exposition_default = None"

subsection \<open>Round trips\<close>

text \<open>
  What a sink receives is what was sent: audit events and receipts, log records, span
  starts and span ends lose nothing on the wire, whatever optional parts they carry.
\<close>

theorem sink_records_roundtrip:
  "decode_audit_event (encode_audit_event a) = Inr a \<and>
   decode_audit_receipt (encode_audit_receipt r) = Inr r \<and>
   decode_log_record (encode_log_record l) = Inr l \<and>
   decode_span_start (encode_span_start s) = Inr s \<and>
   decode_span_end (encode_span_end e) = Inr e"
  by simp

fun metric_floats :: "metric_value \<Rightarrow> f64 list" where
  "metric_floats (F64 x) = [x]"
| "metric_floats (I64 n) = []"
| "metric_floats (HistogramValue n s xs) = s # xs"

lemma de_en_f64: "de_f64 of_int' (en_f64 x) = (if f64_finite x then Inr x else Inl WrongType)"
  by (simp add: de_f64_def en_f64_def)

lemma de_en_f64s: "de_vec (de_f64 of_int') (vec en_f64 xs) =
    (if list_all f64_finite xs then Inr xs else Inl WrongType)"
  by (induction xs) (auto simp: de_vec_def vec_def de_en_f64)

lemma decode_encode_metric_value: "decode_metric_value of_int' (encode_metric_value v) =
    (if list_all f64_finite (metric_floats v) then Inr v else Inl WrongType)"
  by (cases v) (auto simp: decode_metric_value_def codec_simps de_en_f64 de_en_f64s)

text \<open>
  C34: A metric point survives the wire exactly when every float it carries is finite: one
  NaN or infinity, in the value, the sum or any observation, is written as null and makes
  the whole point unreadable.
\<close>

theorem metric_point_wire:
  "decode_metric_point of_int' (encode_metric_point p) =
     (if list_all f64_finite (metric_floats (mp_value p)) then Inr p else Inl WrongType)"
  by (simp add: decode_metric_point_def encode_metric_point_def codec_simps decode_encode_metric_value)

end
