(* ===== verification/Policy.thy ===== *)
theory Policy
  imports Wire_Error Types
begin

section \<open>Policy decisions, approvals and payments\<close>

text \<open>
  \<open>src/src/policy.rs\<close>, \<open>src/src/approval_notifier.rs\<close> and \<open>src/src/payment.rs\<close>: what
  a policy engine decides and its constructors, what an approval notifier is asked and
  answers, and what a payment plugin declares.
\<close>

subsection \<open>Policy decisions\<close>

datatype policy_effect = EffectAllow | EffectDeny | NotApplicable

fun encode_policy_effect :: "policy_effect \<Rightarrow> json" where
  "encode_policy_effect EffectAllow = JString ''allow''"
| "encode_policy_effect EffectDeny = JString ''deny''"
| "encode_policy_effect NotApplicable = JString ''not_applicable''"

definition decode_policy_effect :: "json \<Rightarrow> de_error + policy_effect" where
  "decode_policy_effect v = res_bind (de_string v) (\<lambda>t.
     if t = ''allow'' then Inr EffectAllow else
     if t = ''deny'' then Inr EffectDeny else
     if t = ''not_applicable'' then Inr NotApplicable else
     Inl (UnknownVariant t))"

interpretation policy_effect_codec: codec encode_policy_effect decode_policy_effect "\<lambda>_. True"
proof unfold_locales
  fix x
  show "decode_policy_effect (encode_policy_effect x) = Inr x" by (cases x) (simp_all add: decode_policy_effect_def)
  show "encode_policy_effect x \<noteq> JNull" by (cases x) simp_all
qed

declare policy_effect_codec.roundtrip [simp] policy_effect_codec.nonnull [simp]

record obligation =
  ob_kind :: string
  ob_args :: json

definition encode_obligation :: "obligation \<Rightarrow> json" where
  "encode_obligation x = JObject (fields_map
     [(''kind'', Some (JString (ob_kind x))),
      (''args'', Some (ob_args x))])"

definition decode_obligation :: "json \<Rightarrow> de_error + obligation" where
  "decode_obligation v = res_bind (de_object v) (\<lambda>m.
     res_bind (de_field m ''kind'' de_string) (\<lambda>kind0.
     res_bind (de_field m ''args'' de_value) (\<lambda>args.
       Inr \<lparr>ob_kind = kind0, ob_args = args\<rparr>)))"

interpretation obligation_codec: codec encode_obligation decode_obligation "\<lambda>_. True"
  by unfold_locales (simp_all add: encode_obligation_def decode_obligation_def codec_simps)

declare obligation_codec.roundtrip [simp] obligation_codec.nonnull [simp]

record redaction =
  rd_json_pointer :: string
  rd_replacement :: json

definition encode_redaction :: "redaction \<Rightarrow> json" where
  "encode_redaction x = JObject (fields_map
     [(''json_pointer'', Some (JString (rd_json_pointer x))),
      (''replacement'', Some (rd_replacement x))])"

definition decode_redaction :: "json \<Rightarrow> de_error + redaction" where
  "decode_redaction v = res_bind (de_object v) (\<lambda>m.
     res_bind (de_field m ''json_pointer'' de_string) (\<lambda>json_pointer.
     res_bind (de_field m ''replacement'' de_value) (\<lambda>replacement.
       Inr \<lparr>rd_json_pointer = json_pointer, rd_replacement = replacement\<rparr>)))"

interpretation redaction_codec: codec encode_redaction decode_redaction "\<lambda>_. True"
  by unfold_locales (simp_all add: encode_redaction_def decode_redaction_def codec_simps)

declare redaction_codec.roundtrip [simp] redaction_codec.nonnull [simp]

record policy_version =
  pv_hash :: string
  pv_loaded_at :: string
  pv_source :: string

definition encode_policy_version :: "policy_version \<Rightarrow> json" where
  "encode_policy_version x = JObject (fields_map
     [(''hash'', Some (JString (pv_hash x))),
      (''loaded_at'', Some (JString (pv_loaded_at x))),
      (''source'', Some (JString (pv_source x)))])"

definition decode_policy_version :: "json \<Rightarrow> de_error + policy_version" where
  "decode_policy_version v = res_bind (de_object v) (\<lambda>m.
     res_bind (de_field m ''hash'' de_string) (\<lambda>hash.
     res_bind (de_field m ''loaded_at'' de_string) (\<lambda>loaded_at.
     res_bind (de_field m ''source'' de_string) (\<lambda>src.
       Inr \<lparr>pv_hash = hash, pv_loaded_at = loaded_at, pv_source = src\<rparr>))))"

interpretation policy_version_codec: codec encode_policy_version decode_policy_version "\<lambda>_. True"
  by unfold_locales (simp_all add: encode_policy_version_def decode_policy_version_def codec_simps)

declare policy_version_codec.roundtrip [simp] policy_version_codec.nonnull [simp]

record policy_decision =
  pd_effect :: policy_effect
  pd_obligations :: "obligation list"
  pd_redactions :: "redaction list"
  pd_attributes :: "(string \<times> json) list"
  pd_reason :: "string option"
  pd_policy_version :: string

definition encode_policy_decision :: "policy_decision \<Rightarrow> json" where
  "encode_policy_decision x = JObject (fields_map
     [(''effect'', Some (encode_policy_effect (pd_effect x))),
      (''obligations'', Some (vec encode_obligation (pd_obligations x))),
      (''redactions'', Some (vec encode_redaction (pd_redactions x))),
      (''attributes'', Some (map_obj (\<lambda>v. v) (pd_attributes x))),
      (''reason'', Some (opt_null JString (pd_reason x))),
      (''policy_version'', Some (JString (pd_policy_version x)))])"

definition decode_policy_decision :: "json \<Rightarrow> de_error + policy_decision" where
  "decode_policy_decision v = res_bind (de_object v) (\<lambda>m.
     res_bind (de_field m ''effect'' decode_policy_effect) (\<lambda>effect.
     res_bind (de_field_default m ''obligations'' [] (de_vec decode_obligation)) (\<lambda>obligations.
     res_bind (de_field_default m ''redactions'' [] (de_vec decode_redaction)) (\<lambda>redactions.
     res_bind (de_field_default m ''attributes'' [] (de_map de_value)) (\<lambda>attributes.
     res_bind (de_opt m ''reason'' de_string) (\<lambda>reason.
     res_bind (de_field m ''policy_version'' de_string) (\<lambda>policy_version.
       Inr \<lparr>pd_effect = effect, pd_obligations = obligations, pd_redactions = redactions, pd_attributes = attributes, pd_reason = reason, pd_policy_version = policy_version\<rparr>)))))))"

interpretation policy_decision_codec: codec encode_policy_decision decode_policy_decision "\<lambda>_. True"
  by unfold_locales (simp_all add: encode_policy_decision_def decode_policy_decision_def codec_simps)

declare policy_decision_codec.roundtrip [simp] policy_decision_codec.nonnull [simp]

fun effect_label :: "policy_effect \<Rightarrow> string" where
  "effect_label EffectAllow = ''allow''"
| "effect_label EffectDeny = ''deny''"
| "effect_label NotApplicable = ''not_applicable''"

definition display_policy_effect :: "policy_effect \<Rightarrow> string" where
  "display_policy_effect e = effect_label e"

definition policy_allow :: "string \<Rightarrow> policy_decision" where
  "policy_allow version =
     \<lparr>pd_effect = EffectAllow, pd_obligations = [], pd_redactions = [], pd_attributes = [],
      pd_reason = None, pd_policy_version = version\<rparr>"

definition policy_deny :: "string \<Rightarrow> string \<Rightarrow> policy_decision" where
  "policy_deny reason version =
     \<lparr>pd_effect = EffectDeny, pd_obligations = [], pd_redactions = [], pd_attributes = [],
      pd_reason = Some reason, pd_policy_version = version\<rparr>"

definition policy_not_applicable :: "string \<Rightarrow> policy_decision" where
  "policy_not_applicable version =
     \<lparr>pd_effect = NotApplicable, pd_obligations = [], pd_redactions = [], pd_attributes = [],
      pd_reason = None, pd_policy_version = version\<rparr>"

subsection \<open>Approvals\<close>

record notification_request =
  nq_approval_id :: string
  nq_summary :: string
  nq_deadline_at :: string
  nq_direct_callback_url :: string
  nq_identity :: plugin_identity
  nq_tool_name :: string
  nq_arguments :: "json option"
  nq_metadata :: "json option"

definition encode_notification_request :: "notification_request \<Rightarrow> json" where
  "encode_notification_request x = JObject (fields_map
     [(''approval_id'', Some (JString (nq_approval_id x))),
      (''summary'', Some (JString (nq_summary x))),
      (''deadline_at'', Some (JString (nq_deadline_at x))),
      (''direct_callback_url'', Some (JString (nq_direct_callback_url x))),
      (''identity'', Some (encode_plugin_identity (nq_identity x))),
      (''tool_name'', Some (JString (nq_tool_name x))),
      (''arguments'', (nq_arguments x)),
      (''metadata'', (nq_metadata x))])"

definition decode_notification_request :: "json \<Rightarrow> de_error + notification_request" where
  "decode_notification_request v = res_bind (de_object v) (\<lambda>m.
     res_bind (de_field m ''approval_id'' de_string) (\<lambda>approval_id.
     res_bind (de_field m ''summary'' de_string) (\<lambda>summary.
     res_bind (de_field m ''deadline_at'' de_string) (\<lambda>deadline_at.
     res_bind (de_field m ''direct_callback_url'' de_string) (\<lambda>direct_callback_url.
     res_bind (de_field m ''identity'' decode_plugin_identity) (\<lambda>identity.
     res_bind (de_field m ''tool_name'' de_string) (\<lambda>tool_name.
     res_bind (de_opt m ''arguments'' de_value) (\<lambda>arguments.
     res_bind (de_opt m ''metadata'' de_value) (\<lambda>metadata.
       Inr \<lparr>nq_approval_id = approval_id, nq_summary = summary, nq_deadline_at = deadline_at, nq_direct_callback_url = direct_callback_url, nq_identity = identity, nq_tool_name = tool_name, nq_arguments = arguments, nq_metadata = metadata\<rparr>)))))))))"

interpretation notification_request_codec: codec encode_notification_request decode_notification_request "\<lambda>x. nq_arguments x \<noteq> Some JNull \<and> nq_metadata x \<noteq> Some JNull"
  by unfold_locales (simp_all add: encode_notification_request_def decode_notification_request_def codec_simps non_null_def)

declare notification_request_codec.roundtrip [simp] notification_request_codec.nonnull [simp]

record notification_result =
  nr_channel :: string
  nr_metadata :: "(string \<times> string) list"

definition encode_notification_result :: "notification_result \<Rightarrow> json" where
  "encode_notification_result x = JObject (fields_map
     [(''channel'', Some (JString (nr_channel x))),
      (''metadata'', map_skip JString (nr_metadata x))])"

definition decode_notification_result :: "json \<Rightarrow> de_error + notification_result" where
  "decode_notification_result v = res_bind (de_object v) (\<lambda>m.
     res_bind (de_field m ''channel'' de_string) (\<lambda>channel.
     res_bind (de_field_default m ''metadata'' [] (de_map de_string)) (\<lambda>metadata.
       Inr \<lparr>nr_channel = channel, nr_metadata = metadata\<rparr>)))"

interpretation notification_result_codec: codec encode_notification_result decode_notification_result "\<lambda>_. True"
  by unfold_locales (simp_all add: encode_notification_result_def decode_notification_result_def codec_simps)

declare notification_result_codec.roundtrip [simp] notification_result_codec.nonnull [simp]

datatype notification_error =
    NotifierBackend string
  | NotifierMisconfigured string
  | NotifierThrottled string
  | NotifierInternal string

fun encode_notification_error :: "notification_error \<Rightarrow> json" where
  "encode_notification_error (NotifierBackend reason) = JObject (fields_map
     [(''kind'', Some (JString ''backend'')),
      (''reason'', Some (JString reason))])"
| "encode_notification_error (NotifierMisconfigured reason) = JObject (fields_map
     [(''kind'', Some (JString ''misconfigured'')),
      (''reason'', Some (JString reason))])"
| "encode_notification_error (NotifierThrottled reason) = JObject (fields_map
     [(''kind'', Some (JString ''throttled'')),
      (''reason'', Some (JString reason))])"
| "encode_notification_error (NotifierInternal reason) = JObject (fields_map
     [(''kind'', Some (JString ''internal'')),
      (''reason'', Some (JString reason))])"

definition decode_notification_error :: "json \<Rightarrow> de_error + notification_error" where
  "decode_notification_error v = res_bind (de_object v) (\<lambda>m. res_bind (de_field m ''kind'' de_string) (\<lambda>t.
     if t = ''backend'' then
       res_bind (de_field m ''reason'' de_string) (\<lambda>reason.
         Inr (NotifierBackend reason))
     else
     if t = ''misconfigured'' then
       res_bind (de_field m ''reason'' de_string) (\<lambda>reason.
         Inr (NotifierMisconfigured reason))
     else
     if t = ''throttled'' then
       res_bind (de_field m ''reason'' de_string) (\<lambda>reason.
         Inr (NotifierThrottled reason))
     else
     if t = ''internal'' then
       res_bind (de_field m ''reason'' de_string) (\<lambda>reason.
         Inr (NotifierInternal reason))
     else
     Inl (UnknownVariant t)))"

interpretation notification_error_codec: codec encode_notification_error decode_notification_error "\<lambda>_. True"
proof unfold_locales
  fix x
  show "decode_notification_error (encode_notification_error x) = Inr x"
    by (cases x) (simp_all add: decode_notification_error_def codec_simps)
next
  fix x
  show "encode_notification_error x \<noteq> JNull" by (cases x) simp_all
qed

declare notification_error_codec.roundtrip [simp] notification_error_codec.nonnull [simp]

fun kind_label_notification_error :: "notification_error \<Rightarrow> string" where
  "kind_label_notification_error (NotifierBackend _) = ''backend''"
| "kind_label_notification_error (NotifierMisconfigured _) = ''misconfigured''"
| "kind_label_notification_error (NotifierThrottled _) = ''throttled''"
| "kind_label_notification_error (NotifierInternal _) = ''internal''"

fun display_notification_error :: "notification_error \<Rightarrow> string" where
  "display_notification_error (NotifierBackend reason) = ''backend: '' @ reason"
| "display_notification_error (NotifierMisconfigured reason) = ''misconfigured: '' @ reason"
| "display_notification_error (NotifierThrottled reason) = ''throttled: '' @ reason"
| "display_notification_error (NotifierInternal reason) = ''internal: '' @ reason"

interpretation notification_error: tagged_error encode_notification_error decode_notification_error "''kind''" kind_label_notification_error
proof unfold_locales
  fix e
  show "\<exists>m. encode_notification_error e = JObject m \<and> bt_get m ''kind'' = Some (JString (kind_label_notification_error e))"
    by (cases e) simp_all
qed

datatype approval_outcome =
    Approved "string option" "string option"
  | ApprovalDenied "string option" "string option"

fun encode_approval_outcome :: "approval_outcome \<Rightarrow> json" where
  "encode_approval_outcome (Approved approver_subject reason) = JObject (fields_map
     [(''outcome'', Some (JString ''approved'')),
      (''approver_subject'', map_option JString approver_subject),
      (''reason'', map_option JString reason)])"
| "encode_approval_outcome (ApprovalDenied approver_subject reason) = JObject (fields_map
     [(''outcome'', Some (JString ''denied'')),
      (''approver_subject'', map_option JString approver_subject),
      (''reason'', map_option JString reason)])"

definition decode_approval_outcome :: "json \<Rightarrow> de_error + approval_outcome" where
  "decode_approval_outcome v = res_bind (de_object v) (\<lambda>m. res_bind (de_field m ''outcome'' de_string) (\<lambda>t.
     if t = ''approved'' then
       res_bind (de_opt m ''approver_subject'' de_string) (\<lambda>approver_subject.
       res_bind (de_opt m ''reason'' de_string) (\<lambda>reason.
         Inr (Approved approver_subject reason)))
     else
     if t = ''denied'' then
       res_bind (de_opt m ''approver_subject'' de_string) (\<lambda>approver_subject.
       res_bind (de_opt m ''reason'' de_string) (\<lambda>reason.
         Inr (ApprovalDenied approver_subject reason)))
     else
     Inl (UnknownVariant t)))"

interpretation approval_outcome_codec: codec encode_approval_outcome decode_approval_outcome "\<lambda>_. True"
proof unfold_locales
  fix x
  show "decode_approval_outcome (encode_approval_outcome x) = Inr x"
    by (cases x) (simp_all add: decode_approval_outcome_def codec_simps)
next
  fix x
  show "encode_approval_outcome x \<noteq> JNull" by (cases x) simp_all
qed

declare approval_outcome_codec.roundtrip [simp] approval_outcome_codec.nonnull [simp]

subsection \<open>Payments\<close>

datatype payment_protocol = Mpp | Ucp | Acp | X402 | CustomProtocol string

fun display_payment_protocol :: "payment_protocol \<Rightarrow> string" where
  "display_payment_protocol Mpp = ''mpp''"
| "display_payment_protocol Ucp = ''ucp''"
| "display_payment_protocol Acp = ''acp''"
| "display_payment_protocol X402 = ''x402''"
| "display_payment_protocol (CustomProtocol s) = s"

definition encode_payment_protocol :: "payment_protocol \<Rightarrow> json" where
  "encode_payment_protocol p = JString (display_payment_protocol p)"

definition decode_payment_protocol :: "json \<Rightarrow> de_error + payment_protocol" where
  "decode_payment_protocol v = res_bind (de_string v) (\<lambda>s.
     if s = ''mpp'' then Inr Mpp
     else if s = ''ucp'' then Inr Ucp
     else if s = ''acp'' then Inr Acp
     else if s = ''x402'' then Inr X402
     else Inr (CustomProtocol s))"

definition protocol_proper :: "payment_protocol \<Rightarrow> bool" where
  "protocol_proper p \<longleftrightarrow> p \<notin> CustomProtocol ` {''mpp'', ''ucp'', ''acp'', ''x402''}"

interpretation payment_protocol_codec: codec encode_payment_protocol decode_payment_protocol protocol_proper
proof unfold_locales
  fix p
  assume "protocol_proper p"
  then show "decode_payment_protocol (encode_payment_protocol p) = Inr p"
    by (cases p) (simp_all add: decode_payment_protocol_def encode_payment_protocol_def protocol_proper_def image_iff)
next
  fix p
  show "encode_payment_protocol p \<noteq> JNull" by (simp add: encode_payment_protocol_def)
qed

declare payment_protocol_codec.roundtrip [simp] payment_protocol_codec.nonnull [simp]

record payment_capability =
  pyc_protocol :: payment_protocol
  pyc_methods :: "string list"
  pyc_supports_sessions :: bool
  pyc_supports_commerce :: bool
  pyc_meta_prefix :: string

definition encode_payment_capability :: "payment_capability \<Rightarrow> json" where
  "encode_payment_capability x = JObject (fields_map
     [(''protocol'', Some (encode_payment_protocol (pyc_protocol x))),
      (''methods'', Some (vec JString (pyc_methods x))),
      (''supports_sessions'', Some (JBool (pyc_supports_sessions x))),
      (''supports_commerce'', Some (JBool (pyc_supports_commerce x))),
      (''meta_prefix'', Some (JString (pyc_meta_prefix x)))])"

definition decode_payment_capability :: "json \<Rightarrow> de_error + payment_capability" where
  "decode_payment_capability v = res_bind (de_object v) (\<lambda>m.
     res_bind (de_field m ''protocol'' decode_payment_protocol) (\<lambda>protocol.
     res_bind (de_field m ''methods'' (de_vec de_string)) (\<lambda>methods.
     res_bind (de_field m ''supports_sessions'' de_bool) (\<lambda>supports_sessions.
     res_bind (de_field m ''supports_commerce'' de_bool) (\<lambda>supports_commerce.
     res_bind (de_field m ''meta_prefix'' de_string) (\<lambda>meta_prefix.
       Inr \<lparr>pyc_protocol = protocol, pyc_methods = methods, pyc_supports_sessions = supports_sessions, pyc_supports_commerce = supports_commerce, pyc_meta_prefix = meta_prefix\<rparr>))))))"

interpretation payment_capability_codec: codec encode_payment_capability decode_payment_capability "\<lambda>x. protocol_proper (pyc_protocol x)"
  by unfold_locales (simp_all add: encode_payment_capability_def decode_payment_capability_def codec_simps)

declare payment_capability_codec.roundtrip [simp] payment_capability_codec.nonnull [simp]

datatype payment_category = CategoryToolGate | Commerce

fun encode_payment_category :: "payment_category \<Rightarrow> json" where
  "encode_payment_category CategoryToolGate = JString ''tool_gate''"
| "encode_payment_category Commerce = JString ''commerce''"

definition decode_payment_category :: "json \<Rightarrow> de_error + payment_category" where
  "decode_payment_category v = res_bind (de_string v) (\<lambda>t.
     if t = ''tool_gate'' then Inr CategoryToolGate else
     if t = ''commerce'' then Inr Commerce else
     Inl (UnknownVariant t))"

interpretation payment_category_codec: codec encode_payment_category decode_payment_category "\<lambda>_. True"
proof unfold_locales
  fix x
  show "decode_payment_category (encode_payment_category x) = Inr x" by (cases x) (simp_all add: decode_payment_category_def)
  show "encode_payment_category x \<noteq> JNull" by (cases x) simp_all
qed

declare payment_category_codec.roundtrip [simp] payment_category_codec.nonnull [simp]

text \<open>
  A policy decision, an approval answer and a payment declaration reach the other side
  with the same verdict and content. A notification request does up to optional values that
  are null, and a custom payment protocol with a canonical name arrives as the canonical one.
\<close>

theorem decisions_roundtrip:
  "decode_policy_decision (encode_policy_decision d) = Inr d \<and>
   decode_approval_outcome (encode_approval_outcome out) = Inr out \<and>
   decode_notification_result (encode_notification_result res) = Inr res \<and>
   decode_notification_request (encode_notification_request q) =
     Inr (q\<lparr>nq_arguments := non_null (nq_arguments q), nq_metadata := non_null (nq_metadata q)\<rparr>) \<and>
   (decode_payment_capability (encode_payment_capability c) = Inr c \<longleftrightarrow> protocol_proper (pyc_protocol c))"
proof -
  have req: "decode_notification_request (encode_notification_request q) =
      Inr (q\<lparr>nq_arguments := non_null (nq_arguments q), nq_metadata := non_null (nq_metadata q)\<rparr>)"
    by (simp add: decode_notification_request_def encode_notification_request_def codec_simps)
  have proto: "\<exists>p. decode_payment_protocol (encode_payment_protocol x) = Inr p \<and>
      (p = x \<longleftrightarrow> protocol_proper x)" for x
    by (cases x) (auto simp: decode_payment_protocol_def encode_payment_protocol_def protocol_proper_def)
  from proto [of "pyc_protocol c"] obtain p
    where p: "decode_payment_protocol (encode_payment_protocol (pyc_protocol c)) = Inr p"
      "p = pyc_protocol c \<longleftrightarrow> protocol_proper (pyc_protocol c)" by blast
  then have "decode_payment_capability (encode_payment_capability c) = Inr (c\<lparr>pyc_protocol := p\<rparr>)"
    by (simp add: decode_payment_capability_def encode_payment_capability_def codec_simps)
  moreover have "c\<lparr>pyc_protocol := p\<rparr> = c \<longleftrightarrow> p = pyc_protocol c"
    by (cases c) auto
  ultimately show ?thesis using req p(2) by simp
qed

end
