(* ===== verification/Fingerprint.thy ===== *)
theory Fingerprint
  imports Btree_Map
begin

text \<open>
  The layout fingerprint (\<open>src/src/abi_fingerprint.rs\<close>): the description of one type layout and
  the traversal that describes every layout reached from a root, with its stack, its set of
  seen type ids and its ordered set of descriptions.

  A layout is what the accessors of \<open>abi_stable\<close> return for it, so the layouts are a parameter:
  a function from references to records, whose Debug and Display renderings of the crate's own
  types are texts. References may be cyclic, as they are in Rust: the traversal is a partial
  function, and that it returns is a theorem. SHA-256 is a parameter, as in the identity hash.
\<close>

section \<open>Descriptions\<close>

record tl_field =
  tf_name :: string
  tf_full_type :: string
  tf_functions :: "string list"

datatype tl_data =
    Primitive string
  | Opaque
  | Struct "tl_field list"
  | Union "tl_field list"
  | Enum string string string string "tl_field list"
  | Prefix_type u64 string "tl_field list"

record ('l, 'i) type_layout =
  tl_utypeid :: 'i
  tl_full_type :: string
  tl_size :: u64
  tl_alignment :: u64
  tl_repr_attr :: string
  tl_nonzero :: bool
  tl_data_of :: tl_data
  tl_phantom :: "tl_field list"
  tl_extra_checks :: "string option"
  tl_nested :: "'l list"

definition show_bool :: "bool \<Rightarrow> string" where
  "show_bool b = (if b then ''true'' else ''false'')"

text \<open>One turn of the loop of \<open>push_fields\<close> appends one field to the text.\<close>

definition push_field :: "tl_field \<Rightarrow> string \<Rightarrow> string" where
  "push_field f d =
     d @ '' '' @ tf_name f @ '':'' @ tf_full_type f
       @ concat (map (\<lambda>func. ''['' @ func @ '']'') (tf_functions f))"

definition push_fields :: "string \<Rightarrow> tl_field list \<Rightarrow> string" where
  "push_fields d fs = fold push_field fs d"

fun describe_data :: "string \<Rightarrow> tl_data \<Rightarrow> string" where
  "describe_data d (Primitive p) = d @ ''primitive '' @ p"
| "describe_data d Opaque = d @ ''opaque''"
| "describe_data d (Struct fs) = push_fields (d @ ''struct'') fs"
| "describe_data d (Union fs) = push_fields (d @ ''union'') fs"
| "describe_data d (Enum names counts discriminants exhaustiveness fs) =
     push_fields (d @ ''enum variants='' @ names @ '' counts='' @ counts @ '' discriminants='' @
       discriminants @ '' exhaustive='' @ exhaustiveness) fs"
| "describe_data d (Prefix_type first conditional fs) =
     push_fields (d @ ''prefix first_suffix='' @ show_nat (unat first) @ '' conditional='' @
       conditional) fs"

definition describe_head :: "('l, 'i) type_layout \<Rightarrow> string" where
  "describe_head l =
     tl_full_type l @ ''|size='' @ show_nat (unat (tl_size l)) @ ''|align='' @
     show_nat (unat (tl_alignment l)) @ ''|repr='' @ tl_repr_attr l @ ''|nonzero='' @
     show_bool (tl_nonzero l) @ ''|''"

definition describe :: "('l, 'i) type_layout \<Rightarrow> string" where
  "describe l =
     (let d = describe_data (describe_head l) (tl_data_of l);
          d = (if tl_phantom l \<noteq> [] then push_fields (d @ ''|phantom'') (tl_phantom l) else d)
      in case tl_extra_checks l of Some extra \<Rightarrow> d @ ''|extra='' @ extra | None \<Rightarrow> d)"

section \<open>The traversal\<close>

text \<open>
  The stack of \<open>layout_fingerprint\<close> is popped at its end. The set of descriptions is a sorted
  list without repetitions, as a \<open>BTreeSet\<close> iterates.
\<close>

partial_function (option) traverse ::
  "('l \<Rightarrow> ('l, 'i) type_layout) \<Rightarrow> 'l list \<Rightarrow> 'i set \<Rightarrow> string list \<Rightarrow> string list option" where
  "traverse env todo seen described =
     (if todo = [] then Some described
      else let l = env (last todo); rest = butlast todo in
        if tl_utypeid l \<in> seen then traverse env rest seen described
        else traverse env (rest @ tl_nested l) (insert (tl_utypeid l) seen)
               (insort_insert (describe l) described))"

definition hex_byte :: "u8 \<Rightarrow> string" where
  "hex_byte b = [hex_digit (unat b div 16), hex_digit (unat b mod 16)]"

definition fingerprint_preimage :: "string list \<Rightarrow> string" where
  "fingerprint_preimage described = concat (map (\<lambda>d. d @ [CHR 0x0A]) described)"

definition layout_fingerprint ::
  "(string \<Rightarrow> bytes) \<Rightarrow> ('l \<Rightarrow> ('l, 'i) type_layout) \<Rightarrow> 'l \<Rightarrow> string option" where
  "layout_fingerprint sha256 env root =
     (case traverse env [root] {} [] of
        None \<Rightarrow> None
      | Some described \<Rightarrow>
          Some (''sha256:'' @
            concat (map hex_byte (take 16 (sha256 (fingerprint_preimage described))))))"

section \<open>What the traversal computes\<close>

definition layout_edges :: "('l \<Rightarrow> ('l, 'i) type_layout) \<Rightarrow> ('l \<times> 'l) set" where
  "layout_edges env = {(a, b). b \<in> set (tl_nested (env a))}"

definition reached :: "('l \<Rightarrow> ('l, 'i) type_layout) \<Rightarrow> 'l \<Rightarrow> 'l set" where
  "reached env root = (layout_edges env)\<^sup>* `` {root}"

definition reached_ids :: "('l \<Rightarrow> ('l, 'i) type_layout) \<Rightarrow> 'l \<Rightarrow> 'i set" where
  "reached_ids env root = (\<lambda>l. tl_utypeid (env l)) ` reached env root"

text \<open>A type id stands for one type: what \<open>abi_stable\<close> documents of \<open>UTypeId\<close>.\<close>

definition ids_identify :: "('l \<Rightarrow> ('l, 'i) type_layout) \<Rightarrow> 'l \<Rightarrow> bool" where
  "ids_identify env root \<longleftrightarrow> (\<forall>a \<in> reached env root. \<forall>b \<in> reached env root.
     tl_utypeid (env a) = tl_utypeid (env b) \<longrightarrow>
       describe (env a) = describe (env b) \<and>
       map (\<lambda>l. tl_utypeid (env l)) (tl_nested (env a))
         = map (\<lambda>l. tl_utypeid (env l)) (tl_nested (env b)))"

definition described_from :: "('l \<Rightarrow> ('l, 'i) type_layout) \<Rightarrow> 'l \<Rightarrow> 'i set \<Rightarrow> string set" where
  "described_from env root seen =
     {describe (env a) |a. a \<in> reached env root \<and> tl_utypeid (env a) \<in> seen}"

lemma reached_root [simp]: "root \<in> reached env root"
  by (simp add: reached_def)

lemma reached_nested: "a \<in> reached env root \<Longrightarrow> set (tl_nested (env a)) \<subseteq> reached env root"
  by (auto simp: reached_def layout_edges_def intro: rtrancl_into_rtrancl)

lemma reached_induct [consumes 1, case_names root nested]:
  assumes "a \<in> reached env root"
    and "P root"
    and "\<And>a b. a \<in> reached env root \<Longrightarrow> P a \<Longrightarrow> b \<in> set (tl_nested (env a)) \<Longrightarrow> P b"
  shows "P a"
proof -
  have "(root, a) \<in> (layout_edges env)\<^sup>*"
    using assms(1) by (simp add: reached_def)
  then show ?thesis
  proof (induction rule: rtrancl_induct)
    case base
    show ?case by (rule assms(2))
  next
    case (step a b)
    then show ?case
      using assms(3) [of a b] by (auto simp: reached_def layout_edges_def)
  qed
qed

text \<open>
  The invariant of the loop: what is on the stack is reached, what has been seen is described,
  and everything a seen layout nests is seen or on the stack.
\<close>

definition traversal_inv ::
  "('l \<Rightarrow> ('l, 'i) type_layout) \<Rightarrow> 'l \<Rightarrow> 'l list \<Rightarrow> 'i set \<Rightarrow> string list \<Rightarrow> bool" where
  "traversal_inv env root todo seen described \<longleftrightarrow>
     set todo \<subseteq> reached env root \<and> seen \<subseteq> reached_ids env root \<and>
     tl_utypeid (env root) \<in> seen \<union> (\<lambda>l. tl_utypeid (env l)) ` set todo \<and>
     (\<forall>a \<in> reached env root. tl_utypeid (env a) \<in> seen \<longrightarrow>
        (\<lambda>l. tl_utypeid (env l)) ` set (tl_nested (env a))
          \<subseteq> seen \<union> (\<lambda>l. tl_utypeid (env l)) ` set todo) \<and>
     sorted described \<and> distinct described \<and> set described = described_from env root seen"

lemma inv_start: "traversal_inv env root [root] {} []"
  by (simp add: traversal_inv_def described_from_def)

lemma inv_seen:
  assumes inv: "traversal_inv env root todo seen described" and "todo \<noteq> []"
    and seen: "tl_utypeid (env (last todo)) \<in> seen"
  shows "traversal_inv env root (butlast todo) seen described"
proof -
  have "set todo = insert (last todo) (set (butlast todo))"
    using \<open>todo \<noteq> []\<close> by (metis append_butlast_last_id list.simps(15) rotate1.simps(2) set_rotate1)
  then show ?thesis
    using inv seen unfolding traversal_inv_def by (simp add: insert_absorb)
qed

lemma inv_new:
  assumes inv: "traversal_inv env root todo seen described" and "todo \<noteq> []"
    and ids: "ids_identify env root"
    and l: "l = env (last todo)"
  shows "traversal_inv env root (butlast todo @ tl_nested l) (insert (tl_utypeid l) seen)
           (insort_insert (describe l) described)"
proof -
  let ?id = "\<lambda>l. tl_utypeid (env l)"
  have todo: "set todo = insert (last todo) (set (butlast todo))"
    using \<open>todo \<noteq> []\<close> by (metis append_butlast_last_id list.simps(15) rotate1.simps(2) set_rotate1)
  have last: "last todo \<in> reached env root"
    using inv todo by (auto simp: traversal_inv_def)
  have same: "describe (env a) = describe l"
      "?id ` set (tl_nested (env a)) = ?id ` set (tl_nested l)"
    if "a \<in> reached env root" "?id a = tl_utypeid l" for a
    using ids that last unfolding ids_identify_def l by (metis, metis set_map)
  have root: "?id root \<in> insert (tl_utypeid l) seen \<union> ?id ` set (butlast todo @ tl_nested l)"
    using inv todo by (auto simp: traversal_inv_def l)
  have closed: "?id ` set (tl_nested (env a))
      \<subseteq> insert (tl_utypeid l) seen \<union> ?id ` set (butlast todo @ tl_nested l)"
    if "a \<in> reached env root" "?id a \<in> insert (tl_utypeid l) seen" for a
  proof (cases "?id a = tl_utypeid l")
    case True
    show ?thesis using same(2) [OF that(1) True] by auto
  next
    case False
    then have "?id ` set (tl_nested (env a)) \<subseteq> seen \<union> ?id ` set todo"
      using inv that by (simp add: traversal_inv_def)
    then show ?thesis
      by (auto simp: todo l)
  qed
  have described: "described_from env root (insert (tl_utypeid l) seen)
      = insert (describe l) (described_from env root seen)"
    using last same(1) unfolding described_from_def l by blast
  have "set (butlast todo @ tl_nested l) \<subseteq> reached env root"
    using inv todo reached_nested [OF last] by (auto simp: traversal_inv_def l)
  moreover have "insert (tl_utypeid l) seen \<subseteq> reached_ids env root"
    using inv last by (simp add: traversal_inv_def reached_ids_def l)
  moreover have "sorted (insort_insert (describe l) described)"
      "distinct (insort_insert (describe l) described)"
      "set (insort_insert (describe l) described) = described_from env root (insert (tl_utypeid l) seen)"
    using inv by (simp_all add: traversal_inv_def sorted_insort_insert distinct_insort_insert
      set_insort_insert described)
  ultimately show ?thesis
    using root closed unfolding traversal_inv_def by blast
qed

lemma inv_end:
  assumes inv: "traversal_inv env root [] seen described"
  shows "described = sorted_list_of_set ((\<lambda>a. describe (env a)) ` reached env root)"
proof -
  have "tl_utypeid (env a) \<in> seen" if "a \<in> reached env root" for a
    using that
  proof (induction rule: reached_induct)
    case root
    then show ?case using inv by (simp add: traversal_inv_def)
  next
    case (nested a b)
    then show ?case using inv by (auto simp: traversal_inv_def)
  qed
  then have "(\<lambda>a. describe (env a)) ` reached env root = set described"
    using inv by (auto simp: traversal_inv_def described_from_def)
  moreover have "sorted_list_of_set (set described) = described"
    by (rule sorted_list_of_set.idem_if_sorted_distinct) (use inv in \<open>simp_all add: traversal_inv_def\<close>)
  ultimately show ?thesis
    by simp
qed

lemma traverse_returns:
  assumes fin: "finite (reached_ids env root)" and ids: "ids_identify env root"
    and "traversal_inv env root todo seen described"
  shows "traverse env todo seen described
    = Some (sorted_list_of_set ((\<lambda>a. describe (env a)) ` reached env root))"
  using assms(3)
proof (induction "(todo, seen)" arbitrary: todo seen described
    rule: wf_induct_rule [OF wf_measures
      [of "[\<lambda>(todo, seen). card (reached_ids env root - seen), \<lambda>(todo, seen). length todo]"]])
  case (1 todo seen described)
  show ?case
  proof (cases "todo = []")
    case True
    then show ?thesis
      using inv_end 1(2) by (subst traverse.simps) auto
  next
    case False
    let ?l = "env (last todo)"
    show ?thesis
    proof (cases "tl_utypeid ?l \<in> seen")
      case True
      have "traverse env (butlast todo) seen described
          = Some (sorted_list_of_set ((\<lambda>a. describe (env a)) ` reached env root))"
        by (rule 1(1) [OF _ inv_seen [OF 1(2) False True]]) (use False in simp)
      then show ?thesis
        using False True by (subst traverse.simps) (simp add: Let_def)
    next
      case new: False
      have "tl_utypeid ?l \<in> reached_ids env root"
        using inv_new [OF 1(2) False ids refl] by (simp add: traversal_inv_def)
      then have "card (reached_ids env root - insert (tl_utypeid ?l) seen)
          < card (reached_ids env root - seen)"
        using fin new by (intro psubset_card_mono) auto
      then have "traverse env (butlast todo @ tl_nested ?l) (insert (tl_utypeid ?l) seen)
            (insort_insert (describe ?l) described)
          = Some (sorted_list_of_set ((\<lambda>a. describe (env a)) ` reached env root))"
        by (intro 1(1) [OF _ inv_new [OF 1(2) False ids refl]]) simp
      then show ?thesis
        using False new by (subst traverse.simps) (simp add: Let_def)
    qed
  qed
qed

text \<open>What should be hashed: the sorted descriptions of the reached layouts, each once.\<close>

definition hashed_text :: "('l \<Rightarrow> ('l, 'i) type_layout) \<Rightarrow> 'l \<Rightarrow> string" where
  "hashed_text env root
     = fingerprint_preimage (sorted_list_of_set ((\<lambda>l. describe (env l)) ` reached env root))"

text \<open>
  C10: The fingerprint of a layout exists and depends only on the set of layouts reached: over
  any graph of layouts with finitely many type ids, cyclic ones included, the traversal ends,
  and what is hashed is the sorted set of the descriptions of all reached layouts, each once,
  whatever the order in which they are visited.
\<close>

theorem layout_fingerprint_exact:
  assumes "finite (reached_ids env root)" and "ids_identify env root"
  shows "layout_fingerprint sha256 env root
    = Some (''sha256:'' @ concat (map hex_byte (take 16 (sha256 (hashed_text env root)))))"
  using traverse_returns [OF assms inv_start] by (simp add: layout_fingerprint_def hashed_text_def)

section \<open>What the fingerprint separates\<close>

text \<open>
  The shape of a layout is all the header of the source names: full type name, size, alignment,
  representation, niche, the data with its fields, variants and discriminants, and the phantom
  fields and extra checks beside them. What is left out are the type id and the references to
  nested layouts, which are described on their own.
\<close>

definition layout_shape ::
  "('l, 'i) type_layout \<Rightarrow> string \<times> u64 \<times> u64 \<times> string \<times> bool \<times> tl_data \<times> tl_field list \<times> string option" where
  "layout_shape l = (tl_full_type l, tl_size l, tl_alignment l, tl_repr_attr l, tl_nonzero l, tl_data_of l,
     tl_phantom l, tl_extra_checks l)"

text \<open>
  The description separates its parts by characters, so it tells shapes apart as long as the
  parts do not hold the separators: names no colon, space, bracket or bar; types no colon, bracket
  or bar; function signatures no closing bracket; the texts of an enum no equals sign; and the
  texts before a list of fields end with their only closing brace or bracket.
\<close>

definition field_clean :: "tl_field \<Rightarrow> bool" where
  "field_clean f \<longleftrightarrow>
     set (tf_name f) \<inter> {CHR '' '', CHR '':'', CHR ''['', CHR ''|''} = {} \<and>
     set (tf_full_type f) \<inter> {CHR '':'', CHR ''['', CHR ''|''} = {} \<and>
     list_all (\<lambda>g. CHR '']'' \<notin> set g) (tf_functions f)"

definition closes_with :: "char \<Rightarrow> string \<Rightarrow> bool" where
  "closes_with c x \<longleftrightarrow> x \<noteq> [] \<and> last x = c \<and> c \<notin> set (butlast x)"

fun data_clean :: "tl_data \<Rightarrow> bool" where
  "data_clean (Primitive p) \<longleftrightarrow> CHR ''|'' \<notin> set p"
| "data_clean Opaque \<longleftrightarrow> True"
| "data_clean (Struct fs) \<longleftrightarrow> list_all field_clean fs"
| "data_clean (Union fs) \<longleftrightarrow> list_all field_clean fs"
| "data_clean (Enum names counts discriminants exhaustiveness fs) \<longleftrightarrow>
     CHR ''='' \<notin> set names \<and> CHR ''='' \<notin> set counts \<and> CHR ''='' \<notin> set discriminants \<and>
     closes_with CHR ''}'' exhaustiveness \<and> list_all field_clean fs"
| "data_clean (Prefix_type first conditional fs) \<longleftrightarrow>
     closes_with CHR '']'' conditional \<and> list_all field_clean fs"

definition layout_clean :: "('l, 'i) type_layout \<Rightarrow> bool" where
  "layout_clean l \<longleftrightarrow> CHR ''|'' \<notin> set (tl_full_type l) \<and> CHR ''|'' \<notin> set (tl_repr_attr l) \<and>
     data_clean (tl_data_of l) \<and> list_all field_clean (tl_phantom l) \<and> CHR 0x0A \<notin> set (describe l)"

definition layouts_clean :: "('l \<Rightarrow> ('l, 'i) type_layout) \<Rightarrow> 'l \<Rightarrow> bool" where
  "layouts_clean env root \<longleftrightarrow> (\<forall>l \<in> reached env root. layout_clean (env l))"

subsection \<open>Reading fields back\<close>

definition function_text :: "string \<Rightarrow> string" where
  "function_text g = CHR ''['' # g @ '']''"

definition field_text :: "tl_field \<Rightarrow> string" where
  "field_text f = CHR '' '' # tf_name f @ CHR '':'' # tf_full_type f @ concat (map function_text (tf_functions f))"

lemma push_fields_text: "push_fields d fs = d @ concat (map field_text fs)"
proof -
  have "fold push_field fs d = d @ concat (map field_text fs)" for d
    by (induction fs arbitrary: d) (simp_all add: push_field_def field_text_def function_text_def [abs_def])
  then show ?thesis by (simp add: push_fields_def)
qed

text \<open>What may follow the fields: nothing, or a part that starts with a bar.\<close>

definition bar_tail :: "string \<Rightarrow> bool" where
  "bar_tail t \<longleftrightarrow> t = [] \<or> hd t = CHR ''|''"

lemma functions_split:
  assumes "concat (map function_text gs) @ s = concat (map function_text hs) @ t"
    and "list_all (\<lambda>g. CHR '']'' \<notin> set g) gs" and "list_all (\<lambda>g. CHR '']'' \<notin> set g) hs"
    and "s = [] \<or> hd s \<noteq> CHR ''[''" and "t = [] \<or> hd t \<noteq> CHR ''[''"
  shows "gs = hs \<and> s = t"
  using assms
proof (induction gs arbitrary: hs)
  case Nil
  then show ?case by (cases hs) (auto simp: function_text_def)
next
  case (Cons g gs)
  then obtain h hs' where hs: "hs = h # hs'" by (cases hs) (auto simp: function_text_def)
  have "g @ CHR '']'' # concat (map function_text gs) @ s = h @ CHR '']'' # concat (map function_text hs') @ t"
    using Cons.prems(1) by (simp add: hs function_text_def [of g] function_text_def [of h])
  from split_at [OF this] Cons.prems(2,3) show ?case
    using Cons.IH [of hs'] Cons.prems by (simp add: hs)
qed

definition field_stop :: "string \<Rightarrow> bool" where
  "field_stop r \<longleftrightarrow> r = [] \<or> hd r \<in> {CHR ''['', CHR ''|''} \<or>
     (\<exists>n w. r = CHR '' '' # n @ CHR '':'' # w \<and> set n \<inter> {CHR '' '', CHR '':'', CHR ''['', CHR ''|''} = {})"

lemma type_prefix:
  assumes "x @ r = y @ s" and "length x \<le> length y" and "field_stop r" and "field_stop s"
    and "set y \<inter> {CHR '':'', CHR ''['', CHR ''|''} = {}"
  shows "x = y"
proof -
  obtain u where u: "y = x @ u" "r = u @ s"
    using assms(1,2) by (auto simp: append_eq_append_conv_if) (metis append_take_drop_id)
  have "u = []"
  proof (rule ccontr)
    assume "u \<noteq> []"
    then have "hd r \<notin> {CHR ''['', CHR ''|''}" "r \<noteq> []" using u assms(5) by (cases u; auto)+
    then obtain n w where n: "r = CHR '' '' # n @ CHR '':'' # w"
        "set n \<inter> {CHR '' '', CHR '':'', CHR ''['', CHR ''|''} = {}"
      using assms(3) by (auto simp: field_stop_def)
    then obtain u' where u': "u = CHR '' '' # u'" "n @ CHR '':'' # w = u' @ s"
      using u \<open>u \<noteq> []\<close> by (cases u) auto
    have colon: "CHR '':'' \<notin> set u'" using u(1) u'(1) assms(5) by auto
    obtain n' where n': "n = u' @ n'" "s = n' @ CHR '':'' # w"
      using u'(2) colon by (auto simp: append_eq_append_conv2 Cons_eq_append_conv)
    have "set n' \<inter> {CHR '' '', CHR ''['', CHR ''|''} = {}" using n(2) n'(1) by auto
    then show False
      using assms(4) n'(2) by (cases n') (auto simp: field_stop_def)
  qed
  with u show ?thesis by simp
qed

lemma type_split:
  assumes "x @ r = y @ s" and "field_stop r" and "field_stop s"
    and "set x \<inter> {CHR '':'', CHR ''['', CHR ''|''} = {}" and "set y \<inter> {CHR '':'', CHR ''['', CHR ''|''} = {}"
  shows "x = y \<and> r = s"
proof -
  have "x = y"
    using type_prefix [OF assms(1) _ assms(2,3,5)] type_prefix [OF assms(1) [symmetric] _ assms(3,2,4)]
    by (metis nat_le_linear)
  with assms(1) show ?thesis by simp
qed

lemma fields_stop:
  assumes "list_all field_clean fs" and "bar_tail t"
  shows "field_stop (concat (map field_text fs) @ t)"
    and "concat (map field_text fs) @ t = [] \<or> hd (concat (map field_text fs) @ t) \<noteq> CHR ''[''"
  using assms by (cases fs; auto simp: field_stop_def field_text_def field_clean_def bar_tail_def)+

lemma functions_stop: "field_stop r \<Longrightarrow> field_stop (concat (map function_text gs) @ r)"
  by (cases gs) (simp_all add: field_stop_def function_text_def)

lemma fields_split:
  assumes "concat (map field_text fs) @ s = concat (map field_text gs) @ t"
    and "list_all field_clean fs" and "list_all field_clean gs" and "bar_tail s" and "bar_tail t"
  shows "fs = gs \<and> s = t"
  using assms
proof (induction fs arbitrary: gs)
  case Nil
  then show ?case by (cases gs) (auto simp: field_text_def bar_tail_def)
next
  case (Cons f fs)
  then obtain g gs' where gs: "gs = g # gs'" by (cases gs) (auto simp: field_text_def bar_tail_def)
  let ?r = "concat (map field_text fs) @ s" and ?r' = "concat (map field_text gs') @ t"
  have f: "field_clean f" "list_all field_clean fs" and g: "field_clean g" "list_all field_clean gs'"
    using Cons.prems(2,3) by (simp_all add: gs)
  have "tf_name f @ CHR '':'' # tf_full_type f @ concat (map function_text (tf_functions f)) @ ?r =
      tf_name g @ CHR '':'' # tf_full_type g @ concat (map function_text (tf_functions g)) @ ?r'"
    using Cons.prems(1) by (simp add: gs field_text_def [of f] field_text_def [of g])
  from split_at [OF this] f(1) g(1) have nam: "tf_name f = tf_name g" and
    types: "tf_full_type f @ concat (map function_text (tf_functions f)) @ ?r =
      tf_full_type g @ concat (map function_text (tf_functions g)) @ ?r'"
    by (auto simp: field_clean_def)
  note stop = fields_stop [OF f(2) Cons.prems(4)] fields_stop [OF g(2) Cons.prems(5)]
  from type_split [OF types functions_stop [OF stop(1)] functions_stop [OF stop(3)]] f(1) g(1)
  have full: "tf_full_type f = tf_full_type g" and
    funs: "concat (map function_text (tf_functions f)) @ ?r = concat (map function_text (tf_functions g)) @ ?r'"
    by (auto simp: field_clean_def)
  from functions_split [OF funs _ _ stop(2,4)] f(1) g(1)
  have "tf_functions f = tf_functions g" "?r = ?r'" by (auto simp: field_clean_def)
  with nam full Cons.IH [of gs'] Cons.prems f g show ?case
    by (simp add: gs)
qed

subsection \<open>Reading a description back\<close>

lemma describe_head_split:
  "describe_head l = tl_full_type l @ CHR ''|'' # ''size='' @ show_nat (unat (tl_size l)) @
     CHR ''|'' # ''align='' @ show_nat (unat (tl_alignment l)) @
     CHR ''|'' # ''repr='' @ tl_repr_attr l @ CHR ''|'' # ''nonzero='' @ show_bool (tl_nonzero l) @
     CHR ''|'' # []"
  by (simp add: describe_head_def)

lemma describe_head_inject:
  assumes "describe_head k @ s = describe_head l @ t"
    and "CHR ''|'' \<notin> set (tl_full_type k)" and "CHR ''|'' \<notin> set (tl_full_type l)"
    and "CHR ''|'' \<notin> set (tl_repr_attr k)" and "CHR ''|'' \<notin> set (tl_repr_attr l)"
  shows "tl_full_type k = tl_full_type l \<and> tl_size k = tl_size l \<and> tl_alignment k = tl_alignment l \<and>
    tl_repr_attr k = tl_repr_attr l \<and> tl_nonzero k = tl_nonzero l \<and> s = t"
proof -
  from assms(1) have 0: "tl_full_type k @ CHR ''|'' # ''size='' @ show_nat (unat (tl_size k)) @
     CHR ''|'' # ''align='' @ show_nat (unat (tl_alignment k)) @
     CHR ''|'' # ''repr='' @ tl_repr_attr k @ CHR ''|'' # ''nonzero='' @ show_bool (tl_nonzero k) @
     CHR ''|'' # s = tl_full_type l @ CHR ''|'' # ''size='' @ show_nat (unat (tl_size l)) @
     CHR ''|'' # ''align='' @ show_nat (unat (tl_alignment l)) @
     CHR ''|'' # ''repr='' @ tl_repr_attr l @ CHR ''|'' # ''nonzero='' @ show_bool (tl_nonzero l) @
     CHR ''|'' # t"
    by (simp only: describe_head_split append.assoc append_Cons append_Nil)
  note 1 = split_at [OF 0 assms(2,3)]
  from 1 have "show_nat (unat (tl_size k)) @ CHR ''|'' # ''align='' @ show_nat (unat (tl_alignment k)) @
     CHR ''|'' # ''repr='' @ tl_repr_attr k @ CHR ''|'' # ''nonzero='' @ show_bool (tl_nonzero k) @
     CHR ''|'' # s = show_nat (unat (tl_size l)) @ CHR ''|'' # ''align='' @
     show_nat (unat (tl_alignment l)) @ CHR ''|'' # ''repr='' @ tl_repr_attr l @
     CHR ''|'' # ''nonzero='' @ show_bool (tl_nonzero l) @ CHR ''|'' # t"
    by simp
  note 2 = split_at [OF this bar_not_digit bar_not_digit]
  from 2 have "show_nat (unat (tl_alignment k)) @ CHR ''|'' # ''repr='' @ tl_repr_attr k @
     CHR ''|'' # ''nonzero='' @ show_bool (tl_nonzero k) @ CHR ''|'' # s
     = show_nat (unat (tl_alignment l)) @ CHR ''|'' # ''repr='' @ tl_repr_attr l @
     CHR ''|'' # ''nonzero='' @ show_bool (tl_nonzero l) @ CHR ''|'' # t"
    by simp
  note 3 = split_at [OF this bar_not_digit bar_not_digit]
  from 3 have "tl_repr_attr k @ CHR ''|'' # ''nonzero='' @ show_bool (tl_nonzero k) @ CHR ''|'' # s
     = tl_repr_attr l @ CHR ''|'' # ''nonzero='' @ show_bool (tl_nonzero l) @ CHR ''|'' # t"
    by simp
  note 4 = split_at [OF this assms(4,5)]
  from 4 have "show_bool (tl_nonzero k) = show_bool (tl_nonzero l)"
    by (auto simp: show_bool_def split: if_splits)
  with 1 2 3 4 show ?thesis
    by (auto simp: show_bool_def word_unat_eq_iff split: if_splits)
qed

lemma describe_data_text: "describe_data d x = d @ describe_data [] x"
  by (cases x) (simp_all add: push_fields_text)

lemma bar_split:
  assumes "p @ s = q @ t" and "CHR ''|'' \<notin> set p" and "CHR ''|'' \<notin> set q" and "bar_tail s" and "bar_tail t"
  shows "p = q \<and> s = t"
proof -
  have "takeWhile (\<lambda>c. c \<noteq> CHR ''|'') (x @ r) = x" if "CHR ''|'' \<notin> set x" "bar_tail r" for x r
  proof -
    have "takeWhile (\<lambda>c. c \<noteq> CHR ''|'') (x @ r) = x @ takeWhile (\<lambda>c. c \<noteq> CHR ''|'') r"
      using that(1) by (intro takeWhile_append2) auto
    moreover have "takeWhile (\<lambda>c. c \<noteq> CHR ''|'') r = []"
      using that(2) by (cases r) (simp_all add: bar_tail_def)
    ultimately show ?thesis by simp
  qed
  with assms have "p = q" by metis
  with assms(1) show ?thesis by simp
qed

lemma closes_split:
  assumes "x @ s = y @ t" and "closes_with c x" and "closes_with c y"
  shows "x = y \<and> s = t"
proof -
  have x: "x = butlast x @ [c]" "c \<notin> set (butlast x)" and y: "y = butlast y @ [c]" "c \<notin> set (butlast y)"
    using assms(2,3) append_butlast_last_id [of x] append_butlast_last_id [of y]
    by (simp_all add: closes_with_def)
  have "butlast x @ c # s = butlast y @ c # t"
    using assms(1) x(1) y(1) by (metis append_assoc append_Cons append_Nil)
  from split_at [OF this x(2) y(2)] x(1) y(1) show ?thesis by metis
qed

lemma equals_split:
  assumes "p @ l @ CHR ''='' # s = q @ l @ CHR ''='' # t"
    and "CHR ''='' \<notin> set p" and "CHR ''='' \<notin> set q" and "CHR ''='' \<notin> set l"
  shows "p = q \<and> s = t"
  using split_at [of "p @ l" "CHR ''=''" s "q @ l" t] assms by simp

lemma space_not_digit: "CHR '' '' \<notin> set (show_nat n)"
  using show_nat_digits [of "CHR '' ''" n] by auto

lemma enum_split:
  assumes "describe_data [] (Enum n c x e fs) @ s = describe_data [] (Enum n' c' x' e' gs) @ t"
    and "data_clean (Enum n c x e fs)" and "data_clean (Enum n' c' x' e' gs)" and "bar_tail s" and "bar_tail t"
  shows "Enum n c x e fs = Enum n' c' x' e' gs \<and> s = t"
proof -
  let ?f = "concat (map field_text fs) @ s" and ?g = "concat (map field_text gs) @ t"
  have "n @ '' counts'' @ CHR ''='' # c @ '' discriminants'' @ CHR ''='' # x @ '' exhaustive'' @ CHR ''='' # e @ ?f =
      n' @ '' counts'' @ CHR ''='' # c' @ '' discriminants'' @ CHR ''='' # x' @ '' exhaustive'' @ CHR ''='' # e' @ ?g"
    using assms(1) by (simp add: push_fields_text)
  from equals_split [OF this] assms(2,3) have 1: "n = n'" and
    "c @ '' discriminants'' @ CHR ''='' # x @ '' exhaustive'' @ CHR ''='' # e @ ?f =
      c' @ '' discriminants'' @ CHR ''='' # x' @ '' exhaustive'' @ CHR ''='' # e' @ ?g" by simp_all
  from equals_split [OF this(2)] assms(2,3) have 2: "c = c'" and
    "x @ '' exhaustive'' @ CHR ''='' # e @ ?f = x' @ '' exhaustive'' @ CHR ''='' # e' @ ?g" by simp_all
  from equals_split [OF this(2)] assms(2,3) have 3: "x = x'" and "e @ ?f = e' @ ?g" by simp_all
  from closes_split [OF this(2), of "CHR ''}''"] assms(2,3) have 4: "e = e'" and "?f = ?g" by simp_all
  from fields_split [OF this(2)] assms(2-5) 1 2 3 4 show ?thesis by simp
qed

lemma prefix_split:
  assumes "describe_data [] (Prefix_type n c fs) @ s = describe_data [] (Prefix_type n' c' gs) @ t"
    and "data_clean (Prefix_type n c fs)" and "data_clean (Prefix_type n' c' gs)" and "bar_tail s" and "bar_tail t"
  shows "Prefix_type n c fs = Prefix_type n' c' gs \<and> s = t"
proof -
  let ?f = "concat (map field_text fs) @ s" and ?g = "concat (map field_text gs) @ t"
  have "show_nat (unat n) @ CHR '' '' # ''conditional='' @ c @ ?f =
      show_nat (unat n') @ CHR '' '' # ''conditional='' @ c' @ ?g"
    using assms(1) by (simp add: push_fields_text)
  from split_at [OF this space_not_digit space_not_digit]
  have 1: "n = n'" and "c @ ?f = c' @ ?g" by (simp_all add: word_unat_eq_iff)
  from closes_split [OF this(2), of "CHR '']''"] assms(2,3) have 2: "c = c'" and "?f = ?g" by simp_all
  from fields_split [OF this(2)] assms(2-5) 1 2 show ?thesis by simp
qed

lemma data_split:
  assumes "describe_data [] x @ s = describe_data [] y @ t"
    and "data_clean x" and "data_clean y" and "bar_tail s" and "bar_tail t"
  shows "x = y \<and> s = t"
proof (cases x)
  case (Primitive p)
  then show ?thesis
    using assms bar_split [of p s _ t] by (cases y) (auto simp: push_fields_text)
next
  case Opaque
  then show ?thesis using assms by (cases y) (auto simp: push_fields_text)
next
  case (Struct fs)
  then show ?thesis
    using assms fields_split [of fs s _ t] by (cases y) (auto simp: push_fields_text)
next
  case (Union fs)
  then show ?thesis
    using assms fields_split [of fs s _ t] by (cases y) (auto simp: push_fields_text)
next
  case (Enum n c d e fs)
  then show ?thesis
  proof (cases y)
    case (Enum n' c' d' e' gs)
    then show ?thesis using assms enum_split \<open>x = Enum n c d e fs\<close> by blast
  qed (use assms in \<open>auto simp: push_fields_text\<close>)
next
  case (Prefix_type n c fs)
  then show ?thesis
  proof (cases y)
    case (Prefix_type n' c' gs)
    then show ?thesis using assms prefix_split \<open>x = Prefix_type n c fs\<close> by blast
  qed (use assms in \<open>auto simp: push_fields_text\<close>)
qed

text \<open>What follows the data: the phantom fields, if any, and the extra checks.\<close>

definition phantom_text :: "tl_field list \<Rightarrow> string" where
  "phantom_text fs = (if fs = [] then [] else ''|phantom'' @ concat (map field_text fs))"

definition extra_text :: "string option \<Rightarrow> string" where
  "extra_text x = (case x of None \<Rightarrow> [] | Some e \<Rightarrow> ''|extra='' @ e)"

lemma describe_text:
  "describe l = describe_head l @ describe_data [] (tl_data_of l) @ phantom_text (tl_phantom l) @ extra_text (tl_extra_checks l)"
  by (simp add: describe_def Let_def describe_data_text [of "describe_head l"] push_fields_text phantom_text_def
      extra_text_def split: option.split)

lemma extra_tail: "bar_tail (extra_text x)"
  by (cases x) (simp_all add: extra_text_def bar_tail_def)

lemma phantom_tail: "bar_tail (phantom_text fs @ extra_text x)"
  using extra_tail [of x] by (simp add: phantom_text_def bar_tail_def)

lemma phantom_split:
  assumes "phantom_text fs @ extra_text x = phantom_text gs @ extra_text y"
    and "list_all field_clean fs" and "list_all field_clean gs"
  shows "fs = gs \<and> x = y"
proof -
  have extra: "extra_text x = extra_text y \<Longrightarrow> x = y"
    by (cases x; cases y) (simp_all add: extra_text_def)
  show ?thesis
  proof (cases "fs = [] \<or> gs = []")
    case True
    then show ?thesis
      using assms(1) extra by (cases x; cases y) (auto simp: phantom_text_def extra_text_def split: if_splits)
  next
    case False
    then have "concat (map field_text fs) @ extra_text x = concat (map field_text gs) @ extra_text y"
      using assms(1) by (simp add: phantom_text_def)
    from fields_split [OF this assms(2,3) extra_tail extra_tail] extra show ?thesis by blast
  qed
qed

lemma describe_shape:
  assumes "describe k = describe l" and "layout_clean k" and "layout_clean l"
  shows "layout_shape k = layout_shape l"
proof -
  have "describe_head k @ describe_data [] (tl_data_of k) @ phantom_text (tl_phantom k) @ extra_text (tl_extra_checks k) =
      describe_head l @ describe_data [] (tl_data_of l) @ phantom_text (tl_phantom l) @ extra_text (tl_extra_checks l)"
    using assms(1) by (simp only: describe_text)
  note 1 = describe_head_inject [OF this]
  have clean: "data_clean (tl_data_of k)" "data_clean (tl_data_of l)"
    "list_all field_clean (tl_phantom k)" "list_all field_clean (tl_phantom l)"
    using assms(2,3) by (simp_all add: layout_clean_def)
  from 1 assms(2,3)
  have "describe_data [] (tl_data_of k) @ phantom_text (tl_phantom k) @ extra_text (tl_extra_checks k) =
      describe_data [] (tl_data_of l) @ phantom_text (tl_phantom l) @ extra_text (tl_extra_checks l)"
    by (simp add: layout_clean_def)
  from data_split [OF this clean(1,2) phantom_tail phantom_tail]
  have 2: "tl_data_of k = tl_data_of l" and
    "phantom_text (tl_phantom k) @ extra_text (tl_extra_checks k) =
      phantom_text (tl_phantom l) @ extra_text (tl_extra_checks l)" by simp_all
  from phantom_split [OF this(2) clean(3,4)] 1 2 assms(2,3) show ?thesis
    by (simp add: layout_shape_def layout_clean_def)
qed

text \<open>Lists of texts without a newline are determined by their hashed form.\<close>

lemma preimage_inject:
  assumes "fingerprint_preimage ds = fingerprint_preimage es"
    and "\<forall>d \<in> set ds. CHR 0x0A \<notin> set d" and "\<forall>e \<in> set es. CHR 0x0A \<notin> set e"
  shows "ds = es"
  using assms
proof (induction ds arbitrary: es)
  case Nil
  then show ?case by (cases es) (auto simp: fingerprint_preimage_def)
next
  case (Cons d ds)
  then obtain e es' where es: "es = e # es'"
    by (cases es) (auto simp: fingerprint_preimage_def)
  have "d @ CHR 0x0A # fingerprint_preimage ds = e @ CHR 0x0A # fingerprint_preimage es'"
    using Cons.prems(1) by (simp add: es fingerprint_preimage_def)
  from split_at [OF this] Cons.prems(2,3) have "d = e" "fingerprint_preimage ds = fingerprint_preimage es'"
    by (auto simp: es)
  with Cons es show ?case by auto
qed

lemma hex_digit_inject: "m < 16 \<Longrightarrow> n < 16 \<Longrightarrow> hex_digit m = hex_digit n \<longleftrightarrow> m = n"
  by (auto simp: hex_digit_def char_of_eq_iff take_bit_eq_mod split: if_splits)

lemma hex_byte_inject: "hex_byte a = hex_byte b \<longleftrightarrow> a = b"
proof -
  have "unat c div 16 < 16" "unat c mod 16 < 16" for c :: u8
    using unsigned_less [of c, where ?'a = nat] by auto
  then have "hex_byte a = hex_byte b \<longleftrightarrow> unat a div 16 = unat b div 16 \<and> unat a mod 16 = unat b mod 16"
    by (simp add: hex_byte_def hex_digit_inject)
  then show ?thesis
    by (metis div_mult_mod_eq unsigned_word_eqI)
qed

lemma hex_bytes_inject: "concat (map hex_byte as) = concat (map hex_byte bs) \<longleftrightarrow> as = bs"
proof (induction as arbitrary: bs)
  case Nil
  show ?case by (cases bs) (auto simp: hex_byte_def)
next
  case (Cons a as)
  have len: "length (hex_byte b) = 2" for b by (simp add: hex_byte_def)
  show ?case
    by (cases bs) (simp_all add: Cons.IH append_eq_append_conv hex_byte_inject len, simp add: hex_byte_def)
qed

lemma finite_descriptions:
  assumes "finite (reached_ids env root)" and "ids_identify env root"
  shows "finite ((\<lambda>l. describe (env l)) ` reached env root)"
proof -
  have "(\<lambda>l. describe (env l)) ` reached env root
      \<subseteq> (\<lambda>i. describe (env (SOME a. a \<in> reached env root \<and> tl_utypeid (env a) = i))) ` reached_ids env root"
  proof
    fix d
    assume "d \<in> (\<lambda>l. describe (env l)) ` reached env root"
    then obtain l where l: "l \<in> reached env root" "d = describe (env l)" by blast
    let ?a = "SOME a. a \<in> reached env root \<and> tl_utypeid (env a) = tl_utypeid (env l)"
    have "?a \<in> reached env root \<and> tl_utypeid (env ?a) = tl_utypeid (env l)"
      by (rule someI [of _ l]) (use l in simp)
    then have "d = describe (env ?a)"
      using assms(2) l unfolding ids_identify_def by metis
    then show "d \<in> (\<lambda>i. describe (env (SOME a. a \<in> reached env root \<and> tl_utypeid (env a) = i))) `
        reached_ids env root"
      using l(1) unfolding reached_ids_def by blast
  qed
  then show ?thesis
    by (rule finite_subset) (use assms(1) in simp)
qed

text \<open>
  C26: Different fingerprints are to be expected of different layouts: when a layout reached from
  one root has a shape no layout reached from the other root has (another full type name, size,
  alignment, representation, niche, primitive kind, field, field type, function signature,
  variant, discriminant, prefix field, phantom field or extra check), the two fingerprints differ,
  as long as the shortened digest does not confuse the two hashed texts, a type id stands for one
  type, and the layouts are clean: no description has a newline, and no rendered part holds a
  separator of the description that would let it run into the next.
\<close>

theorem fingerprint_separates:
  assumes "finite (reached_ids env root)" and "ids_identify env root" and "layouts_clean env root"
    and "finite (reached_ids env' root')" and "ids_identify env' root'" and "layouts_clean env' root'"
    and "l \<in> reached env root"
    and "layout_shape (env l) \<notin> (\<lambda>m. layout_shape (env' m)) ` reached env' root'"
    and "take 16 (sha256 (hashed_text env root)) = take 16 (sha256 (hashed_text env' root')) \<Longrightarrow>
      hashed_text env root = hashed_text env' root'"
  shows "layout_fingerprint sha256 env root \<noteq> layout_fingerprint sha256 env' root'"
proof
  let ?D = "(\<lambda>l. describe (env l)) ` reached env root"
  let ?D' = "(\<lambda>l. describe (env' l)) ` reached env' root'"
  assume "layout_fingerprint sha256 env root = layout_fingerprint sha256 env' root'"
  then have "hashed_text env root = hashed_text env' root'"
    using traverse_returns [OF assms(1,2) inv_start] traverse_returns [OF assms(4,5) inv_start] assms(9)
    by (simp add: layout_fingerprint_def hashed_text_def hex_bytes_inject)
  moreover have sets: "set (sorted_list_of_set ?D) = ?D" "set (sorted_list_of_set ?D') = ?D'"
    using finite_descriptions [OF assms(1,2)] finite_descriptions [OF assms(4,5)] by simp_all
  moreover have clean: "\<forall>d \<in> ?D. CHR 0x0A \<notin> set d" "\<forall>d \<in> ?D'. CHR 0x0A \<notin> set d"
    using assms(3,6) by (simp_all add: layouts_clean_def layout_clean_def)
  ultimately have "fingerprint_preimage (sorted_list_of_set ?D) = fingerprint_preimage (sorted_list_of_set ?D')"
    by (simp add: hashed_text_def)
  then have "sorted_list_of_set ?D = sorted_list_of_set ?D'"
    by (rule preimage_inject) (unfold sets, (fact clean)+)
  from arg_cong [OF this, of set] have "?D = ?D'" unfolding sets .
  with assms(7) obtain m where m: "m \<in> reached env' root'" "describe (env l) = describe (env' m)"
    by auto
  then have "layout_shape (env l) = layout_shape (env' m)"
    using assms(3,6,7) by (intro describe_shape) (auto simp: layouts_clean_def)
  with assms(8) m(1) show False by blast
qed

section \<open>Instances\<close>

text \<open>A cyclic graph of two layouts, and one layout with no other.\<close>

definition node :: "nat \<Rightarrow> string \<Rightarrow> u64 \<Rightarrow> nat list \<Rightarrow> (nat, nat) type_layout" where
  "node i n s nested = \<lparr>tl_utypeid = i, tl_full_type = n, tl_size = s, tl_alignment = s,
     tl_repr_attr = ''C'', tl_nonzero = False, tl_data_of = Opaque, tl_phantom = [],
     tl_extra_checks = None, tl_nested = nested\<rparr>"

definition list_graph :: "nat \<Rightarrow> (nat, nat) type_layout" where
  "list_graph l = (if l = 0 then node 0 ''List'' 8 [1, 0] else node 1 ''Cell'' 16 [0])"

definition leaf_graph :: "nat \<Rightarrow> (nat, nat) type_layout" where
  "leaf_graph l = node 7 ''Unit'' 8 []"

lemma list_graph_reached: "reached list_graph 0 = {0, 1}"
proof
  show "reached list_graph 0 \<subseteq> {0, 1}"
  proof
    fix a assume "a \<in> reached list_graph 0"
    then show "a \<in> {0, 1}"
      by (induction rule: reached_induct) (auto simp: list_graph_def node_def split: if_splits)
  qed
  show "{0, 1} \<subseteq> reached list_graph 0"
    using reached_nested [of 0 list_graph 0] by (simp add: list_graph_def node_def)
qed

lemma leaf_graph_reached: "reached leaf_graph 0 = {0}"
proof -
  have "a \<in> reached leaf_graph 0 \<Longrightarrow> a = 0" for a
    by (induction rule: reached_induct) (auto simp: leaf_graph_def node_def)
  then show ?thesis by auto
qed

lemma list_graph_ok:
  "finite (reached_ids list_graph 0)" "ids_identify list_graph 0" "layouts_clean list_graph 0"
    apply (simp_all add: reached_ids_def ids_identify_def layouts_clean_def list_graph_reached)
   apply (simp add: list_graph_def node_def)
  apply code_simp
  done

lemma leaf_graph_ok:
  "finite (reached_ids leaf_graph 0)" "ids_identify leaf_graph 0" "layouts_clean leaf_graph 0"
    apply (simp_all add: reached_ids_def ids_identify_def layouts_clean_def leaf_graph_reached)
  apply code_simp
  done

theorem layout_fingerprint_exact_witness:
  "layout_fingerprint (map of_char) list_graph 0 =
    Some ''sha256:43656c6c7c73697a653d31367c616c69''"
proof -
  have "layout_fingerprint (map of_char) list_graph 0 = Some (''sha256:'' @ concat (map hex_byte (take 16
    (map of_char (hashed_text list_graph 0)))))"
    by (rule layout_fingerprint_exact [OF list_graph_ok(1,2)])
  also have "hashed_text list_graph 0 = ''Cell|size=16|align=16|repr=C|nonzero=false|opaque'' @ [CHR 0x0A] @
    ''List|size=8|align=8|repr=C|nonzero=false|opaque'' @ [CHR 0x0A]"
    unfolding hashed_text_def list_graph_reached by code_simp
  also have "''sha256:'' @ concat (map hex_byte (take 16 (map of_char
      (''Cell|size=16|align=16|repr=C|nonzero=false|opaque'' @ [CHR 0x0A] @
    ''List|size=8|align=8|repr=C|nonzero=false|opaque'' @ [CHR 0x0A]))))
    = ''sha256:43656c6c7c73697a653d31367c616c69''"
    by code_simp
  finally show ?thesis .
qed

theorem fingerprint_separates_witness:
  "layout_fingerprint (map of_char) list_graph 0 \<noteq> layout_fingerprint (map of_char) leaf_graph 0"
proof (rule fingerprint_separates [OF list_graph_ok leaf_graph_ok, of 1])
  show "1 \<in> reached list_graph 0" by (simp add: list_graph_reached)
  show "layout_shape (list_graph 1) \<notin> (\<lambda>m. layout_shape (leaf_graph m)) ` reached leaf_graph 0"
    by (simp add: leaf_graph_reached layout_shape_def list_graph_def leaf_graph_def node_def)
  have "take 16 (map of_char (hashed_text list_graph 0) :: bytes)
      \<noteq> take 16 (map of_char (hashed_text leaf_graph 0))"
    unfolding hashed_text_def list_graph_reached leaf_graph_reached by code_simp
  then show "hashed_text list_graph 0 = hashed_text leaf_graph 0"
    if "take 16 (map of_char (hashed_text list_graph 0) :: bytes)
      = take 16 (map of_char (hashed_text leaf_graph 0))"
    using that by contradiction
qed

end
