(* ===== verification/Backend_Plugin.thy ===== *)
theory Backend_Plugin
  imports Backend_Types
begin

section \<open>Backend and watch plugins\<close>

text \<open>
  The rest of \<open>src/src/backend.rs\<close> that has a body: the default methods of
  \<open>BackendPlugin\<close>, the resume position in a watch spec, event sources, and message bodies
  as event data. A stream of chunks is the list of its items; the JSON parser, the base64
  encoder and the calendar are arguments.
\<close>

subsection \<open>Defaults of a backend plugin\<close>

definition default_input_schema :: "string \<Rightarrow> json option" where
  "default_input_schema profile_name = None"

definition default_output_schema :: "string \<Rightarrow> json option" where
  "default_output_schema profile_name = None"

definition default_list_resources :: "string \<Rightarrow> string option \<Rightarrow> backend_error + resource_page" where
  "default_list_resources profile_name cursor = Inr empty_page"

definition default_expand_capabilities :: "backend_error + capability_set" where
  "default_expand_capabilities = Inr default_capability_set"

definition default_execute_streaming ::
  "(string \<Rightarrow> backend_request \<Rightarrow> backend_error + backend_response) \<Rightarrow> string \<Rightarrow> backend_request \<Rightarrow>
   backend_error + (backend_error + backend_chunk) list" where
  "default_execute_streaming execute profile_name request =
     res_bind (execute profile_name request) (\<lambda>response. Inr [Inr (Done response)])"

definition default_execute_transaction :: "string \<Rightarrow> json \<Rightarrow> backend_error + json" where
  "default_execute_transaction backend_name tx_group =
     Inl (Transport ''execute_transaction is not supported by this backend'')"

definition default_health :: "string \<Rightarrow> backend_health" where
  "default_health profile_name = HealthUnknown"

definition default_audit_metadata :: "string \<Rightarrow> json_map" where
  "default_audit_metadata profile_name = []"

definition default_complete_template_variable ::
  "string \<Rightarrow> string \<Rightarrow> string \<Rightarrow> json \<Rightarrow> (string \<times> string) list \<Rightarrow> backend_error + string list" where
  "default_complete_template_variable profile_name variable_name prefix' cfg ctx = Inr []"

text \<open>What a caller of \<open>execute_streaming\<close> gathers: the response of the terminal chunk.\<close>

fun final_response :: "(backend_error + backend_chunk) list \<Rightarrow> backend_error + backend_response option" where
  "final_response [] = Inr None"
| "final_response (Inl e # _) = Inl e"
| "final_response (Inr (Done r) # _) = Inr (Some r)"
| "final_response (Inr _ # rest) = final_response rest"

text \<open>
  A backend that does not stream is served through the streaming path all the same: the
  stream fails exactly when \<open>execute\<close> does and with its error, and otherwise ends with its
  very response as the only chunk.
\<close>

theorem streaming_default_equivalent:
  "res_bind (default_execute_streaming execute p q) final_response = res_bind (execute p q) (\<lambda>r. Inr (Some r)) \<and>
   (case default_execute_streaming execute p q of Inl e \<Rightarrow> execute p q = Inl e | Inr cs \<Rightarrow> length cs = 1)"
  by (cases "execute p q") (simp_all add: default_execute_streaming_def)

subsection \<open>Watch specs and sources\<close>

definition WATCH_RESUME_SPEC_KEY :: string where
  "WATCH_RESUME_SPEC_KEY = ''_mcpg_resume''"

definition take_watch_resume :: "json \<Rightarrow> json \<times> json option" where
  "take_watch_resume spec =
     (case spec of
        JObject obj \<Rightarrow> (JObject (bt_remove WATCH_RESUME_SPEC_KEY obj), bt_get obj WATCH_RESUME_SPEC_KEY)
      | other \<Rightarrow> (other, None))"

definition EVENT_SOURCE_URI_PREFIX :: string where
  "EVENT_SOURCE_URI_PREFIX = ''mcpg-event://''"

definition is_event_source :: "string \<Rightarrow> bool" where
  "is_event_source resource_uri \<longleftrightarrow> starts_with resource_uri EVENT_SOURCE_URI_PREFIX"

definition occurred_at_from_millis ::
  "(i64 \<Rightarrow> 'time option) \<Rightarrow> ('time \<Rightarrow> string) \<Rightarrow> i64 \<Rightarrow> string option" where
  "occurred_at_from_millis from_timestamp_millis to_rfc3339_millis millis =
     map_option to_rfc3339_millis (from_timestamp_millis millis)"

definition acknowledge_default :: "json \<Rightarrow> unit" where
  "acknowledge_default position = ()"

text \<open>
  The resume position is a detour the plugin's parser never sees. Taking it from a spec
  leaves the same spec without the reserved key and yields what was there; for a spec that
  does not use the key, putting a position in and taking it out gives both back, and taking
  is the identity.
\<close>

theorem take_watch_resume_exact:
  assumes "bt_wf m"
  shows "(\<exists>m'. take_watch_resume (JObject m) = (JObject m', bt_get m WATCH_RESUME_SPEC_KEY) \<and> bt_wf m' \<and>
      bt_get m' = (bt_get m)(WATCH_RESUME_SPEC_KEY := None)) \<and>
    (bt_get m WATCH_RESUME_SPEC_KEY = None \<longrightarrow>
      take_watch_resume (JObject m) = (JObject m, None) \<and>
      take_watch_resume (JObject (bt_insert WATCH_RESUME_SPEC_KEY c m)) = (JObject m, Some c))"
proof -
  have "bt_remove k (bt_insert k c m) = m" if "bt_get m k = None" for k
  proof -
    have "bt_get (bt_remove k (bt_insert k c m)) = bt_get m"
      using assms that by (auto simp: bt_get_remove bt_get_insert)
    then show ?thesis
      using assms by (auto intro: bt.get_extensional bt_wf_insert bt_wf_remove)
  qed
  moreover have "bt_remove k m = m" if "bt_get m k = None" for k
    using assms that by (rule bt.remove_absent)
  ultimately show ?thesis
    using assms by (auto simp: take_watch_resume_def bt_get_remove bt_get_insert)
qed

theorem take_watch_resume_exact_witness:
  "take_watch_resume (JObject (bt_insert WATCH_RESUME_SPEC_KEY (JBool True) [(''topic'', JNull)])) =
     (JObject [(''topic'', JNull)], Some (JBool True))"
proof -
  have "bt_wf [(''topic'', JNull)]" "bt_get [(''topic'', JNull)] WATCH_RESUME_SPEC_KEY = None"
    by (simp_all add: bt_wf_def WATCH_RESUME_SPEC_KEY_def)
  with take_watch_resume_exact [of "[(''topic'', JNull)]" "JBool True"] show ?thesis by blast
qed

subsection \<open>Message bodies as event data\<close>

text \<open>\<open>str::from_utf8\<close> accepts the well-formed byte sequences of the Unicode standard.\<close>

definition byte_in :: "nat \<Rightarrow> nat \<Rightarrow> char \<Rightarrow> bool" where
  "byte_in lo hi c \<longleftrightarrow> lo \<le> (of_char c :: nat) \<and> (of_char c :: nat) \<le> hi"

fun utf8_valid :: "string \<Rightarrow> bool" where
  "utf8_valid [] = True"
| "utf8_valid (a # r) =
     (let n = (of_char a :: nat) in
      if n \<le> 127 then utf8_valid r
      else if 194 \<le> n \<and> n \<le> 223 then
        (case r of b # r' \<Rightarrow> byte_in 128 191 b \<and> utf8_valid r' | _ \<Rightarrow> False)
      else if 224 \<le> n \<and> n \<le> 239 then
        (case r of b # c # r' \<Rightarrow>
           byte_in (if n = 224 then 160 else 128) (if n = 237 then 159 else 191) b \<and>
           byte_in 128 191 c \<and> utf8_valid r'
         | _ \<Rightarrow> False)
      else if 240 \<le> n \<and> n \<le> 244 then
        (case r of b # c # d # r' \<Rightarrow>
           byte_in (if n = 240 then 144 else 128) (if n = 244 then 143 else 191) b \<and>
           byte_in 128 191 c \<and> byte_in 128 191 d \<and> utf8_valid r'
         | _ \<Rightarrow> False)
      else False)"

text \<open>
  What well-formed means: the bytes are the UTF-8 encoding of a sequence of Unicode scalar
  values, the code points up to \<open>0x10FFFF\<close> without the surrogates.
\<close>

definition scalar_value :: "nat \<Rightarrow> bool" where
  "scalar_value n \<longleftrightarrow> n < 0xD800 \<or> 0xDFFF < n \<and> n \<le> 0x10FFFF"

definition utf8_bytes :: "nat \<Rightarrow> nat list" where
  "utf8_bytes n =
     (if n < 0x80 then [n]
      else if n < 0x800 then [0xC0 + n div 2 ^ 6, 0x80 + n mod 2 ^ 6]
      else if n < 0x10000 then [0xE0 + n div 2 ^ 12, 0x80 + n div 2 ^ 6 mod 2 ^ 6, 0x80 + n mod 2 ^ 6]
      else [0xF0 + n div 2 ^ 18, 0x80 + n div 2 ^ 12 mod 2 ^ 6, 0x80 + n div 2 ^ 6 mod 2 ^ 6, 0x80 + n mod 2 ^ 6])"

definition utf8_encode :: "nat list \<Rightarrow> string" where
  "utf8_encode ns = map char_of (concat (map utf8_bytes ns))"

lemma utf8_encode_simps [simp]:
  "utf8_encode [] = []"
  "utf8_encode (n # ns) = map char_of (utf8_bytes n) @ utf8_encode ns"
  by (simp_all add: utf8_encode_def)

lemma six_bits: "z < 64 \<Longrightarrow> (64 * y + z) mod 64 = z" "z < 64 \<Longrightarrow> (64 * y + z) div 64 = (y :: nat)"
  by simp_all

lemma utf8_bytes_split:
  "z < 64 \<Longrightarrow> y < 32 \<Longrightarrow> 2 \<le> y \<Longrightarrow> utf8_bytes (64 * y + z) = [192 + y, 128 + z]"
  "z < 64 \<Longrightarrow> y < 64 \<Longrightarrow> x < 16 \<Longrightarrow> 2048 \<le> 64 * (64 * x + y) + z \<Longrightarrow>
    utf8_bytes (64 * (64 * x + y) + z) = [224 + x, 128 + y, 128 + z]"
  "z < 64 \<Longrightarrow> y < 64 \<Longrightarrow> x < 64 \<Longrightarrow> 65536 \<le> 64 * (64 * (64 * w + x) + y) + z \<Longrightarrow>
    utf8_bytes (64 * (64 * (64 * w + x) + y) + z) = [240 + w, 128 + x, 128 + y, 128 + z]"
proof -
  have d: "n div 4096 = n div 64 div 64" "n div 262144 = n div 64 div 64 div 64" for n :: nat
    by (simp_all add: div_mult2_eq [symmetric])
  show "z < 64 \<Longrightarrow> y < 32 \<Longrightarrow> 2 \<le> y \<Longrightarrow> utf8_bytes (64 * y + z) = [192 + y, 128 + z]"
    by (simp add: utf8_bytes_def)
  show "z < 64 \<Longrightarrow> y < 64 \<Longrightarrow> x < 16 \<Longrightarrow> 2048 \<le> 64 * (64 * x + y) + z \<Longrightarrow>
    utf8_bytes (64 * (64 * x + y) + z) = [224 + x, 128 + y, 128 + z]"
    using six_bits [of z "64 * x + y"] six_bits [of y x] by (simp add: utf8_bytes_def d)
  show "z < 64 \<Longrightarrow> y < 64 \<Longrightarrow> x < 64 \<Longrightarrow> 65536 \<le> 64 * (64 * (64 * w + x) + y) + z \<Longrightarrow>
    utf8_bytes (64 * (64 * (64 * w + x) + y) + z) = [240 + w, 128 + x, 128 + y, 128 + z]"
    using six_bits [of z "64 * (64 * w + x) + y"] six_bits [of y "64 * w + x"] six_bits [of x w]
    by (simp add: utf8_bytes_def d)
qed

lemma utf8_valid_bytes:
  assumes "scalar_value n"
  shows "utf8_valid (map char_of (utf8_bytes n) @ r) \<longleftrightarrow> utf8_valid r"
proof -
  define z y x w where "z = n mod 64" and "y = n div 64 mod 64" and "x = n div 64 div 64 mod 64"
    and "w = n div 64 div 64 div 64"
  have n: "n = 64 * (64 * (64 * w + x) + y) + z" and lt: "z < 64" "y < 64" "x < 64"
    by (simp_all add: z_def y_def x_def w_def)
  have n': "n = 262144 * w + 4096 * x + 64 * y + z" unfolding n by (simp add: algebra_simps)
  consider "n < 128" | "128 \<le> n" "n < 2048" | "2048 \<le> n" "n < 65536" | "65536 \<le> n" by linarith
  then show ?thesis
  proof cases
    case 1
    then show ?thesis by (simp add: utf8_bytes_def)
  next
    case 2
    then have wx: "w = 0" using n' by linarith
    then have "x = 0" using 2 n' by linarith
    with wx have "2 \<le> y" "y < 32" using 2 n' lt \<open>x = 0\<close> by linarith+
    then show ?thesis using lt n wx \<open>x = 0\<close> utf8_bytes_split(1) [of z y] by (simp add: byte_in_def)
  next
    case 3
    then have w: "w = 0" using n' by linarith
    then have x: "x < 16" using 3 n' by linarith
    have "x = 0 \<longrightarrow> 32 \<le> y" using 3 n' lt w by linarith
    moreover have "x = 13 \<longrightarrow> y < 32" using assms n' lt w by (auto simp: scalar_value_def)
    ultimately show ?thesis
      using lt n w x 3 utf8_bytes_split(2) [of z y x] by (auto simp: byte_in_def)
  next
    case 4
    then have w: "w \<le> 4" using assms n' by (auto simp: scalar_value_def)
    have "w = 0 \<longrightarrow> 16 \<le> x" using 4 n' lt by linarith
    moreover have "w = 4 \<longrightarrow> x < 16" using assms n' lt 4 by (auto simp: scalar_value_def)
    ultimately show ?thesis
      using lt n w 4 utf8_bytes_split(3) [of z y x w] by (auto simp: byte_in_def)
  qed
qed

lemma utf8_step:
  assumes "utf8_valid (a # r)"
  shows "\<exists>n r'. scalar_value n \<and> a # r = map char_of (utf8_bytes n) @ r' \<and> utf8_valid r' \<and> length r' \<le> length r"
proof -
  let ?a = "of_char a :: nat"
  consider "?a \<le> 127" | "194 \<le> ?a" "?a \<le> 223" | "224 \<le> ?a" "?a \<le> 239" | "240 \<le> ?a" "?a \<le> 244"
    using assms by (auto simp: Let_def split: if_splits)
  then show ?thesis
  proof cases
    case 1
    then show ?thesis
      using assms by (intro exI [of _ ?a] exI [of _ r]) (simp add: scalar_value_def utf8_bytes_def)
  next
    case 2
    then obtain b r' where r: "r = b # r'" "byte_in 128 191 b" "utf8_valid r'"
      using assms by (auto simp: Let_def split: list.splits if_splits)
    let ?n = "64 * (?a - 192) + (of_char b - 128) :: nat"
    have "?n < 0xD800" using 2 r(2) unfolding byte_in_def by linarith
    then have "scalar_value ?n" by (simp add: scalar_value_def)
    moreover have "of_char b - (128 :: nat) < 64" "?a - 192 < 32" "2 \<le> ?a - 192"
      "192 + (?a - 192) = ?a" "128 + (of_char b - 128) = (of_char b :: nat)"
      using 2 r(2) unfolding byte_in_def by linarith+
    then have "utf8_bytes ?n = [?a, of_char b]"
      using utf8_bytes_split(1) [of "of_char b - 128" "?a - 192"] by metis
    ultimately show ?thesis
      using r by (intro exI [of _ ?n] exI [of _ r']) simp
  next
    case 3
    then obtain b c r' where r: "r = b # c # r'" "byte_in 128 191 c" "utf8_valid r'"
        "byte_in (if ?a = 224 then 160 else 128) (if ?a = 237 then 159 else 191) b"
      using assms by (auto simp: Let_def split: list.splits if_splits)
    let ?n = "64 * (64 * (?a - 224) + (of_char b - 128)) + (of_char c - 128) :: nat"
    have "2048 \<le> ?n" "scalar_value ?n"
      using 3 r(2,4) by (auto simp: byte_in_def scalar_value_def split: if_splits)
    moreover have "128 \<le> (of_char b :: nat)" "of_char b \<le> (191 :: nat)"
      using r(4) by (auto simp: byte_in_def split: if_splits)
    then have "of_char c - (128 :: nat) < 64" "of_char b - (128 :: nat) < 64" "?a - 224 < 16"
      "224 + (?a - 224) = ?a" "128 + (of_char b - 128) = (of_char b :: nat)"
      "128 + (of_char c - 128) = (of_char c :: nat)"
      using 3 r(2) unfolding byte_in_def by linarith+
    ultimately have "utf8_bytes ?n = [?a, of_char b, of_char c]"
      using utf8_bytes_split(2) [of "of_char c - 128" "of_char b - 128" "?a - 224"] by metis
    with \<open>scalar_value ?n\<close> show ?thesis
      using r by (intro exI [of _ ?n] exI [of _ r']) simp
  next
    case 4
    then obtain b c d r' where r: "r = b # c # d # r'" "byte_in 128 191 c" "byte_in 128 191 d" "utf8_valid r'"
        "byte_in (if ?a = 240 then 144 else 128) (if ?a = 244 then 143 else 191) b"
      using assms by (auto simp: Let_def split: list.splits if_splits)
    let ?n = "64 * (64 * (64 * (?a - 240) + (of_char b - 128)) + (of_char c - 128)) + (of_char d - 128) :: nat"
    have "65536 \<le> ?n" "scalar_value ?n"
      using 4 r(2,3,5) by (auto simp: byte_in_def scalar_value_def split: if_splits)
    moreover have "128 \<le> (of_char b :: nat)" "of_char b \<le> (191 :: nat)"
      using r(5) by (auto simp: byte_in_def split: if_splits)
    then have "of_char d - (128 :: nat) < 64" "of_char c - (128 :: nat) < 64" "of_char b - (128 :: nat) < 64"
      "240 + (?a - 240) = ?a" "128 + (of_char b - 128) = (of_char b :: nat)"
      "128 + (of_char c - 128) = (of_char c :: nat)" "128 + (of_char d - 128) = (of_char d :: nat)"
      using 4 r(2,3) unfolding byte_in_def by linarith+
    ultimately have "utf8_bytes ?n = [?a, of_char b, of_char c, of_char d]"
      using utf8_bytes_split(3) [of "of_char d - 128" "of_char c - 128" "of_char b - 128" "?a - 240"] by metis
    with \<open>scalar_value ?n\<close> show ?thesis
      using r by (intro exI [of _ ?n] exI [of _ r']) simp
  qed
qed

lemma utf8_valid_iff: "utf8_valid bs \<longleftrightarrow> (\<exists>ns. list_all scalar_value ns \<and> bs = utf8_encode ns)"
proof
  show "\<exists>ns. list_all scalar_value ns \<and> bs = utf8_encode ns" if "utf8_valid bs"
    using that
  proof (induction "length bs" arbitrary: bs rule: less_induct)
    case less
    show ?case
    proof (cases bs)
      case Nil
      then show ?thesis by (intro exI [of _ "[]"]) simp
    next
      case (Cons a r)
      with less.prems obtain n r' where *: "scalar_value n" "bs = map char_of (utf8_bytes n) @ r'"
          "utf8_valid r'" "length r' \<le> length r"
        using utf8_step by metis
      then have "length r' < length bs" using Cons by (simp add: utf8_bytes_def split: if_splits)
      from less.hyps [OF this *(3)] obtain ns where "list_all scalar_value ns" "r' = utf8_encode ns" by blast
      with * show ?thesis by (intro exI [of _ "n # ns"]) (simp del: utf8_valid.simps)
    qed
  qed
  have "utf8_valid (utf8_encode ns)" if "list_all scalar_value ns" for ns
    using that by (induction ns) (simp_all add: utf8_valid_bytes)
  then show "utf8_valid bs" if "\<exists>ns. list_all scalar_value ns \<and> bs = utf8_encode ns"
    using that by blast
qed

definition ENC_JSON :: string where
  "ENC_JSON = ''json''"

definition ENC_TEXT :: string where
  "ENC_TEXT = ''text''"

definition ENC_BASE64 :: string where
  "ENC_BASE64 = ''base64''"

definition event_body :: "(string \<Rightarrow> json option) \<Rightarrow> (string \<Rightarrow> string) \<Rightarrow> string \<Rightarrow> json \<times> string" where
  "event_body from_slice b64_encode bs =
     (case from_slice bs of
        Some val \<Rightarrow> (val, ENC_JSON)
      | None \<Rightarrow>
          if utf8_valid bs then (JString bs, ENC_TEXT)
          else (JString (b64_encode bs), ENC_BASE64))"

lemma enc_distinct [simp]: "ENC_JSON \<noteq> ENC_TEXT" "ENC_TEXT \<noteq> ENC_JSON" "ENC_JSON \<noteq> ENC_BASE64"
    "ENC_BASE64 \<noteq> ENC_JSON" "ENC_TEXT \<noteq> ENC_BASE64" "ENC_BASE64 \<noteq> ENC_TEXT"
  by (simp_all add: ENC_JSON_def ENC_TEXT_def ENC_BASE64_def)

text \<open>
  How a reader takes the event data apart: the encoding beside the value says whether it is
  the JSON of the body, its text, or the base64 form of its bytes.
\<close>

datatype message_body = JsonBody json | ByteBody string

definition body_read :: "(string \<Rightarrow> string option) \<Rightarrow> json \<times> string \<Rightarrow> message_body option" where
  "body_read b64_decode vt =
     (if snd vt = ''json'' then Some (JsonBody (fst vt))
      else (case fst vt of
          JString s \<Rightarrow>
            if snd vt = ''text'' then Some (ByteBody s)
            else if snd vt = ''base64'' then map_option ByteBody (b64_decode s)
            else None
        | _ \<Rightarrow> None))"

lemma event_body_cases:
  "event_body from_slice b64_encode b =
     (case from_slice b of
        Some v \<Rightarrow> (v, ''json'')
      | None \<Rightarrow>
          if b \<in> utf8_encode ` {ns. list_all scalar_value ns} then (JString b, ''text'')
          else (JString (b64_encode b), ''base64''))"
  by (auto simp: event_body_def utf8_valid_iff ENC_JSON_def ENC_TEXT_def ENC_BASE64_def split: option.split)

lemma body_read_event_body:
  assumes "\<And>x. b64_decode (b64_encode x) = Some x"
  shows "body_read b64_decode (event_body from_slice b64_encode b) =
    Some (case from_slice b of Some v \<Rightarrow> JsonBody v | None \<Rightarrow> ByteBody b)"
  by (auto simp: event_body_cases body_read_def assms split: option.split)

text \<open>
  C37: The event data of a message body says how to read it back, and reading it back gives
  what the body held: a body that parses as JSON is its parsed value, tagged \<open>json\<close>; any other
  body that is the UTF-8 encoding of a sequence of Unicode scalar values is its text, tagged
  \<open>text\<close>; the rest is base64, tagged \<open>base64\<close>. So the bytes of a text or a binary body are
  recovered exactly, and of a JSON body its value but not the way it was written: two bodies
  become the same event data only if they are the same bytes or two texts of one JSON value.
\<close>

theorem event_body_exact:
  assumes "\<And>x. b64_decode (b64_encode x) = Some x"
  shows "body_read b64_decode (event_body from_slice b64_encode b) =
      Some (case from_slice b of Some v \<Rightarrow> JsonBody v | None \<Rightarrow> ByteBody b) \<and>
    event_body from_slice b64_encode b =
      (case from_slice b of
         Some v \<Rightarrow> (v, ''json'')
       | None \<Rightarrow>
           if b \<in> utf8_encode ` {ns. list_all scalar_value ns} then (JString b, ''text'')
           else (JString (b64_encode b), ''base64'')) \<and>
    (event_body from_slice b64_encode b = event_body from_slice b64_encode b' \<longleftrightarrow>
      b = b' \<or> (from_slice b \<noteq> None \<and> from_slice b = from_slice b'))"
proof -
  note read = body_read_event_body [of b64_decode b64_encode from_slice, OF assms]
  have "event_body from_slice b64_encode b = event_body from_slice b64_encode b' \<longleftrightarrow>
      b = b' \<or> (from_slice b \<noteq> None \<and> from_slice b = from_slice b')"
  proof
    assume "event_body from_slice b64_encode b = event_body from_slice b64_encode b'"
    from arg_cong [OF this, of "body_read b64_decode"]
    have "(case from_slice b of Some v \<Rightarrow> JsonBody v | None \<Rightarrow> ByteBody b) =
        (case from_slice b' of Some v \<Rightarrow> JsonBody v | None \<Rightarrow> ByteBody b')"
      unfolding read by (rule option.inject [THEN iffD1])
    then show "b = b' \<or> (from_slice b \<noteq> None \<and> from_slice b = from_slice b')"
      by (auto split: option.splits)
  next
    assume "b = b' \<or> (from_slice b \<noteq> None \<and> from_slice b = from_slice b')"
    then show "event_body from_slice b64_encode b = event_body from_slice b64_encode b'"
      by (elim disjE conjE) (auto simp: event_body_def split: option.split)
  qed
  from conjI [OF read [of b] conjI [OF event_body_cases this]] show ?thesis .
qed

theorem event_body_exact_witness:
  "event_body (\<lambda>b. if b = ''1'' then Some (JNumber (PosInt 1)) else None) rev [CHR 0xC3, CHR 0xA9] =
     (JString [CHR 0xC3, CHR 0xA9], ''text'')"
proof -
  let ?p = "\<lambda>b. if b = ''1'' then Some (JNumber (PosInt 1)) else None"
  have "utf8_encode [0xE9] = [CHR 0xC3, CHR 0xA9]" by code_simp
  then have "[CHR 0xC3, CHR 0xA9] \<in> utf8_encode ` {ns. list_all scalar_value ns}"
    by (intro image_eqI [of _ _ "[0xE9]"]) (simp_all add: scalar_value_def)
  then show ?thesis
    using event_body_exact [of "\<lambda>s. Some (rev s)" rev ?p "[CHR 0xC3, CHR 0xA9]"] by simp
qed

end
