(* ===== verification/Content.thy ===== *)
theory Content
  imports Json
begin

section \<open>Stored content and wire bytes\<close>

text \<open>
  \<open>src/src/content_store.rs\<close>, the types and errors of the content store, and
  \<open>src/src/wire_bytes.rs\<close>, bytes that travel as an array of numbers or as base64 text. A
  date is a value of the calendar crate, whose text forms are arguments. The base64 codec is an encoder and a decoder
  that are arguments.
\<close>

subsection \<open>Content\<close>

record content_to_store =
  cts_bytes :: bytes
  cts_mime_type :: string
  cts_alias :: "string option"
  cts_session_id :: "string option"
  cts_tenant_id :: "string option"
  cts_ttl :: "duration option"

record 't resource_handle =
  rh_id :: string
  rh_uri :: string
  rh_size_bytes :: u64
  rh_mime_type :: string
  rh_expires_at :: "'t option"
  rh_content_hash :: string

record 't resource_content =
  rc_bytes :: bytes
  rc_mime_type :: string
  rc_session_id :: "string option"
  rc_tenant_id :: "string option"
  rc_stored_at :: 't
  rc_expires_at :: "'t option"

text \<open>
  The calendar crate writes a time as text and may refuse a text; both directions are
  arguments of the codecs of the two types that carry times.
\<close>

definition de_time :: "(string \<Rightarrow> 't option) \<Rightarrow> json \<Rightarrow> de_error + 't" where
  "de_time parse_time v = res_bind (de_string v) (\<lambda>s.
     case parse_time s of Some t \<Rightarrow> Inr t | None \<Rightarrow> Inl WrongType)"

definition encode_resource_handle :: "('t \<Rightarrow> string) \<Rightarrow> 't resource_handle \<Rightarrow> json" where
  "encode_resource_handle show_time x = JObject (fields_map
     [(''id'', Some (JString (rh_id x))),
      (''uri'', Some (JString (rh_uri x))),
      (''size_bytes'', Some (en_u64 (rh_size_bytes x))),
      (''mime_type'', Some (JString (rh_mime_type x))),
      (''expires_at'', map_option (\<lambda>t. JString (show_time t)) (rh_expires_at x)),
      (''content_hash'', Some (JString (rh_content_hash x)))])"

definition decode_resource_handle :: "(string \<Rightarrow> 't option) \<Rightarrow> json \<Rightarrow> de_error + 't resource_handle" where
  "decode_resource_handle parse_time v = res_bind (de_object v) (\<lambda>m.
     res_bind (de_field m ''id'' de_string) (\<lambda>ident.
     res_bind (de_field m ''uri'' de_string) (\<lambda>uri.
     res_bind (de_field m ''size_bytes'' de_u64) (\<lambda>size_bytes.
     res_bind (de_field m ''mime_type'' de_string) (\<lambda>mime_type.
     res_bind (de_opt m ''expires_at'' (de_time parse_time)) (\<lambda>expires_at.
     res_bind (de_field m ''content_hash'' de_string) (\<lambda>content_hash.
       Inr \<lparr>rh_id = ident, rh_uri = uri, rh_size_bytes = size_bytes, rh_mime_type = mime_type,
         rh_expires_at = expires_at, rh_content_hash = content_hash\<rparr>)))))))"

definition encode_resource_content :: "('t \<Rightarrow> string) \<Rightarrow> 't resource_content \<Rightarrow> json" where
  "encode_resource_content show_time x = JObject (fields_map
     [(''bytes'', Some (vec en_uint (rc_bytes x))),
      (''mime_type'', Some (JString (rc_mime_type x))),
      (''session_id'', Some (opt_null JString (rc_session_id x))),
      (''tenant_id'', Some (opt_null JString (rc_tenant_id x))),
      (''stored_at'', Some (JString (show_time (rc_stored_at x)))),
      (''expires_at'', Some (opt_null (\<lambda>t. JString (show_time t)) (rc_expires_at x)))])"

definition decode_resource_content :: "(string \<Rightarrow> 't option) \<Rightarrow> json \<Rightarrow> de_error + 't resource_content" where
  "decode_resource_content parse_time v = res_bind (de_object v) (\<lambda>m.
     res_bind (de_field m ''bytes'' (de_vec de_uint)) (\<lambda>bs.
     res_bind (de_field m ''mime_type'' de_string) (\<lambda>mime_type.
     res_bind (de_opt m ''session_id'' de_string) (\<lambda>session_id.
     res_bind (de_opt m ''tenant_id'' de_string) (\<lambda>tenant_id.
     res_bind (de_field m ''stored_at'' (de_time parse_time)) (\<lambda>stored_at.
     res_bind (de_opt m ''expires_at'' (de_time parse_time)) (\<lambda>expires_at.
       Inr \<lparr>rc_bytes = bs, rc_mime_type = mime_type, rc_session_id = session_id, rc_tenant_id = tenant_id,
         rc_stored_at = stored_at, rc_expires_at = expires_at\<rparr>)))))))"

text \<open>
  A handle and a stored blob cross unchanged, times included, when the calendar crate reads
  back the times it writes; a handle without an expiry has no such entry on the wire.
\<close>

theorem resource_roundtrip:
  assumes "\<And>t. parse_time (show_time t) = Some t"
  shows "decode_resource_handle parse_time (encode_resource_handle show_time h) = Inr h \<and>
    decode_resource_content parse_time (encode_resource_content show_time c) = Inr c"
proof -
  have time: "de_time parse_time (JString (show_time t)) = Inr t" for t
    by (simp add: de_time_def assms)
  have opt: "opt_value (map_option (\<lambda>t. JString (show_time t)) x) None (de_option (de_time parse_time)) = Inr x"
      "de_option (de_time parse_time) (opt_null (\<lambda>t. JString (show_time t)) x) = Inr x" for x
    by (rule opt_value_opt de_option_opt_null; simp add: time)+
  show ?thesis
    by (simp add: encode_resource_handle_def decode_resource_handle_def encode_resource_content_def
        decode_resource_content_def codec_simps time opt)
qed

record content_store_stats =
  css_item_count :: u64
  css_byte_count :: u64
  css_max_bytes :: u64

definition encode_content_store_stats :: "content_store_stats \<Rightarrow> json" where
  "encode_content_store_stats x = JObject (fields_map
     [(''item_count'', Some (en_u64 (css_item_count x))),
      (''byte_count'', Some (en_u64 (css_byte_count x))),
      (''max_bytes'', Some (en_u64 (css_max_bytes x)))])"

definition decode_content_store_stats :: "json \<Rightarrow> de_error + content_store_stats" where
  "decode_content_store_stats v = res_bind (de_object v) (\<lambda>m.
     res_bind (de_field m ''item_count'' de_u64) (\<lambda>item_count.
     res_bind (de_field m ''byte_count'' de_u64) (\<lambda>byte_count.
     res_bind (de_field m ''max_bytes'' de_u64) (\<lambda>max_bytes.
       Inr \<lparr>css_item_count = item_count, css_byte_count = byte_count, css_max_bytes = max_bytes\<rparr>))))"

interpretation content_store_stats_codec: codec encode_content_store_stats decode_content_store_stats "\<lambda>_. True"
  by unfold_locales (simp_all add: encode_content_store_stats_def decode_content_store_stats_def codec_simps)

declare content_store_stats_codec.roundtrip [simp] content_store_stats_codec.nonnull [simp]

text \<open>A \<open>Duration\<close> is written as its whole seconds and the nanoseconds beyond them; the
  decoder carries full seconds over and refuses what does not fit.\<close>

definition encode_duration :: "duration \<Rightarrow> json" where
  "encode_duration d = JObject (fields_map
     [(''secs'', Some (en_u64 (of_nat (d div 10 ^ 9)))),
      (''nanos'', Some (en_uint (of_nat (d mod 10 ^ 9) :: u32)))])"

definition decode_duration :: "json \<Rightarrow> de_error + duration" where
  "decode_duration v = res_bind (de_object v) (\<lambda>m.
     res_bind (de_field m ''secs'' de_u64) (\<lambda>secs.
     res_bind (de_field m ''nanos'' de_uint) (\<lambda>nanos.
       let d = unat secs * 10 ^ 9 + unat (nanos :: u32)
       in if d < 2 ^ 64 * 10 ^ 9 then Inr d else Inl WrongType)))"

text \<open>The values of the type: 64 bits of seconds.\<close>

definition duration_ok :: "duration \<Rightarrow> bool" where
  "duration_ok d \<longleftrightarrow> d < 2 ^ 64 * 10 ^ 9"

interpretation duration_codec: codec encode_duration decode_duration duration_ok
proof unfold_locales
  fix d
  assume ok: "duration_ok d"
  then have "d div 10 ^ 9 < 2 ^ 64" by (simp add: duration_ok_def less_mult_imp_div_less)
  then have secs: "unat (of_nat (d div 10 ^ 9) :: u64) = d div 10 ^ 9"
    by (simp add: unsigned_of_nat take_bit_nat_eq_self)
  have "d mod 10 ^ 9 < 10 ^ 9" by (rule mod_less_divisor) simp
  then have "d mod 10 ^ 9 < 2 ^ 32" by (rule order.strict_trans) simp
  then have nanos: "unat (of_nat (d mod 10 ^ 9) :: u32) = d mod 10 ^ 9"
    by (simp add: unsigned_of_nat take_bit_nat_eq_self)
  have "unat (of_nat (d div 10 ^ 9) :: u64) * 10 ^ 9 + unat (of_nat (d mod 10 ^ 9) :: u32) = d"
    unfolding secs nanos by (rule div_mult_mod_eq)
  with ok show "decode_duration (encode_duration d) = Inr d"
    by (simp add: decode_duration_def encode_duration_def codec_simps duration_ok_def)
next
  fix d show "encode_duration d \<noteq> JNull" by (simp add: encode_duration_def)
qed

definition encode_content_to_store :: "content_to_store \<Rightarrow> json" where
  "encode_content_to_store x = JObject (fields_map
     [(''bytes'', Some (vec en_uint (cts_bytes x))),
      (''mime_type'', Some (JString (cts_mime_type x))),
      (''alias'', Some (opt_null JString (cts_alias x))),
      (''session_id'', Some (opt_null JString (cts_session_id x))),
      (''tenant_id'', Some (opt_null JString (cts_tenant_id x))),
      (''ttl'', Some (opt_null encode_duration (cts_ttl x)))])"

definition decode_content_to_store :: "json \<Rightarrow> de_error + content_to_store" where
  "decode_content_to_store v = res_bind (de_object v) (\<lambda>m.
     res_bind (de_field m ''bytes'' (de_vec de_uint)) (\<lambda>bs.
     res_bind (de_field m ''mime_type'' de_string) (\<lambda>mime_type.
     res_bind (de_opt m ''alias'' de_string) (\<lambda>als.
     res_bind (de_opt m ''session_id'' de_string) (\<lambda>session_id.
     res_bind (de_opt m ''tenant_id'' de_string) (\<lambda>tenant_id.
     res_bind (de_opt m ''ttl'' decode_duration) (\<lambda>ttl.
       Inr \<lparr>cts_bytes = bs, cts_mime_type = mime_type, cts_alias = als, cts_session_id = session_id,
         cts_tenant_id = tenant_id, cts_ttl = ttl\<rparr>)))))))"

interpretation content_to_store_codec: codec encode_content_to_store decode_content_to_store
    "\<lambda>x. pred_option duration_ok (cts_ttl x)"
  by unfold_locales
    (simp_all add: encode_content_to_store_def decode_content_to_store_def codec_simps
      duration_codec.null_roundtrip)

definition sweep_expired_default :: nat where
  "sweep_expired_default = 0"

subsection \<open>Errors\<close>

datatype content_store_error =
    SizeLimit u64 u64
  | Storage string
  | SignedUrlNotSupported
  | Forbidden
  | NotFound

fun kind_label_content_store_error :: "content_store_error \<Rightarrow> string" where
  "kind_label_content_store_error (SizeLimit _ _) = ''size_limit''"
| "kind_label_content_store_error (Storage _) = ''storage''"
| "kind_label_content_store_error SignedUrlNotSupported = ''signed_url_not_supported''"
| "kind_label_content_store_error Forbidden = ''forbidden''"
| "kind_label_content_store_error NotFound = ''not_found''"

fun display_content_store_error :: "content_store_error \<Rightarrow> string" where
  "display_content_store_error (SizeLimit limit_bytes actual_bytes) =
     ''content too large: '' @ show_nat (unat actual_bytes) @ '' bytes exceeds limit of '' @ show_nat (unat limit_bytes)"
| "display_content_store_error (Storage message) = ''storage error: '' @ message"
| "display_content_store_error SignedUrlNotSupported = ''signed urls are not supported by this store''"
| "display_content_store_error Forbidden = ''forbidden''"
| "display_content_store_error NotFound = ''not found''"

text \<open>This enum has no tag attribute: a variant with fields is an object with one key, its
  name, and a variant without is its name.\<close>

fun encode_content_store_error :: "content_store_error \<Rightarrow> json" where
  "encode_content_store_error (SizeLimit limit_bytes actual_bytes) = JObject (fields_map
     [(''SizeLimit'', Some (JObject (fields_map
        [(''limit_bytes'', Some (en_u64 limit_bytes)), (''actual_bytes'', Some (en_u64 actual_bytes))])))])"
| "encode_content_store_error (Storage message) = JObject (fields_map
     [(''Storage'', Some (JObject (fields_map [(''message'', Some (JString message))])))])"
| "encode_content_store_error SignedUrlNotSupported = JString ''SignedUrlNotSupported''"
| "encode_content_store_error Forbidden = JString ''Forbidden''"
| "encode_content_store_error NotFound = JString ''NotFound''"

definition decode_content_store_error :: "json \<Rightarrow> de_error + content_store_error" where
  "decode_content_store_error v = (case v of
      JString t \<Rightarrow>
        if t = ''SignedUrlNotSupported'' then Inr SignedUrlNotSupported
        else if t = ''Forbidden'' then Inr Forbidden
        else if t = ''NotFound'' then Inr NotFound
        else Inl (UnknownVariant t)
    | JObject [(t, x)] \<Rightarrow>
        if t = ''SizeLimit'' then
          res_bind (de_object x) (\<lambda>m.
          res_bind (de_field m ''limit_bytes'' de_u64) (\<lambda>l.
          res_bind (de_field m ''actual_bytes'' de_u64) (\<lambda>a. Inr (SizeLimit l a))))
        else if t = ''Storage'' then
          res_bind (de_object x) (\<lambda>m. res_bind (de_field m ''message'' de_string) (\<lambda>s. Inr (Storage s)))
        else Inl (UnknownVariant t)
    | _ \<Rightarrow> Inl WrongType)"

interpretation content_store_error_codec: codec encode_content_store_error decode_content_store_error "\<lambda>_. True"
proof unfold_locales
  fix e
  have one: "fields_map [(k, Some x)] = [(k, x)]" for k x
    by (simp add: fields_map_def bt_collect_def)
  show "decode_content_store_error (encode_content_store_error e) = Inr e"
    by (cases e) (simp_all add: decode_content_store_error_def one codec_simps)
next
  fix e show "encode_content_store_error e \<noteq> JNull" by (cases e) simp_all
qed

text \<open>
  Content put through the boundary arrives with its bytes, owner and time to live, to the
  nanosecond, for every time to live a \<open>Duration\<close> can hold, and the store's errors come back
  as the exact variant. The durations the decoder yields are again ones a \<open>Duration\<close> can
  hold: carrying excess nanoseconds into the seconds never overflows silently.
\<close>

theorem content_roundtrip:
  assumes "pred_option duration_ok (cts_ttl x)"
  shows "decode_content_to_store (encode_content_to_store x) = Inr x \<and>
    decode_content_store_error (encode_content_store_error e) = Inr e \<and>
    decode_content_store_stats (encode_content_store_stats s) = Inr s \<and>
    (decode_duration v = Inr d \<longrightarrow> duration_ok d)"
  using content_to_store_codec.roundtrip [OF assms] content_store_error_codec.roundtrip
  by (auto simp: decode_duration_def duration_ok_def res_bind_Inr Let_def split: if_splits)

theorem content_roundtrip_witness:
  "decode_content_to_store (encode_content_to_store
      \<lparr>cts_bytes = [1, 255], cts_mime_type = ''image/png'', cts_alias = None, cts_session_id = Some ''s'',
       cts_tenant_id = None, cts_ttl = Some 1500000000\<rparr>) =
    Inr \<lparr>cts_bytes = [1, 255], cts_mime_type = ''image/png'', cts_alias = None, cts_session_id = Some ''s'',
       cts_tenant_id = None, cts_ttl = Some 1500000000\<rparr>"
  using content_roundtrip [of "\<lparr>cts_bytes = [1, 255], cts_mime_type = ''image/png'', cts_alias = None,
    cts_session_id = Some ''s'', cts_tenant_id = None, cts_ttl = Some 1500000000\<rparr>"]
  by (simp add: duration_ok_def)

subsection \<open>Wire bytes\<close>

record wire_bytes =
  wb_bytes :: bytes
  wb_base64 :: bool

definition new_wire_bytes :: "bytes \<Rightarrow> bool \<Rightarrow> wire_bytes" where
  "new_wire_bytes bs base64 = \<lparr>wb_bytes = bs, wb_base64 = base64\<rparr>"

definition encode_wire_bytes :: "(bytes \<Rightarrow> string) \<Rightarrow> wire_bytes \<Rightarrow> json" where
  "encode_wire_bytes b64_encode x =
     (if wb_base64 x then JString (b64_encode (wb_bytes x)) else vec en_uint (wb_bytes x))"

definition decode_wire_bytes :: "(string \<Rightarrow> de_error + bytes) \<Rightarrow> json \<Rightarrow> de_error + wire_bytes" where
  "decode_wire_bytes b64_decode v = (case v of
      JString encoded \<Rightarrow> res_bind (b64_decode encoded) (\<lambda>bs. Inr (new_wire_bytes bs True))
    | JArray xs \<Rightarrow> res_bind (de_vec de_uint (JArray xs)) (\<lambda>bs. Inr (new_wire_bytes bs False))
    | _ \<Rightarrow> Inl WrongType)"

text \<open>
  Bytes come back as they were sent, in the form they were sent in, so a peer can answer
  in the form it was addressed in. The array form is exactly the arrays of numbers below 256
  and never depends on the base64 codec.
\<close>

theorem wire_bytes_roundtrip:
  assumes "b64_decode (b64_encode (wb_bytes x)) = Inr (wb_bytes x)"
  shows "decode_wire_bytes b64_decode (encode_wire_bytes b64_encode x) = Inr x \<and>
    (\<exists>bs. decode_wire_bytes b64_decode (JArray [JNumber (PosInt n)]) = Inr \<lparr>wb_bytes = bs, wb_base64 = False\<rparr>)
      = (n < 256)"
proof -
  have "vec en_uint (wb_bytes x) = JArray (map en_uint (wb_bytes x))" by (simp add: vec_def)
  moreover from this have "de_vec de_uint (JArray (map en_uint (wb_bytes x))) = Inr (wb_bytes x)"
    using de_vec_vec [of "wb_bytes x" de_uint en_uint] by simp
  ultimately have "decode_wire_bytes b64_decode (encode_wire_bytes b64_encode x) = Inr x"
    using assms by (simp add: decode_wire_bytes_def encode_wire_bytes_def new_wire_bytes_def)
  moreover have "unat n < 256 \<longleftrightarrow> n < 256" by (simp add: word_less_nat_alt)
  ultimately show ?thesis
    by (simp add: decode_wire_bytes_def new_wire_bytes_def de_vec_def de_uint_def de_u64_def)
qed

theorem wire_bytes_roundtrip_witness:
  "decode_wire_bytes (\<lambda>s. Inr (map (\<lambda>c. of_nat (of_char c)) s))
     (encode_wire_bytes (map (\<lambda>b. char_of (unat b))) \<lparr>wb_bytes = [104, 105], wb_base64 = True\<rparr>) =
     Inr \<lparr>wb_bytes = [104, 105], wb_base64 = True\<rparr>"
  using wire_bytes_roundtrip [of "\<lambda>s. Inr (map (\<lambda>c. of_nat (of_char c)) s)" "map (\<lambda>b. char_of (unat b))"
    "\<lparr>wb_bytes = [104, 105], wb_base64 = True\<rparr>"]
  by simp

end
