(* ===== verification/Abi.thy ===== *)
theory Abi
  imports Types
begin

section \<open>The C side of the boundary\<close>

text \<open>
  \<open>src/src/abi.rs\<close>, the types with a stable layout and their conversions from and to the
  types of \<open>src/src/types.rs\<close>. The strings, options and vectors of the layout crate are
  strings, options and lists. A JSON value crosses as text: the printer \<open>to_text\<close> and the
  parser \<open>from_text\<close> of the JSON crate are arguments of the conversions that use them;
  printing a value never fails.
\<close>

definition MCPG_PLUGIN_ABI_VERSION :: u32 where
  "MCPG_PLUGIN_ABI_VERSION = 1"

subsection \<open>Types\<close>

record r_key_value =
  kv_key :: string
  kv_value :: string

record r_plugin_identity =
  rpi_kind :: string
  rpi_trust_level :: string
  rpi_subject_id :: "string option"
  rpi_auth_provider :: "string option"
  rpi_issuer :: "string option"
  rpi_roles :: "string list"
  rpi_groups :: "string list"
  rpi_scopes :: "string list"
  rpi_attributes :: "r_key_value list"

record r_plugin_context =
  rpc_request_id :: string
  rpc_session_id :: "string option"
  rpc_tool_name :: string
  rpc_surface :: string
  rpc_identity :: r_plugin_identity
  rpc_transport :: string

datatype r_gate_decision =
    RAllow "string option" "string option" "string option"
  | RDeny u16 i32 string "string option"
  | RChallenge u16 i32 string string
  | RPendingApproval string string string string string

datatype r_transform_result = RUnchanged | RModified string | RError string

datatype r_identity_resolution =
    RResolved r_plugin_identity
  | RNone
  | RInvalid string "(string \<times> string) list"

subsection \<open>Identity and context\<close>

definition identity_to_abi :: "plugin_identity \<Rightarrow> r_plugin_identity" where
  "identity_to_abi src =
     \<lparr>rpi_kind = pi_kind src, rpi_trust_level = pi_trust_level src, rpi_subject_id = pi_subject_id src,
      rpi_auth_provider = pi_auth_provider src, rpi_issuer = pi_issuer src, rpi_roles = pi_roles src,
      rpi_groups = pi_groups src, rpi_scopes = pi_scopes src,
      rpi_attributes = map (\<lambda>(k, v). \<lparr>kv_key = k, kv_value = v\<rparr>) (pi_attributes src)\<rparr>"

definition identity_of_abi :: "r_plugin_identity \<Rightarrow> plugin_identity" where
  "identity_of_abi src =
     \<lparr>pi_kind = rpi_kind src, pi_trust_level = rpi_trust_level src, pi_subject_id = rpi_subject_id src,
      pi_auth_provider = rpi_auth_provider src, pi_issuer = rpi_issuer src, pi_roles = rpi_roles src,
      pi_groups = rpi_groups src, pi_scopes = rpi_scopes src,
      pi_attributes = bt_collect (map (\<lambda>kv. (kv_key kv, kv_value kv)) (rpi_attributes src))\<rparr>"

definition context_to_abi :: "plugin_context \<Rightarrow> r_plugin_context" where
  "context_to_abi src =
     \<lparr>rpc_request_id = pc_request_id src, rpc_session_id = pc_session_id src,
      rpc_tool_name = pc_tool_name src, rpc_surface = pc_surface src,
      rpc_identity = identity_to_abi (pc_identity src), rpc_transport = pc_transport src\<rparr>"

definition context_of_abi :: "r_plugin_context \<Rightarrow> plugin_context" where
  "context_of_abi src =
     \<lparr>pc_request_id = rpc_request_id src, pc_session_id = rpc_session_id src,
      pc_tool_name = rpc_tool_name src, pc_surface = rpc_surface src,
      pc_identity = identity_of_abi (rpc_identity src), pc_transport = rpc_transport src\<rparr>"

subsection \<open>Decisions\<close>

definition opt_parse :: "(string \<Rightarrow> json option) \<Rightarrow> string option \<Rightarrow> json option" where
  "opt_parse from_text s = Option.bind s from_text"

definition opt_enc :: "(json \<Rightarrow> string) \<Rightarrow> json option \<Rightarrow> string option" where
  "opt_enc to_text v = map_option to_text v"

fun gate_of_abi :: "(string \<Rightarrow> json option) \<Rightarrow> r_gate_decision \<Rightarrow> gate_decision" where
  "gate_of_abi from_text (RAllow modified_arguments_json modified_result_json metadata_json) =
     Allow (opt_parse from_text modified_arguments_json) (opt_parse from_text modified_result_json)
       (opt_parse from_text metadata_json)"
| "gate_of_abi from_text (RDeny http_status code message error_data_json) =
     Deny http_status code message (opt_parse from_text error_data_json)"
| "gate_of_abi from_text (RChallenge http_status code message challenge_data_json) =
     Challenge http_status code message
       (case from_text challenge_data_json of Some v \<Rightarrow> v | None \<Rightarrow> JNull)"
| "gate_of_abi from_text (RPendingApproval approval_id deadline_at summary target_notifiers_json metadata_json) =
     PendingApproval approval_id deadline_at summary
       (case Option.bind (from_text target_notifiers_json) (\<lambda>v. ok (de_vec de_string v)) of
          Some ns \<Rightarrow> ns | None \<Rightarrow> [])
       (opt_parse from_text (Some metadata_json))"

fun gate_to_abi :: "(json \<Rightarrow> string) \<Rightarrow> gate_decision \<Rightarrow> r_gate_decision" where
  "gate_to_abi to_text (Allow modified_arguments modified_result metadata) =
     RAllow (opt_enc to_text modified_arguments) (opt_enc to_text modified_result) (opt_enc to_text metadata)"
| "gate_to_abi to_text (Deny http_status code message error_data) =
     RDeny http_status code message (opt_enc to_text error_data)"
| "gate_to_abi to_text (Challenge http_status code message challenge_data) =
     RChallenge http_status code message (to_text challenge_data)"
| "gate_to_abi to_text (PendingApproval approval_id deadline_at summary target_notifiers metadata) =
     RPendingApproval approval_id deadline_at summary (to_text (json_strings target_notifiers))
       (to_text (opt_null (\<lambda>v. v) metadata))"

fun transform_of_abi :: "(string \<Rightarrow> json option) \<Rightarrow> r_transform_result \<Rightarrow> transform_result" where
  "transform_of_abi from_text RUnchanged = Unchanged"
| "transform_of_abi from_text (RModified value_json) =
     Modified (case from_text value_json of Some v \<Rightarrow> v | None \<Rightarrow> JNull)"
| "transform_of_abi from_text (RError message) = TransformError message"

fun transform_to_abi :: "(json \<Rightarrow> string) \<Rightarrow> transform_result \<Rightarrow> r_transform_result" where
  "transform_to_abi to_text Unchanged = RUnchanged"
| "transform_to_abi to_text (Modified val) = RModified (to_text val)"
| "transform_to_abi to_text (TransformError message) = RError message"

fun resolution_of_abi :: "r_identity_resolution \<Rightarrow> identity_resolution" where
  "resolution_of_abi (RResolved identity) = Resolved (identity_of_abi identity)"
| "resolution_of_abi RNone = NoIdentity"
| "resolution_of_abi (RInvalid reason response_headers) = InvalidIdentity reason response_headers"

fun resolution_to_abi :: "identity_resolution \<Rightarrow> r_identity_resolution" where
  "resolution_to_abi (Resolved identity) = RResolved (identity_to_abi identity)"
| "resolution_to_abi NoIdentity = RNone"
| "resolution_to_abi (InvalidIdentity reason response_headers) = RInvalid reason response_headers"

subsection \<open>Round trips\<close>

text \<open>Collecting the entries of a map in order rebuilds it.\<close>

lemma bt_collect_wf:
  assumes "bt_wf m"
  shows "bt_collect m = m"
proof (rule bt.get_extensional)
  have "distinct (map fst m)" using assms by (rule bt.distinct_keys)
  then have "map_of (rev m) = map_of m"
    by (simp add: map_of_inject_set rev_map [symmetric])
  then show "bt_get (bt_collect m) = bt_get m"
    by (simp only: fun_eq_iff bt_get_collect) (simp add: bt_get_def)
qed (use assms in \<open>auto simp: bt_wf_collect\<close>)

lemma identity_trip:
  "bt_wf (pi_attributes i) \<Longrightarrow> identity_of_abi (identity_to_abi i) = i"
  by (simp add: identity_of_abi_def identity_to_abi_def comp_def case_prod_unfold bt_collect_wf)

text \<open>
  The identity, the context and the outcome of identity resolution cross the C boundary
  unchanged; whatever the other side sends, the attributes that arrive form a map, in which
  the last of several entries for a key counts.
\<close>

theorem abi_context_roundtrip:
  assumes "bt_wf (pi_attributes i)" and "bt_wf (pi_attributes (pc_identity c))"
  shows "identity_of_abi (identity_to_abi i) = i \<and>
    context_of_abi (context_to_abi c) = c \<and>
    resolution_of_abi (resolution_to_abi (Resolved i)) = Resolved i \<and>
    resolution_of_abi (resolution_to_abi (InvalidIdentity reason hs)) = InvalidIdentity reason hs \<and>
    bt_wf (pi_attributes (identity_of_abi r)) \<and>
    bt_get (pi_attributes (identity_of_abi r)) k =
      map_of (rev (map (\<lambda>kv. (kv_key kv, kv_value kv)) (rpi_attributes r))) k"
  using assms
  by (simp add: identity_trip context_of_abi_def context_to_abi_def bt_wf_collect bt_get_collect
      identity_of_abi_def [of r])

definition sample_identity :: plugin_identity where
  "sample_identity =
     \<lparr>pi_kind = ''user'', pi_trust_level = ''verified'', pi_subject_id = Some ''u1'', pi_auth_provider = None,
      pi_issuer = None, pi_roles = [''admin''], pi_groups = [], pi_scopes = [],
      pi_attributes = [(''dept'', ''eng''), (''site'', ''x'')]\<rparr>"

theorem abi_context_roundtrip_witness:
  "identity_of_abi (identity_to_abi sample_identity) = sample_identity"
proof -
  have "bt_wf (pi_attributes sample_identity)" by (simp add: sample_identity_def bt_wf_def)
  then show ?thesis
    using abi_context_roundtrip [of sample_identity
        "\<lparr>pc_request_id = [], pc_session_id = None, pc_tool_name = [], pc_surface = [],
          pc_identity = sample_identity, pc_transport = []\<rparr>"] by simp
qed

text \<open>The JSON values a decision prints, and what the trip makes of it.\<close>

fun gate_values :: "gate_decision \<Rightarrow> json set" where
  "gate_values (Allow a r m) = set_option a \<union> set_option r \<union> set_option m"
| "gate_values (Deny _ _ _ d) = set_option d"
| "gate_values (Challenge _ _ _ d) = {d}"
| "gate_values (PendingApproval _ _ _ ns m) = {json_strings ns, opt_null (\<lambda>v. v) m}"

lemma opt_trip: "(\<And>v. x = Some v \<Longrightarrow> from_text (to_text v) = Some v) \<Longrightarrow>
    opt_parse from_text (opt_enc to_text x) = x"
  by (cases x) (simp_all add: opt_parse_def opt_enc_def)

text \<open>
  C18: A gate decision crosses the C boundary with its verdict, codes, messages and values,
  as far as the JSON crate reads back what it printed for them, with one exception: a
  pending approval without metadata arrives with metadata null, which is not absent.
\<close>

theorem abi_gate_roundtrip:
  assumes "\<And>v. v \<in> gate_values g \<Longrightarrow> from_text (to_text v) = Some v"
  shows "gate_of_abi from_text (gate_to_abi to_text g) =
    (case g of
       PendingApproval i d s ns None \<Rightarrow> PendingApproval i d s ns (Some JNull)
     | _ \<Rightarrow> g)"
proof (cases g)
  case (PendingApproval i d s ns m)
  then show ?thesis using assms by (cases m) (simp_all add: opt_parse_def opt_null_def)
qed (use assms in \<open>simp_all add: opt_trip\<close>)

definition sample_print :: "json \<Rightarrow> string" where
  "sample_print v = (if v = JNull then ''null'' else ''[]'')"

definition sample_parse :: "string \<Rightarrow> json option" where
  "sample_parse s = (if s = ''null'' then Some JNull else if s = ''[]'' then Some (JArray []) else None)"

theorem abi_gate_roundtrip_witness:
  "gate_of_abi sample_parse (gate_to_abi sample_print (PendingApproval ''a'' ''t'' ''s'' [] None)) =
   PendingApproval ''a'' ''t'' ''s'' [] (Some JNull)"
proof -
  let ?g = "PendingApproval ''a'' ''t'' ''s'' [] None"
  have "sample_parse (sample_print v) = Some v" if "v \<in> gate_values ?g" for v
    using that by (auto simp: sample_parse_def sample_print_def json_strings_def opt_null_def)
  then have "gate_of_abi sample_parse (gate_to_abi sample_print ?g) =
      (case ?g of PendingApproval i d s ns None \<Rightarrow> PendingApproval i d s ns (Some JNull) | _ \<Rightarrow> ?g)"
    by (rule abi_gate_roundtrip)
  then show ?thesis by (simp only: gate_decision.case option.case)
qed

text \<open>
  What a value of the boundary decides, apart from the JSON it carries: read off the types on
  either side, independently of the conversions.
\<close>

datatype verdict =
    AllowCall
  | DenyCall u16 i32 string
  | ChallengeCall u16 i32 string
  | AwaitApproval string string string
  | KeepPayload
  | ReplacePayload
  | FailPayload string
  | Authenticated
  | Anonymous
  | RejectCaller string "(string \<times> string) list"

fun gate_verdict :: "gate_decision \<Rightarrow> verdict" where
  "gate_verdict (Allow _ _ _) = AllowCall"
| "gate_verdict (Deny st code msg _) = DenyCall st code msg"
| "gate_verdict (Challenge st code msg _) = ChallengeCall st code msg"
| "gate_verdict (PendingApproval i d s _ _) = AwaitApproval i d s"

fun r_gate_verdict :: "r_gate_decision \<Rightarrow> verdict" where
  "r_gate_verdict (RAllow _ _ _) = AllowCall"
| "r_gate_verdict (RDeny st code msg _) = DenyCall st code msg"
| "r_gate_verdict (RChallenge st code msg _) = ChallengeCall st code msg"
| "r_gate_verdict (RPendingApproval i d s _ _) = AwaitApproval i d s"

fun transform_verdict :: "transform_result \<Rightarrow> verdict" where
  "transform_verdict Unchanged = KeepPayload"
| "transform_verdict (Modified _) = ReplacePayload"
| "transform_verdict (TransformError msg) = FailPayload msg"

fun r_transform_verdict :: "r_transform_result \<Rightarrow> verdict" where
  "r_transform_verdict RUnchanged = KeepPayload"
| "r_transform_verdict (RModified _) = ReplacePayload"
| "r_transform_verdict (RError msg) = FailPayload msg"

fun resolution_verdict :: "identity_resolution \<Rightarrow> verdict" where
  "resolution_verdict (Resolved _) = Authenticated"
| "resolution_verdict NoIdentity = Anonymous"
| "resolution_verdict (InvalidIdentity reason hs) = RejectCaller reason hs"

fun r_resolution_verdict :: "r_identity_resolution \<Rightarrow> verdict" where
  "r_resolution_verdict (RResolved _) = Authenticated"
| "r_resolution_verdict RNone = Anonymous"
| "r_resolution_verdict (RInvalid reason hs) = RejectCaller reason hs"

lemma gate_verdict_of_abi: "gate_verdict (gate_of_abi from_text r) = r_gate_verdict r"
  by (cases r) simp_all

lemma gate_verdict_to_abi: "r_gate_verdict (gate_to_abi to_text g) = gate_verdict g"
  by (cases g) simp_all

lemma transform_verdict_of_abi: "transform_verdict (transform_of_abi from_text t) = r_transform_verdict t"
  by (cases t) simp_all

lemma transform_verdict_to_abi: "r_transform_verdict (transform_to_abi to_text t) = transform_verdict t"
  by (cases t) simp_all

lemma resolution_verdict_of_abi: "resolution_verdict (resolution_of_abi i) = r_resolution_verdict i"
  by (cases i) simp_all

lemma resolution_verdict_to_abi: "r_resolution_verdict (resolution_to_abi i) = resolution_verdict i"
  by (cases i) simp_all

lemmas verdict_conversions =
  gate_verdict_of_abi gate_verdict_to_abi transform_verdict_of_abi transform_verdict_to_abi
  resolution_verdict_of_abi resolution_verdict_to_abi


end
