(* ===== verification/Abi_Vtables.thy ===== *)
theory Abi_Vtables
  imports Abi
begin

section \<open>Tables of functions\<close>

text \<open>
  \<open>src/src/abi.rs\<close>: the structs that cross the boundary around a call, and the tables of C
  functions by which host and plugin call each other, one per entity kind.

  A slot takes the arguments of its C function, in their order, and is a step on the memory
  \<open>'w\<close> it works on, which the types leave open: it returns its result and the memory after the
  call. Owned and borrowed strings are strings, a raw handle is a machine word. A host handle
  holds the table of host services, whose \<open>cluster\<close> slot returns the cluster table, whose \<open>make\<close>
  slot takes a host handle: this recursion through arguments of functions has no solution as a
  set, so the tables take the type \<open>'h\<close> of host handles as a parameter.
\<close>

subsection \<open>Returned structs\<close>

record stream_handle =
  sh_handle :: u64
  sh_error_json :: string
  sh_metadata_json :: string

record dispatcher_callback_result =
  dcr_reply_json :: string

record lease_handle =
  lh_handle :: u64
  lh_error_json :: string
  lh_fencing_token :: u64
  lh_expires_at :: string

record http_handle_result =
  hhr_handle :: u64
  hhr_head_json :: string

subsection \<open>Slots and sinks\<close>

type_synonym r_plugin_handle = u64

type_synonym ('w, 'r) c_slot = "'w \<Rightarrow> 'r \<times> 'w"

record 'w event_sink_ref =
  esr_ctx :: u64
  esr_callback :: "u64 \<Rightarrow> string \<Rightarrow> ('w, unit) c_slot"

type_synonym 'w watch_event_sink_ref = "'w event_sink_ref"

record 'w bytes_sink_ref =
  bsr_ctx :: u64
  bsr_callback :: "u64 \<Rightarrow> bytes \<Rightarrow> ('w, unit) c_slot"

record 'w dispatcher_callback_ref =
  dcb_ctx :: u64
  dcb_dispatch :: "u64 \<Rightarrow> string \<Rightarrow> string \<Rightarrow> ('w, dispatcher_callback_result) c_slot"

subsection \<open>Host services and the cluster\<close>

record ('h, 'w) cluster_vtable =
  clv_make :: "'h \<Rightarrow> string \<Rightarrow> string \<Rightarrow> ('w, r_plugin_handle) c_slot"
  clv_manifest_json :: "r_plugin_handle \<Rightarrow> ('w, string) c_slot"
  clv_node_info :: "r_plugin_handle \<Rightarrow> ('w, string) c_slot"
  clv_list_peers :: "r_plugin_handle \<Rightarrow> ('w, string) c_slot"
  clv_publish :: "r_plugin_handle \<Rightarrow> string \<Rightarrow> ('w, string) c_slot"
  clv_subscribe :: "r_plugin_handle \<Rightarrow> string \<Rightarrow> 'w event_sink_ref \<Rightarrow> ('w, stream_handle) c_slot"
  clv_watch_peers :: "r_plugin_handle \<Rightarrow> 'w event_sink_ref \<Rightarrow> ('w, stream_handle) c_slot"
  clv_cancel_stream :: "r_plugin_handle \<Rightarrow> u64 \<Rightarrow> ('w, unit) c_slot"
  clv_acquire_leadership :: "r_plugin_handle \<Rightarrow> string \<Rightarrow> ('w, lease_handle) c_slot"
  clv_acquire_lock :: "r_plugin_handle \<Rightarrow> string \<Rightarrow> ('w, lease_handle) c_slot"
  clv_try_acquire_leadership :: "r_plugin_handle \<Rightarrow> string \<Rightarrow> ('w, lease_handle) c_slot"
  clv_try_acquire_lock :: "r_plugin_handle \<Rightarrow> string \<Rightarrow> ('w, lease_handle) c_slot"
  clv_lease_renew :: "r_plugin_handle \<Rightarrow> u64 \<Rightarrow> ('w, string) c_slot"
  clv_lease_release :: "r_plugin_handle \<Rightarrow> u64 \<Rightarrow> ('w, string) c_slot"
  clv_lease_drop :: "r_plugin_handle \<Rightarrow> u64 \<Rightarrow> ('w, unit) c_slot"
  clv_kv_get :: "r_plugin_handle \<Rightarrow> string \<Rightarrow> ('w, string) c_slot"
  clv_kv_put :: "r_plugin_handle \<Rightarrow> string \<Rightarrow> ('w, string) c_slot"
  clv_kv_put_if_absent :: "r_plugin_handle \<Rightarrow> string \<Rightarrow> ('w, string) c_slot"
  clv_kv_delete :: "r_plugin_handle \<Rightarrow> string \<Rightarrow> ('w, string) c_slot"
  clv_kv_list_prefix :: "r_plugin_handle \<Rightarrow> string \<Rightarrow> ('w, string) c_slot"
  clv_kv_expire :: "r_plugin_handle \<Rightarrow> string \<Rightarrow> ('w, string) c_slot"
  clv_kv_incr :: "r_plugin_handle \<Rightarrow> string \<Rightarrow> ('w, string) c_slot"
  clv_shutdown :: "r_plugin_handle \<Rightarrow> ('w, unit) c_slot"
  clv_drop_instance :: "r_plugin_handle \<Rightarrow> ('w, unit) c_slot"

record ('h, 'w) cluster_client_ref =
  ccr_handle :: u64
  ccr_vtable :: "('h, 'w) cluster_vtable"

record ('h, 'w) host_services_vtable =
  hsv_resolve_secret :: "u64 \<Rightarrow> string \<Rightarrow> ('w, string) c_slot"
  hsv_issue_credential :: "u64 \<Rightarrow> string \<Rightarrow> string \<Rightarrow> ('w, string) c_slot"
  hsv_config_snapshot :: "u64 \<Rightarrow> string \<Rightarrow> ('w, string) c_slot"
  hsv_audit_event :: "u64 \<Rightarrow> string \<Rightarrow> ('w, string) c_slot"
  hsv_metric_emit :: "u64 \<Rightarrow> string \<Rightarrow> ('w, unit) c_slot"
  hsv_cluster :: "u64 \<Rightarrow> ('w, ('h, 'w) cluster_client_ref option) c_slot"
  hsv_span_start :: "u64 \<Rightarrow> string \<Rightarrow> string \<Rightarrow> ('w, u64) c_slot"
  hsv_span_end :: "u64 \<Rightarrow> u64 \<Rightarrow> ('w, unit) c_slot"
  hsv_span_event :: "u64 \<Rightarrow> u64 \<Rightarrow> string \<Rightarrow> string \<Rightarrow> ('w, unit) c_slot"
  hsv_alias :: "u64 \<Rightarrow> ('w, string) c_slot"
  hsv_resolve_credentials :: "u64 \<Rightarrow> string \<Rightarrow> string \<Rightarrow> ('w, string) c_slot"
  hsv_cache_get :: "u64 \<Rightarrow> string \<Rightarrow> string \<Rightarrow> ('w, string) c_slot"
  hsv_cache_put :: "u64 \<Rightarrow> string \<Rightarrow> string \<Rightarrow> ('w, string) c_slot"
  hsv_fetch_content :: "u64 \<Rightarrow> string \<Rightarrow> ('w, string) c_slot"
  hsv_store_content :: "u64 \<Rightarrow> string \<Rightarrow> ('w, string) c_slot"
  hsv_invoke_tool :: "u64 \<Rightarrow> string \<Rightarrow> string \<Rightarrow> string \<Rightarrow> ('w, string) c_slot"
  hsv_subscribe_credential_revoked :: "u64 \<Rightarrow> u64 \<Rightarrow> u64 \<Rightarrow> ('w, u64) c_slot"
  hsv_subscribe_secret_rotation :: "u64 \<Rightarrow> u64 \<Rightarrow> u64 \<Rightarrow> ('w, u64) c_slot"
  hsv_host_unsubscribe :: "u64 \<Rightarrow> u64 \<Rightarrow> ('w, unit) c_slot"

record ('h, 'w) host_handle_ref =
  hhf_ctx :: u64
  hhf_vtable :: "('h, 'w) host_services_vtable"

subsection \<open>Tables of the entity kinds\<close>

record ('h, 'w) tool_gate_vtable =
  tgv_make :: "'h \<Rightarrow> string \<Rightarrow> string \<Rightarrow> ('w, r_plugin_handle) c_slot"
  tgv_manifest_json :: "r_plugin_handle \<Rightarrow> ('w, string) c_slot"
  tgv_evaluate_pre_dispatch :: "r_plugin_handle \<Rightarrow> r_plugin_context \<Rightarrow> string \<Rightarrow> string option \<Rightarrow> string \<Rightarrow> ('w, r_gate_decision) c_slot"
  tgv_evaluate_post_dispatch :: "r_plugin_handle \<Rightarrow> r_plugin_context \<Rightarrow> string \<Rightarrow> string \<Rightarrow> u64 \<Rightarrow> string \<Rightarrow> ('w, r_gate_decision) c_slot"
  tgv_shutdown :: "r_plugin_handle \<Rightarrow> ('w, unit) c_slot"
  tgv_drop_instance :: "r_plugin_handle \<Rightarrow> ('w, unit) c_slot"

record ('h, 'w) transform_vtable =
  tfv_make :: "'h \<Rightarrow> string \<Rightarrow> string \<Rightarrow> ('w, r_plugin_handle) c_slot"
  tfv_manifest_json :: "r_plugin_handle \<Rightarrow> ('w, string) c_slot"
  tfv_transform_arguments :: "r_plugin_handle \<Rightarrow> r_plugin_context \<Rightarrow> string \<Rightarrow> string \<Rightarrow> ('w, r_transform_result) c_slot"
  tfv_transform_result :: "r_plugin_handle \<Rightarrow> r_plugin_context \<Rightarrow> string \<Rightarrow> string \<Rightarrow> ('w, r_transform_result) c_slot"
  tfv_shutdown :: "r_plugin_handle \<Rightarrow> ('w, unit) c_slot"
  tfv_drop_instance :: "r_plugin_handle \<Rightarrow> ('w, unit) c_slot"

record ('h, 'w) identity_provider_vtable =
  ipv_make :: "'h \<Rightarrow> string \<Rightarrow> string \<Rightarrow> ('w, r_plugin_handle) c_slot"
  ipv_manifest_json :: "r_plugin_handle \<Rightarrow> ('w, string) c_slot"
  ipv_resolve_identity :: "r_plugin_handle \<Rightarrow> string \<Rightarrow> string \<Rightarrow> string \<Rightarrow> ('w, r_identity_resolution) c_slot"
  ipv_shutdown :: "r_plugin_handle \<Rightarrow> ('w, unit) c_slot"
  ipv_drop_instance :: "r_plugin_handle \<Rightarrow> ('w, unit) c_slot"

record ('h, 'w) backend_vtable =
  bev_make :: "'h \<Rightarrow> string \<Rightarrow> string \<Rightarrow> ('w, r_plugin_handle) c_slot"
  bev_manifest_json :: "r_plugin_handle \<Rightarrow> ('w, string) c_slot"
  bev_kind :: "r_plugin_handle \<Rightarrow> ('w, string) c_slot"
  bev_register_profile :: "r_plugin_handle \<Rightarrow> string \<Rightarrow> string \<Rightarrow> ('w, string) c_slot"
  bev_execute :: "r_plugin_handle \<Rightarrow> string \<Rightarrow> string \<Rightarrow> ('w, string) c_slot"
  bev_execute_streaming :: "r_plugin_handle \<Rightarrow> string \<Rightarrow> string \<Rightarrow> 'w event_sink_ref \<Rightarrow> ('w, stream_handle) c_slot"
  bev_cancel_stream :: "r_plugin_handle \<Rightarrow> u64 \<Rightarrow> ('w, unit) c_slot"
  bev_execute_transaction :: "r_plugin_handle \<Rightarrow> string \<Rightarrow> string \<Rightarrow> ('w, string) c_slot"
  bev_input_schema_json :: "r_plugin_handle \<Rightarrow> string \<Rightarrow> ('w, string option) c_slot"
  bev_output_schema_json :: "r_plugin_handle \<Rightarrow> string \<Rightarrow> ('w, string option) c_slot"
  bev_complete_template_variable :: "r_plugin_handle \<Rightarrow> string \<Rightarrow> ('w, string) c_slot"
  bev_list_resources :: "r_plugin_handle \<Rightarrow> string \<Rightarrow> string option \<Rightarrow> ('w, string) c_slot"
  bev_audit_metadata :: "r_plugin_handle \<Rightarrow> string \<Rightarrow> ('w, string) c_slot"
  bev_expand_capabilities :: "r_plugin_handle \<Rightarrow> ('w, string) c_slot"
  bev_shutdown :: "r_plugin_handle \<Rightarrow> ('w, unit) c_slot"
  bev_drop_instance :: "r_plugin_handle \<Rightarrow> ('w, unit) c_slot"

record ('h, 'w) watch_strategy_vtable =
  wsv_make :: "'h \<Rightarrow> string \<Rightarrow> string \<Rightarrow> ('w, r_plugin_handle) c_slot"
  wsv_manifest_json :: "r_plugin_handle \<Rightarrow> ('w, string) c_slot"
  wsv_kind :: "r_plugin_handle \<Rightarrow> ('w, string) c_slot"
  wsv_watch :: "r_plugin_handle \<Rightarrow> string \<Rightarrow> string \<Rightarrow> 'w watch_event_sink_ref \<Rightarrow> ('w, stream_handle) c_slot"
  wsv_cancel :: "r_plugin_handle \<Rightarrow> u64 \<Rightarrow> ('w, unit) c_slot"
  wsv_acknowledge :: "r_plugin_handle \<Rightarrow> u64 \<Rightarrow> string \<Rightarrow> ('w, unit) c_slot"
  wsv_shutdown :: "r_plugin_handle \<Rightarrow> ('w, unit) c_slot"
  wsv_drop_instance :: "r_plugin_handle \<Rightarrow> ('w, unit) c_slot"

record ('h, 'w) http_route_vtable =
  hrv_make :: "'h \<Rightarrow> string \<Rightarrow> string \<Rightarrow> ('w, r_plugin_handle) c_slot"
  hrv_manifest_json :: "r_plugin_handle \<Rightarrow> ('w, string) c_slot"
  hrv_routes_json :: "r_plugin_handle \<Rightarrow> ('w, string) c_slot"
  hrv_handle :: "r_plugin_handle \<Rightarrow> string \<Rightarrow> ('w, string) c_slot"
  hrv_handle_streaming :: "r_plugin_handle \<Rightarrow> string \<Rightarrow> 'w event_sink_ref \<Rightarrow> 'w bytes_sink_ref \<Rightarrow> ('w, http_handle_result) c_slot"
  hrv_cancel_stream :: "r_plugin_handle \<Rightarrow> u64 \<Rightarrow> ('w, unit) c_slot"
  hrv_shutdown :: "r_plugin_handle \<Rightarrow> ('w, unit) c_slot"
  hrv_drop_instance :: "r_plugin_handle \<Rightarrow> ('w, unit) c_slot"

record ('h, 'w) audit_sink_vtable =
  asv_make :: "'h \<Rightarrow> string \<Rightarrow> string \<Rightarrow> ('w, r_plugin_handle) c_slot"
  asv_manifest_json :: "r_plugin_handle \<Rightarrow> ('w, string) c_slot"
  asv_emit :: "r_plugin_handle \<Rightarrow> string \<Rightarrow> ('w, string) c_slot"
  asv_flush :: "r_plugin_handle \<Rightarrow> u64 \<Rightarrow> ('w, string) c_slot"
  asv_shutdown :: "r_plugin_handle \<Rightarrow> ('w, unit) c_slot"
  asv_drop_instance :: "r_plugin_handle \<Rightarrow> ('w, unit) c_slot"

record ('h, 'w) log_sink_vtable =
  lsv_make :: "'h \<Rightarrow> string \<Rightarrow> string \<Rightarrow> ('w, r_plugin_handle) c_slot"
  lsv_manifest_json :: "r_plugin_handle \<Rightarrow> ('w, string) c_slot"
  lsv_emit :: "r_plugin_handle \<Rightarrow> string \<Rightarrow> ('w, unit) c_slot"
  lsv_flush :: "r_plugin_handle \<Rightarrow> u64 \<Rightarrow> ('w, string) c_slot"
  lsv_shutdown :: "r_plugin_handle \<Rightarrow> ('w, unit) c_slot"
  lsv_drop_instance :: "r_plugin_handle \<Rightarrow> ('w, unit) c_slot"

record ('h, 'w) telemetry_sink_vtable =
  tsv_make :: "'h \<Rightarrow> string \<Rightarrow> string \<Rightarrow> ('w, r_plugin_handle) c_slot"
  tsv_manifest_json :: "r_plugin_handle \<Rightarrow> ('w, string) c_slot"
  tsv_span_started :: "r_plugin_handle \<Rightarrow> string \<Rightarrow> ('w, unit) c_slot"
  tsv_span_ended :: "r_plugin_handle \<Rightarrow> string \<Rightarrow> ('w, unit) c_slot"
  tsv_metric_recorded :: "r_plugin_handle \<Rightarrow> string \<Rightarrow> ('w, unit) c_slot"
  tsv_log_recorded :: "r_plugin_handle \<Rightarrow> string \<Rightarrow> ('w, unit) c_slot"
  tsv_flush :: "r_plugin_handle \<Rightarrow> u64 \<Rightarrow> ('w, string) c_slot"
  tsv_shutdown :: "r_plugin_handle \<Rightarrow> ('w, unit) c_slot"
  tsv_drop_instance :: "r_plugin_handle \<Rightarrow> ('w, unit) c_slot"

record ('h, 'w) metrics_sink_vtable =
  msv_make :: "'h \<Rightarrow> string \<Rightarrow> string \<Rightarrow> ('w, r_plugin_handle) c_slot"
  msv_manifest_json :: "r_plugin_handle \<Rightarrow> ('w, string) c_slot"
  msv_emit :: "r_plugin_handle \<Rightarrow> string \<Rightarrow> ('w, unit) c_slot"
  msv_flush :: "r_plugin_handle \<Rightarrow> u64 \<Rightarrow> ('w, string) c_slot"
  msv_render_text_exposition :: "r_plugin_handle \<Rightarrow> ('w, string) c_slot"
  msv_shutdown :: "r_plugin_handle \<Rightarrow> ('w, unit) c_slot"
  msv_drop_instance :: "r_plugin_handle \<Rightarrow> ('w, unit) c_slot"

record ('h, 'w) store_vtable =
  stv_make :: "'h \<Rightarrow> string \<Rightarrow> string \<Rightarrow> ('w, r_plugin_handle) c_slot"
  stv_manifest_json :: "r_plugin_handle \<Rightarrow> ('w, string) c_slot"
  stv_supported_roles_json :: "r_plugin_handle \<Rightarrow> ('w, string) c_slot"
  stv_get :: "r_plugin_handle \<Rightarrow> string \<Rightarrow> ('w, string) c_slot"
  stv_put :: "r_plugin_handle \<Rightarrow> string \<Rightarrow> ('w, string) c_slot"
  stv_delete :: "r_plugin_handle \<Rightarrow> string \<Rightarrow> ('w, string) c_slot"
  stv_list :: "r_plugin_handle \<Rightarrow> string \<Rightarrow> ('w, string) c_slot"
  stv_compare_and_swap :: "r_plugin_handle \<Rightarrow> string \<Rightarrow> ('w, string) c_slot"
  stv_append :: "r_plugin_handle \<Rightarrow> string \<Rightarrow> ('w, string) c_slot"
  stv_watch :: "r_plugin_handle \<Rightarrow> string \<Rightarrow> 'w event_sink_ref \<Rightarrow> ('w, stream_handle) c_slot"
  stv_cancel_watch :: "r_plugin_handle \<Rightarrow> u64 \<Rightarrow> ('w, unit) c_slot"
  stv_shutdown :: "r_plugin_handle \<Rightarrow> ('w, unit) c_slot"
  stv_drop_instance :: "r_plugin_handle \<Rightarrow> ('w, unit) c_slot"

record ('h, 'w) transport_vtable =
  trv_make :: "'h \<Rightarrow> string \<Rightarrow> string \<Rightarrow> ('w, r_plugin_handle) c_slot"
  trv_manifest_json :: "r_plugin_handle \<Rightarrow> ('w, string) c_slot"
  trv_name :: "r_plugin_handle \<Rightarrow> ('w, string) c_slot"
  trv_start :: "r_plugin_handle \<Rightarrow> string \<Rightarrow> 'w dispatcher_callback_ref \<Rightarrow> ('w, stream_handle) c_slot"
  trv_transport_handle_close :: "r_plugin_handle \<Rightarrow> u64 \<Rightarrow> ('w, unit) c_slot"
  trv_transport_handle_drop :: "r_plugin_handle \<Rightarrow> u64 \<Rightarrow> ('w, unit) c_slot"
  trv_transport_handle_listen_address :: "r_plugin_handle \<Rightarrow> u64 \<Rightarrow> ('w, string) c_slot"
  trv_shutdown :: "r_plugin_handle \<Rightarrow> ('w, unit) c_slot"
  trv_drop_instance :: "r_plugin_handle \<Rightarrow> ('w, unit) c_slot"

record ('h, 'w) policy_engine_vtable =
  pev_make :: "'h \<Rightarrow> string \<Rightarrow> string \<Rightarrow> ('w, r_plugin_handle) c_slot"
  pev_manifest_json :: "r_plugin_handle \<Rightarrow> ('w, string) c_slot"
  pev_name :: "r_plugin_handle \<Rightarrow> ('w, string) c_slot"
  pev_evaluate :: "r_plugin_handle \<Rightarrow> string \<Rightarrow> ('w, string) c_slot"
  pev_policy_version :: "r_plugin_handle \<Rightarrow> ('w, string) c_slot"
  pev_shutdown :: "r_plugin_handle \<Rightarrow> ('w, unit) c_slot"
  pev_drop_instance :: "r_plugin_handle \<Rightarrow> ('w, unit) c_slot"

record ('h, 'w) secret_provider_vtable =
  spv_make :: "'h \<Rightarrow> string \<Rightarrow> string \<Rightarrow> ('w, r_plugin_handle) c_slot"
  spv_manifest_json :: "r_plugin_handle \<Rightarrow> ('w, string) c_slot"
  spv_supported_schemes_json :: "r_plugin_handle \<Rightarrow> ('w, string) c_slot"
  spv_get :: "r_plugin_handle \<Rightarrow> string \<Rightarrow> ('w, string) c_slot"
  spv_watch :: "r_plugin_handle \<Rightarrow> string \<Rightarrow> 'w event_sink_ref \<Rightarrow> ('w, stream_handle) c_slot"
  spv_cancel_watch :: "r_plugin_handle \<Rightarrow> u64 \<Rightarrow> ('w, unit) c_slot"
  spv_shutdown :: "r_plugin_handle \<Rightarrow> ('w, unit) c_slot"
  spv_drop_instance :: "r_plugin_handle \<Rightarrow> ('w, unit) c_slot"

record ('h, 'w) config_provider_vtable =
  cpv_make :: "'h \<Rightarrow> string \<Rightarrow> string \<Rightarrow> ('w, r_plugin_handle) c_slot"
  cpv_manifest_json :: "r_plugin_handle \<Rightarrow> ('w, string) c_slot"
  cpv_supported_schemes_json :: "r_plugin_handle \<Rightarrow> ('w, string) c_slot"
  cpv_snapshot :: "r_plugin_handle \<Rightarrow> string \<Rightarrow> ('w, string) c_slot"
  cpv_watch :: "r_plugin_handle \<Rightarrow> string \<Rightarrow> 'w event_sink_ref \<Rightarrow> ('w, stream_handle) c_slot"
  cpv_cancel_watch :: "r_plugin_handle \<Rightarrow> u64 \<Rightarrow> ('w, unit) c_slot"
  cpv_shutdown :: "r_plugin_handle \<Rightarrow> ('w, unit) c_slot"
  cpv_drop_instance :: "r_plugin_handle \<Rightarrow> ('w, unit) c_slot"

record ('h, 'w) approval_notifier_vtable =
  anv_make :: "'h \<Rightarrow> string \<Rightarrow> string \<Rightarrow> ('w, r_plugin_handle) c_slot"
  anv_manifest_json :: "r_plugin_handle \<Rightarrow> ('w, string) c_slot"
  anv_notify :: "r_plugin_handle \<Rightarrow> string \<Rightarrow> ('w, string) c_slot"
  anv_shutdown :: "r_plugin_handle \<Rightarrow> ('w, unit) c_slot"
  anv_drop_instance :: "r_plugin_handle \<Rightarrow> ('w, unit) c_slot"

record ('h, 'w) credential_issuer_vtable =
  civ_make :: "'h \<Rightarrow> string \<Rightarrow> string \<Rightarrow> ('w, r_plugin_handle) c_slot"
  civ_manifest_json :: "r_plugin_handle \<Rightarrow> ('w, string) c_slot"
  civ_issue :: "r_plugin_handle \<Rightarrow> string \<Rightarrow> ('w, string) c_slot"
  civ_revoke :: "r_plugin_handle \<Rightarrow> string \<Rightarrow> ('w, string) c_slot"
  civ_shutdown :: "r_plugin_handle \<Rightarrow> ('w, unit) c_slot"
  civ_drop_instance :: "r_plugin_handle \<Rightarrow> ('w, unit) c_slot"

record ('h, 'w) catalog_provider_vtable =
  cav_make :: "'h \<Rightarrow> string \<Rightarrow> string \<Rightarrow> ('w, r_plugin_handle) c_slot"
  cav_manifest_json :: "r_plugin_handle \<Rightarrow> ('w, string) c_slot"
  cav_filter_and_enrich :: "r_plugin_handle \<Rightarrow> string \<Rightarrow> ('w, string) c_slot"
  cav_describe :: "r_plugin_handle \<Rightarrow> string \<Rightarrow> ('w, string) c_slot"
  cav_list_catalog :: "r_plugin_handle \<Rightarrow> ('w, string) c_slot"
  cav_shutdown :: "r_plugin_handle \<Rightarrow> ('w, unit) c_slot"
  cav_drop_instance :: "r_plugin_handle \<Rightarrow> ('w, unit) c_slot"

record ('h, 'w) cache_vtable =
  chv_make :: "'h \<Rightarrow> string \<Rightarrow> string \<Rightarrow> ('w, r_plugin_handle) c_slot"
  chv_manifest_json :: "r_plugin_handle \<Rightarrow> ('w, string) c_slot"
  chv_supported_namespaces_json :: "r_plugin_handle \<Rightarrow> ('w, string) c_slot"
  chv_serves_any_namespace :: "r_plugin_handle \<Rightarrow> ('w, u8) c_slot"
  chv_get :: "r_plugin_handle \<Rightarrow> string \<Rightarrow> ('w, string) c_slot"
  chv_put :: "r_plugin_handle \<Rightarrow> string \<Rightarrow> ('w, string) c_slot"
  chv_delete :: "r_plugin_handle \<Rightarrow> string \<Rightarrow> ('w, unit) c_slot"
  chv_clear :: "r_plugin_handle \<Rightarrow> string \<Rightarrow> ('w, string) c_slot"
  chv_incr :: "r_plugin_handle \<Rightarrow> string \<Rightarrow> ('w, string) c_slot"
  chv_shutdown :: "r_plugin_handle \<Rightarrow> ('w, unit) c_slot"
  chv_drop_instance :: "r_plugin_handle \<Rightarrow> ('w, unit) c_slot"

record ('h, 'w) content_store_vtable =
  csv_make :: "'h \<Rightarrow> string \<Rightarrow> string \<Rightarrow> ('w, r_plugin_handle) c_slot"
  csv_manifest_json :: "r_plugin_handle \<Rightarrow> ('w, string) c_slot"
  csv_kind :: "r_plugin_handle \<Rightarrow> ('w, string) c_slot"
  csv_register_profile :: "r_plugin_handle \<Rightarrow> string \<Rightarrow> ('w, string) c_slot"
  csv_put :: "r_plugin_handle \<Rightarrow> string \<Rightarrow> ('w, string) c_slot"
  csv_get :: "r_plugin_handle \<Rightarrow> string \<Rightarrow> ('w, string) c_slot"
  csv_delete :: "r_plugin_handle \<Rightarrow> string \<Rightarrow> ('w, string) c_slot"
  csv_signed_url :: "r_plugin_handle \<Rightarrow> string \<Rightarrow> ('w, string) c_slot"
  csv_stats :: "r_plugin_handle \<Rightarrow> string \<Rightarrow> ('w, string) c_slot"
  csv_sweep_expired :: "r_plugin_handle \<Rightarrow> string \<Rightarrow> ('w, string) c_slot"
  csv_shutdown :: "r_plugin_handle \<Rightarrow> ('w, unit) c_slot"
  csv_drop_instance :: "r_plugin_handle \<Rightarrow> ('w, unit) c_slot"

subsection \<open>Callbacks of subscriptions\<close>

type_synonym 'w cred_revoked_callback_ffi = "u64 \<Rightarrow> string \<Rightarrow> string \<Rightarrow> ('w, unit) c_slot"

type_synonym 'w secret_rotation_callback_ffi = "u64 \<Rightarrow> string \<Rightarrow> u64 \<Rightarrow> ('w, unit) c_slot"

end
