(* ===== verification/Abi_Registration.thy ===== *)
theory Abi_Registration
  imports Abi_Vtables Capability
begin

section \<open>Registration\<close>

text \<open>
  \<open>src/src/abi.rs\<close>: what a plugin library hands over when it is loaded: its capability
  declarations in their carrier form, its entities with their vtables, and the lookups the
  host makes in them. The JSON printer and parser are arguments.
\<close>

subsection \<open>Capability declarations\<close>

record typed_capability_decl =
  cd_kind :: string
  cd_args_json :: string

definition from_capability :: "(json \<Rightarrow> string) \<Rightarrow> capability \<Rightarrow> typed_capability_decl" where
  "from_capability to_text cap =
     \<lparr>cd_kind = kind cap,
      cd_args_json = (case cap of
          FilesystemRead paths \<Rightarrow> to_text (json_obj [(''paths'', json_strings paths)])
        | FilesystemWrite paths \<Rightarrow> to_text (json_obj [(''paths'', json_strings paths)])
        | SecretsRead schemes \<Rightarrow> to_text (json_obj [(''schemes'', json_strings schemes)])
        | ConfigRead schemes \<Rightarrow> to_text (json_obj [(''schemes'', json_strings schemes)])
        | CredentialIssue kinds \<Rightarrow> to_text (json_obj [(''kinds'', json_strings kinds)])
        | _ \<Rightarrow> [])\<rparr>"

definition args_value :: "(string \<Rightarrow> json option) \<Rightarrow> string \<Rightarrow> json option" where
  "args_value from_text args_raw = (if args_raw = [] then Some (JObject []) else from_text args_raw)"

definition to_capability ::
  "(string \<Rightarrow> json option) \<Rightarrow> typed_capability_decl \<Rightarrow> capability_parse_error + capability" where
  "to_capability from_text d =
     (if cd_kind d \<notin> set known_names then Inl (UnknownKind (cd_kind d))
      else (case args_value from_text (cd_args_json d) of
              None \<Rightarrow> Inl (InvalidArgs (cd_kind d) Syntax)
            | Some (JObject obj) \<Rightarrow>
                invalid_args (cd_kind d) (decode_capability (bt_insert ''type'' (JString (cd_kind d)) obj))
            | Some _ \<Rightarrow> Inl (InvalidEntry
                (''args_json for capability \"'' @ cd_kind d @ ''\" must be a JSON object''))))"

text \<open>The parser of the JSON crate builds objects as ordered maps.\<close>

definition parses_maps :: "(string \<Rightarrow> json option) \<Rightarrow> bool" where
  "parses_maps from_text \<longleftrightarrow> (\<forall>s m. from_text s = Some (JObject m) \<longrightarrow> bt_wf m)"

lemma to_capability_Inr:
  assumes "parses_maps from_text"
  shows "to_capability from_text d = Inr c \<longleftrightarrow>
    c \<noteq> Unknown \<and> cd_kind d = kind c \<and>
    (\<exists>m. args_value from_text (cd_args_json d) = Some (JObject m) \<and>
      (case capability_args c of None \<Rightarrow> True | Some (f, xs) \<Rightarrow> bt_get m f = Some (json_strings xs)))"
proof -
  have wf: "bt_wf m" if "args_value from_text (cd_args_json d) = Some (JObject m)" for m
    using assms that by (auto simp: args_value_def parses_maps_def split: if_splits)
  have object: "to_capability from_text d = Inr c \<longleftrightarrow>
      cd_kind d \<in> set known_names \<and> (\<exists>m. args_value from_text (cd_args_json d) = Some (JObject m) \<and>
        decode_capability (bt_insert ''type'' (JString (cd_kind d)) m) = Inr c)"
    by (auto simp: to_capability_def split: option.splits json.splits)
  have "decode_capability (bt_insert ''type'' (JString (cd_kind d)) m) = Inr c \<longleftrightarrow>
      cd_kind d = kind c \<and> c \<noteq> Unknown \<and>
      (case capability_args c of None \<Rightarrow> True | Some (f, xs) \<Rightarrow> bt_get m f = Some (json_strings xs))"
    if m: "bt_wf m" and known: "cd_kind d \<in> set known_names" for m
  proof -
    let ?o = "bt_insert ''type'' (JString (cd_kind d)) m"
    have get: "bt_get ?o = (bt_get m)(''type'' \<mapsto> JString (cd_kind d))" by (rule bt_get_insert [OF m])
    have "c \<noteq> Unknown" if "decode_capability ?o = Inr c"
      using decode_Unknown [of ?o] that known by (auto simp: get)
    with decode_Inr [of ?o c] show ?thesis
      by (cases c) (auto simp: accepted_form_def get)
  qed
  with wf show ?thesis unfolding object by auto
qed

text \<open>
  The refusals. A list of strings that does not decode is of the wrong type, so the argument
  field of the kind is either absent or ill-typed.
\<close>

lemma collect_results_Inl: "collect_results rs = Inl e \<Longrightarrow> Inl e \<in> set rs"
proof (induction rs)
  case (Cons r rs)
  then show ?case by (cases r; cases "collect_results rs") (auto simp: res_bind_def)
qed simp

lemma de_string_Inl: "de_string v = Inl e \<longleftrightarrow> e = WrongType \<and> v \<notin> range JString"
  by (cases v) (auto simp: de_string_def)

lemma de_vec_strings_Inl: "de_vec de_string v = Inl e \<longleftrightarrow> e = WrongType \<and> v \<notin> range json_strings"
proof -
  have "e = WrongType" if "de_vec de_string v = Inl e" for e
    using that by (cases v) (auto simp: de_vec_def de_string_Inl dest!: collect_results_Inl sym [of "Inl _"])
  then show ?thesis
    by (cases "de_vec de_string v") (auto simp: de_vec_strings_iff [symmetric])
qed

text \<open>The kinds that carry arguments, and the field that holds them.\<close>

definition args_field :: "string \<Rightarrow> string option" where
  "args_field k = map_of
     [(''filesystem_read'', ''paths''), (''filesystem_write'', ''paths''), (''secrets_read'', ''schemes''),
      (''config_read'', ''schemes''), (''credential_issue'', ''kinds'')] k"

lemma decode_capability_Inl:
  assumes "bt_get m ''type'' = Some (JString k)"
  shows "decode_capability m = Inl e \<longleftrightarrow>
    (\<exists>f. args_field k = Some f \<and>
      (bt_get m f = None \<and> e = MissingField f \<or>
       (\<exists>v. bt_get m f = Some v \<and> v \<notin> range json_strings \<and> e = WrongType)))"
proof -
  have field: "res_bind (de_field m f (de_vec de_string)) (\<lambda>xs. Inr (c xs)) = Inl e \<longleftrightarrow>
      bt_get m f = None \<and> e = MissingField f \<or>
      (\<exists>v. bt_get m f = Some v \<and> v \<notin> range json_strings \<and> e = WrongType)" for f and c :: "string list \<Rightarrow> capability"
  proof (cases "bt_get m f")
    case (Some v)
    then show ?thesis
      using de_vec_strings_Inl [of v e]
      by (cases "de_vec de_string v") (auto simp: de_field_def res_bind_def)
  qed (auto simp: de_field_def res_bind_def)
  have "de_field m ''type'' de_string = Inr k" using assms by (simp add: de_field_def de_string_def)
  then show ?thesis
    by (simp add: decode_capability_def args_field_def field)
qed

lemma to_capability_Inl:
  assumes "parses_maps from_text"
  shows "to_capability from_text d = Inl err \<longleftrightarrow>
    (if cd_kind d \<notin> set known_names then err = UnknownKind (cd_kind d)
     else (case args_value from_text (cd_args_json d) of
         None \<Rightarrow> err = InvalidArgs (cd_kind d) Syntax
       | Some (JObject m) \<Rightarrow>
           (\<exists>f. args_field (cd_kind d) = Some f \<and>
             (case bt_get m f of None \<Rightarrow> err = InvalidArgs (cd_kind d) (MissingField f)
              | Some v \<Rightarrow> v \<notin> range json_strings \<and> err = InvalidArgs (cd_kind d) WrongType))
       | Some _ \<Rightarrow> err = InvalidEntry
           (''args_json for capability \"'' @ cd_kind d @ ''\" must be a JSON object'')))"
proof (cases "\<exists>m. args_value from_text (cd_args_json d) = Some (JObject m)")
  case True
  then obtain m where m: "args_value from_text (cd_args_json d) = Some (JObject m)" by blast
  then have "bt_wf m" using assms by (auto simp: args_value_def parses_maps_def split: if_splits)
  then have get: "bt_get (bt_insert ''type'' (JString (cd_kind d)) m) = (bt_get m)(''type'' \<mapsto> JString (cd_kind d))"
    by (rule bt_get_insert)
  have "invalid_args k r = Inl err \<longleftrightarrow> (\<exists>e. r = Inl e \<and> err = InvalidArgs k e)" for k r
    by (cases r) (auto simp: invalid_args_def)
  moreover have "f \<noteq> ''type''" if "args_field (cd_kind d) = Some f" for f
    using that by (auto simp: args_field_def split: if_splits)
  ultimately show ?thesis
    using decode_capability_Inl [of "bt_insert ''type'' (JString (cd_kind d)) m" "cd_kind d"]
    by (cases "args_field (cd_kind d)"; cases "bt_get m (the (args_field (cd_kind d)))")
      (auto simp: to_capability_def m get)
qed (auto simp: to_capability_def split: option.splits json.splits)

text \<open>
  C21: A declaration is accepted exactly when its kind is known to this host and its argument
  text parses to an object whose argument field holds the strings. The declared kind decides:
  whatever the argument text says, a \<open>type\<close> entry of its own included, the capability that
  comes out is of the declared kind, and never the sink \<open>Unknown\<close>. Each refusal names its
  reason: an unknown kind that kind, whatever the arguments (the doc of the carrier type
  promises \<open>Unknown\<close> here); then an argument text that does not parse a syntax error, and one
  that is not an object an invalid entry; then, for the five kinds with arguments, an absent
  field its name, and a field that is not a list of strings a wrong type. There is no other
  refusal.
\<close>

theorem to_capability_exact:
  assumes "parses_maps from_text"
  shows "(to_capability from_text d = Inr c \<longleftrightarrow>
    c \<noteq> Unknown \<and> cd_kind d = kind c \<and>
    (\<exists>m. args_value from_text (cd_args_json d) = Some (JObject m) \<and>
      (case capability_args c of None \<Rightarrow> True | Some (f, xs) \<Rightarrow> bt_get m f = Some (json_strings xs)))) \<and>
   (to_capability from_text d = Inl err \<longleftrightarrow>
    (if cd_kind d \<notin> set known_names then err = UnknownKind (cd_kind d)
     else (case args_value from_text (cd_args_json d) of
         None \<Rightarrow> err = InvalidArgs (cd_kind d) Syntax
       | Some (JObject m) \<Rightarrow>
           (\<exists>f. args_field (cd_kind d) = Some f \<and>
             (case bt_get m f of None \<Rightarrow> err = InvalidArgs (cd_kind d) (MissingField f)
              | Some v \<Rightarrow> v \<notin> range json_strings \<and> err = InvalidArgs (cd_kind d) WrongType))
       | Some _ \<Rightarrow> err = InvalidEntry
           (''args_json for capability \"'' @ cd_kind d @ ''\" must be a JSON object''))))"
  using to_capability_Inr [OF assms] to_capability_Inl [OF assms] by blast

theorem to_capability_exact_witness:
  "to_capability (\<lambda>s. Some (JObject [(''type'', JString ''network_outbound'')]))
     \<lparr>cd_kind = ''audit_write'', cd_args_json = ''x''\<rparr> = Inr AuditWrite \<and>
   to_capability (\<lambda>s. Some (JObject [(''type'', JString ''network_outbound'')]))
     \<lparr>cd_kind = ''secrets_read'', cd_args_json = ''x''\<rparr> = Inl (InvalidArgs ''secrets_read'' (MissingField ''schemes''))"
proof -
  have wf: "parses_maps (\<lambda>s. Some (JObject [(''type'', JString ''network_outbound'')]))"
    by (auto simp: parses_maps_def bt_wf_def)
  show ?thesis
    using to_capability_exact [OF wf, of "\<lparr>cd_kind = ''audit_write'', cd_args_json = ''x''\<rparr>"]
      to_capability_exact [OF wf, of "\<lparr>cd_kind = ''secrets_read'', cd_args_json = ''x''\<rparr>"]
    by (simp add: args_value_def args_field_def known_names_def)
qed

lemma to_capability_declared:
  assumes "parses_maps from_text"
    and "\<And>f xs. capability_args c = Some (f, xs) \<Longrightarrow>
      from_text (to_text (json_obj [(f, json_strings xs)])) = Some (json_obj [(f, json_strings xs)]) \<and>
      to_text (json_obj [(f, json_strings xs)]) \<noteq> []"
  shows "to_capability from_text (from_capability to_text c) =
    (if c = Unknown then Inl (UnknownKind ''unknown'') else Inr c)"
proof (cases "c = Unknown")
  case True
  then show ?thesis by (simp add: to_capability_def from_capability_def known_names_def)
next
  case False
  have "\<exists>m. args_value from_text (cd_args_json (from_capability to_text c)) = Some (JObject m) \<and>
      (case capability_args c of None \<Rightarrow> True | Some (f, xs) \<Rightarrow> bt_get m f = Some (json_strings xs))"
    using assms(2) False
    by (cases c) (simp_all add: from_capability_def args_value_def json_obj_def bt_collect_def)
  moreover have "cd_kind (from_capability to_text c) = kind c" by (simp add: from_capability_def)
  ultimately show ?thesis using False to_capability_Inr [OF assms(1)] by simp
qed

text \<open>
  Every capability a plugin declares is the one the host reads, arguments and their order
  included, when the JSON crate reads back the arguments it printed. \<open>Unknown\<close> alone does not
  cross: it comes out as an error naming the kind, not as \<open>Unknown\<close>.
\<close>

theorem capability_decl_roundtrip:
  assumes "parses_maps from_text"
    and "\<And>f xs. capability_args c = Some (f, xs) \<Longrightarrow>
      from_text (to_text (json_obj [(f, json_strings xs)])) = Some (json_obj [(f, json_strings xs)]) \<and>
      to_text (json_obj [(f, json_strings xs)]) \<noteq> []"
  shows "to_capability from_text (from_capability to_text c) =
    (if c = Unknown then Inl (UnknownKind ''unknown'') else Inr c)"
  by (rule to_capability_declared [OF assms])

definition sample_args :: json where
  "sample_args = json_obj [(''paths'', json_strings [''/etc''])]"

theorem capability_decl_roundtrip_witness:
  "to_capability (\<lambda>s. Some sample_args) (from_capability (\<lambda>v. ''a'') (FilesystemRead [''/etc''])) =
     Inr (FilesystemRead [''/etc''])"
proof -
  have "parses_maps (\<lambda>s. Some sample_args)"
    by (auto simp: parses_maps_def sample_args_def json_obj_def bt_wf_collect)
  then have "to_capability (\<lambda>s. Some sample_args) (from_capability (\<lambda>v. ''a'') (FilesystemRead [''/etc''])) =
      (if FilesystemRead [''/etc''] = Unknown then Inl (UnknownKind ''unknown'') else Inr (FilesystemRead [''/etc'']))"
    by (rule capability_decl_roundtrip) (auto simp: sample_args_def)
  then show ?thesis by (simp only: capability.distinct if_False)
qed

subsection \<open>Entities\<close>

datatype ('h, 'w) entity_registration =
    ToolGate string "('h, 'w) tool_gate_vtable"
  | Transform string "('h, 'w) transform_vtable"
  | IdentityProvider string "('h, 'w) identity_provider_vtable"
  | Backend string "('h, 'w) backend_vtable"
  | WatchStrategy string "('h, 'w) watch_strategy_vtable"
  | HttpRoute string "('h, 'w) http_route_vtable"
  | AuditSink string "('h, 'w) audit_sink_vtable"
  | LogSink string "('h, 'w) log_sink_vtable"
  | TelemetrySink string "('h, 'w) telemetry_sink_vtable"
  | MetricsSink string "('h, 'w) metrics_sink_vtable"
  | Store string "('h, 'w) store_vtable"
  | Cache string "('h, 'w) cache_vtable"
  | SecretProvider string "('h, 'w) secret_provider_vtable"
  | ConfigProvider string "('h, 'w) config_provider_vtable"
  | PolicyEngine string "('h, 'w) policy_engine_vtable"
  | Cluster string "('h, 'w) cluster_vtable"
  | Transport string "('h, 'w) transport_vtable"
  | CatalogProvider string "('h, 'w) catalog_provider_vtable"
  | CredentialIssuer string "('h, 'w) credential_issuer_vtable"
  | ApprovalNotifier string "('h, 'w) approval_notifier_vtable"
  | ContentStore string "('h, 'w) content_store_vtable"

fun entity_kind :: "('h, 'w) entity_registration \<Rightarrow> string" where
  "entity_kind (ToolGate _ _) = ''tool_gate''"
| "entity_kind (Transform _ _) = ''transform''"
| "entity_kind (IdentityProvider _ _) = ''identity_provider''"
| "entity_kind (Backend _ _) = ''backend''"
| "entity_kind (WatchStrategy _ _) = ''watch_strategy''"
| "entity_kind (HttpRoute _ _) = ''http_route''"
| "entity_kind (AuditSink _ _) = ''audit_sink''"
| "entity_kind (LogSink _ _) = ''log_sink''"
| "entity_kind (TelemetrySink _ _) = ''telemetry_sink''"
| "entity_kind (MetricsSink _ _) = ''metrics_sink''"
| "entity_kind (Store _ _) = ''store''"
| "entity_kind (Cache _ _) = ''cache''"
| "entity_kind (SecretProvider _ _) = ''secret_provider''"
| "entity_kind (ConfigProvider _ _) = ''config_provider''"
| "entity_kind (PolicyEngine _ _) = ''policy_engine''"
| "entity_kind (Cluster _ _) = ''cluster''"
| "entity_kind (Transport _ _) = ''transport''"
| "entity_kind (CatalogProvider _ _) = ''catalog_provider''"
| "entity_kind (CredentialIssuer _ _) = ''credential_issuer''"
| "entity_kind (ApprovalNotifier _ _) = ''approval_notifier''"
| "entity_kind (ContentStore _ _) = ''content_store''"

fun inner_name :: "('h, 'w) entity_registration \<Rightarrow> string" where
  "inner_name (ToolGate nam _) = nam"
| "inner_name (Transform nam _) = nam"
| "inner_name (IdentityProvider nam _) = nam"
| "inner_name (Backend nam _) = nam"
| "inner_name (WatchStrategy nam _) = nam"
| "inner_name (HttpRoute nam _) = nam"
| "inner_name (AuditSink nam _) = nam"
| "inner_name (LogSink nam _) = nam"
| "inner_name (TelemetrySink nam _) = nam"
| "inner_name (MetricsSink nam _) = nam"
| "inner_name (Store nam _) = nam"
| "inner_name (Cache nam _) = nam"
| "inner_name (SecretProvider nam _) = nam"
| "inner_name (ConfigProvider nam _) = nam"
| "inner_name (PolicyEngine nam _) = nam"
| "inner_name (Cluster nam _) = nam"
| "inner_name (Transport nam _) = nam"
| "inner_name (CatalogProvider nam _) = nam"
| "inner_name (CredentialIssuer nam _) = nam"
| "inner_name (ApprovalNotifier nam _) = nam"
| "inner_name (ContentStore nam _) = nam"

record ('h, 'w) plugin_registration =
  reg_abi_version :: u32
  reg_plugin_id :: string
  reg_plugin_version :: string
  reg_module_path_prefix :: string
  reg_entities :: "('h, 'w) entity_registration list"
  reg_capabilities :: "typed_capability_decl list"
  reg_backend_profile_json :: "string option"
  reg_descriptor_yaml :: string

definition ALL_KINDS :: "string list" where
  "ALL_KINDS =
     [''tool_gate'', ''transform'', ''identity_provider'', ''backend'', ''watch_strategy'',
      ''http_route'', ''audit_sink'', ''log_sink'', ''telemetry_sink'', ''metrics_sink'',
      ''store'', ''cache'', ''secret_provider'', ''config_provider'', ''policy_engine'',
      ''cluster'', ''transport'', ''catalog_provider'', ''credential_issuer'',
      ''approval_notifier'', ''content_store'']"

text \<open>\<open>Iterator::find\<close> and \<open>Iterator::find_map\<close>.\<close>

fun find_map :: "('a \<Rightarrow> 'b option) \<Rightarrow> 'a list \<Rightarrow> 'b option" where
  "find_map f [] = None"
| "find_map f (x # xs) = (case f x of Some y \<Rightarrow> Some y | None \<Rightarrow> find_map f xs)"

definition first_entity_of_kind :: "('h, 'w) plugin_registration \<Rightarrow> string \<Rightarrow> ('h, 'w) entity_registration option" where
  "first_entity_of_kind r k = find (\<lambda>e. entity_kind e = k) (reg_entities r)"

definition find_entity :: "('h, 'w) plugin_registration \<Rightarrow> string \<Rightarrow> string \<Rightarrow> ('h, 'w) entity_registration option" where
  "find_entity r k nam = find (\<lambda>e. entity_kind e = k \<and> inner_name e = nam) (reg_entities r)"

definition first_tool_gate :: "('h, 'w) plugin_registration \<Rightarrow> ('h, 'w) tool_gate_vtable option" where
  "first_tool_gate r = find_map (\<lambda>e. case e of ToolGate _ vt \<Rightarrow> Some vt | _ \<Rightarrow> None) (reg_entities r)"

definition first_transform :: "('h, 'w) plugin_registration \<Rightarrow> ('h, 'w) transform_vtable option" where
  "first_transform r = find_map (\<lambda>e. case e of Transform _ vt \<Rightarrow> Some vt | _ \<Rightarrow> None) (reg_entities r)"

definition first_identity_provider :: "('h, 'w) plugin_registration \<Rightarrow> ('h, 'w) identity_provider_vtable option" where
  "first_identity_provider r = find_map (\<lambda>e. case e of IdentityProvider _ vt \<Rightarrow> Some vt | _ \<Rightarrow> None) (reg_entities r)"

definition first_backend :: "('h, 'w) plugin_registration \<Rightarrow> ('h, 'w) backend_vtable option" where
  "first_backend r = find_map (\<lambda>e. case e of Backend _ vt \<Rightarrow> Some vt | _ \<Rightarrow> None) (reg_entities r)"

definition first_watch_strategy :: "('h, 'w) plugin_registration \<Rightarrow> ('h, 'w) watch_strategy_vtable option" where
  "first_watch_strategy r = find_map (\<lambda>e. case e of WatchStrategy _ vt \<Rightarrow> Some vt | _ \<Rightarrow> None) (reg_entities r)"

definition first_http_route :: "('h, 'w) plugin_registration \<Rightarrow> ('h, 'w) http_route_vtable option" where
  "first_http_route r = find_map (\<lambda>e. case e of HttpRoute _ vt \<Rightarrow> Some vt | _ \<Rightarrow> None) (reg_entities r)"

definition first_audit_sink :: "('h, 'w) plugin_registration \<Rightarrow> ('h, 'w) audit_sink_vtable option" where
  "first_audit_sink r = find_map (\<lambda>e. case e of AuditSink _ vt \<Rightarrow> Some vt | _ \<Rightarrow> None) (reg_entities r)"

definition first_log_sink :: "('h, 'w) plugin_registration \<Rightarrow> ('h, 'w) log_sink_vtable option" where
  "first_log_sink r = find_map (\<lambda>e. case e of LogSink _ vt \<Rightarrow> Some vt | _ \<Rightarrow> None) (reg_entities r)"

definition first_telemetry_sink :: "('h, 'w) plugin_registration \<Rightarrow> ('h, 'w) telemetry_sink_vtable option" where
  "first_telemetry_sink r = find_map (\<lambda>e. case e of TelemetrySink _ vt \<Rightarrow> Some vt | _ \<Rightarrow> None) (reg_entities r)"

definition first_metrics_sink :: "('h, 'w) plugin_registration \<Rightarrow> ('h, 'w) metrics_sink_vtable option" where
  "first_metrics_sink r = find_map (\<lambda>e. case e of MetricsSink _ vt \<Rightarrow> Some vt | _ \<Rightarrow> None) (reg_entities r)"

definition first_store :: "('h, 'w) plugin_registration \<Rightarrow> ('h, 'w) store_vtable option" where
  "first_store r = find_map (\<lambda>e. case e of Store _ vt \<Rightarrow> Some vt | _ \<Rightarrow> None) (reg_entities r)"

definition first_cache :: "('h, 'w) plugin_registration \<Rightarrow> ('h, 'w) cache_vtable option" where
  "first_cache r = find_map (\<lambda>e. case e of Cache _ vt \<Rightarrow> Some vt | _ \<Rightarrow> None) (reg_entities r)"

definition first_secret_provider :: "('h, 'w) plugin_registration \<Rightarrow> ('h, 'w) secret_provider_vtable option" where
  "first_secret_provider r = find_map (\<lambda>e. case e of SecretProvider _ vt \<Rightarrow> Some vt | _ \<Rightarrow> None) (reg_entities r)"

definition first_config_provider :: "('h, 'w) plugin_registration \<Rightarrow> ('h, 'w) config_provider_vtable option" where
  "first_config_provider r = find_map (\<lambda>e. case e of ConfigProvider _ vt \<Rightarrow> Some vt | _ \<Rightarrow> None) (reg_entities r)"

definition first_policy_engine :: "('h, 'w) plugin_registration \<Rightarrow> ('h, 'w) policy_engine_vtable option" where
  "first_policy_engine r = find_map (\<lambda>e. case e of PolicyEngine _ vt \<Rightarrow> Some vt | _ \<Rightarrow> None) (reg_entities r)"

definition first_cluster :: "('h, 'w) plugin_registration \<Rightarrow> ('h, 'w) cluster_vtable option" where
  "first_cluster r = find_map (\<lambda>e. case e of Cluster _ vt \<Rightarrow> Some vt | _ \<Rightarrow> None) (reg_entities r)"

definition first_transport :: "('h, 'w) plugin_registration \<Rightarrow> ('h, 'w) transport_vtable option" where
  "first_transport r = find_map (\<lambda>e. case e of Transport _ vt \<Rightarrow> Some vt | _ \<Rightarrow> None) (reg_entities r)"

definition first_catalog_provider :: "('h, 'w) plugin_registration \<Rightarrow> ('h, 'w) catalog_provider_vtable option" where
  "first_catalog_provider r = find_map (\<lambda>e. case e of CatalogProvider _ vt \<Rightarrow> Some vt | _ \<Rightarrow> None) (reg_entities r)"

definition first_credential_issuer :: "('h, 'w) plugin_registration \<Rightarrow> ('h, 'w) credential_issuer_vtable option" where
  "first_credential_issuer r = find_map (\<lambda>e. case e of CredentialIssuer _ vt \<Rightarrow> Some vt | _ \<Rightarrow> None) (reg_entities r)"

definition first_approval_notifier :: "('h, 'w) plugin_registration \<Rightarrow> ('h, 'w) approval_notifier_vtable option" where
  "first_approval_notifier r = find_map (\<lambda>e. case e of ApprovalNotifier _ vt \<Rightarrow> Some vt | _ \<Rightarrow> None) (reg_entities r)"

definition first_content_store :: "('h, 'w) plugin_registration \<Rightarrow> ('h, 'w) content_store_vtable option" where
  "first_content_store r = find_map (\<lambda>e. case e of ContentStore _ vt \<Rightarrow> Some vt | _ \<Rightarrow> None) (reg_entities r)"

lemmas first_vtable_defs =
  first_tool_gate_def first_transform_def first_identity_provider_def
  first_backend_def first_watch_strategy_def first_http_route_def
  first_audit_sink_def first_log_sink_def first_telemetry_sink_def
  first_metrics_sink_def first_store_def first_cache_def
  first_secret_provider_def first_config_provider_def first_policy_engine_def
  first_cluster_def first_transport_def first_catalog_provider_def
  first_credential_issuer_def first_approval_notifier_def first_content_store_def

lemma find_map_find:
  assumes "\<And>e. P e \<longleftrightarrow> f e \<noteq> None"
  shows "find_map f xs = Option.bind (find P xs) f"
  by (induction xs) (auto simp: assms split: option.splits)

text \<open>
  The typed accessors and the lookup by kind are two views of one registration: the first
  vtable of a kind is the vtable of the first entity with that kind's name, for each of the
  21 kinds, so no accessor ever returns the table of another kind.
\<close>

theorem first_vtable_agrees:
  "first_tool_gate r = Option.bind (first_entity_of_kind r ''tool_gate'') (\<lambda>e. case e of ToolGate _ vt \<Rightarrow> Some vt | _ \<Rightarrow> None) \<and>
   first_transform r = Option.bind (first_entity_of_kind r ''transform'') (\<lambda>e. case e of Transform _ vt \<Rightarrow> Some vt | _ \<Rightarrow> None) \<and>
   first_identity_provider r = Option.bind (first_entity_of_kind r ''identity_provider'') (\<lambda>e. case e of IdentityProvider _ vt \<Rightarrow> Some vt | _ \<Rightarrow> None) \<and>
   first_backend r = Option.bind (first_entity_of_kind r ''backend'') (\<lambda>e. case e of Backend _ vt \<Rightarrow> Some vt | _ \<Rightarrow> None) \<and>
   first_watch_strategy r = Option.bind (first_entity_of_kind r ''watch_strategy'') (\<lambda>e. case e of WatchStrategy _ vt \<Rightarrow> Some vt | _ \<Rightarrow> None) \<and>
   first_http_route r = Option.bind (first_entity_of_kind r ''http_route'') (\<lambda>e. case e of HttpRoute _ vt \<Rightarrow> Some vt | _ \<Rightarrow> None) \<and>
   first_audit_sink r = Option.bind (first_entity_of_kind r ''audit_sink'') (\<lambda>e. case e of AuditSink _ vt \<Rightarrow> Some vt | _ \<Rightarrow> None) \<and>
   first_log_sink r = Option.bind (first_entity_of_kind r ''log_sink'') (\<lambda>e. case e of LogSink _ vt \<Rightarrow> Some vt | _ \<Rightarrow> None) \<and>
   first_telemetry_sink r = Option.bind (first_entity_of_kind r ''telemetry_sink'') (\<lambda>e. case e of TelemetrySink _ vt \<Rightarrow> Some vt | _ \<Rightarrow> None) \<and>
   first_metrics_sink r = Option.bind (first_entity_of_kind r ''metrics_sink'') (\<lambda>e. case e of MetricsSink _ vt \<Rightarrow> Some vt | _ \<Rightarrow> None) \<and>
   first_store r = Option.bind (first_entity_of_kind r ''store'') (\<lambda>e. case e of Store _ vt \<Rightarrow> Some vt | _ \<Rightarrow> None) \<and>
   first_cache r = Option.bind (first_entity_of_kind r ''cache'') (\<lambda>e. case e of Cache _ vt \<Rightarrow> Some vt | _ \<Rightarrow> None) \<and>
   first_secret_provider r = Option.bind (first_entity_of_kind r ''secret_provider'') (\<lambda>e. case e of SecretProvider _ vt \<Rightarrow> Some vt | _ \<Rightarrow> None) \<and>
   first_config_provider r = Option.bind (first_entity_of_kind r ''config_provider'') (\<lambda>e. case e of ConfigProvider _ vt \<Rightarrow> Some vt | _ \<Rightarrow> None) \<and>
   first_policy_engine r = Option.bind (first_entity_of_kind r ''policy_engine'') (\<lambda>e. case e of PolicyEngine _ vt \<Rightarrow> Some vt | _ \<Rightarrow> None) \<and>
   first_cluster r = Option.bind (first_entity_of_kind r ''cluster'') (\<lambda>e. case e of Cluster _ vt \<Rightarrow> Some vt | _ \<Rightarrow> None) \<and>
   first_transport r = Option.bind (first_entity_of_kind r ''transport'') (\<lambda>e. case e of Transport _ vt \<Rightarrow> Some vt | _ \<Rightarrow> None) \<and>
   first_catalog_provider r = Option.bind (first_entity_of_kind r ''catalog_provider'') (\<lambda>e. case e of CatalogProvider _ vt \<Rightarrow> Some vt | _ \<Rightarrow> None) \<and>
   first_credential_issuer r = Option.bind (first_entity_of_kind r ''credential_issuer'') (\<lambda>e. case e of CredentialIssuer _ vt \<Rightarrow> Some vt | _ \<Rightarrow> None) \<and>
   first_approval_notifier r = Option.bind (first_entity_of_kind r ''approval_notifier'') (\<lambda>e. case e of ApprovalNotifier _ vt \<Rightarrow> Some vt | _ \<Rightarrow> None) \<and>
   first_content_store r = Option.bind (first_entity_of_kind r ''content_store'') (\<lambda>e. case e of ContentStore _ vt \<Rightarrow> Some vt | _ \<Rightarrow> None)"
  unfolding first_vtable_defs first_entity_of_kind_def
  by (intro conjI; rule find_map_find; (simp split: entity_registration.split))

text \<open>
  The list of kinds is complete and minimal: every entity has a kind of the list, every
  kind of the list is the kind of some entity, and no kind is listed twice.
\<close>

theorem all_kinds_exact:
  "set ALL_KINDS = range (entity_kind :: ('h, 'w) entity_registration \<Rightarrow> string) \<and> distinct ALL_KINDS"
proof -
  have "set ALL_KINDS \<subseteq> range (entity_kind :: ('h, 'w) entity_registration \<Rightarrow> string)"
    unfolding ALL_KINDS_def list.set insert_subset
    by (intro conjI empty_subsetI; metis entity_kind.simps rangeI)
  moreover have "entity_kind e \<in> set ALL_KINDS" for e :: "('h, 'w) entity_registration"
    by (cases e) (simp_all add: ALL_KINDS_def)
  moreover have "distinct ALL_KINDS" by (simp add: ALL_KINDS_def)
  ultimately show ?thesis by auto
qed

text \<open>
  Looking an entity up by kind and name finds it exactly when the registration holds one,
  and then the first: a later entity with the same kind and name is never reached.
\<close>

theorem find_entity_exact:
  "(find_entity r k nam = Some e \<longleftrightarrow>
      (\<exists>before after. reg_entities r = before @ e # after \<and> entity_kind e = k \<and> inner_name e = nam \<and>
        (k, nam) \<notin> (\<lambda>x. (entity_kind x, inner_name x)) ` set before)) \<and>
   (find_entity r k nam = None \<longleftrightarrow> (k, nam) \<notin> (\<lambda>x. (entity_kind x, inner_name x)) ` set (reg_entities r))"
proof -
  have some: "find P xs = Some e \<longleftrightarrow> (\<exists>before after. xs = before @ e # after \<and> P e \<and> \<not> (\<exists>x \<in> set before. P x))"
    for P :: "('a, 'b) entity_registration \<Rightarrow> bool" and xs
  proof (induction xs)
    case (Cons x xs)
    show ?case
    proof (cases "P x")
      case True
      then show ?thesis by (auto simp: Cons_eq_append_conv)
    next
      case False
      have "(\<exists>before after. x # xs = before @ e # after \<and> P e \<and> \<not> (\<exists>y \<in> set before. P y)) \<longleftrightarrow>
          (\<exists>before after. xs = before @ e # after \<and> P e \<and> \<not> (\<exists>y \<in> set before. P y))" (is "?l = ?r")
      proof
        assume ?l
        then obtain bs as where s: "x # xs = bs @ e # as" "P e" "\<not> (\<exists>y \<in> set bs. P y)" by blast
        with False obtain bs' where "bs = x # bs'" by (cases bs) auto
        with s show ?r by auto
      next
        assume ?r
        then obtain bs as where "xs = bs @ e # as" "P e" "\<not> (\<exists>y \<in> set bs. P y)" by blast
        with False have "x # xs = (x # bs) @ e # as \<and> P e \<and> \<not> (\<exists>y \<in> set (x # bs). P y)" by simp
        then show ?l by blast
      qed
      then show ?thesis using False Cons.IH by simp
    qed
  qed simp
  have key: "(k, nam) \<in> (\<lambda>x. (entity_kind x, inner_name x)) ` S \<longleftrightarrow>
      (\<exists>x \<in> S. entity_kind x = k \<and> inner_name x = nam)" for S :: "('a, 'b) entity_registration set"
    by auto
  show ?thesis
    unfolding find_entity_def some key by (simp add: find_None_iff Bex_def)
qed

subsection \<open>Budgets of a call\<close>

datatype ffi_slot_class = Lifecycle | Control | Data

definition FFI_LIFECYCLE_TIMEOUT_DEFAULT_MS :: u64 where
  "FFI_LIFECYCLE_TIMEOUT_DEFAULT_MS = 1000"

definition FFI_CONTROL_TIMEOUT_DEFAULT_MS :: u64 where
  "FFI_CONTROL_TIMEOUT_DEFAULT_MS = 5000"

definition FFI_DATA_TIMEOUT_DEFAULT_MS :: u64 where
  "FFI_DATA_TIMEOUT_DEFAULT_MS = 30000"

fun default_timeout_ms :: "ffi_slot_class \<Rightarrow> u64" where
  "default_timeout_ms Lifecycle = FFI_LIFECYCLE_TIMEOUT_DEFAULT_MS"
| "default_timeout_ms Control = FFI_CONTROL_TIMEOUT_DEFAULT_MS"
| "default_timeout_ms Data = FFI_DATA_TIMEOUT_DEFAULT_MS"

definition FFI_MAX_PAYLOAD_BYTES :: u64 where
  "FFI_MAX_PAYLOAD_BYTES = 256 * 1024"

end
