(* ===== verification/Abi_Guard.thy ===== *)
theory Abi_Guard
  imports Abi_Registration Http_Route
begin

section \<open>Panic guards\<close>

text \<open>
  \<open>src/src/abi.rs\<close>: the guards that run a plugin's code and turn a panic into a failure value of
  each return type. The plugin's code is a computation that returns or panics; what it does
  besides is outside the guard.
\<close>

subsection \<open>Guards\<close>

type_synonym 'a unwind = "panic + 'a"

definition PANIC_DENY_CODE :: i32 where
  "PANIC_DENY_CODE = - 32099"

definition PANIC_DENY_STATUS :: u16 where
  "PANIC_DENY_STATUS = 500"

definition PANIC_DENY_MSG :: string where
  "PANIC_DENY_MSG = ''plugin panicked during evaluate_pre/post_dispatch''"

definition PANIC_TRANSFORM_MSG :: string where
  "PANIC_TRANSFORM_MSG = ''plugin panicked during transform''"

definition PANIC_IDENTITY_MSG :: string where
  "PANIC_IDENTITY_MSG = ''plugin panicked during resolve_identity''"

definition MCPG_PLUGIN_ABI_PANIC_SENTINEL :: u32 where
  "MCPG_PLUGIN_ABI_PANIC_SENTINEL = - 1"

definition PANIC_LEASE_MSG :: string where
  "PANIC_LEASE_MSG = ''plugin panicked during lease acquire''"

definition PANIC_STREAM_MSG :: string where
  "PANIC_STREAM_MSG = ''plugin panicked during stream subscription''"

definition PANIC_TRANSPORT_MSG :: string where
  "PANIC_TRANSPORT_MSG = ''plugin panicked during transport start''"

definition PANIC_HTTP_MSG :: string where
  "PANIC_HTTP_MSG = ''plugin panicked during http handle''"

definition PANIC_DISPATCHER_MSG :: string where
  "PANIC_DISPATCHER_MSG = ''plugin panicked during dispatcher callback''"

definition catch_panic_to_deny :: "r_gate_decision unwind \<Rightarrow> r_gate_decision" where
  "catch_panic_to_deny f =
     (case f of Inr r \<Rightarrow> r | Inl _ \<Rightarrow> RDeny PANIC_DENY_STATUS PANIC_DENY_CODE PANIC_DENY_MSG None)"

definition catch_panic_to_transform_error :: "r_transform_result unwind \<Rightarrow> r_transform_result" where
  "catch_panic_to_transform_error f = (case f of Inr r \<Rightarrow> r | Inl _ \<Rightarrow> RError PANIC_TRANSFORM_MSG)"

definition catch_panic_to_identity_invalid :: "r_identity_resolution unwind \<Rightarrow> r_identity_resolution" where
  "catch_panic_to_identity_invalid f = (case f of Inr r \<Rightarrow> r | Inl _ \<Rightarrow> RInvalid PANIC_IDENTITY_MSG [])"

definition catch_panic_to_null_handle :: "u64 unwind \<Rightarrow> u64" where
  "catch_panic_to_null_handle f = (case f of Inr h \<Rightarrow> h | Inl _ \<Rightarrow> 0)"

definition catch_panic_to_empty_rstring :: "string unwind \<Rightarrow> string" where
  "catch_panic_to_empty_rstring f = (case f of Inr s \<Rightarrow> s | Inl _ \<Rightarrow> [])"

definition catch_panic_silent :: "unit unwind \<Rightarrow> unit" where
  "catch_panic_silent f = (case f of Inr _ \<Rightarrow> () | Inl _ \<Rightarrow> ())"

definition catch_panic_to_panicked_registration :: "('h, 'w) plugin_registration unwind \<Rightarrow> ('h, 'w) plugin_registration" where
  "catch_panic_to_panicked_registration f =
     (case f of
        Inr r \<Rightarrow> r
      | Inl _ \<Rightarrow>
          \<lparr>reg_abi_version = MCPG_PLUGIN_ABI_PANIC_SENTINEL, reg_plugin_id = [], reg_plugin_version = [],
           reg_module_path_prefix = [], reg_entities = [], reg_capabilities = [],
           reg_backend_profile_json = None, reg_descriptor_yaml = []\<rparr>)"

definition panicked_dispatcher_reply :: string where
  "panicked_dispatcher_reply =
     ''{\"err\":{\"Internal\":{\"reason\":\"plugin panicked during dispatcher callback\"}}}''"

definition catch_panic_to_lease_failure :: "lease_handle unwind \<Rightarrow> lease_handle" where
  "catch_panic_to_lease_failure f =
     (case f of
        Inr r \<Rightarrow> r
      | Inl _ \<Rightarrow> \<lparr>lh_handle = 0, lh_error_json = PANIC_LEASE_MSG, lh_fencing_token = 0, lh_expires_at = []\<rparr>)"

definition catch_panic_to_stream_failure :: "stream_handle unwind \<Rightarrow> stream_handle" where
  "catch_panic_to_stream_failure f =
     (case f of
        Inr r \<Rightarrow> r
      | Inl _ \<Rightarrow> \<lparr>sh_handle = 0, sh_error_json = PANIC_STREAM_MSG, sh_metadata_json = []\<rparr>)"

definition catch_panic_to_transport_failure :: "stream_handle unwind \<Rightarrow> stream_handle" where
  "catch_panic_to_transport_failure f =
     (case f of
        Inr r \<Rightarrow> r
      | Inl _ \<Rightarrow> \<lparr>sh_handle = 0, sh_error_json = PANIC_TRANSPORT_MSG, sh_metadata_json = []\<rparr>)"

definition catch_panic_to_http_failure :: "http_handle_result unwind \<Rightarrow> http_handle_result" where
  "catch_panic_to_http_failure f =
     (case f of Inr r \<Rightarrow> r | Inl _ \<Rightarrow> \<lparr>hhr_handle = 0, hhr_head_json = PANIC_HTTP_MSG\<rparr>)"

definition catch_panic_to_dispatcher_failure :: "dispatcher_callback_result unwind \<Rightarrow> dispatcher_callback_result" where
  "catch_panic_to_dispatcher_failure f =
     (case f of Inr r \<Rightarrow> r | Inl _ \<Rightarrow> \<lparr>dcr_reply_json = panicked_dispatcher_reply\<rparr>)"

lemmas guard_defs =
  catch_panic_to_deny_def catch_panic_to_transform_error_def catch_panic_to_identity_invalid_def
  catch_panic_to_null_handle_def catch_panic_to_panicked_registration_def catch_panic_to_lease_failure_def
  catch_panic_to_stream_failure_def catch_panic_to_transport_failure_def catch_panic_to_empty_rstring_def
  catch_panic_to_http_failure_def catch_panic_to_dispatcher_failure_def

subsection \<open>Failing closed\<close>

text \<open>
  How a host reads the returned structs, after the documentation of \<open>LeaseHandle\<close>,
  \<open>StreamHandle\<close> and \<open>HttpHandleResult\<close>: a handle other than 0 is a success; a handle of 0
  is a failure with its error text, save that a lease without an error text was declined and
  an HTTP result is then a buffered response in \<open>head_json\<close>.
\<close>

datatype 'r acquired = Acquired 'r | Declined | Failed string

datatype http_answer = Streaming u64 string | Buffered string

definition lease_read :: "lease_handle \<Rightarrow> lease_handle acquired" where
  "lease_read r = (if lh_handle r \<noteq> 0 then Acquired r else if lh_error_json r = [] then Declined
     else Failed (lh_error_json r))"

definition stream_read :: "stream_handle \<Rightarrow> stream_handle acquired" where
  "stream_read r = (if sh_handle r \<noteq> 0 then Acquired r else Failed (sh_error_json r))"

definition http_read :: "http_handle_result \<Rightarrow> http_answer" where
  "http_read r = (if hhr_handle r \<noteq> 0 then Streaming (hhr_handle r) (hhr_head_json r)
     else Buffered (hhr_head_json r))"

definition registration_accepted :: "('h, 'w) plugin_registration \<Rightarrow> bool" where
  "registration_accepted r \<longleftrightarrow> reg_abi_version r = MCPG_PLUGIN_ABI_VERSION"

lemmas panic_texts =
  PANIC_DENY_CODE_def PANIC_DENY_STATUS_def PANIC_DENY_MSG_def PANIC_TRANSFORM_MSG_def PANIC_IDENTITY_MSG_def
  PANIC_LEASE_MSG_def PANIC_STREAM_MSG_def PANIC_TRANSPORT_MSG_def PANIC_HTTP_MSG_def

lemmas host_readings = lease_read_def stream_read_def http_read_def registration_accepted_def

text \<open>A guard is transparent for a result and reads as a failure after a panic.\<close>

lemma guarded_gate:
  "gate_of_abi from_text (catch_panic_to_deny g) =
     (case g of Inr r \<Rightarrow> gate_of_abi from_text r
      | Inl _ \<Rightarrow> Deny 500 (- 32099) ''plugin panicked during evaluate_pre/post_dispatch'' None)"
  by (simp add: catch_panic_to_deny_def panic_texts opt_parse_def split: sum.split)

lemma guarded_lease:
  "lease_read (catch_panic_to_lease_failure l) =
     (case l of Inr r \<Rightarrow> lease_read r | Inl _ \<Rightarrow> Failed ''plugin panicked during lease acquire'')"
  by (simp add: catch_panic_to_lease_failure_def panic_texts host_readings split: sum.split)

lemma guarded_stream:
  "stream_read (catch_panic_to_stream_failure s) =
     (case s of Inr r \<Rightarrow> stream_read r | Inl _ \<Rightarrow> Failed ''plugin panicked during stream subscription'')"
  "stream_read (catch_panic_to_transport_failure s) =
     (case s of Inr r \<Rightarrow> stream_read r | Inl _ \<Rightarrow> Failed ''plugin panicked during transport start'')"
  by (simp_all add: catch_panic_to_stream_failure_def catch_panic_to_transport_failure_def panic_texts
      host_readings split: sum.split)

lemma guarded_http:
  "http_read (catch_panic_to_http_failure q) =
     (case q of Inr r \<Rightarrow> http_read r | Inl _ \<Rightarrow> Buffered ''plugin panicked during http handle'')"
  by (simp add: catch_panic_to_http_failure_def panic_texts host_readings split: sum.split)

lemma guarded_registration:
  "registration_accepted (catch_panic_to_panicked_registration p) \<longleftrightarrow>
     (\<exists>r. p = Inr r \<and> registration_accepted r)"
  by (auto simp: catch_panic_to_panicked_registration_def host_readings MCPG_PLUGIN_ABI_VERSION_def
      MCPG_PLUGIN_ABI_PANIC_SENTINEL_def split: sum.split)

lemma guards_transparent:
  "catch_panic_to_deny (Inr rg) = rg"
  "catch_panic_to_transform_error (Inr rt) = rt"
  "catch_panic_to_identity_invalid (Inr ri) = ri"
  "catch_panic_to_null_handle (Inr rh) = rh"
  "catch_panic_to_empty_rstring (Inr rs) = rs"
  "catch_panic_to_panicked_registration (Inr rr) = rr"
  "catch_panic_to_lease_failure (Inr rl) = rl"
  "catch_panic_to_stream_failure (Inr rst) = rst"
  "catch_panic_to_transport_failure (Inr rst) = rst"
  "catch_panic_to_http_failure (Inr rq) = rq"
  "catch_panic_to_dispatcher_failure (Inr rd) = rd"
  by (simp_all add: guard_defs)

lemma guards_panicked:
  "catch_panic_to_transform_error (Inl x) = RError ''plugin panicked during transform''"
  "catch_panic_to_identity_invalid (Inl x) = RInvalid ''plugin panicked during resolve_identity'' []"
  "catch_panic_to_null_handle (Inl x) = 0"
  "catch_panic_to_empty_rstring (Inl x) = []"
  "reg_entities (catch_panic_to_panicked_registration (Inl x)) = []"
  "reg_capabilities (catch_panic_to_panicked_registration (Inl x)) = []"
  "dcr_reply_json (catch_panic_to_dispatcher_failure (Inl x)) =
     ''{\"err\":{\"Internal\":{\"reason\":\"plugin panicked during dispatcher callback\"}}}''"
  by (simp_all add: guard_defs panic_texts panicked_dispatcher_reply_def)

text \<open>
  C23: A guarded call fails closed and is otherwise transparent. Each of the eleven guards
  that return a value passes the result of code that does not panic on unchanged. After a
  panic the host reads a denial with status 500 and the sentinel code, a failed transform, a
  rejected identity, a null handle, an empty manifest, a registration of an ABI version that
  is not the current one and that registers nothing, a lease, stream or transport that failed
  with the guard's message (never granted, never merely declined), no HTTP stream but a
  buffered answer that is the guard's message, and a dispatcher reply that is an error text.
  So a gate allows, an identity resolves and a registration is accepted only if the plugin's
  code returned exactly that.
\<close>

theorem guards_fail_closed:
  "(catch_panic_to_deny (Inr rg) = rg \<and> catch_panic_to_transform_error (Inr rt) = rt \<and>
    catch_panic_to_identity_invalid (Inr ri) = ri \<and> catch_panic_to_null_handle (Inr rh) = rh \<and>
    catch_panic_to_empty_rstring (Inr rs) = rs \<and> catch_panic_to_panicked_registration (Inr rr) = rr \<and>
    catch_panic_to_lease_failure (Inr rl) = rl \<and> catch_panic_to_stream_failure (Inr rst) = rst \<and>
    catch_panic_to_transport_failure (Inr rst) = rst \<and> catch_panic_to_http_failure (Inr rq) = rq \<and>
    catch_panic_to_dispatcher_failure (Inr rd) = rd) \<and>
   gate_of_abi from_text (catch_panic_to_deny g) =
     (case g of Inr r \<Rightarrow> gate_of_abi from_text r
      | Inl _ \<Rightarrow> Deny 500 (- 32099) ''plugin panicked during evaluate_pre/post_dispatch'' None) \<and>
   transform_of_abi from_text (catch_panic_to_transform_error (Inl Panicked)) =
     TransformError ''plugin panicked during transform'' \<and>
   resolution_of_abi (catch_panic_to_identity_invalid (Inl Panicked)) =
     InvalidIdentity ''plugin panicked during resolve_identity'' [] \<and>
   catch_panic_to_null_handle (Inl Panicked) = 0 \<and>
   catch_panic_to_empty_rstring (Inl Panicked) = [] \<and>
   reg_entities (catch_panic_to_panicked_registration (Inl Panicked)) = [] \<and>
   reg_capabilities (catch_panic_to_panicked_registration (Inl Panicked)) = [] \<and>
   lease_read (catch_panic_to_lease_failure l) =
     (case l of Inr r \<Rightarrow> lease_read r | Inl _ \<Rightarrow> Failed ''plugin panicked during lease acquire'') \<and>
   stream_read (catch_panic_to_stream_failure s) =
     (case s of Inr r \<Rightarrow> stream_read r | Inl _ \<Rightarrow> Failed ''plugin panicked during stream subscription'') \<and>
   stream_read (catch_panic_to_transport_failure s) =
     (case s of Inr r \<Rightarrow> stream_read r | Inl _ \<Rightarrow> Failed ''plugin panicked during transport start'') \<and>
   http_read (catch_panic_to_http_failure q) =
     (case q of Inr r \<Rightarrow> http_read r | Inl _ \<Rightarrow> Buffered ''plugin panicked during http handle'') \<and>
   dcr_reply_json (catch_panic_to_dispatcher_failure (Inl Panicked)) =
     ''{\"err\":{\"Internal\":{\"reason\":\"plugin panicked during dispatcher callback\"}}}'' \<and>
   (gate_is_allow (gate_of_abi from_text (catch_panic_to_deny g)) \<longleftrightarrow> (\<exists>a b m. g = Inr (RAllow a b m))) \<and>
   ((\<exists>i. resolution_of_abi (catch_panic_to_identity_invalid ir) = Resolved i) \<longleftrightarrow> (\<exists>i. ir = Inr (RResolved i))) \<and>
   (registration_accepted (catch_panic_to_panicked_registration p) \<longleftrightarrow>
      (\<exists>r. p = Inr r \<and> registration_accepted r))"
proof -
  have gate: "gate_is_allow (gate_of_abi from_text (catch_panic_to_deny g)) \<longleftrightarrow> (\<exists>a b m. g = Inr (RAllow a b m))"
  proof (cases g)
    case (Inr r)
    then show ?thesis by (cases r) (simp_all add: guards_transparent)
  qed (simp add: guarded_gate)
  have res: "(\<exists>i. resolution_of_abi (catch_panic_to_identity_invalid ir) = Resolved i) \<longleftrightarrow>
      (\<exists>i. ir = Inr (RResolved i))"
  proof (cases ir)
    case (Inr r)
    then show ?thesis by (cases r) (simp_all add: guards_transparent)
  qed (simp add: guards_panicked)
  show ?thesis
    by (intro conjI gate res guarded_gate guarded_lease guarded_stream guarded_http guarded_registration
        guards_transparent guards_panicked) (simp_all add: guards_panicked)
qed

text \<open>
  The reply of a panicked dispatcher callback is not one a host can read: its error is
  written with the variant as a key, but dispatcher errors carry their variant in \<open>kind\<close>, so
  decoding it fails for want of that field and no dispatcher error is ever written like it.
\<close>

theorem panicked_reply_unreadable:
  assumes "from_text panicked_dispatcher_reply = Some (json_obj [(''err'', json_obj [(''Internal'',
      json_obj [(''reason'', JString PANIC_DISPATCHER_MSG)])])])"
  shows "\<exists>m v. from_text (dcr_reply_json (catch_panic_to_dispatcher_failure (Inl Panicked))) = Some (JObject m) \<and>
    bt_get m ''err'' = Some v \<and> decode_dispatcher_error v = Inl (MissingField ''kind'') \<and>
    v \<notin> range encode_dispatcher_error"
proof -
  let ?v = "json_obj [(''Internal'', json_obj [(''reason'', JString PANIC_DISPATCHER_MSG)])]"
  have dec: "decode_dispatcher_error ?v = Inl (MissingField ''kind'')"
    by (simp add: decode_dispatcher_error_def json_obj_def bt_collect_def de_field_def)
  then have "?v \<notin> range encode_dispatcher_error"
    by (metis (no_types, lifting) dispatcher_error_codec.roundtrip rangeE sum.distinct(1))
  with dec assms show ?thesis
    by (simp add: catch_panic_to_dispatcher_failure_def json_obj_def [of "[(''err'', _)]"] bt_collect_def)
qed

theorem panicked_reply_unreadable_witness:
  "decode_dispatcher_error (json_obj [(''Internal'', json_obj [(''reason'', JString PANIC_DISPATCHER_MSG)])]) \<noteq>
     Inr (Internal PANIC_DISPATCHER_MSG)"
proof -
  let ?j = "json_obj [(''err'', json_obj [(''Internal'', json_obj [(''reason'', JString PANIC_DISPATCHER_MSG)])])]"
  have get: "bt_get m ''err'' = Some v \<Longrightarrow> ?j = JObject m \<Longrightarrow>
      v = json_obj [(''Internal'', json_obj [(''reason'', JString PANIC_DISPATCHER_MSG)])]" for m v
    by (auto simp: json_obj_def [of "[(''err'', _)]"] bt_collect_def)
  from panicked_reply_unreadable [of "\<lambda>_. Some ?j"] get show ?thesis by fastforce
qed

end
