(* ===== verification/Catalog.thy ===== *)
theory Catalog
  imports Json
begin

section \<open>The tool catalog\<close>

text \<open>
  \<open>src/src/catalog.rs\<close>: the descriptors a catalog provider receives and enriches, the
  metadata it attaches, the rule that combines the metadata of several providers, and the
  trust levels. The providers themselves are plugins outside the crate.
\<close>

subsection \<open>Descriptors and metadata\<close>

record protocol_tool_descriptor =
  ptd_name :: string
  ptd_title :: "string option"
  ptd_description :: string
  ptd_input_schema :: json
  ptd_output_schema :: "json option"

definition encode_protocol_tool_descriptor :: "protocol_tool_descriptor \<Rightarrow> json" where
  "encode_protocol_tool_descriptor x = JObject (fields_map
     [(''name'', Some (JString (ptd_name x))),
      (''title'', map_option JString (ptd_title x)),
      (''description'', Some (JString (ptd_description x))),
      (''inputSchema'', Some (ptd_input_schema x)),
      (''outputSchema'', (ptd_output_schema x))])"

definition decode_protocol_tool_descriptor :: "json \<Rightarrow> de_error + protocol_tool_descriptor" where
  "decode_protocol_tool_descriptor v = res_bind (de_object v) (\<lambda>m.
     res_bind (de_field m ''name'' de_string) (\<lambda>nam.
     res_bind (de_opt m ''title'' de_string) (\<lambda>title.
     res_bind (de_field m ''description'' de_string) (\<lambda>description.
     res_bind (de_field m ''inputSchema'' de_value) (\<lambda>input_schema.
     res_bind (de_opt m ''outputSchema'' de_value) (\<lambda>output_schema.
       Inr \<lparr>ptd_name = nam, ptd_title = title, ptd_description = description, ptd_input_schema = input_schema, ptd_output_schema = output_schema\<rparr>))))))"

interpretation protocol_tool_descriptor_codec: codec encode_protocol_tool_descriptor decode_protocol_tool_descriptor "\<lambda>x. ptd_output_schema x \<noteq> Some JNull"
  by unfold_locales (simp_all add: encode_protocol_tool_descriptor_def decode_protocol_tool_descriptor_def codec_simps non_null_def)

declare protocol_tool_descriptor_codec.roundtrip [simp] protocol_tool_descriptor_codec.nonnull [simp]

record catalog_metadata =
  cm_tags :: "string list"
  cm_owner :: "string option"
  cm_doc_url :: "string option"
  cm_sample_arguments :: "json option"
  cm_trust_required :: "string option"
  cm_requires_approval :: "bool option"
  cm_maturity :: "string option"
  cm_attributes :: "(string \<times> string) list"

definition encode_catalog_metadata :: "catalog_metadata \<Rightarrow> json" where
  "encode_catalog_metadata x = JObject (fields_map
     [(''tags'', vec_skip JString (cm_tags x)),
      (''owner'', map_option JString (cm_owner x)),
      (''doc_url'', map_option JString (cm_doc_url x)),
      (''sample_arguments'', (cm_sample_arguments x)),
      (''trust_required'', map_option JString (cm_trust_required x)),
      (''requires_approval'', map_option JBool (cm_requires_approval x)),
      (''maturity'', map_option JString (cm_maturity x)),
      (''attributes'', map_skip JString (cm_attributes x))])"

definition decode_catalog_metadata :: "json \<Rightarrow> de_error + catalog_metadata" where
  "decode_catalog_metadata v = res_bind (de_object v) (\<lambda>m.
     res_bind (de_field_default m ''tags'' [] (de_vec de_string)) (\<lambda>tags.
     res_bind (de_opt m ''owner'' de_string) (\<lambda>owner.
     res_bind (de_opt m ''doc_url'' de_string) (\<lambda>doc_url.
     res_bind (de_opt m ''sample_arguments'' de_value) (\<lambda>sample_arguments.
     res_bind (de_opt m ''trust_required'' de_string) (\<lambda>trust_required.
     res_bind (de_opt m ''requires_approval'' de_bool) (\<lambda>requires_approval.
     res_bind (de_opt m ''maturity'' de_string) (\<lambda>maturity.
     res_bind (de_field_default m ''attributes'' [] (de_map de_string)) (\<lambda>attributes.
       Inr \<lparr>cm_tags = tags, cm_owner = owner, cm_doc_url = doc_url, cm_sample_arguments = sample_arguments, cm_trust_required = trust_required, cm_requires_approval = requires_approval, cm_maturity = maturity, cm_attributes = attributes\<rparr>)))))))))"

interpretation catalog_metadata_codec: codec encode_catalog_metadata decode_catalog_metadata "\<lambda>x. cm_sample_arguments x \<noteq> Some JNull"
  by unfold_locales (simp_all add: encode_catalog_metadata_def decode_catalog_metadata_def codec_simps non_null_def)

declare catalog_metadata_codec.roundtrip [simp] catalog_metadata_codec.nonnull [simp]

record catalog_entry =
  ce_tool_id :: string
  ce_display_name :: "string option"
  ce_description :: "string option"
  ce_catalog :: catalog_metadata
  ce_access_summary :: "string option"
  ce_last_invoked_at :: "string option"
  ce_recent_invocations :: "u64 option"

definition encode_catalog_entry :: "catalog_entry \<Rightarrow> json" where
  "encode_catalog_entry x = JObject (fields_map
     [(''tool_id'', Some (JString (ce_tool_id x))),
      (''display_name'', map_option JString (ce_display_name x)),
      (''description'', map_option JString (ce_description x)),
      (''catalog'', Some (encode_catalog_metadata (ce_catalog x))),
      (''access_summary'', map_option JString (ce_access_summary x)),
      (''last_invoked_at'', map_option JString (ce_last_invoked_at x)),
      (''recent_invocations'', map_option en_u64 (ce_recent_invocations x))])"

definition decode_catalog_entry :: "json \<Rightarrow> de_error + catalog_entry" where
  "decode_catalog_entry v = res_bind (de_object v) (\<lambda>m.
     res_bind (de_field m ''tool_id'' de_string) (\<lambda>tool_id.
     res_bind (de_opt m ''display_name'' de_string) (\<lambda>display_name.
     res_bind (de_opt m ''description'' de_string) (\<lambda>description.
     res_bind (de_field m ''catalog'' decode_catalog_metadata) (\<lambda>catalog.
     res_bind (de_opt m ''access_summary'' de_string) (\<lambda>access_summary.
     res_bind (de_opt m ''last_invoked_at'' de_string) (\<lambda>last_invoked_at.
     res_bind (de_opt m ''recent_invocations'' de_u64) (\<lambda>recent_invocations.
       Inr \<lparr>ce_tool_id = tool_id, ce_display_name = display_name, ce_description = description, ce_catalog = catalog, ce_access_summary = access_summary, ce_last_invoked_at = last_invoked_at, ce_recent_invocations = recent_invocations\<rparr>))))))))"

interpretation catalog_entry_codec: codec encode_catalog_entry decode_catalog_entry "\<lambda>x. cm_sample_arguments (ce_catalog x) \<noteq> Some JNull"
  by unfold_locales (simp_all add: encode_catalog_entry_def decode_catalog_entry_def codec_simps)

declare catalog_entry_codec.roundtrip [simp] catalog_entry_codec.nonnull [simp]

text \<open>The base descriptor is flattened: its fields stand beside the catalog.\<close>

record enriched_tool_descriptor =
  etd_base :: protocol_tool_descriptor
  etd_catalog :: "catalog_metadata option"

definition descriptor_fields :: "protocol_tool_descriptor \<Rightarrow> (string \<times> json option) list" where
  "descriptor_fields x =
     [(''name'', Some (JString (ptd_name x))),
      (''title'', map_option JString (ptd_title x)),
      (''description'', Some (JString (ptd_description x))),
      (''inputSchema'', Some (ptd_input_schema x)),
      (''outputSchema'', ptd_output_schema x)]"

definition encode_enriched_tool_descriptor :: "enriched_tool_descriptor \<Rightarrow> json" where
  "encode_enriched_tool_descriptor x = JObject (fields_map
     (descriptor_fields (etd_base x) @
      [(''catalog'', map_option encode_catalog_metadata (etd_catalog x))]))"

definition decode_enriched_tool_descriptor :: "json \<Rightarrow> de_error + enriched_tool_descriptor" where
  "decode_enriched_tool_descriptor v = res_bind (de_object v) (\<lambda>m.
     res_bind (decode_protocol_tool_descriptor (JObject m)) (\<lambda>base.
     res_bind (de_opt m ''catalog'' decode_catalog_metadata) (\<lambda>cat.
       Inr \<lparr>etd_base = base, etd_catalog = cat\<rparr>)))"

definition from_base :: "protocol_tool_descriptor \<Rightarrow> enriched_tool_descriptor" where
  "from_base base = \<lparr>etd_base = base, etd_catalog = None\<rparr>"

definition default_catalog_metadata :: catalog_metadata where
  "default_catalog_metadata =
     \<lparr>cm_tags = [], cm_owner = None, cm_doc_url = None, cm_sample_arguments = None, cm_trust_required = None,
      cm_requires_approval = None, cm_maturity = None, cm_attributes = []\<rparr>"

definition catalog_is_empty :: "catalog_metadata \<Rightarrow> bool" where
  "catalog_is_empty m \<longleftrightarrow>
     cm_tags m = [] \<and> cm_owner m = None \<and> cm_doc_url m = None \<and> cm_sample_arguments m = None \<and>
     cm_trust_required m = None \<and> cm_requires_approval m = None \<and> cm_maturity m = None \<and> cm_attributes m = []"

subsection \<open>Merging\<close>

definition add_tags :: "string list \<Rightarrow> string list \<Rightarrow> string list" where
  "add_tags tags incoming = fold (\<lambda>tag acc. if tag \<in> set acc then acc else acc @ [tag]) incoming tags"

definition add_attributes ::
  "(string \<times> string) list \<Rightarrow> (string \<times> string) list \<Rightarrow> (string \<times> string) list" where
  "add_attributes attrs incoming =
     fold (\<lambda>(k, v) acc. case bt_get acc k of Some _ \<Rightarrow> acc | None \<Rightarrow> bt_insert k v acc) incoming attrs"

definition merge_from :: "catalog_metadata \<Rightarrow> catalog_metadata \<Rightarrow> catalog_metadata" where
  "merge_from self incoming =
     self\<lparr>cm_owner := (if cm_owner self = None then cm_owner incoming else cm_owner self),
      cm_doc_url := (if cm_doc_url self = None then cm_doc_url incoming else cm_doc_url self),
      cm_sample_arguments :=
        (if cm_sample_arguments self = None then cm_sample_arguments incoming else cm_sample_arguments self),
      cm_trust_required :=
        (if cm_trust_required self = None then cm_trust_required incoming else cm_trust_required self),
      cm_requires_approval :=
        (if cm_requires_approval self = None then cm_requires_approval incoming else cm_requires_approval self),
      cm_maturity := (if cm_maturity self = None then cm_maturity incoming else cm_maturity self),
      cm_tags := add_tags (cm_tags self) (cm_tags incoming),
      cm_attributes := add_attributes (cm_attributes self) (cm_attributes incoming)\<rparr>"

lemma add_tags_Nil [simp]: "add_tags xs [] = xs"
  by (simp add: add_tags_def)

lemma add_tags_snoc [simp]:
  "add_tags xs (ys @ [t]) = (if t \<in> set (add_tags xs ys) then add_tags xs ys else add_tags xs ys @ [t])"
  by (simp add: add_tags_def)

lemma set_add_tags [simp]: "set (add_tags xs ys) = set xs \<union> set ys"
  by (induction ys rule: rev_induct) auto

lemma add_tags_assoc: "add_tags (add_tags xs ys) zs = add_tags xs (add_tags ys zs)"
  by (induction zs rule: rev_induct) auto

lemma add_tags_known: "set ys \<subseteq> set xs \<Longrightarrow> add_tags xs ys = xs"
  by (induction ys rule: rev_induct) auto

lemma add_tags_prefix: "\<exists>new. add_tags xs ys = xs @ new \<and> distinct new \<and> set new = set ys - set xs"
proof (induction ys rule: rev_induct)
  case (snoc t ys)
  then obtain new where new: "add_tags xs ys = xs @ new" "distinct new" "set new = set ys - set xs" by blast
  show ?case
  proof (cases "t \<in> set (add_tags xs ys)")
    case True
    then show ?thesis using new by (intro exI [of _ new]) auto
  next
    case False
    then show ?thesis using new by (intro exI [of _ "new @ [t]"]) auto
  qed
qed simp

lemma add_attributes_wf: "bt_wf m \<Longrightarrow> bt_wf (add_attributes m es)"
  unfolding add_attributes_def
  by (induction es arbitrary: m) (simp_all add: bt_wf_insert split: option.split prod.split)

lemma get_add_attributes: "bt_wf m \<Longrightarrow>
    bt_get (add_attributes m es) k = or_else (bt_get m k) (map_of es k)"
  unfolding add_attributes_def
proof (induction es arbitrary: m)
  case (Cons e es)
  obtain i v where e: "e = (i, v)" by (cases e)
  show ?case
  proof (cases "bt_get m i")
    case None
    have "bt_wf (bt_insert i v m)" using Cons.prems by (rule bt_wf_insert)
    from Cons.IH [OF this] show ?thesis
      using None e Cons.prems by (cases "bt_get m k") (auto simp: bt_get_insert)
  next
    case (Some w)
    from Cons.IH [OF Cons.prems] show ?thesis using Some e by (cases "bt_get m k") auto
  qed
qed simp

lemma get_merged_attributes: "bt_wf m \<Longrightarrow>
    bt_get (add_attributes m es) k = or_else (bt_get m k) (bt_get es k)"
  by (simp add: get_add_attributes bt_get_def [of es])

lemma or_else_if: "or_else x y = (if x = None then y else x)"
  by (cases x) simp_all

lemma or_else_self: "or_else x x = x" and or_else_again: "or_else (or_else x y) y = or_else x y"
  by (cases x; cases y; simp)+

lemma or_else_assoc: "or_else (or_else x y) z = or_else x (or_else y z)"
  by (cases x) simp_all

lemma merge_from_or_else:
  "merge_from a b = \<lparr>cm_tags = add_tags (cm_tags a) (cm_tags b), cm_owner = or_else (cm_owner a) (cm_owner b),
     cm_doc_url = or_else (cm_doc_url a) (cm_doc_url b),
     cm_sample_arguments = or_else (cm_sample_arguments a) (cm_sample_arguments b),
     cm_trust_required = or_else (cm_trust_required a) (cm_trust_required b),
     cm_requires_approval = or_else (cm_requires_approval a) (cm_requires_approval b),
     cm_maturity = or_else (cm_maturity a) (cm_maturity b),
     cm_attributes = add_attributes (cm_attributes a) (cm_attributes b)\<rparr>"
  by (simp add: merge_from_def or_else_if cong: if_cong)

text \<open>
  C30: Merging keeps what is there and fills in what is missing: every single value already
  set stays, tags stay in front in their order and new ones are appended once each, an
  attribute keeps its value and new ones are added, and the attributes stay a map.
\<close>

theorem merge_first_wins:
  assumes "bt_wf (cm_attributes a)"
  shows "cm_trust_required (merge_from a b) = or_else (cm_trust_required a) (cm_trust_required b) \<and>
    cm_requires_approval (merge_from a b) = or_else (cm_requires_approval a) (cm_requires_approval b) \<and>
    cm_owner (merge_from a b) = or_else (cm_owner a) (cm_owner b) \<and>
    cm_doc_url (merge_from a b) = or_else (cm_doc_url a) (cm_doc_url b) \<and>
    cm_sample_arguments (merge_from a b) = or_else (cm_sample_arguments a) (cm_sample_arguments b) \<and>
    cm_maturity (merge_from a b) = or_else (cm_maturity a) (cm_maturity b) \<and>
    (\<exists>new. cm_tags (merge_from a b) = cm_tags a @ new \<and> distinct new \<and>
       set new = set (cm_tags b) - set (cm_tags a)) \<and>
    bt_wf (cm_attributes (merge_from a b)) \<and>
    bt_get (cm_attributes (merge_from a b)) k = or_else (bt_get (cm_attributes a) k) (bt_get (cm_attributes b) k)"
  using add_tags_prefix [of "cm_tags a" "cm_tags b"] assms
  by (simp add: merge_from_or_else add_attributes_wf get_merged_attributes)

definition sample_metadata :: catalog_metadata where
  "sample_metadata = default_catalog_metadata
     \<lparr>cm_tags := [''db'', ''beta''], cm_trust_required := Some ''verified'', cm_attributes := [(''team'', ''x'')]\<rparr>"

theorem merge_first_wins_witness:
  "cm_trust_required (merge_from sample_metadata (sample_metadata\<lparr>cm_trust_required := Some ''anonymous''\<rparr>)) =
     Some ''verified''"
  using merge_first_wins [of sample_metadata "sample_metadata\<lparr>cm_trust_required := Some ''anonymous''\<rparr>"]
  by (simp add: sample_metadata_def default_catalog_metadata_def bt_wf_def)

text \<open>
  C31: The order in which providers are combined pairwise does not matter, only their
  sequence: merging is associative, merging what is already contained changes nothing, and
  the default metadata is neutral.
\<close>

theorem merge_associative:
  assumes "bt_wf (cm_attributes a)" and "bt_wf (cm_attributes b)" and "bt_wf (cm_attributes c)"
  shows "merge_from (merge_from a b) c = merge_from a (merge_from b c) \<and>
    merge_from a a = a \<and> merge_from (merge_from a b) b = merge_from a b \<and>
    merge_from a default_catalog_metadata = a"
proof -
  have attrs: "add_attributes (add_attributes x y) z = add_attributes x (add_attributes y z)"
    if "bt_wf x" "bt_wf y" for x y z
  proof (rule bt.get_extensional)
    show "bt_get (add_attributes (add_attributes x y) z) = bt_get (add_attributes x (add_attributes y z))"
      using that by (simp add: fun_eq_iff get_merged_attributes add_attributes_wf or_else_assoc)
  qed (use that in \<open>simp_all add: add_attributes_wf\<close>)
  have same: "add_attributes x y = x" if "bt_wf x" "\<And>k. or_else (bt_get x k) (bt_get y k) = bt_get x k" for x y
    by (rule bt.get_extensional)
      (use that in \<open>simp_all add: fun_eq_iff get_merged_attributes add_attributes_wf\<close>)
  have "merge_from (merge_from a b) c = merge_from a (merge_from b c)"
    using assms by (simp add: merge_from_or_else attrs add_tags_assoc or_else_assoc)
  moreover have "merge_from a a = a"
    using assms same [of "cm_attributes a" "cm_attributes a"]
    by (cases a) (simp add: merge_from_or_else add_tags_known or_else_self)
  moreover have "add_attributes (add_attributes (cm_attributes a) (cm_attributes b)) (cm_attributes b) =
      add_attributes (cm_attributes a) (cm_attributes b)"
    using assms by (intro same) (simp_all add: get_merged_attributes add_attributes_wf or_else_again)
  then have "merge_from (merge_from a b) b = merge_from a b"
    by (simp add: merge_from_or_else add_tags_known or_else_again)
  moreover have "merge_from a default_catalog_metadata = a"
    by (cases a) (simp add: merge_from_or_else default_catalog_metadata_def add_attributes_def)
  ultimately show ?thesis by blast
qed

theorem merge_associative_witness:
  "merge_from (merge_from sample_metadata default_catalog_metadata) sample_metadata =
     merge_from sample_metadata (merge_from default_catalog_metadata sample_metadata)"
proof -
  have "bt_wf (cm_attributes sample_metadata)" "bt_wf (cm_attributes default_catalog_metadata)"
    by (simp_all add: sample_metadata_def default_catalog_metadata_def bt_wf_def)
  then show ?thesis using merge_associative [of sample_metadata default_catalog_metadata sample_metadata] by blast
qed

subsection \<open>Trust levels\<close>

definition TRUST_LEVEL_VERIFIED :: string where
  "TRUST_LEVEL_VERIFIED = ''verified''"

definition TRUST_LEVEL_HEADER_ASSERTED :: string where
  "TRUST_LEVEL_HEADER_ASSERTED = ''header_asserted''"

definition TRUST_LEVEL_ANONYMOUS :: string where
  "TRUST_LEVEL_ANONYMOUS = ''anonymous''"

definition trust_level_rank :: "string \<Rightarrow> u8 option" where
  "trust_level_rank level =
     (if level = TRUST_LEVEL_ANONYMOUS then Some 0
      else if level = TRUST_LEVEL_HEADER_ASSERTED then Some 1
      else if level = TRUST_LEVEL_VERIFIED then Some 2
      else None)"

definition trust_level_meets :: "string \<Rightarrow> string \<Rightarrow> bool" where
  "trust_level_meets caller required =
     (case (trust_level_rank caller, trust_level_rank required) of
        (Some c, Some r) \<Rightarrow> r \<le> c
      | _ \<Rightarrow> False)"

lemmas trust_defs = trust_level_meets_def trust_level_rank_def TRUST_LEVEL_VERIFIED_def
  TRUST_LEVEL_HEADER_ASSERTED_def TRUST_LEVEL_ANONYMOUS_def

text \<open>The levels from the weakest to the strongest.\<close>

definition trust_levels :: "string list" where
  "trust_levels = [''anonymous'', ''header_asserted'', ''verified'']"

text \<open>
  A caller meets a requirement exactly when both name a level and the caller's is not
  below it: a misspelt requirement hides the tool from everyone and a misspelt level sees
  nothing that requires one, the strings being equal or not.
\<close>

theorem trust_level_meets_exact:
  "trust_level_meets caller required \<longleftrightarrow>
     (\<exists>i j. j \<le> i \<and> i < length trust_levels \<and> caller = trust_levels ! i \<and> required = trust_levels ! j)"
proof
  assume "trust_level_meets caller required"
  then have "\<exists>p \<in> {(0, 0), (1, 0), (1, 1), (2, 0), (2, 1), (2, 2)}.
      caller = trust_levels ! fst p \<and> required = trust_levels ! snd p"
    by (auto simp: trust_defs trust_levels_def word_le_nat_alt split: if_splits)
  then obtain i j where "(i, j) \<in> {(0, 0), (1, 0), (1, 1), (2, 0), (2, 1), (2, 2 :: nat)}"
    and at: "caller = trust_levels ! i" "required = trust_levels ! j" by force
  then have "j \<le> i" "i < length trust_levels" by (auto simp: trust_levels_def)
  with at show "\<exists>i j. j \<le> i \<and> i < length trust_levels \<and> caller = trust_levels ! i \<and> required = trust_levels ! j"
    by blast
next
  assume "\<exists>i j. j \<le> i \<and> i < length trust_levels \<and> caller = trust_levels ! i \<and> required = trust_levels ! j"
  then show "trust_level_meets caller required"
    by (auto simp: trust_defs trust_levels_def less_Suc_eq le_Suc_eq numeral_3_eq_3 numeral_2_eq_2)
qed

text \<open>
  A descriptor keeps its base and its enrichment on the wire, flattened into one object,
  and a catalog entry all of its fields, up to optional values that are null.
\<close>

theorem catalog_roundtrip:
  "decode_enriched_tool_descriptor (encode_enriched_tool_descriptor d) =
     Inr (d\<lparr>etd_base := (etd_base d)\<lparr>ptd_output_schema := non_null (ptd_output_schema (etd_base d))\<rparr>,
       etd_catalog := map_option (\<lambda>m. m\<lparr>cm_sample_arguments := non_null (cm_sample_arguments m)\<rparr>) (etd_catalog d)\<rparr>) \<and>
   decode_catalog_entry (encode_catalog_entry e) =
     Inr (e\<lparr>ce_catalog := (ce_catalog e)\<lparr>cm_sample_arguments := non_null (cm_sample_arguments (ce_catalog e))\<rparr>\<rparr>)"
proof -
  have meta: "decode_catalog_metadata (encode_catalog_metadata m) =
      Inr (m\<lparr>cm_sample_arguments := non_null (cm_sample_arguments m)\<rparr>)" for m
    by (simp add: decode_catalog_metadata_def encode_catalog_metadata_def codec_simps)
  have "decode_protocol_tool_descriptor (JObject (fields_map
      (descriptor_fields (etd_base d) @ [(''catalog'', map_option encode_catalog_metadata (etd_catalog d))]))) =
      Inr ((etd_base d)\<lparr>ptd_output_schema := non_null (ptd_output_schema (etd_base d))\<rparr>)"
    by (simp add: decode_protocol_tool_descriptor_def descriptor_fields_def codec_simps)
  moreover have "de_opt (fields_map (descriptor_fields (etd_base d) @
      [(''catalog'', map_option encode_catalog_metadata (etd_catalog d))])) ''catalog'' decode_catalog_metadata =
      Inr (map_option (\<lambda>m. m\<lparr>cm_sample_arguments := non_null (cm_sample_arguments m)\<rparr>) (etd_catalog d))"
    by (cases "etd_catalog d") (simp_all add: descriptor_fields_def codec_simps meta)
  moreover have "decode_catalog_entry (encode_catalog_entry e) =
      Inr (e\<lparr>ce_catalog := (ce_catalog e)\<lparr>cm_sample_arguments := non_null (cm_sample_arguments (ce_catalog e))\<rparr>\<rparr>)"
    by (simp add: decode_catalog_entry_def encode_catalog_entry_def codec_simps meta)
  ultimately show ?thesis
    by (simp add: decode_enriched_tool_descriptor_def encode_enriched_tool_descriptor_def)
qed

end
