(* ===== verification/Manifest.thy ===== *)
theory Manifest
  imports Capability
begin

section \<open>Manifests and descriptors\<close>

text \<open>
  \<open>src/src/manifest.rs\<close>, \<open>src/src/descriptor.rs\<close>, the manifest macro of
  \<open>src/src/macros.rs\<close> and the probe of \<open>src/src/lib.rs\<close>: what a plugin says of itself
  at run time and in its descriptor file, with the codecs of both, the loose capability list
  of the descriptor and the validation of its watch strategies. The text of a descriptor is
  read by a YAML crate; it is decoded here from the value that crate delivers.
\<close>

definition PROTOCOL_VERSION :: string where
  "PROTOCOL_VERSION = ''1.0''"

subsection \<open>Plugin classes\<close>

datatype plugin_class = ToolGate | Transform | IdentityProvider | Backend | WatchStrategy | HttpRoute | AuditSink | Store | Cache | TelemetrySink | LogSink | MetricsSink | SecretProvider | ConfigProvider | Transport | PolicyEngine | Cluster | CatalogProvider | CredentialIssuer | ApprovalNotifier | ContentStore

fun encode_plugin_class :: "plugin_class \<Rightarrow> json" where
  "encode_plugin_class ToolGate = JString ''tool_gate''"
| "encode_plugin_class Transform = JString ''transform''"
| "encode_plugin_class IdentityProvider = JString ''identity_provider''"
| "encode_plugin_class Backend = JString ''backend''"
| "encode_plugin_class WatchStrategy = JString ''watch_strategy''"
| "encode_plugin_class HttpRoute = JString ''http_route''"
| "encode_plugin_class AuditSink = JString ''audit_sink''"
| "encode_plugin_class Store = JString ''store''"
| "encode_plugin_class Cache = JString ''cache''"
| "encode_plugin_class TelemetrySink = JString ''telemetry_sink''"
| "encode_plugin_class LogSink = JString ''log_sink''"
| "encode_plugin_class MetricsSink = JString ''metrics_sink''"
| "encode_plugin_class SecretProvider = JString ''secret_provider''"
| "encode_plugin_class ConfigProvider = JString ''config_provider''"
| "encode_plugin_class Transport = JString ''transport''"
| "encode_plugin_class PolicyEngine = JString ''policy_engine''"
| "encode_plugin_class Cluster = JString ''cluster''"
| "encode_plugin_class CatalogProvider = JString ''catalog_provider''"
| "encode_plugin_class CredentialIssuer = JString ''credential_issuer''"
| "encode_plugin_class ApprovalNotifier = JString ''approval_notifier''"
| "encode_plugin_class ContentStore = JString ''content_store''"

definition decode_plugin_class :: "json \<Rightarrow> de_error + plugin_class" where
  "decode_plugin_class v = res_bind (de_string v) (\<lambda>t.
     if t = ''tool_gate'' then Inr ToolGate else
     if t = ''transform'' then Inr Transform else
     if t = ''identity_provider'' then Inr IdentityProvider else
     if t = ''backend'' then Inr Backend else
     if t = ''watch_strategy'' then Inr WatchStrategy else
     if t = ''http_route'' then Inr HttpRoute else
     if t = ''audit_sink'' then Inr AuditSink else
     if t = ''store'' then Inr Store else
     if t = ''cache'' then Inr Cache else
     if t = ''telemetry_sink'' then Inr TelemetrySink else
     if t = ''log_sink'' then Inr LogSink else
     if t = ''metrics_sink'' then Inr MetricsSink else
     if t = ''secret_provider'' then Inr SecretProvider else
     if t = ''config_provider'' then Inr ConfigProvider else
     if t = ''transport'' then Inr Transport else
     if t = ''policy_engine'' then Inr PolicyEngine else
     if t = ''cluster'' then Inr Cluster else
     if t = ''catalog_provider'' then Inr CatalogProvider else
     if t = ''credential_issuer'' then Inr CredentialIssuer else
     if t = ''approval_notifier'' then Inr ApprovalNotifier else
     if t = ''content_store'' then Inr ContentStore else
     Inl (UnknownVariant t))"

interpretation plugin_class_codec: codec encode_plugin_class decode_plugin_class "\<lambda>_. True"
proof unfold_locales
  fix x
  show "decode_plugin_class (encode_plugin_class x) = Inr x" by (cases x) (simp_all add: decode_plugin_class_def)
  show "encode_plugin_class x \<noteq> JNull" by (cases x) simp_all
qed

declare plugin_class_codec.roundtrip [simp] plugin_class_codec.nonnull [simp]

datatype plugin_tier = Wasm | Native

fun encode_plugin_tier :: "plugin_tier \<Rightarrow> json" where
  "encode_plugin_tier Wasm = JString ''wasm''"
| "encode_plugin_tier Native = JString ''native''"

definition decode_plugin_tier :: "json \<Rightarrow> de_error + plugin_tier" where
  "decode_plugin_tier v = res_bind (de_string v) (\<lambda>t.
     if t = ''wasm'' then Inr Wasm else
     if t = ''native'' then Inr Native else
     Inl (UnknownVariant t))"

interpretation plugin_tier_codec: codec encode_plugin_tier decode_plugin_tier "\<lambda>_. True"
proof unfold_locales
  fix x
  show "decode_plugin_tier (encode_plugin_tier x) = Inr x" by (cases x) (simp_all add: decode_plugin_tier_def)
  show "encode_plugin_tier x \<noteq> JNull" by (cases x) simp_all
qed

declare plugin_tier_codec.roundtrip [simp] plugin_tier_codec.nonnull [simp]

datatype runtime_class = StaticFirstparty | NativeCdylib | Wasi

fun encode_runtime_class :: "runtime_class \<Rightarrow> json" where
  "encode_runtime_class StaticFirstparty = JString ''static-firstparty-v1''"
| "encode_runtime_class NativeCdylib = JString ''native-cdylib-v1''"
| "encode_runtime_class Wasi = JString ''wasi-v1''"

definition decode_runtime_class :: "json \<Rightarrow> de_error + runtime_class" where
  "decode_runtime_class v = res_bind (de_string v) (\<lambda>t.
     if t = ''static-firstparty-v1'' then Inr StaticFirstparty else
     if t = ''native-cdylib-v1'' then Inr NativeCdylib else
     if t = ''wasi-v1'' then Inr Wasi else
     Inl (UnknownVariant t))"

interpretation runtime_class_codec: codec encode_runtime_class decode_runtime_class "\<lambda>_. True"
proof unfold_locales
  fix x
  show "decode_runtime_class (encode_runtime_class x) = Inr x" by (cases x) (simp_all add: decode_runtime_class_def)
  show "encode_runtime_class x \<noteq> JNull" by (cases x) simp_all
qed

declare runtime_class_codec.roundtrip [simp] runtime_class_codec.nonnull [simp]

definition ALL_CLASSES :: "plugin_class list" where
  "ALL_CLASSES =
     [ToolGate, Transform, IdentityProvider, Backend, WatchStrategy, HttpRoute, AuditSink, Store, Cache,
      TelemetrySink, LogSink, MetricsSink, SecretProvider, ConfigProvider, Transport, PolicyEngine, Cluster,
      CatalogProvider, CredentialIssuer, ApprovalNotifier, ContentStore]"

fun display_plugin_class :: "plugin_class \<Rightarrow> string" where
  "display_plugin_class ToolGate = ''tool_gate''"
| "display_plugin_class Transform = ''transform''"
| "display_plugin_class IdentityProvider = ''identity_provider''"
| "display_plugin_class Backend = ''backend''"
| "display_plugin_class WatchStrategy = ''watch_strategy''"
| "display_plugin_class HttpRoute = ''http_route''"
| "display_plugin_class AuditSink = ''audit_sink''"
| "display_plugin_class Store = ''store''"
| "display_plugin_class Cache = ''cache''"
| "display_plugin_class TelemetrySink = ''telemetry_sink''"
| "display_plugin_class LogSink = ''log_sink''"
| "display_plugin_class MetricsSink = ''metrics_sink''"
| "display_plugin_class SecretProvider = ''secret_provider''"
| "display_plugin_class ConfigProvider = ''config_provider''"
| "display_plugin_class Transport = ''transport''"
| "display_plugin_class PolicyEngine = ''policy_engine''"
| "display_plugin_class Cluster = ''cluster''"
| "display_plugin_class CatalogProvider = ''catalog_provider''"
| "display_plugin_class CredentialIssuer = ''credential_issuer''"
| "display_plugin_class ApprovalNotifier = ''approval_notifier''"
| "display_plugin_class ContentStore = ''content_store''"

fun display_plugin_tier :: "plugin_tier \<Rightarrow> string" where
  "display_plugin_tier Wasm = ''wasm''"
| "display_plugin_tier Native = ''native''"

fun runtime_as_str :: "runtime_class \<Rightarrow> string" where
  "runtime_as_str StaticFirstparty = ''static-firstparty-v1''"
| "runtime_as_str NativeCdylib = ''native-cdylib-v1''"
| "runtime_as_str Wasi = ''wasi-v1''"

definition ALL_RUNTIMES :: "runtime_class list" where
  "ALL_RUNTIMES = [StaticFirstparty, NativeCdylib, Wasi]"

definition CLUSTER_PROVIDES_ROLES :: "string list" where
  "CLUSTER_PROVIDES_ROLES = [''cache'', ''kv'', ''bus'']"

subsection \<open>The run-time manifest\<close>

text \<open>Capabilities are decoded here by their derived decoder, from the object form.\<close>

definition de_capability :: "json \<Rightarrow> de_error + capability" where
  "de_capability v = res_bind (de_object v) decode_capability"

lemma de_capability_encode [simp]: "de_capability (encode_capability c) = Inr c" "encode_capability c \<noteq> JNull"
  by (cases c; simp add: de_capability_def encode_capability_def json_obj_def bt_collect_def decode_capability_def
      de_field_def)+

datatype health_probe_decl =
    Skip
  | Tcp
  | Http string
  | Plugin

fun encode_health_probe_decl :: "health_probe_decl \<Rightarrow> json" where
  "encode_health_probe_decl Skip = JObject (fields_map
     [(''type'', Some (JString ''skip''))])"
| "encode_health_probe_decl Tcp = JObject (fields_map
     [(''type'', Some (JString ''tcp''))])"
| "encode_health_probe_decl (Http pth) = JObject (fields_map
     [(''type'', Some (JString ''http'')),
      (''path'', Some (JString pth))])"
| "encode_health_probe_decl Plugin = JObject (fields_map
     [(''type'', Some (JString ''plugin''))])"

definition decode_health_probe_decl :: "json \<Rightarrow> de_error + health_probe_decl" where
  "decode_health_probe_decl v = res_bind (de_object v) (\<lambda>m. res_bind (de_field m ''type'' de_string) (\<lambda>t.
     if t = ''skip'' then
         Inr Skip
     else
     if t = ''tcp'' then
         Inr Tcp
     else
     if t = ''http'' then
       res_bind (de_field m ''path'' de_string) (\<lambda>pth.
         Inr (Http pth))
     else
     if t = ''plugin'' then
         Inr Plugin
     else
     Inl (UnknownVariant t)))"

interpretation health_probe_decl_codec: codec encode_health_probe_decl decode_health_probe_decl "\<lambda>_. True"
proof unfold_locales
  fix x
  show "decode_health_probe_decl (encode_health_probe_decl x) = Inr x"
    by (cases x) (simp_all add: decode_health_probe_decl_def codec_simps)
next
  fix x
  show "encode_health_probe_decl x \<noteq> JNull" by (cases x) simp_all
qed

declare health_probe_decl_codec.roundtrip [simp] health_probe_decl_codec.nonnull [simp]

record backend_profile =
  bp_health_probe :: health_probe_decl
  bp_type_label :: "string option"
  bp_dynamic_list :: bool
  bp_pipeline_capable :: bool
  bp_transport_only_fields :: "string list"
  bp_usage_reporting_kinds :: "string list"

definition encode_backend_profile :: "backend_profile \<Rightarrow> json" where
  "encode_backend_profile x = JObject (fields_map
     [(''health_probe'', Some (encode_health_probe_decl (bp_health_probe x))),
      (''type_label'', map_option JString (bp_type_label x)),
      (''dynamic_list'', Some (JBool (bp_dynamic_list x))),
      (''pipeline_capable'', Some (JBool (bp_pipeline_capable x))),
      (''transport_only_fields'', vec_skip JString (bp_transport_only_fields x)),
      (''usage_reporting_kinds'', vec_skip JString (bp_usage_reporting_kinds x))])"

definition decode_backend_profile :: "json \<Rightarrow> de_error + backend_profile" where
  "decode_backend_profile v = res_bind (de_object v) (\<lambda>m.
     res_bind (de_field_default m ''health_probe'' Skip decode_health_probe_decl) (\<lambda>health_probe.
     res_bind (de_opt m ''type_label'' de_string) (\<lambda>type_label.
     res_bind (de_field_default m ''dynamic_list'' False de_bool) (\<lambda>dynamic_list.
     res_bind (de_field_default m ''pipeline_capable'' False de_bool) (\<lambda>pipeline_capable.
     res_bind (de_field_default m ''transport_only_fields'' [] (de_vec de_string)) (\<lambda>transport_only_fields.
     res_bind (de_field_default m ''usage_reporting_kinds'' [] (de_vec de_string)) (\<lambda>usage_reporting_kinds.
       Inr \<lparr>bp_health_probe = health_probe, bp_type_label = type_label, bp_dynamic_list = dynamic_list, bp_pipeline_capable = pipeline_capable, bp_transport_only_fields = transport_only_fields, bp_usage_reporting_kinds = usage_reporting_kinds\<rparr>)))))))"

interpretation backend_profile_codec: codec encode_backend_profile decode_backend_profile "\<lambda>_. True"
  by unfold_locales (simp_all add: encode_backend_profile_def decode_backend_profile_def codec_simps)

declare backend_profile_codec.roundtrip [simp] backend_profile_codec.nonnull [simp]

record plugin_manifest =
  pm_id :: string
  pm_version :: string
  pm_name :: string
  pm_plugin_class :: plugin_class
  pm_protocol_version :: string
  pm_license :: "string option"
  pm_required_capabilities :: "capability list"
  pm_tags :: "string list"
  pm_provides :: "string list"
  pm_provides_schemes :: "string list"
  pm_module_path_prefix :: string
  pm_backend_profile :: "backend_profile option"

definition encode_plugin_manifest :: "plugin_manifest \<Rightarrow> json" where
  "encode_plugin_manifest x = JObject (fields_map
     [(''id'', Some (JString (pm_id x))),
      (''version'', Some (JString (pm_version x))),
      (''name'', Some (JString (pm_name x))),
      (''plugin_class'', Some (encode_plugin_class (pm_plugin_class x))),
      (''protocol_version'', Some (JString (pm_protocol_version x))),
      (''license'', map_option JString (pm_license x)),
      (''required_capabilities'', Some (vec encode_capability (pm_required_capabilities x))),
      (''tags'', vec_skip JString (pm_tags x)),
      (''provides'', vec_skip JString (pm_provides x)),
      (''provides_schemes'', vec_skip JString (pm_provides_schemes x)),
      (''module_path_prefix'', str_skip (pm_module_path_prefix x)),
      (''backend_profile'', map_option encode_backend_profile (pm_backend_profile x))])"

definition decode_plugin_manifest :: "json \<Rightarrow> de_error + plugin_manifest" where
  "decode_plugin_manifest v = res_bind (de_object v) (\<lambda>m.
     res_bind (de_field m ''id'' de_string) (\<lambda>ident.
     res_bind (de_field m ''version'' de_string) (\<lambda>version.
     res_bind (de_field m ''name'' de_string) (\<lambda>nam.
     res_bind (de_field m ''plugin_class'' decode_plugin_class) (\<lambda>plugin_class.
     res_bind (de_field m ''protocol_version'' de_string) (\<lambda>protocol_version.
     res_bind (de_opt m ''license'' de_string) (\<lambda>license.
     res_bind (de_field_default m ''required_capabilities'' [] (de_vec de_capability)) (\<lambda>required_capabilities.
     res_bind (de_field_default m ''tags'' [] (de_vec de_string)) (\<lambda>tags.
     res_bind (de_field_default m ''provides'' [] (de_vec de_string)) (\<lambda>provides.
     res_bind (de_field_default m ''provides_schemes'' [] (de_vec de_string)) (\<lambda>provides_schemes.
     res_bind (de_field_default m ''module_path_prefix'' [] de_string) (\<lambda>module_path_prefix.
     res_bind (de_opt m ''backend_profile'' decode_backend_profile) (\<lambda>backend_profile.
       Inr \<lparr>pm_id = ident, pm_version = version, pm_name = nam, pm_plugin_class = plugin_class, pm_protocol_version = protocol_version, pm_license = license, pm_required_capabilities = required_capabilities, pm_tags = tags, pm_provides = provides, pm_provides_schemes = provides_schemes, pm_module_path_prefix = module_path_prefix, pm_backend_profile = backend_profile\<rparr>)))))))))))))"

interpretation plugin_manifest_codec: codec encode_plugin_manifest decode_plugin_manifest "\<lambda>_. True"
  by unfold_locales (simp_all add: encode_plugin_manifest_def decode_plugin_manifest_def codec_simps)

declare plugin_manifest_codec.roundtrip [simp] plugin_manifest_codec.nonnull [simp]

text \<open>What the macro expands to; the crate's version and the module path are the compiler's.\<close>

definition firstparty_manifest ::
  "string \<Rightarrow> string \<Rightarrow> string \<Rightarrow> string \<Rightarrow> plugin_class \<Rightarrow> capability list \<Rightarrow> plugin_manifest" where
  "firstparty_manifest pkg_version module_path ident nam cls caps =
     \<lparr>pm_id = ident, pm_version = pkg_version, pm_name = nam, pm_plugin_class = cls,
      pm_protocol_version = PROTOCOL_VERSION, pm_license = None, pm_required_capabilities = caps,
      pm_tags = [], pm_provides = [], pm_provides_schemes = [],
      pm_module_path_prefix = (case split_once_str ''::'' module_path of Some (a, _) \<Rightarrow> a | None \<Rightarrow> module_path),
      pm_backend_profile = None\<rparr>"

definition is_manifest_probe_config :: "(string \<Rightarrow> json option) \<Rightarrow> string \<Rightarrow> bool" where
  "is_manifest_probe_config from_text config_json =
     (case from_text config_json of
        Some (JObject m) \<Rightarrow> m = []
      | Some JNull \<Rightarrow> True
      | None \<Rightarrow> trim config_json = []
      | _ \<Rightarrow> False)"

subsection \<open>The descriptor\<close>

datatype event_placement = SingleOwner | EveryReplica

fun encode_event_placement :: "event_placement \<Rightarrow> json" where
  "encode_event_placement SingleOwner = JString ''single_owner''"
| "encode_event_placement EveryReplica = JString ''every_replica''"

definition decode_event_placement :: "json \<Rightarrow> de_error + event_placement" where
  "decode_event_placement v = res_bind (de_string v) (\<lambda>t.
     if t = ''single_owner'' then Inr SingleOwner else
     if t = ''every_replica'' then Inr EveryReplica else
     Inl (UnknownVariant t))"

interpretation event_placement_codec: codec encode_event_placement decode_event_placement "\<lambda>_. True"
proof unfold_locales
  fix x
  show "decode_event_placement (encode_event_placement x) = Inr x" by (cases x) (simp_all add: decode_event_placement_def)
  show "encode_event_placement x \<noteq> JNull" by (cases x) simp_all
qed

declare event_placement_codec.roundtrip [simp] event_placement_codec.nonnull [simp]

record event_type_descriptor =
  et_name :: string
  et_description :: string
  et_input_schema :: "json option"
  et_payload_schema :: "json option"

definition encode_event_type_descriptor :: "event_type_descriptor \<Rightarrow> json" where
  "encode_event_type_descriptor x = JObject (fields_map
     [(''name'', Some (JString (et_name x))),
      (''description'', str_skip (et_description x)),
      (''input_schema'', (et_input_schema x)),
      (''payload_schema'', (et_payload_schema x))])"

definition decode_event_type_descriptor :: "json \<Rightarrow> de_error + event_type_descriptor" where
  "decode_event_type_descriptor v = res_bind (de_object v) (\<lambda>m.
     res_bind (de_known_fields m [''name'', ''description'', ''input_schema'', ''payload_schema'']) (\<lambda>_.
     res_bind (de_field m ''name'' de_string) (\<lambda>nam.
     res_bind (de_field_default m ''description'' [] de_string) (\<lambda>description.
     res_bind (de_opt m ''input_schema'' de_value) (\<lambda>input_schema.
     res_bind (de_opt m ''payload_schema'' de_value) (\<lambda>payload_schema.
       Inr \<lparr>et_name = nam, et_description = description, et_input_schema = input_schema, et_payload_schema = payload_schema\<rparr>))))))"

interpretation event_type_descriptor_codec: codec encode_event_type_descriptor decode_event_type_descriptor "\<lambda>x. et_input_schema x \<noteq> Some JNull \<and> et_payload_schema x \<noteq> Some JNull"
  by unfold_locales (simp_all add: encode_event_type_descriptor_def decode_event_type_descriptor_def codec_simps non_null_def)

declare event_type_descriptor_codec.roundtrip [simp] event_type_descriptor_codec.nonnull [simp]

record watch_strategy_descriptor =
  ws_kind :: string
  ws_placement :: event_placement
  ws_resume :: bool
  ws_event_types :: "event_type_descriptor list"

definition encode_watch_strategy_descriptor :: "watch_strategy_descriptor \<Rightarrow> json" where
  "encode_watch_strategy_descriptor x = JObject (fields_map
     [(''kind'', Some (JString (ws_kind x))),
      (''placement'', Some (encode_event_placement (ws_placement x))),
      (''resume'', Some (JBool (ws_resume x))),
      (''event_types'', vec_skip encode_event_type_descriptor (ws_event_types x))])"

definition decode_watch_strategy_descriptor :: "json \<Rightarrow> de_error + watch_strategy_descriptor" where
  "decode_watch_strategy_descriptor v = res_bind (de_object v) (\<lambda>m.
     res_bind (de_known_fields m [''kind'', ''placement'', ''resume'', ''event_types'']) (\<lambda>_.
     res_bind (de_field m ''kind'' de_string) (\<lambda>kind0.
     res_bind (de_field_default m ''placement'' SingleOwner decode_event_placement) (\<lambda>placement.
     res_bind (de_field_default m ''resume'' False de_bool) (\<lambda>resume.
     res_bind (de_field_default m ''event_types'' [] (de_vec decode_event_type_descriptor)) (\<lambda>event_types.
       Inr \<lparr>ws_kind = kind0, ws_placement = placement, ws_resume = resume, ws_event_types = event_types\<rparr>))))))"

definition event_type_exact :: "event_type_descriptor \<Rightarrow> bool" where
  "event_type_exact t \<longleftrightarrow> et_input_schema t \<noteq> Some JNull \<and> et_payload_schema t \<noteq> Some JNull"

definition strategy_exact :: "watch_strategy_descriptor \<Rightarrow> bool" where
  "strategy_exact s \<longleftrightarrow> list_all event_type_exact (ws_event_types s)"

interpretation watch_strategy_descriptor_codec:
  codec encode_watch_strategy_descriptor decode_watch_strategy_descriptor strategy_exact
  by unfold_locales
    (simp_all add: encode_watch_strategy_descriptor_def decode_watch_strategy_descriptor_def codec_simps
      strategy_exact_def event_type_exact_def list_all_iff)

text \<open>The capabilities of a descriptor go through the loose parser, and an error names the
  index of the entry.\<close>

fun display_capability_parse_error :: "(de_error \<Rightarrow> string) \<Rightarrow> (string \<Rightarrow> string) \<Rightarrow> capability_parse_error \<Rightarrow> string" where
  "display_capability_parse_error show_source dbg (UnknownKind k) = ''unknown capability kind '' @ dbg k"
| "display_capability_parse_error show_source dbg (MissingArgs k missing) =
     ''capability '' @ dbg k @ '' requires args: '' @ missing"
| "display_capability_parse_error show_source dbg (InvalidArgs k source) =
     ''invalid args for capability '' @ dbg k @ '': '' @ show_source source"
| "display_capability_parse_error show_source dbg (InvalidEntry s) =
     ''capability entry must be a string or object, got '' @ s"

fun parse_capabilities ::
  "(capability_parse_error \<Rightarrow> string) \<Rightarrow> nat \<Rightarrow> json list \<Rightarrow> de_error + capability list" where
  "parse_capabilities show_error idx [] = Inr []"
| "parse_capabilities show_error idx (v # raw) =
     (case parse_value v of
        Inr cap \<Rightarrow> res_bind (parse_capabilities show_error (Suc idx) raw) (\<lambda>out. Inr (cap # out))
      | Inl e \<Rightarrow> Inl (DeCustom (''required_capabilities['' @ show_nat idx @ '']: '' @ show_error e)))"

definition deserialize_required_capabilities ::
  "(capability_parse_error \<Rightarrow> string) \<Rightarrow> json \<Rightarrow> de_error + capability list" where
  "deserialize_required_capabilities show_error v =
     (case v of JArray raw \<Rightarrow> parse_capabilities show_error 0 raw | _ \<Rightarrow> Inl WrongType)"

definition DESCRIPTOR_SCHEMA_V1 :: string where
  "DESCRIPTOR_SCHEMA_V1 = ''mcpg.dev/plugin/v1''"

record plugin_descriptor =
  dd_schema :: string
  dd_id :: string
  dd_name :: string
  dd_license :: "string option"
  dd_description :: string
  dd_class :: plugin_class
  dd_runtime :: runtime_class
  dd_protocol_version :: string
  dd_required_capabilities :: "capability list"
  dd_tags :: "string list"
  dd_provides :: "string list"
  dd_provides_schemes :: "string list"
  dd_watch_strategies :: "watch_strategy_descriptor list"

definition encode_plugin_descriptor :: "plugin_descriptor \<Rightarrow> json" where
  "encode_plugin_descriptor x = JObject (fields_map
     [(''schema'', Some (JString (dd_schema x))),
      (''id'', Some (JString (dd_id x))),
      (''name'', Some (JString (dd_name x))),
      (''license'', map_option JString (dd_license x)),
      (''description'', Some (JString (dd_description x))),
      (''class'', Some (encode_plugin_class (dd_class x))),
      (''runtime'', Some (encode_runtime_class (dd_runtime x))),
      (''protocol_version'', Some (JString (dd_protocol_version x))),
      (''required_capabilities'', Some (vec encode_capability (dd_required_capabilities x))),
      (''tags'', Some (vec JString (dd_tags x))),
      (''provides'', Some (vec JString (dd_provides x))),
      (''provides_schemes'', Some (vec JString (dd_provides_schemes x))),
      (''watch_strategies'', vec_skip encode_watch_strategy_descriptor (dd_watch_strategies x))])"

definition decode_plugin_descriptor ::
  "(capability_parse_error \<Rightarrow> string) \<Rightarrow> json \<Rightarrow> de_error + plugin_descriptor" where
  "decode_plugin_descriptor show_error v = res_bind (de_object v) (\<lambda>m.
     res_bind (de_field m ''schema'' de_string) (\<lambda>sch.
     res_bind (de_field m ''id'' de_string) (\<lambda>ident.
     res_bind (de_field m ''name'' de_string) (\<lambda>nam.
     res_bind (de_opt m ''license'' de_string) (\<lambda>license.
     res_bind (de_field_default m ''description'' [] de_string) (\<lambda>description.
     res_bind (de_field m ''class'' decode_plugin_class) (\<lambda>cls.
     res_bind (de_field m ''runtime'' decode_runtime_class) (\<lambda>runtime.
     res_bind (de_field m ''protocol_version'' de_string) (\<lambda>protocol_version.
     res_bind (de_field_default m ''required_capabilities'' [] (deserialize_required_capabilities show_error)) (\<lambda>caps.
     res_bind (de_field_default m ''tags'' [] (de_vec de_string)) (\<lambda>tags.
     res_bind (de_field_default m ''provides'' [] (de_vec de_string)) (\<lambda>provides.
     res_bind (de_field_default m ''provides_schemes'' [] (de_vec de_string)) (\<lambda>schemes.
     res_bind (de_field_default m ''watch_strategies'' [] (de_vec decode_watch_strategy_descriptor)) (\<lambda>strategies.
       Inr \<lparr>dd_schema = sch, dd_id = ident, dd_name = nam, dd_license = license, dd_description = description,
         dd_class = cls, dd_runtime = runtime, dd_protocol_version = protocol_version,
         dd_required_capabilities = caps, dd_tags = tags, dd_provides = provides,
         dd_provides_schemes = schemes, dd_watch_strategies = strategies\<rparr>))))))))))))))"

definition is_current_schema :: "plugin_descriptor \<Rightarrow> bool" where
  "is_current_schema d \<longleftrightarrow> dd_schema d = DESCRIPTOR_SCHEMA_V1"

definition watch_strategy :: "plugin_descriptor \<Rightarrow> string \<Rightarrow> watch_strategy_descriptor option" where
  "watch_strategy d k = find (\<lambda>s. ws_kind s = k) (dd_watch_strategies d)"

end
