(* ===== verification/Descriptor.thy ===== *)
theory Descriptor
  imports Manifest
begin

section \<open>Validation of a descriptor\<close>

text \<open>
  \<open>src/src/descriptor.rs\<close>: the check of a descriptor's watch strategies, with its two loops
  and their sets of names seen so far, and the properties of the descriptor's codec.
\<close>

subsection \<open>Watch strategies\<close>

definition MAX_EVENT_TYPE_NAME_CHARS :: nat where
  "MAX_EVENT_TYPE_NAME_CHARS = 128"

text \<open>\<open>chars().count()\<close>: every byte of UTF-8 text but the continuation bytes starts a character.\<close>

definition char_count :: "string \<Rightarrow> nat" where
  "char_count s = length (filter (\<lambda>c. \<not> (128 \<le> (of_char c :: nat) \<and> (of_char c :: nat) < 192)) s)"

definition name_char :: "char \<Rightarrow> bool" where
  "name_char c \<longleftrightarrow>
     (let n = (of_char c :: nat) in
      48 \<le> n \<and> n \<le> 57 \<or> 65 \<le> n \<and> n \<le> 90 \<or> 97 \<le> n \<and> n \<le> 122) \<or> c \<in> {CHR ''.'', CHR ''_'', CHR ''-''}"

definition name_valid :: "string \<Rightarrow> bool" where
  "name_valid nam \<longleftrightarrow> nam \<noteq> [] \<and> char_count nam \<le> MAX_EVENT_TYPE_NAME_CHARS \<and> list_all name_char nam"

fun validate_event_types :: "string \<Rightarrow> string set \<Rightarrow> event_type_descriptor list \<Rightarrow> string + unit" where
  "validate_event_types k names [] = Inr ()"
| "validate_event_types k names (ty # rest) =
     (if \<not> name_valid (et_name ty) then
        Inl (''watch_strategies['' @ k @ '']: event type `'' @ et_name ty @ ''` must be 1 to '' @
          show_nat MAX_EVENT_TYPE_NAME_CHARS @ '' characters of [A-Za-z0-9._-]'')
      else if et_name ty \<in> names then
        Inl (''watch_strategies['' @ k @ '']: event type `'' @ et_name ty @ ''` is declared twice'')
      else validate_event_types k (insert (et_name ty) names) rest)"

fun validate_strategies :: "string set \<Rightarrow> watch_strategy_descriptor list \<Rightarrow> string + unit" where
  "validate_strategies kinds [] = Inr ()"
| "validate_strategies kinds (strategy # rest) =
     (if ws_kind strategy = [] \<or> ws_kind strategy \<in> kinds then
        Inl (''watch_strategies: kind `'' @ ws_kind strategy @ ''` is empty or declared twice'')
      else res_bind (validate_event_types (ws_kind strategy) {} (ws_event_types strategy))
        (\<lambda>_. validate_strategies (insert (ws_kind strategy) kinds) rest))"

definition validate_watch_strategies :: "plugin_descriptor \<Rightarrow> string + unit" where
  "validate_watch_strategies d = validate_strategies {} (dd_watch_strategies d)"

text \<open>What the check promises, without its loops.\<close>

definition event_types_ok :: "event_type_descriptor list \<Rightarrow> bool" where
  "event_types_ok ts \<longleftrightarrow> distinct (map et_name ts) \<and>
     list_all (\<lambda>t. et_name t \<noteq> [] \<and> length (et_name t) \<le> 128 \<and> list_all name_char (et_name t)) ts"

lemma name_char_ascii: "name_char c \<Longrightarrow> (of_char c :: nat) < 128"
  by (auto simp: name_char_def Let_def)

lemma char_count_names: "list_all name_char s \<Longrightarrow> char_count s = length s"
proof -
  assume "list_all name_char s"
  then have "filter (\<lambda>c. \<not> (128 \<le> (of_char c :: nat) \<and> (of_char c :: nat) < 192)) s = s"
    by (force simp: filter_id_conv list_all_iff dest: name_char_ascii)
  then show ?thesis by (simp add: char_count_def)
qed

lemma name_valid_iff: "name_valid s \<longleftrightarrow> s \<noteq> [] \<and> length s \<le> 128 \<and> list_all name_char s"
  by (auto simp: name_valid_def MAX_EVENT_TYPE_NAME_CHARS_def char_count_names)

lemma validate_event_types_Inr:
  "validate_event_types k names ts = Inr () \<longleftrightarrow> event_types_ok ts \<and> names \<inter> et_name ` set ts = {}"
  by (induction k names ts rule: validate_event_types.induct)
    (auto simp: event_types_ok_def name_valid_iff)

lemma validate_strategies_Inr:
  "validate_strategies kinds ss = Inr () \<longleftrightarrow>
     distinct (map ws_kind ss) \<and> kinds \<inter> ws_kind ` set ss = {} \<and>
     list_all (\<lambda>s. ws_kind s \<noteq> [] \<and> event_types_ok (ws_event_types s)) ss"
  by (induction kinds ss rule: validate_strategies.induct)
    (auto simp: res_bind_Inr validate_event_types_Inr)

text \<open>
  C29: The check passes exactly the descriptors whose strategy kinds are non-empty and
  distinct and whose event types, within each strategy, have distinct names of 1 to 128
  characters of the allowed set; two strategies may share a name.
\<close>

theorem validate_watch_strategies_exact:
  "validate_watch_strategies d = Inr () \<longleftrightarrow>
     distinct (map ws_kind (dd_watch_strategies d)) \<and>
     list_all (\<lambda>s. ws_kind s \<noteq> [] \<and> distinct (map et_name (ws_event_types s)) \<and>
       list_all (\<lambda>t. et_name t \<noteq> [] \<and> length (et_name t) \<le> 128 \<and> list_all name_char (et_name t)) (ws_event_types s))
       (dd_watch_strategies d)"
  by (simp add: validate_watch_strategies_def validate_strategies_Inr event_types_ok_def)

text \<open>
  In a descriptor that passes the check a kind names at most one strategy, so looking a
  strategy up by its kind finds it wherever it stands in the list.
\<close>

theorem validated_lookup:
  assumes "validate_watch_strategies d = Inr ()"
  shows "watch_strategy d k = Some s \<longleftrightarrow> s \<in> set (dd_watch_strategies d) \<and> ws_kind s = k"
proof -
  have "find (\<lambda>s. ws_kind s = k) ss = Some s \<longleftrightarrow> s \<in> set ss \<and> ws_kind s = k"
    if "distinct (map ws_kind ss)" for ss
    using that by (induction ss) (auto simp: image_iff)
  then show ?thesis
    using assms by (simp add: watch_strategy_def validate_watch_strategies_def validate_strategies_Inr)
qed

definition sample_strategy :: "string \<Rightarrow> watch_strategy_descriptor" where
  "sample_strategy k =
     \<lparr>ws_kind = k, ws_placement = SingleOwner, ws_resume = True,
      ws_event_types = [\<lparr>et_name = ''row.inserted'', et_description = [], et_input_schema = None, et_payload_schema = None\<rparr>]\<rparr>"

definition sample_descriptor :: plugin_descriptor where
  "sample_descriptor =
     \<lparr>dd_schema = DESCRIPTOR_SCHEMA_V1, dd_id = ''dev.mcpg.x'', dd_name = ''X'', dd_license = None,
      dd_description = [], dd_class = WatchStrategy, dd_runtime = NativeCdylib,
      dd_protocol_version = PROTOCOL_VERSION, dd_required_capabilities = [NetworkOutbound, SecretsRead [''vault'']],
      dd_tags = [], dd_provides = [], dd_provides_schemes = [],
      dd_watch_strategies = [sample_strategy ''listen'', sample_strategy ''poll'']\<rparr>"

theorem validated_lookup_witness:
  "watch_strategy sample_descriptor ''poll'' = Some (sample_strategy ''poll'')"
proof -
  have "validate_watch_strategies sample_descriptor = Inr ()" by code_simp
  from validated_lookup [OF this] show ?thesis by (simp add: sample_descriptor_def sample_strategy_def)
qed

subsection \<open>Capabilities of a descriptor\<close>

lemma parse_capabilities_Inr:
  "parse_capabilities show_error i raw = Inr cs \<longleftrightarrow> list_all2 (\<lambda>v c. parse_value v = Inr c) raw cs"
proof (induction raw arbitrary: i cs)
  case (Cons v raw)
  show ?case
  proof (cases "parse_value v")
    case (Inr c)
    then show ?thesis
      using Cons.IH [of "Suc i"] by (cases cs) (auto simp: res_bind_Inr)
  qed (cases cs; simp)
qed auto

text \<open>
  The descriptor's capability list is accepted exactly when every entry is a documented
  form of a known capability, bare kinds included, in order; the sink \<open>Unknown\<close> never comes
  out of it, so a misspelt capability stops the load instead of reaching the boot check.
\<close>

theorem descriptor_capabilities_exact:
  "deserialize_required_capabilities show_error v = Inr cs \<longleftrightarrow>
     (\<exists>raw. v = JArray raw \<and> list_all2 (\<lambda>x c. c \<noteq> Unknown \<and> accepted_form c x) raw cs)"
  by (cases v) (simp_all add: deserialize_required_capabilities_def parse_capabilities_Inr parse_value_Inr)

lemma deserialize_encoded:
  "Unknown \<notin> set cs \<Longrightarrow> deserialize_required_capabilities show_error (vec encode_capability cs) = Inr cs"
proof -
  assume "Unknown \<notin> set cs"
  then have "list_all2 (\<lambda>v c. parse_value v = Inr c) (map encode_capability cs) cs"
    by (induction cs) (auto simp: parse_value_encode)
  then show ?thesis
    by (simp add: deserialize_required_capabilities_def vec_def parse_capabilities_Inr)
qed

text \<open>
  A descriptor whose capabilities are known and whose schemas are not null survives its
  JSON form in every field, and a manifest survives it always.
\<close>

theorem descriptor_roundtrip:
  assumes "Unknown \<notin> set (dd_required_capabilities d)"
    and "\<forall>s \<in> set (dd_watch_strategies d). strategy_exact s"
  shows "decode_plugin_descriptor show_error (encode_plugin_descriptor d) = Inr d \<and>
    decode_plugin_manifest (encode_plugin_manifest m) = Inr m"
proof -
  have "opt_value (vec_skip encode_watch_strategy_descriptor (dd_watch_strategies d)) []
      (de_vec decode_watch_strategy_descriptor) = Inr (dd_watch_strategies d)"
    using assms(2) by (intro watch_strategy_descriptor_codec.vec_skip_roundtrip) (simp add: list_all_iff)
  then have "decode_plugin_descriptor show_error (encode_plugin_descriptor d) = Inr d"
    using assms(1)
    by (simp add: decode_plugin_descriptor_def encode_plugin_descriptor_def codec_simps deserialize_encoded)
  then show ?thesis by simp
qed

theorem descriptor_roundtrip_witness:
  "decode_plugin_descriptor (\<lambda>_. []) (encode_plugin_descriptor sample_descriptor) = Inr sample_descriptor"
proof -
  have "Unknown \<notin> set (dd_required_capabilities sample_descriptor)"
    "\<forall>s \<in> set (dd_watch_strategies sample_descriptor). strategy_exact s"
    by (simp_all add: sample_descriptor_def sample_strategy_def strategy_exact_def event_type_exact_def)
  from descriptor_roundtrip [OF this] show ?thesis by blast
qed

end
