(* ===== verification/Plugin_Traits.thy ===== *)
theory Plugin_Traits
  imports Policy Providers Store Sinks Http_Route Content Backend_Plugin Catalog Descriptor Late_Bound
begin

section \<open>The plugin traits\<close>

text \<open>
  The traits a plugin implements, as records with one field per method. The state \<open>'m\<close> is
  whatever the plugin keeps behind \<open>&self\<close>: a method takes its arguments and the state, and
  returns its result with the state it leaves, an \<open>async\<close> method when it is awaited to its
  end. A boxed stream is the list of the items it yields where the crate builds one, and an
  uninterpreted type otherwise.

  For a trait with provided methods, \<open><trait>_impl\<close> is the implementation that writes the
  required methods only. The provided bodies that call other methods of the trait run on the
  state those calls leave.
\<close>

type_synonym ('m, 'r) trait_method = "'m \<Rightarrow> 'r \<times> 'm"

text \<open>A provided body that touches nothing.\<close>

definition pure :: "'r \<Rightarrow> ('m, 'r) trait_method" where
  "pure r m = (r, m)"

text \<open>The \<open>?\<close> operator on the result of a method.\<close>

definition try_method ::
  "('m, 'e + 'a) trait_method \<Rightarrow> ('a \<Rightarrow> ('m, 'e + 'b) trait_method) \<Rightarrow> ('m, 'e + 'b) trait_method" where
  "try_method act k m = (case act m of (Inl e, m') \<Rightarrow> (Inl e, m') | (Inr x, m') \<Rightarrow> k x m')"

subsection \<open>Gates, transforms and identity providers\<close>

record 'm tool_gate_plugin =
  tgp_manifest :: "('m, plugin_manifest) trait_method"
  tgp_evaluate_pre_dispatch ::
    "plugin_context \<Rightarrow> json \<Rightarrow> json option \<Rightarrow> json \<Rightarrow> ('m, gate_decision) trait_method"
  tgp_evaluate_post_dispatch ::
    "plugin_context \<Rightarrow> json \<Rightarrow> json \<Rightarrow> u64 \<Rightarrow> json \<Rightarrow> ('m, gate_decision) trait_method"
  tgp_shutdown :: "('m, unit) trait_method"

definition tool_gate_impl ::
  "('m, plugin_manifest) trait_method \<Rightarrow>
   (plugin_context \<Rightarrow> json \<Rightarrow> json option \<Rightarrow> json \<Rightarrow> ('m, gate_decision) trait_method) \<Rightarrow> 'm tool_gate_plugin" where
  "tool_gate_impl manifest pre =
     \<lparr>tgp_manifest = manifest, tgp_evaluate_pre_dispatch = pre,
      tgp_evaluate_post_dispatch = (\<lambda>ctx arguments tool_result ms config.
        pure (default_evaluate_post_dispatch ctx arguments tool_result ms config)),
      tgp_shutdown = pure ()\<rparr>"

record 'm transform_plugin =
  tfp_manifest :: "('m, plugin_manifest) trait_method"
  tfp_transform_arguments :: "plugin_context \<Rightarrow> json \<Rightarrow> json \<Rightarrow> ('m, transform_result) trait_method"
  tfp_transform_result :: "plugin_context \<Rightarrow> json \<Rightarrow> json \<Rightarrow> ('m, transform_result) trait_method"
  tfp_shutdown :: "('m, unit) trait_method"

record 'm identity_provider_plugin =
  ipp_manifest :: "('m, plugin_manifest) trait_method"
  ipp_resolve_identity ::
    "(string \<times> string) list \<Rightarrow> request_metadata \<Rightarrow> json \<Rightarrow> ('m, identity_resolution) trait_method"
  ipp_shutdown :: "('m, unit) trait_method"

text \<open>A payment-aware gate is a gate with four more methods.\<close>

record 'm payment_aware_plugin = "'m tool_gate_plugin" +
  pap_payment_capabilities :: "('m, payment_capability list) trait_method"
  pap_credential_meta_keys :: "('m, string list) trait_method"
  pap_payment_category :: "('m, payment_category) trait_method"
  pap_configured_tools :: "('m, string list) trait_method"

record 'm policy_engine =
  pe_manifest :: "('m, plugin_manifest) trait_method"
  pe_name :: "('m, string) trait_method"
  pe_evaluate :: "string \<Rightarrow> json \<Rightarrow> plugin_context \<Rightarrow> ('m, policy_decision) trait_method"
  pe_policy_version :: "('m, policy_version) trait_method"
  pe_shutdown :: "('m, unit) trait_method"

record 'm approval_notifier =
  an_manifest :: "('m, plugin_manifest) trait_method"
  an_notify :: "notification_request \<Rightarrow> ('m, notification_error + notification_result) trait_method"
  an_shutdown :: "('m, unit) trait_method"

subsection \<open>Secrets, configuration and credentials\<close>

record ('m, 's) secret_provider =
  sp_manifest :: "('m, plugin_manifest) trait_method"
  sp_supported_schemes :: "('m, string list) trait_method"
  sp_get :: "string \<Rightarrow> ('m, secret_error + secret_value) trait_method"
  sp_has :: "string \<Rightarrow> ('m, bool) trait_method"
  sp_watch :: "string \<Rightarrow> ('m, secret_error + 's) trait_method"
  sp_shutdown :: "('m, unit) trait_method"

definition secret_provider_impl ::
  "('m, plugin_manifest) trait_method \<Rightarrow> ('m, string list) trait_method \<Rightarrow>
   (string \<Rightarrow> ('m, secret_error + secret_value) trait_method) \<Rightarrow> ('m, 's) secret_provider" where
  "secret_provider_impl manifest schemes get =
     \<lparr>sp_manifest = manifest, sp_supported_schemes = schemes, sp_get = get,
      sp_has = (\<lambda>secret_ref. map_prod is_ok id \<circ> get secret_ref),
      sp_watch = (\<lambda>secret_ref. pure (secret_watch_default secret_ref)),
      sp_shutdown = pure ()\<rparr>"

record ('m, 's) config_provider =
  cp_manifest :: "('m, plugin_manifest) trait_method"
  cp_supported_schemes :: "('m, string list) trait_method"
  cp_snapshot :: "string \<Rightarrow> ('m, config_error + config_snapshot) trait_method"
  cp_watch :: "string \<Rightarrow> ('m, config_error + 's) trait_method"
  cp_shutdown :: "('m, unit) trait_method"

definition config_provider_impl ::
  "('m, plugin_manifest) trait_method \<Rightarrow> ('m, string list) trait_method \<Rightarrow>
   (string \<Rightarrow> ('m, config_error + config_snapshot) trait_method) \<Rightarrow> ('m, 's) config_provider" where
  "config_provider_impl manifest schemes snapshot =
     \<lparr>cp_manifest = manifest, cp_supported_schemes = schemes, cp_snapshot = snapshot,
      cp_watch = (\<lambda>reference. pure (config_watch_default reference)),
      cp_shutdown = pure ()\<rparr>"

record 'm credential_issuer =
  ci_manifest :: "('m, plugin_manifest) trait_method"
  ci_credential_kind :: "('m, string) trait_method"
  ci_issue :: "plugin_identity \<Rightarrow> string \<Rightarrow> json \<Rightarrow> ('m, credential_error + issued_credential) trait_method"
  ci_revoke :: "string \<Rightarrow> ('m, credential_error + unit) trait_method"
  ci_shutdown :: "('m, unit) trait_method"

definition credential_issuer_impl ::
  "('m, plugin_manifest) trait_method \<Rightarrow>
   (plugin_identity \<Rightarrow> string \<Rightarrow> json \<Rightarrow> ('m, credential_error + issued_credential) trait_method) \<Rightarrow>
   'm credential_issuer" where
  "credential_issuer_impl manifest issue =
     \<lparr>ci_manifest = manifest, ci_credential_kind = map_prod pm_id id \<circ> manifest, ci_issue = issue,
      ci_revoke = (\<lambda>lease_id. pure (Inr ())),
      ci_shutdown = pure ()\<rparr>"

subsection \<open>Stores, caches and contents\<close>

record ('m, 's) store_plugin =
  str_manifest :: "('m, plugin_manifest) trait_method"
  str_supported_roles :: "('m, store_role list) trait_method"
  str_get :: "store_role \<Rightarrow> string \<Rightarrow> ('m, store_error + store_value option) trait_method"
  str_put :: "store_role \<Rightarrow> string \<Rightarrow> store_value \<Rightarrow> ('m, store_error + unit) trait_method"
  str_delete :: "store_role \<Rightarrow> string \<Rightarrow> ('m, store_error + unit) trait_method"
  str_list :: "store_role \<Rightarrow> string \<Rightarrow> string option \<Rightarrow> ('m, store_error + store_page) trait_method"
  str_compare_and_swap ::
    "store_role \<Rightarrow> string \<Rightarrow> store_value option \<Rightarrow> store_value \<Rightarrow> ('m, store_error + bool) trait_method"
  str_append :: "store_role \<Rightarrow> string \<Rightarrow> store_value \<Rightarrow> ('m, store_error + append_result) trait_method"
  str_watch :: "store_role \<Rightarrow> string \<Rightarrow> ('m, store_error + 's) trait_method"
  str_shutdown :: "('m, unit) trait_method"

text \<open>The two provided methods of a store, given the other eight.\<close>

definition store_provided :: "('m, 's) store_plugin \<Rightarrow> ('m, 's) store_plugin" where
  "store_provided s =
     s\<lparr>str_append := (\<lambda>role key val.
         try_method (str_put s role key val) (\<lambda>_. pure (Inr \<lparr>ar_sequence = 0\<rparr>))),
       str_shutdown := pure ()\<rparr>"

record 'm cache_plugin =
  cch_manifest :: "('m, plugin_manifest) trait_method"
  cch_supported_namespaces :: "('m, string list) trait_method"
  cch_serves_any_namespace :: "('m, bool) trait_method"
  cch_get :: "string \<Rightarrow> string \<Rightarrow> ('m, bytes option) trait_method"
  cch_put :: "string \<Rightarrow> string \<Rightarrow> bytes \<Rightarrow> duration \<Rightarrow> ('m, cache_error + unit) trait_method"
  cch_delete :: "string \<Rightarrow> string \<Rightarrow> ('m, unit) trait_method"
  cch_clear :: "string \<Rightarrow> ('m, cache_error + unit) trait_method"
  cch_incr :: "string \<Rightarrow> string \<Rightarrow> i64 \<Rightarrow> duration \<Rightarrow> ('m, cache_error + i64) trait_method"
  cch_shutdown :: "('m, unit) trait_method"

definition cache_provided :: "'m cache_plugin \<Rightarrow> 'm cache_plugin" where
  "cache_provided c = c\<lparr>cch_serves_any_namespace := pure False, cch_shutdown := pure ()\<rparr>"

record ('m, 't) content_store =
  cst_put :: "content_to_store \<Rightarrow> ('m, content_store_error + 't resource_handle) trait_method"
  cst_get :: "string \<Rightarrow> ('m, content_store_error + 't resource_content option) trait_method"
  cst_delete :: "string \<Rightarrow> ('m, content_store_error + unit) trait_method"
  cst_signed_url :: "string \<Rightarrow> duration \<Rightarrow> ('m, content_store_error + string option) trait_method"
  cst_stats :: "('m, content_store_stats) trait_method"
  cst_sweep_expired :: "('m, nat) trait_method"
  cst_shutdown :: "('m, unit) trait_method"

definition content_store_provided :: "('m, 't) content_store \<Rightarrow> ('m, 't) content_store" where
  "content_store_provided c =
     c\<lparr>cst_sweep_expired := pure sweep_expired_default, cst_shutdown := pure ()\<rparr>"

record ('m, 't) content_store_plugin =
  csp_manifest :: "('m, plugin_manifest) trait_method"
  csp_kind :: "('m, string) trait_method"
  csp_build_profile :: "string \<Rightarrow> json \<Rightarrow> ('m, content_store_error + ('m, 't) content_store) trait_method"

subsection \<open>Sinks\<close>

record 'm audit_sink =
  aus_manifest :: "('m, plugin_manifest) trait_method"
  aus_emit :: "audit_event \<Rightarrow> ('m, audit_error + audit_receipt) trait_method"
  aus_flush :: "u64 \<Rightarrow> ('m, audit_error + unit) trait_method"
  aus_shutdown :: "('m, unit) trait_method"

definition audit_sink_impl ::
  "('m, plugin_manifest) trait_method \<Rightarrow> (audit_event \<Rightarrow> ('m, audit_error + audit_receipt) trait_method) \<Rightarrow>
   'm audit_sink" where
  "audit_sink_impl manifest emit =
     \<lparr>aus_manifest = manifest, aus_emit = emit,
      aus_flush = (\<lambda>timeout_ms. pure (audit_flush_default timeout_ms)), aus_shutdown = pure ()\<rparr>"

record 'm log_sink =
  los_manifest :: "('m, plugin_manifest) trait_method"
  los_emit :: "log_record \<Rightarrow> ('m, unit) trait_method"
  los_flush :: "duration \<Rightarrow> ('m, log_error + unit) trait_method"
  los_shutdown :: "('m, unit) trait_method"

record 'm metrics_sink =
  mes_manifest :: "('m, plugin_manifest) trait_method"
  mes_emit :: "metric_point \<Rightarrow> ('m, unit) trait_method"
  mes_flush :: "duration \<Rightarrow> ('m, metrics_error + unit) trait_method"
  mes_render_text_exposition :: "('m, string option) trait_method"
  mes_shutdown :: "('m, unit) trait_method"

definition metrics_sink_impl ::
  "('m, plugin_manifest) trait_method \<Rightarrow> (metric_point \<Rightarrow> ('m, unit) trait_method) \<Rightarrow>
   (duration \<Rightarrow> ('m, metrics_error + unit) trait_method) \<Rightarrow> 'm metrics_sink" where
  "metrics_sink_impl manifest emit flush =
     \<lparr>mes_manifest = manifest, mes_emit = emit, mes_flush = flush,
      mes_render_text_exposition = pure render_text_exposition_default, mes_shutdown = pure ()\<rparr>"

record 'm telemetry_sink =
  tes_manifest :: "('m, plugin_manifest) trait_method"
  tes_span_started :: "span_start \<Rightarrow> ('m, unit) trait_method"
  tes_span_ended :: "span_end \<Rightarrow> ('m, unit) trait_method"
  tes_metric_recorded :: "metric_point \<Rightarrow> ('m, unit) trait_method"
  tes_log_recorded :: "log_record \<Rightarrow> ('m, unit) trait_method"
  tes_flush :: "duration \<Rightarrow> ('m, telemetry_error + unit) trait_method"
  tes_shutdown :: "('m, unit) trait_method"

definition telemetry_sink_provided :: "'m telemetry_sink \<Rightarrow> 'm telemetry_sink" where
  "telemetry_sink_provided t =
     t\<lparr>tes_log_recorded := (\<lambda>record. pure (log_recorded_default record)), tes_shutdown := pure ()\<rparr>"

subsection \<open>Routes, transports and catalogs\<close>

record ('m, 's) http_route_plugin =
  hrp_manifest :: "('m, plugin_manifest) trait_method"
  hrp_routes :: "('m, route_spec list) trait_method"
  hrp_handle :: "http_route_request \<Rightarrow> ('m, 's http_route_response) trait_method"
  hrp_shutdown :: "('m, unit) trait_method"

record ('m, 's) message_dispatcher =
  md_dispatch :: "string \<Rightarrow> bytes \<Rightarrow> ('m, dispatcher_error + 's dispatch_response) trait_method"

record 'm transport_handle =
  th_listen_address :: "('m, string option) trait_method"
  th_close :: "('m, unit) trait_method"

record ('m, 's) transport_plugin =
  trp_manifest :: "('m, plugin_manifest) trait_method"
  trp_name :: "('m, string) trait_method"
  trp_start :: "json \<Rightarrow> ('m, 's) message_dispatcher \<Rightarrow> ('m, transport_error + 'm transport_handle) trait_method"
  trp_shutdown :: "('m, unit) trait_method"

record 'm catalog_provider =
  cap_manifest :: "('m, plugin_manifest) trait_method"
  cap_filter_and_enrich ::
    "plugin_context \<Rightarrow> enriched_tool_descriptor list \<Rightarrow> ('m, enriched_tool_descriptor list) trait_method"
  cap_describe :: "string \<Rightarrow> ('m, catalog_entry option) trait_method"
  cap_list_catalog :: "('m, catalog_entry list) trait_method"
  cap_shutdown :: "('m, unit) trait_method"

subsection \<open>Backends and watch strategies\<close>

record 'm backend_plugin =
  bkp_manifest :: "('m, plugin_manifest) trait_method"
  bkp_kind :: "('m, string) trait_method"
  bkp_register_profile :: "string \<Rightarrow> json \<Rightarrow> backend_host \<Rightarrow> ('m, backend_error + unit) trait_method"
  bkp_execute :: "string \<Rightarrow> backend_request \<Rightarrow> ('m, backend_error + backend_response) trait_method"
  bkp_input_schema :: "string \<Rightarrow> ('m, json option) trait_method"
  bkp_output_schema :: "string \<Rightarrow> ('m, json option) trait_method"
  bkp_list_resources :: "string \<Rightarrow> string option \<Rightarrow> ('m, backend_error + resource_page) trait_method"
  bkp_expand_capabilities :: "('m, backend_error + capability_set) trait_method"
  bkp_execute_streaming ::
    "string \<Rightarrow> backend_request \<Rightarrow> ('m, backend_error + (backend_error + backend_chunk) list) trait_method"
  bkp_execute_transaction :: "string \<Rightarrow> json \<Rightarrow> ('m, backend_error + json) trait_method"
  bkp_health :: "string \<Rightarrow> ('m, backend_health) trait_method"
  bkp_shutdown :: "('m, unit) trait_method"
  bkp_audit_metadata :: "string \<Rightarrow> ('m, json_map) trait_method"
  bkp_complete_template_variable ::
    "string \<Rightarrow> string \<Rightarrow> string \<Rightarrow> json \<Rightarrow> (string \<times> string) list \<Rightarrow> ('m, backend_error + string list) trait_method"

definition backend_plugin_impl ::
  "('m, plugin_manifest) trait_method \<Rightarrow> ('m, string) trait_method \<Rightarrow>
   (string \<Rightarrow> json \<Rightarrow> backend_host \<Rightarrow> ('m, backend_error + unit) trait_method) \<Rightarrow>
   (string \<Rightarrow> backend_request \<Rightarrow> ('m, backend_error + backend_response) trait_method) \<Rightarrow> 'm backend_plugin" where
  "backend_plugin_impl manifest kind' register execute =
     \<lparr>bkp_manifest = manifest, bkp_kind = kind', bkp_register_profile = register, bkp_execute = execute,
      bkp_input_schema = (\<lambda>profile_name. pure (default_input_schema profile_name)),
      bkp_output_schema = (\<lambda>profile_name. pure (default_output_schema profile_name)),
      bkp_list_resources = (\<lambda>profile_name cursor. pure (default_list_resources profile_name cursor)),
      bkp_expand_capabilities = pure default_expand_capabilities,
      bkp_execute_streaming = (\<lambda>profile_name request.
        try_method (execute profile_name request) (\<lambda>response. pure (Inr [Inr (Done response)]))),
      bkp_execute_transaction = (\<lambda>backend_name tx_group. pure (default_execute_transaction backend_name tx_group)),
      bkp_health = (\<lambda>profile_name. pure (default_health profile_name)),
      bkp_shutdown = pure (),
      bkp_audit_metadata = (\<lambda>profile_name. pure (default_audit_metadata profile_name)),
      bkp_complete_template_variable = (\<lambda>profile_name variable_name prefix' config context'.
        pure (default_complete_template_variable profile_name variable_name prefix' config context'))\<rparr>"

record 'm watch_event_sink =
  wes_emit :: "watch_event \<Rightarrow> ('m, unit) trait_method"

record 'm watch_handle =
  wh_cancel :: "('m, unit) trait_method"
  wh_acknowledge :: "json \<Rightarrow> ('m, unit) trait_method"

definition watch_handle_impl :: "('m, unit) trait_method \<Rightarrow> 'm watch_handle" where
  "watch_handle_impl cancel =
     \<lparr>wh_cancel = cancel, wh_acknowledge = (\<lambda>position. pure (acknowledge_default position))\<rparr>"

record 'm watch_strategy_plugin =
  wsp_manifest :: "('m, plugin_manifest) trait_method"
  wsp_kind :: "('m, string) trait_method"
  wsp_event_source :: "('m, watch_strategy_descriptor option) trait_method"
  wsp_watch :: "string \<Rightarrow> json \<Rightarrow> 'm watch_event_sink \<Rightarrow> ('m, watch_error + 'm watch_handle) trait_method"
  wsp_shutdown :: "('m, unit) trait_method"

definition watch_strategy_impl ::
  "('m, plugin_manifest) trait_method \<Rightarrow> ('m, string) trait_method \<Rightarrow>
   (string \<Rightarrow> json \<Rightarrow> 'm watch_event_sink \<Rightarrow> ('m, watch_error + 'm watch_handle) trait_method) \<Rightarrow>
   'm watch_strategy_plugin" where
  "watch_strategy_impl manifest kind' watch =
     \<lparr>wsp_manifest = manifest, wsp_kind = kind', wsp_event_source = pure None, wsp_watch = watch,
      wsp_shutdown = pure ()\<rparr>"

subsection \<open>What the provided methods do\<close>

text \<open>
  The provided methods that call a required one call it once, on the state they were called
  in, and return what the body makes of its result: the state afterwards is the required
  method's, and the result is the stateless default applied to it.
\<close>

lemma provided_append:
  "str_append (store_provided s) role key val m =
     (default_append (\<lambda>r k v. fst (str_put s r k v m)) role key val, snd (str_put s role key val m))"
  by (simp add: store_provided_def default_append_def try_method_def pure_def res_bind_def
    split: prod.split sum.split)

lemma provided_has:
  "sp_has (secret_provider_impl manifest schemes get) secret_ref m =
     (secret_has (\<lambda>r. fst (get r m)) secret_ref, snd (get secret_ref m))"
  by (simp add: secret_provider_impl_def secret_has_def map_prod_def split: prod.split)

lemma provided_streaming:
  "bkp_execute_streaming (backend_plugin_impl manifest kind' register execute) p request m =
     (default_execute_streaming (\<lambda>p r. fst (execute p r m)) p request, snd (execute p request m))"
  by (simp add: backend_plugin_impl_def default_execute_streaming_def try_method_def pure_def res_bind_def
    split: prod.split sum.split)

end
