(* ===== verification/Wire_Sound.thy ===== *)
theory Wire_Sound
  imports Policy Store Providers Sinks Http_Route Content Backend_Plugin Catalog Descriptor
begin

section \<open>What a decoder may deliver\<close>

text \<open>
  Two things hold of every value that came off the wire, whatever the peer wrote. It lies in the
  domain on which its codec is exact, so relaying it, encoding and decoding again, changes it no
  further: the losses of the wire (a present null read as absent, a custom protocol with the name
  of a known one) happen once, at the first decoder. And when the JSON value had ordered objects,
  as every parsed value has, its maps are ordered maps and the values it carries are well formed,
  which the properties of the identity hash, of the catalog and of the C boundary ask for.
\<close>

subsection \<open>Relays\<close>

text \<open>
  A codec that relays: what its decoder can deliver is exactly the domain on which the codec
  is exact, and decoding, encoding and decoding again is decoding once.
\<close>

definition relays :: "('a \<Rightarrow> bool) \<Rightarrow> (json \<Rightarrow> de_error + 'a) \<Rightarrow> ('a \<Rightarrow> json) \<Rightarrow> bool" where
  "relays valid dec enc \<longleftrightarrow>
     {x. \<exists>v. dec v = Inr x} = {x. valid x} \<and> (\<forall>v. res_bind (dec v) (\<lambda>x. dec (enc x)) = dec v)"

locale relay = codec +
  assumes decoded: "dec v = Inr x \<Longrightarrow> dom x"
begin

lemma relay: "res_bind (dec v) (\<lambda>x. dec (enc x)) = dec v"
  by (cases "dec v") (auto dest: decoded simp: roundtrip)

lemma relays: "relays dom dec enc"
  using decoded roundtrip by (auto simp: relays_def relay)

lemma decoded_vec: "de_vec dec v = Inr xs \<Longrightarrow> list_all dom xs"
  by (cases v) (auto simp: de_vec_def collect_results_Inr list_all_length map_equality_iff, blast intro: decoded)

lemma decoded_opt: "de_opt m f dec = Inr x \<Longrightarrow> pred_option dom x"
  by (auto simp: de_opt_value opt_value_def de_option_def res_bind_Inr
    dest: decoded split: option.splits json.splits)

lemma decoded_default: "de_field_default m f [] (de_vec dec) = Inr xs \<Longrightarrow> list_all dom xs"
  by (auto simp: de_default_value opt_value_def dest: decoded_vec split: option.splits)

end

lemma de_opt_value_null: "de_opt m f de_value \<noteq> Inr (Some JNull)"
  by (auto simp: de_opt_value opt_value_value non_null_def)

lemma de_field_Inr: "de_field m f d = Inr x \<longleftrightarrow> (\<exists>v. bt_get m f = Some v \<and> d v = Inr x)"
  by (auto simp: de_field_def split: option.splits)

interpretation gate_decision: relay encode_gate_decision decode_gate_decision gate_decision_exact
  by unfold_locales
    (auto simp: decode_gate_decision_def res_bind_Inr gate_decision_exact_def de_opt_value_null split: if_splits)

interpretation watch_event: relay encode_watch_event decode_watch_event
  "\<lambda>x. we_data x \<noteq> Some JNull \<and> we_upstream_cursor x \<noteq> Some JNull"
  by unfold_locales (auto simp: decode_watch_event_def res_bind_Inr de_opt_value_null)

interpretation expanded_tool: relay encode_expanded_tool decode_expanded_tool
  "\<lambda>x. et_output_schema x \<noteq> Some JNull \<and> et_annotations x \<noteq> Some JNull \<and> et_meta x \<noteq> Some JNull \<and>
     et_governance x \<noteq> Some JNull \<and> et_retry x \<noteq> Some JNull"
  by unfold_locales (auto simp: decode_expanded_tool_def res_bind_Inr de_opt_value_null)

interpretation expanded_resource_template: relay encode_expanded_resource_template decode_expanded_resource_template
  "\<lambda>x. ert_meta x \<noteq> Some JNull \<and> ert_governance x \<noteq> Some JNull \<and> ert_retry x \<noteq> Some JNull"
  by unfold_locales (auto simp: decode_expanded_resource_template_def res_bind_Inr de_opt_value_null)

interpretation capability_set: relay encode_capability_set decode_capability_set
  "\<lambda>x. list_all (\<lambda>t. et_output_schema t \<noteq> Some JNull \<and> et_annotations t \<noteq> Some JNull \<and>
      et_meta t \<noteq> Some JNull \<and> et_governance t \<noteq> Some JNull \<and> et_retry t \<noteq> Some JNull) (cs_tools x) \<and>
    list_all (\<lambda>t. ert_meta t \<noteq> Some JNull \<and> ert_governance t \<noteq> Some JNull \<and> ert_retry t \<noteq> Some JNull)
      (cs_resource_templates x)"
  by unfold_locales
    (auto simp: decode_capability_set_def res_bind_Inr
      dest: expanded_tool.decoded_default expanded_resource_template.decoded_default)

interpretation catalog_metadata: relay encode_catalog_metadata decode_catalog_metadata
  "\<lambda>x. cm_sample_arguments x \<noteq> Some JNull"
  by unfold_locales (auto simp: decode_catalog_metadata_def res_bind_Inr de_opt_value_null)

interpretation catalog_entry: relay encode_catalog_entry decode_catalog_entry
  "\<lambda>x. cm_sample_arguments (ce_catalog x) \<noteq> Some JNull"
  by unfold_locales
    (auto simp: decode_catalog_entry_def res_bind_Inr de_field_Inr dest: catalog_metadata.decoded)

interpretation duration: relay encode_duration decode_duration duration_ok
  by unfold_locales (auto simp: decode_duration_def res_bind_Inr duration_ok_def Let_def split: if_splits)

interpretation content_to_store: relay encode_content_to_store decode_content_to_store
  "\<lambda>x. pred_option duration_ok (cts_ttl x)"
  by unfold_locales (auto simp: decode_content_to_store_def res_bind_Inr dest: duration.decoded_opt)

interpretation event_type_descriptor: relay encode_event_type_descriptor decode_event_type_descriptor
  "\<lambda>x. et_input_schema x \<noteq> Some JNull \<and> et_payload_schema x \<noteq> Some JNull"
  by unfold_locales (auto simp: decode_event_type_descriptor_def res_bind_Inr de_opt_value_null)

interpretation watch_strategy_descriptor: relay encode_watch_strategy_descriptor decode_watch_strategy_descriptor
  strategy_exact
  by unfold_locales
    (auto simp: decode_watch_strategy_descriptor_def res_bind_Inr strategy_exact_def event_type_exact_def
      dest!: event_type_descriptor.decoded_default elim!: list.pred_mono_strong)

interpretation notification_request: relay encode_notification_request decode_notification_request
  "\<lambda>x. nq_arguments x \<noteq> Some JNull \<and> nq_metadata x \<noteq> Some JNull"
  by unfold_locales (auto simp: decode_notification_request_def res_bind_Inr de_opt_value_null)

interpretation payment_protocol: relay encode_payment_protocol decode_payment_protocol protocol_proper
  by unfold_locales (auto simp: decode_payment_protocol_def res_bind_Inr protocol_proper_def split: if_splits)

interpretation payment_capability: relay encode_payment_capability decode_payment_capability
  "\<lambda>x. protocol_proper (pyc_protocol x)"
  by unfold_locales
    (auto simp: decode_payment_capability_def res_bind_Inr de_field_Inr dest: payment_protocol.decoded)

interpretation protocol_tool_descriptor: relay encode_protocol_tool_descriptor decode_protocol_tool_descriptor
  "\<lambda>x. ptd_output_schema x \<noteq> Some JNull"
  by unfold_locales (auto simp: decode_protocol_tool_descriptor_def res_bind_Inr de_opt_value_null)

definition enriched_exact :: "enriched_tool_descriptor \<Rightarrow> bool" where
  "enriched_exact x \<longleftrightarrow> ptd_output_schema (etd_base x) \<noteq> Some JNull \<and>
     pred_option (\<lambda>m. cm_sample_arguments m \<noteq> Some JNull) (etd_catalog x)"

interpretation enriched_tool_descriptor: relay encode_enriched_tool_descriptor decode_enriched_tool_descriptor
  enriched_exact
proof unfold_locales
  show "decode_enriched_tool_descriptor (encode_enriched_tool_descriptor x) = Inr x" if "enriched_exact x" for x
    using that catalog_roundtrip [of x]
    by (cases "etd_catalog x") (simp_all add: enriched_exact_def non_null_def)
  show "encode_enriched_tool_descriptor x \<noteq> JNull" for x
    by (simp add: encode_enriched_tool_descriptor_def)
  show "enriched_exact x" if "decode_enriched_tool_descriptor v = Inr x" for v x
    using that
    by (auto simp: decode_enriched_tool_descriptor_def res_bind_Inr enriched_exact_def
      dest: protocol_tool_descriptor.decoded catalog_metadata.decoded_opt)
qed

definition descriptor_exact :: "plugin_descriptor \<Rightarrow> bool" where
  "descriptor_exact d \<longleftrightarrow> Unknown \<notin> set (dd_required_capabilities d) \<and>
     list_all strategy_exact (dd_watch_strategies d)"

lemma deserialized_known: "deserialize_required_capabilities show_error v = Inr cs \<Longrightarrow> Unknown \<notin> set cs"
  by (auto simp: descriptor_capabilities_exact list_all2_conv_all_nth in_set_conv_nth)

interpretation plugin_descriptor: relay encode_plugin_descriptor "decode_plugin_descriptor show_error" descriptor_exact
  for show_error
proof unfold_locales
  show "decode_plugin_descriptor show_error (encode_plugin_descriptor x) = Inr x" if "descriptor_exact x" for x
    using that descriptor_roundtrip [of x show_error] by (simp add: descriptor_exact_def list_all_iff)
  show "encode_plugin_descriptor x \<noteq> JNull" for x
    by (simp add: encode_plugin_descriptor_def)
  show "descriptor_exact x" if dec: "decode_plugin_descriptor show_error v = Inr x" for v x
  proof -
    obtain m where
      caps: "de_field_default m ''required_capabilities'' [] (deserialize_required_capabilities show_error) =
        Inr (dd_required_capabilities x)" and
      strategies: "de_field_default m ''watch_strategies'' [] (de_vec decode_watch_strategy_descriptor) =
        Inr (dd_watch_strategies x)"
      using dec by (clarsimp simp: decode_plugin_descriptor_def res_bind_Inr)
    have "Unknown \<notin> set (dd_required_capabilities x)"
      using caps deserialized_known by (auto simp: de_field_default_def split: option.splits)
    with watch_strategy_descriptor.decoded_default [OF strategies] show ?thesis
      by (simp add: descriptor_exact_def)
  qed
qed

lemma parse_display_role: "parse_store_role (display_store_role (parse_store_role s)) = parse_store_role s"
  using store_role_names by (simp add: as_label_def)

interpretation store_role: relay encode_store_role decode_store_role "\<lambda>r. parse_store_role (display_store_role r) = r"
  by unfold_locales (auto simp: encode_store_role_def decode_store_role_def res_bind_Inr parse_display_role)

text \<open>
  A capability outside a descriptor is decoded by its own derived decoder, which reads an unknown
  type as the sink \<open>Unknown\<close>.
\<close>

definition decode_capability_value :: "json \<Rightarrow> de_error + capability" where
  "decode_capability_value v = res_bind (de_object v) decode_capability"

interpretation capability: relay encode_capability decode_capability_value "\<lambda>_. True"
proof unfold_locales
  show "decode_capability_value (encode_capability x) = Inr x" for x
    by (cases x) (simp_all add: decode_capability_value_def encode_capability_def decode_capability_def
      json_obj_def bt_get_collect de_field_def)
  show "encode_capability x \<noteq> JNull" for x by (simp add: encode_capability_def json_obj_def)
qed simp

subsection \<open>Well-formed values\<close>

lemma json_wf_get: "bt_get m k = Some x \<Longrightarrow> json_wf (JObject m) \<Longrightarrow> json_wf x"
  by (simp add: json_wf_object del: json_wf.simps)

text \<open>
  The contract of a codec with the values it carries: a well-formed JSON value decodes to a
  well-formed value, and a well-formed value is encoded to a well-formed JSON value.
\<close>

locale sound =
  fixes enc :: "'a \<Rightarrow> json"
    and dec :: "json \<Rightarrow> de_error + 'a"
    and wf :: "'a \<Rightarrow> bool"
  assumes dec_wf: "json_wf v \<Longrightarrow> dec v = Inr x \<Longrightarrow> wf x"
    and enc_wf: "wf x \<Longrightarrow> json_wf (enc x)"
begin

lemma field_wf: "de_field m f dec = Inr x \<Longrightarrow> json_wf (JObject m) \<Longrightarrow> wf x"
  by (auto simp: de_field_Inr simp del: json_wf.simps intro: dec_wf dest: json_wf_get)

lemma opt_wf: "de_opt m f dec = Inr x \<Longrightarrow> json_wf (JObject m) \<Longrightarrow> pred_option wf x"
proof -
  assume a: "de_opt m f dec = Inr x" "json_wf (JObject m)"
  have "wf y" if some: "x = Some y" for y
  proof -
    obtain v where "bt_get m f = Some v" "dec v = Inr y"
      using a(1) some by (auto simp: de_opt_value opt_value_def de_option_def res_bind_Inr
        split: option.splits json.splits)
    then show ?thesis using a(2) by (blast intro: dec_wf json_wf_get)
  qed
  then show ?thesis by (cases x) auto
qed

lemma vec_wf: "json_wf v \<Longrightarrow> de_vec dec v = Inr xs \<Longrightarrow> list_all wf xs"
  by (cases v) (auto simp: de_vec_def collect_results_Inr list_all_length map_equality_iff intro!: dec_wf)

lemma default_vec_wf: "de_field_default m f [] (de_vec dec) = Inr xs \<Longrightarrow> json_wf (JObject m) \<Longrightarrow> list_all wf xs"
  by (auto simp: de_default_value opt_value_def simp del: json_wf.simps
    intro: vec_wf dest: json_wf_get split: option.splits)

lemma enc_vec_wf: "list_all wf xs \<Longrightarrow> json_wf (vec enc xs)" "list_all wf xs \<Longrightarrow> pred_option json_wf (vec_skip enc xs)"
  by (auto simp: vec_def vec_skip_def list_all_iff enc_wf)

lemma enc_opt_wf: "pred_option wf x \<Longrightarrow> pred_option json_wf (map_option enc x)"
    "pred_option wf x \<Longrightarrow> json_wf (opt_null enc x)"
  by (cases x; simp add: enc_wf opt_null_def)+

text \<open>What a relay passes on is well formed when what it received was.\<close>

lemma passed_on: "json_wf v \<Longrightarrow> dec v = Inr x \<Longrightarrow> wf x \<and> json_wf (enc x)"
  by (blast intro: dec_wf enc_wf)

end

named_theorems wf_simps \<open>well-formedness of what the encoders build\<close>
named_theorems wf_dests \<open>well-formedness of what the decoders read\<close>

lemma json_wf_fields [wf_simps]:
  "list_all (\<lambda>e. pred_option json_wf (snd e)) fs \<Longrightarrow> json_wf (JObject (fields_map fs))"
proof -
  assume fs: "list_all (\<lambda>e. pred_option json_wf (snd e)) fs"
  have "json_wf x" if "lookup_field fs k = Some x" for k x
    using fs that by (induction fs) (auto simp: or_else_def split: option.splits if_splits)
  then show ?thesis by (simp add: json_wf_object del: json_wf.simps)
qed

lemma json_wf_leaf [wf_simps]:
  "json_wf JNull" "json_wf (JBool b)" "json_wf (JNumber n)" "json_wf (JString t)"
  by simp_all

lemma json_wf_strings [wf_simps]:
  "json_wf (vec JString xs)" "pred_option json_wf (vec_skip JString xs)"
  "json_wf (opt_null JString x)" "pred_option json_wf (map_option JString x)"
  "pred_option json_wf (map_option JBool b)" "pred_option json_wf (flag_skip f)"
  "json_wf (en_u64 n)" "json_wf (en_uint w)" "json_wf (en_int i)"
  "json_wf (vec en_uint ws)" "json_wf (vec pair ps)" "pred_option json_wf (vec_skip pair ps)"
  by (cases x; cases b; simp add: vec_def vec_skip_def opt_null_def flag_skip_def en_u64_def en_uint_def en_int_def
    pair_def list_all_iff)+

lemma json_wf_map [wf_simps]:
  "bt_wf m \<Longrightarrow> json_wf (map_obj JString m)" "bt_wf m \<Longrightarrow> pred_option json_wf (map_skip JString m)"
  "json_wf (JObject j) \<Longrightarrow> json_wf (map_obj (\<lambda>v. v) j)"
  "json_wf (JObject j) \<Longrightarrow> pred_option json_wf (map_skip (\<lambda>v. v) j)"
  by (auto simp: map_obj_def map_skip_def bt_wf_def list_all_iff comp_def case_prod_unfold)

lemma de_object_wf [wf_dests]: "de_object v = Inr m \<Longrightarrow> json_wf v \<Longrightarrow> json_wf (JObject m)"
  by (cases v) (auto simp: de_object_def)

lemma de_map_strings_wf: "de_map de_string v = Inr m \<Longrightarrow> json_wf v \<Longrightarrow> bt_wf m"
proof -
  assume a: "de_map de_string v = Inr m" "json_wf v"
  then obtain es where v: "v = JObject es"
      "map (\<lambda>(k, x). res_bind (de_string x) (\<lambda>a. Inr (k, a))) es = map Inr m"
    by (cases v) (auto simp: de_map_def de_object_def collect_results_Inr)
  have "map fst m = map fst es"
  proof (rule nth_equalityI)
    show len: "length (map fst m) = length (map fst es)" using v(2) by (metis length_map)
    fix i
    assume i: "i < length (map fst m)"
    then have "map (\<lambda>(k, x). res_bind (de_string x) (\<lambda>a. Inr (k, a))) es ! i = map Inr m ! i"
      by (simp add: v(2))
    then show "map fst m ! i = map fst es ! i"
      using i len by (cases "m ! i") (auto simp: res_bind_Inr case_prod_unfold)
  qed
  then show ?thesis using a(2) v(1) by (simp add: bt_wf_def)
qed

lemma de_map_values: "de_map de_value v = Inr m \<longleftrightarrow> v = JObject m"
proof
  assume a: "de_map de_value v = Inr m"
  then obtain es where v: "v = JObject es" "map (\<lambda>(k, x). Inr (k, x)) es = map Inr m"
    by (cases v) (auto simp: de_map_def de_object_def collect_results_Inr)
  then show "v = JObject m" by (auto simp: list_eq_iff_nth_eq map_equality_iff case_prod_unfold prod_eq_iff)
qed (auto simp: de_map_def collect_results_Inr case_prod_unfold)

lemma de_maps_wf [wf_dests]:
  "de_field m f (de_map de_string) = Inr a \<Longrightarrow> json_wf (JObject m) \<Longrightarrow> bt_wf a"
  "de_field_default m f [] (de_map de_string) = Inr a \<Longrightarrow> json_wf (JObject m) \<Longrightarrow> bt_wf a"
  "de_field_default m f [] (de_map de_value) = Inr b \<Longrightarrow> json_wf (JObject m) \<Longrightarrow> json_wf (JObject b)"
  by (auto simp: de_field_Inr de_default_value opt_value_def de_map_values simp del: json_wf.simps
    intro: de_map_strings_wf dest: json_wf_get split: option.splits) simp

lemma de_values_wf [wf_dests]:
  "de_field m f de_value = Inr x \<Longrightarrow> json_wf (JObject m) \<Longrightarrow> json_wf x"
  "de_opt m f de_value = Inr y \<Longrightarrow> json_wf (JObject m) \<Longrightarrow> pred_option json_wf y"
  by (cases y; auto simp: de_field_Inr de_opt_value opt_value_value non_null_def simp del: json_wf.simps
    dest: json_wf_get split: if_splits)+


subsection \<open>The types that carry maps and values\<close>

definition identity_wf :: "plugin_identity \<Rightarrow> bool" where
  "identity_wf i \<longleftrightarrow> bt_wf (pi_attributes i)"

interpretation identity_sound: sound encode_plugin_identity decode_plugin_identity identity_wf
  by unfold_locales
    (auto simp: decode_plugin_identity_def encode_plugin_identity_def identity_wf_def res_bind_Inr wf_simps
      simp del: json_wf.simps dest: wf_dests)

definition context_wf :: "plugin_context \<Rightarrow> bool" where
  "context_wf c \<longleftrightarrow> identity_wf (pc_identity c)"

interpretation context_sound: sound encode_plugin_context decode_plugin_context context_wf
  by unfold_locales
    (auto simp: decode_plugin_context_def encode_plugin_context_def context_wf_def res_bind_Inr wf_simps identity_sound.enc_wf
      simp del: json_wf.simps dest: wf_dests identity_sound.field_wf)

fun gate_wf :: "gate_decision \<Rightarrow> bool" where
  "gate_wf (Allow a r d) \<longleftrightarrow> pred_option json_wf a \<and> pred_option json_wf r \<and> pred_option json_wf d"
| "gate_wf (Deny s c msg d) \<longleftrightarrow> pred_option json_wf d"
| "gate_wf (Challenge s c msg d) \<longleftrightarrow> json_wf d"
| "gate_wf (PendingApproval i t s ns d) \<longleftrightarrow> pred_option json_wf d"

interpretation gate_sound: sound encode_gate_decision decode_gate_decision gate_wf
proof unfold_locales
  show "json_wf v \<Longrightarrow> decode_gate_decision v = Inr x \<Longrightarrow> gate_wf x" for v x
    by (auto simp: decode_gate_decision_def res_bind_Inr simp del: json_wf.simps split: if_splits;
      blast dest: wf_dests)
  show "gate_wf x \<Longrightarrow> json_wf (encode_gate_decision x)" for x
    by (cases x) (simp_all add: wf_simps del: json_wf.simps)
qed

fun transform_wf :: "transform_result \<Rightarrow> bool" where
  "transform_wf (Modified v) \<longleftrightarrow> json_wf v"
| "transform_wf _ \<longleftrightarrow> True"

interpretation transform_sound: sound encode_transform_result decode_transform_result transform_wf
proof unfold_locales
  show "json_wf v \<Longrightarrow> decode_transform_result v = Inr x \<Longrightarrow> transform_wf x" for v x
    by (auto simp: decode_transform_result_def res_bind_Inr simp del: json_wf.simps dest: wf_dests split: if_splits)
  show "transform_wf x \<Longrightarrow> json_wf (encode_transform_result x)" for x
    by (cases x) (simp_all add: wf_simps del: json_wf.simps)
qed

fun resolution_wf :: "identity_resolution \<Rightarrow> bool" where
  "resolution_wf (Resolved i) \<longleftrightarrow> identity_wf i"
| "resolution_wf _ \<longleftrightarrow> True"

interpretation resolution_sound: sound encode_identity_resolution decode_identity_resolution resolution_wf
proof unfold_locales
  show "json_wf v \<Longrightarrow> decode_identity_resolution v = Inr x \<Longrightarrow> resolution_wf x" for v x
    by (auto simp: decode_identity_resolution_def res_bind_Inr simp del: json_wf.simps
      dest: wf_dests identity_sound.field_wf split: if_splits)
  show "resolution_wf x \<Longrightarrow> json_wf (encode_identity_resolution x)" for x
    by (cases x) (simp_all add: wf_simps identity_sound.enc_wf del: json_wf.simps)
qed

definition event_wf :: "watch_event \<Rightarrow> bool" where
  "event_wf e \<longleftrightarrow> pred_option json_wf (we_data e) \<and> pred_option json_wf (we_upstream_cursor e)"

interpretation event_sound: sound encode_watch_event decode_watch_event event_wf
  by unfold_locales
    (auto simp: decode_watch_event_def encode_watch_event_def event_wf_def res_bind_Inr wf_simps
      simp del: json_wf.simps dest: wf_dests)

definition obligation_wf :: "obligation \<Rightarrow> bool" where
  "obligation_wf ob \<longleftrightarrow> json_wf (ob_args ob)"

interpretation obligation_sound: sound encode_obligation decode_obligation obligation_wf
  by unfold_locales
    (auto simp: decode_obligation_def encode_obligation_def obligation_wf_def res_bind_Inr wf_simps
      simp del: json_wf.simps dest: wf_dests)

definition redaction_wf :: "redaction \<Rightarrow> bool" where
  "redaction_wf rd \<longleftrightarrow> json_wf (rd_replacement rd)"

interpretation redaction_sound: sound encode_redaction decode_redaction redaction_wf
  by unfold_locales
    (auto simp: decode_redaction_def encode_redaction_def redaction_wf_def res_bind_Inr wf_simps
      simp del: json_wf.simps dest: wf_dests)

definition policy_decision_wf :: "policy_decision \<Rightarrow> bool" where
  "policy_decision_wf d \<longleftrightarrow> list_all obligation_wf (pd_obligations d) \<and> list_all redaction_wf (pd_redactions d) \<and>
     json_wf (JObject (pd_attributes d))"

lemma policy_effect_enc_wf: "json_wf (encode_policy_effect x)"
  by (cases x) simp_all

interpretation policy_decision_sound: sound encode_policy_decision decode_policy_decision policy_decision_wf
  by unfold_locales
    (auto simp: decode_policy_decision_def encode_policy_decision_def policy_decision_wf_def res_bind_Inr wf_simps policy_effect_enc_wf obligation_sound.enc_vec_wf redaction_sound.enc_vec_wf
      simp del: json_wf.simps dest: wf_dests obligation_sound.default_vec_wf redaction_sound.default_vec_wf)

definition log_record_wf :: "log_record \<Rightarrow> bool" where
  "log_record_wf l \<longleftrightarrow> json_wf (JObject (lg_fields l)) \<and> pred_option identity_wf (lg_identity l)"

lemma log_level_enc_wf: "json_wf (encode_log_level x)"
  by (cases x) simp_all

interpretation log_record_sound: sound encode_log_record decode_log_record log_record_wf
  by unfold_locales
    (auto simp: decode_log_record_def encode_log_record_def log_record_wf_def res_bind_Inr wf_simps log_level_enc_wf identity_sound.enc_opt_wf
      simp del: json_wf.simps dest: wf_dests identity_sound.opt_wf)

definition span_event_wf :: "span_event \<Rightarrow> bool" where
  "span_event_wf e \<longleftrightarrow> json_wf (JObject (se_attributes e))"

interpretation span_event_sound: sound encode_span_event decode_span_event span_event_wf
  by unfold_locales
    (auto simp: decode_span_event_def encode_span_event_def span_event_wf_def res_bind_Inr wf_simps
      simp del: json_wf.simps dest: wf_dests)

definition span_start_wf :: "span_start \<Rightarrow> bool" where
  "span_start_wf s \<longleftrightarrow> json_wf (JObject (ss_attributes s))"

lemma span_kind_enc_wf: "json_wf (encode_span_kind x)"
  by (cases x) simp_all

interpretation span_start_sound: sound encode_span_start decode_span_start span_start_wf
  by unfold_locales
    (auto simp: decode_span_start_def encode_span_start_def span_start_wf_def res_bind_Inr wf_simps span_kind_enc_wf
      simp del: json_wf.simps dest: wf_dests)

definition span_end_wf :: "span_end \<Rightarrow> bool" where
  "span_end_wf s \<longleftrightarrow> list_all span_event_wf (sd_events s) \<and> json_wf (JObject (sd_additional_attributes s))"

lemma span_status_enc_wf: "json_wf (encode_span_status x)"
  by (cases x) (simp_all add: wf_simps del: json_wf.simps)

interpretation span_end_sound: sound encode_span_end decode_span_end span_end_wf
  by unfold_locales
    (auto simp: decode_span_end_def encode_span_end_def span_end_wf_def res_bind_Inr wf_simps span_status_enc_wf span_event_sound.enc_vec_wf
      simp del: json_wf.simps dest: wf_dests span_event_sound.default_vec_wf)

definition catalog_wf :: "catalog_metadata \<Rightarrow> bool" where
  "catalog_wf m \<longleftrightarrow> pred_option json_wf (cm_sample_arguments m) \<and> bt_wf (cm_attributes m)"

interpretation catalog_sound: sound encode_catalog_metadata decode_catalog_metadata catalog_wf
  by unfold_locales
    (auto simp: decode_catalog_metadata_def encode_catalog_metadata_def catalog_wf_def res_bind_Inr wf_simps
      simp del: json_wf.simps dest: wf_dests)

definition route_request_wf :: "http_route_request_wire \<Rightarrow> bool" where
  "route_request_wf r \<longleftrightarrow> bt_wf (rqw_path_params r) \<and> pred_option identity_wf (rqw_identity r)"

interpretation route_request_sound: sound encode_http_route_request_wire decode_http_route_request_wire route_request_wf
  by unfold_locales
    (auto simp: decode_http_route_request_wire_def encode_http_route_request_wire_def route_request_wf_def res_bind_Inr wf_simps identity_sound.enc_opt_wf
      simp del: json_wf.simps dest: wf_dests identity_sound.opt_wf)

subsection \<open>What a relay keeps\<close>

text \<open>
  C20: A relay changes nothing after the first decoding, whatever JSON value a peer sent: for each
  of these nineteen types, decoding what was decoded and encoded again gives the same value, or the same
  refusal, as decoding it once, and the values a decoder can deliver are exactly those that
  survive the trip, for which the property names the condition. The types are those whose wire form
  cannot tell all values of the type apart, those that carry floats excepted: gate decisions,
  watch events, expanded tools and resource templates and the capability sets they make up,
  catalog metadata and entries, tool descriptors and enriched tool descriptors, durations and
  contents to store, event types, watch strategies and the plugin descriptors they are part of,
  store roles, notification requests, payment protocols and payment capabilities; and
  capabilities, whose decoder reads every unknown name as the one sink.
\<close>

theorem relay_stable:
  "relays gate_decision_exact decode_gate_decision encode_gate_decision \<and>
   relays (\<lambda>x. we_data x \<noteq> Some JNull \<and> we_upstream_cursor x \<noteq> Some JNull) decode_watch_event encode_watch_event \<and>
   relays (\<lambda>x. et_output_schema x \<noteq> Some JNull \<and> et_annotations x \<noteq> Some JNull \<and> et_meta x \<noteq> Some JNull \<and>
       et_governance x \<noteq> Some JNull \<and> et_retry x \<noteq> Some JNull) decode_expanded_tool encode_expanded_tool \<and>
   relays (\<lambda>x. ert_meta x \<noteq> Some JNull \<and> ert_governance x \<noteq> Some JNull \<and> ert_retry x \<noteq> Some JNull)
     decode_expanded_resource_template encode_expanded_resource_template \<and>
   relays
     (\<lambda>x. list_all (\<lambda>t. et_output_schema t \<noteq> Some JNull \<and> et_annotations t \<noteq> Some JNull \<and>
         et_meta t \<noteq> Some JNull \<and> et_governance t \<noteq> Some JNull \<and> et_retry t \<noteq> Some JNull) (cs_tools x) \<and>
       list_all (\<lambda>t. ert_meta t \<noteq> Some JNull \<and> ert_governance t \<noteq> Some JNull \<and> ert_retry t \<noteq> Some JNull)
         (cs_resource_templates x)) decode_capability_set encode_capability_set \<and>
   relays (\<lambda>x. cm_sample_arguments x \<noteq> Some JNull) decode_catalog_metadata encode_catalog_metadata \<and>
   relays (\<lambda>x. cm_sample_arguments (ce_catalog x) \<noteq> Some JNull) decode_catalog_entry encode_catalog_entry \<and>
   relays (\<lambda>x. ptd_output_schema x \<noteq> Some JNull) decode_protocol_tool_descriptor encode_protocol_tool_descriptor \<and>
   relays enriched_exact decode_enriched_tool_descriptor encode_enriched_tool_descriptor \<and>
   relays duration_ok decode_duration encode_duration \<and>
   relays (\<lambda>x. pred_option duration_ok (cts_ttl x)) decode_content_to_store encode_content_to_store \<and>
   relays (\<lambda>x. et_input_schema x \<noteq> Some JNull \<and> et_payload_schema x \<noteq> Some JNull)
     decode_event_type_descriptor encode_event_type_descriptor \<and>
   relays strategy_exact decode_watch_strategy_descriptor encode_watch_strategy_descriptor \<and>
   relays descriptor_exact (decode_plugin_descriptor show_error) encode_plugin_descriptor \<and>
   relays (\<lambda>r. parse_store_role (display_store_role r) = r) decode_store_role encode_store_role \<and>
   relays (\<lambda>x. nq_arguments x \<noteq> Some JNull \<and> nq_metadata x \<noteq> Some JNull)
     decode_notification_request encode_notification_request \<and>
   relays protocol_proper decode_payment_protocol encode_payment_protocol \<and>
   relays (\<lambda>x. protocol_proper (pyc_protocol x)) decode_payment_capability encode_payment_capability \<and>
   relays (\<lambda>_. True) decode_capability_value encode_capability"
  by (intro conjI gate_decision.relays watch_event.relays expanded_tool.relays expanded_resource_template.relays
    capability_set.relays catalog_metadata.relays catalog_entry.relays protocol_tool_descriptor.relays
    enriched_tool_descriptor.relays duration.relays content_to_store.relays event_type_descriptor.relays
    watch_strategy_descriptor.relays plugin_descriptor.relays store_role.relays notification_request.relays
    payment_protocol.relays payment_capability.relays capability.relays)

subsection \<open>What a decoder delivers\<close>

definition delivers :: "('a \<Rightarrow> bool) \<Rightarrow> 'e + 'a \<Rightarrow> bool" where
  "delivers P r = (case r of Inl _ \<Rightarrow> True | Inr x \<Rightarrow> P x)"

lemma delivers_Inr [simp]: "delivers P (Inr x) \<longleftrightarrow> P x" "delivers P (Inl e)"
  by (simp_all add: delivers_def)

lemma deliversI: "(\<And>x. r = Inr x \<Longrightarrow> P x) \<Longrightarrow> delivers P r"
  by (cases r) simp_all

end
