(* ===== verification/Wire_Canon.thy ===== *)
theory Wire_Canon
  imports Wire_Sound
begin

section \<open>What a decoder reads\<close>

text \<open>
  What a decoder makes of a message, stated without the decoder: a table names the fields of
  the message and says of each what becomes of it when it is absent, null or empty. The
  canonical form of a JSON object keeps exactly the fields of the table, each as its rule says;
  decoding a message and encoding the result must give that form, field for field.
\<close>

subsection \<open>Rules for a field\<close>

type_synonym rule = "json_map \<Rightarrow> string \<Rightarrow> json option"

definition same :: "json \<Rightarrow> json" where
  "same v = v"

definition keep :: "(json \<Rightarrow> json) \<Rightarrow> rule" where
  "keep c m f = map_option c (bt_get m f)"

definition default_to :: "json \<Rightarrow> (json \<Rightarrow> json) \<Rightarrow> rule" where
  "default_to d c m f = Some (case bt_get m f of None \<Rightarrow> d | Some v \<Rightarrow> c v)"

text \<open>An optional field: null reads as absent, and is written as null or left out.\<close>

definition or_null :: "(json \<Rightarrow> json) \<Rightarrow> rule" where
  "or_null c m f = Some (case bt_get m f of None \<Rightarrow> JNull | Some v \<Rightarrow> if v = JNull then JNull else c v)"

definition unless_null :: "(json \<Rightarrow> json) \<Rightarrow> rule" where
  "unless_null c m f = Option.bind (bt_get m f) (\<lambda>v. if v = JNull then None else Some (c v))"

text \<open>A list or a map: absent reads as empty, and empty is written as such or left out.\<close>

definition elements :: "(json \<Rightarrow> json) \<Rightarrow> json \<Rightarrow> json" where
  "elements c v = (case v of JArray xs \<Rightarrow> JArray (map c xs) | _ \<Rightarrow> v)"

definition or_list :: "(json \<Rightarrow> json) \<Rightarrow> rule" where
  "or_list c = default_to (JArray []) (elements c)"

definition unless_empty :: "(json \<Rightarrow> json) \<Rightarrow> rule" where
  "unless_empty c m f =
     Option.bind (bt_get m f) (\<lambda>v. if v \<in> {JArray [], JObject []} then None else Some (c v))"

definition if_true :: rule where
  "if_true m f = (if bt_get m f = Some (JBool True) then Some (JBool True) else None)"

text \<open>
  A negative number of the JSON crate is negative; the form of another one, which no parser
  builds, is that of the 32-bit number it is read as.
\<close>

definition int_form :: "json \<Rightarrow> json" where
  "int_form v =
     (case v of JNumber (NegInt n) \<Rightarrow> if sint n < 0 then v else en_int (scast n :: i32) | _ \<Rightarrow> v)"

subsection \<open>Canonical forms\<close>

definition with_fields :: "(string \<times> rule) list \<Rightarrow> json \<Rightarrow> json" where
  "with_fields tab v =
     (case v of JObject m \<Rightarrow> JObject (fields_map (map (\<lambda>(f, r). (f, r m f)) tab)) | _ \<Rightarrow> v)"

text \<open>A tagged union: the tag selects the table.\<close>

definition with_tag :: "string \<Rightarrow> (string \<times> (string \<times> rule) list) list \<Rightarrow> json \<Rightarrow> json" where
  "with_tag tag tabs v =
     (case v of
        JObject m \<Rightarrow>
          (case bt_get m tag of
             Some (JString t) \<Rightarrow>
               (case map_of tabs t of Some tab \<Rightarrow> with_fields ((tag, keep same) # tab) v | None \<Rightarrow> v)
           | _ \<Rightarrow> v)
      | _ \<Rightarrow> v)"

text \<open>
  A decoder reads a message exactly: whatever it accepts, the value it delivers is written as
  the canonical form of what was read, and it accepts what is written for every value of the
  domain, and delivers that value.
\<close>

definition reads_exactly ::
  "('a \<Rightarrow> bool) \<Rightarrow> (json \<Rightarrow> de_error + 'a) \<Rightarrow> ('a \<Rightarrow> json) \<Rightarrow> (json \<Rightarrow> json) \<Rightarrow> bool" where
  "reads_exactly valid dec enc canon \<longleftrightarrow>
     (\<forall>v x. dec v = Inr x \<longrightarrow> enc x = canon v) \<and> (\<forall>x. valid x \<longrightarrow> dec (enc x) = Inr x)"

locale canonical =
  fixes dec :: "json \<Rightarrow> de_error + 'a"
    and enc :: "'a \<Rightarrow> json"
    and canon :: "json \<Rightarrow> json"
  assumes re: "dec v = Inr x \<Longrightarrow> enc x = canon v"
begin

lemma exact: "(\<And>x. valid x \<Longrightarrow> dec (enc x) = Inr x) \<Longrightarrow> reads_exactly valid dec enc canon"
  by (simp add: reads_exactly_def re)

lemma field: "de_field m f dec = Inr x \<Longrightarrow> keep canon m f = Some (enc x)"
  by (auto simp: de_field_Inr keep_def re)

lemma default: "de_field_default m f a dec = Inr x \<Longrightarrow> default_to (enc a) canon m f = Some (enc x)"
  by (auto simp: de_default_value opt_value_def default_to_def re split: option.splits)

lemma optional: "de_opt m f dec = Inr x \<Longrightarrow>
    unless_null canon m f = map_option enc x \<and> or_null canon m f = Some (opt_null enc x)"
  by (auto simp: de_opt_value opt_value_def de_option_def res_bind_Inr unless_null_def or_null_def opt_null_def
      split: option.splits json.splits dest!: re)

lemma vec: "de_vec dec v = Inr xs \<Longrightarrow> vec enc xs = elements canon v"
  by (cases v)
    (auto simp: de_vec_def collect_results_Inr vec_def elements_def list_eq_iff_nth_eq map_equality_iff intro!: re)

lemma list_field: "de_field m f (de_vec dec) = Inr xs \<Longrightarrow> keep (elements canon) m f = Some (vec enc xs)"
  by (auto simp: de_field_Inr keep_def vec)

lemma list_default: "de_field_default m f [] (de_vec dec) = Inr xs \<Longrightarrow>
    or_list canon m f = Some (vec enc xs) \<and> unless_empty (elements canon) m f = vec_skip enc xs"
proof -
  assume a: "de_field_default m f [] (de_vec dec) = Inr xs"
  show ?thesis
  proof (cases "bt_get m f")
    case None
    then show ?thesis
      using a by (simp add: de_default_value or_list_def default_to_def unless_empty_def vec_skip_def vec_def)
  next
    case (Some v)
    then have v: "de_vec dec v = Inr xs" using a by (simp add: de_default_value)
    then obtain ys where "v = JArray ys" "length ys = length xs"
      by (cases v) (auto simp: de_vec_def collect_results_Inr dest: map_eq_imp_length_eq)
    then have "v \<in> {JArray [], JObject []} \<longleftrightarrow> xs = []" by auto
    then show ?thesis
      using vec [OF v] Some by (simp add: or_list_def default_to_def unless_empty_def vec_skip_def)
  qed
qed

end

lemma de_object_Inr [simp]: "de_object v = Inr m \<longleftrightarrow> v = JObject m"
  by (cases v) (auto simp: de_object_def)

interpretation string_canon: canonical de_string JString same
  by unfold_locales (simp add: de_string_Inr same_def)

interpretation value_canon: canonical de_value "\<lambda>v. v" same
  by unfold_locales (simp add: same_def)

interpretation bool_canon: canonical de_bool JBool same
  by unfold_locales (auto simp: de_bool_def same_def split: json.splits)

interpretation u64_canon: canonical de_u64 en_u64 same
  by unfold_locales (auto simp: de_u64_def en_u64_def same_def split: json.splits number.splits)

lemma ucast_back: "unat (n :: 'a::len word) < 2 ^ LENGTH('b) \<Longrightarrow> ucast (ucast n :: 'b::len word) = n"
  by (simp add: word_unat_eq_iff unsigned_ucast_eq unsigned_take_bit_eq take_bit_nat_eq_self)

interpretation uint_canon: canonical de_uint en_uint same
proof unfold_locales
  show "en_uint x = same v" if a: "de_uint v = Inr x" for v and x :: "'a word"
  proof -
    obtain n where n: "de_u64 v = Inr n" "unat n < 2 ^ LENGTH('a)" "x = ucast n"
      using a by (auto simp: de_uint_def res_bind_Inr split: if_splits)
    then have "v = JNumber (PosInt n)" by (auto simp: de_u64_def split: json.splits number.splits)
    then show ?thesis using n ucast_back [of n, where 'b = 'a] by (simp add: en_uint_def same_def)
  qed
qed

interpretation pair_canon: canonical de_pair pair same
  by unfold_locales
    (auto simp: de_pair_def pair_def same_def res_bind_Inr de_string_Inr split: json.splits list.splits)

lemma en_int_up: "int (unat n) < 2 ^ 31 \<Longrightarrow> en_int (ucast (n :: u64) :: i32) = JNumber (PosInt n)"
proof -
  assume n: "int (unat n) < 2 ^ 31"
  then have u: "uint n < 2 ^ 31" by simp
  have l: "- (2 ^ 31) \<le> uint n" by (rule order_trans [of _ 0]) simp_all
  have "sint (ucast n :: i32) = signed_take_bit 31 (uint n)"
    using u by (simp add: sint_uint unsigned_ucast_eq unsigned_take_bit_eq take_bit_int_eq_self)
  also have "\<dots> = uint n" using u l by (intro signed_take_bit_int_eq_self) simp_all
  finally have s: "sint (ucast n :: i32) = uint n" .
  have "(scast (ucast n :: i32) :: u64) = word_of_int (sint (ucast n :: i32))" by (rule scast_eq)
  then have "(scast (ucast n :: i32) :: u64) = n" unfolding s by simp
  with s show ?thesis by (simp add: en_int_def)
qed

lemma en_int_down: "- (2 ^ 31) \<le> sint n \<Longrightarrow> sint n < 0 \<Longrightarrow> en_int (scast (n :: i64) :: i32) = JNumber (NegInt n)"
proof -
  assume n: "- (2 ^ 31) \<le> sint n" "sint n < 0"
  have "sint (scast n :: i32) = signed_take_bit 31 (sint n)" using signed_scast_eq [of n, where 'c = 32 and 'a = int] by simp
  also have "\<dots> = sint n" using n by (intro signed_take_bit_int_eq_self) simp_all
  finally have s: "sint (scast n :: i32) = sint n" .
  have "(scast (scast n :: i32) :: i64) = word_of_int (sint (scast n :: i32))" by (rule scast_eq)
  then have "(scast (scast n :: i32) :: i64) = n" unfolding s by simp
  with s n show ?thesis by (simp add: en_int_def)
qed
interpretation int_canon: canonical "de_int :: json \<Rightarrow> de_error + i32" en_int int_form
proof unfold_locales
  show "en_int x = int_form v" if "de_int v = Inr x" for v and x :: i32
    using that en_int_up en_int_down
    by (auto simp: de_int_def int_form_def split: json.splits number.splits if_splits)
qed

lemma map_canon: "(\<And>v x. d v = Inr x \<Longrightarrow> e x = v) \<Longrightarrow> de_map d v = Inr m \<Longrightarrow> map_obj e m = v"
proof -
  assume e: "\<And>v x. d v = Inr x \<Longrightarrow> e x = v" and a: "de_map d v = Inr m"
  then obtain es where v: "v = JObject es"
      "map (\<lambda>(k, x). res_bind (d x) (\<lambda>a. Inr (k, a))) es = map Inr m"
    by (cases v) (auto simp: de_map_def de_object_def collect_results_Inr)
  have "map (\<lambda>(k, v). (k, e v)) m = es"
  proof (rule nth_equalityI)
    show len: "length (map (\<lambda>(k, v). (k, e v)) m) = length es" using v(2) by (metis length_map)
    fix i
    assume i: "i < length (map (\<lambda>(k, v). (k, e v)) m)"
    then have "map (\<lambda>(k, x). res_bind (d x) (\<lambda>a. Inr (k, a))) es ! i = map Inr m ! i"
      by (simp add: v(2))
    then show "map (\<lambda>(k, v). (k, e v)) m ! i = es ! i"
      using i len by (cases "m ! i"; cases "es ! i") (auto simp: res_bind_Inr e)
  qed
  then show ?thesis by (simp add: v(1) map_obj_def)
qed

lemma map_field: "(\<And>v x. d v = Inr x \<Longrightarrow> e x = v) \<Longrightarrow> de_field m f (de_map d) = Inr es \<Longrightarrow>
    keep same m f = Some (map_obj e es)"
proof -
  assume e: "\<And>v x. d v = Inr x \<Longrightarrow> e x = v" and a: "de_field m f (de_map d) = Inr es"
  from a obtain v where v: "bt_get m f = Some v" "de_map d v = Inr es" by (auto simp: de_field_Inr)
  from map_canon [OF e v(2)] have "map_obj e es = v" .
  with v(1) show ?thesis by (simp add: keep_def same_def)
qed

lemma map_default: "(\<And>v x. d v = Inr x \<Longrightarrow> e x = v) \<Longrightarrow> de_field_default m f [] (de_map d) = Inr es \<Longrightarrow>
    unless_empty same m f = map_skip e es \<and> default_to (JObject []) same m f = Some (map_obj e es)"
proof -
  assume e: "\<And>v x. d v = Inr x \<Longrightarrow> e x = v" and a: "de_field_default m f [] (de_map d) = Inr es"
  show ?thesis
  proof (cases "bt_get m f")
    case None
    then show ?thesis
      using a by (simp add: de_default_value unless_empty_def default_to_def map_skip_def map_obj_def)
  next
    case (Some v)
    then have "de_map d v = Inr es" using a by (simp add: de_default_value)
    from map_canon [OF e this] have "map_obj e es = v" .
    then show ?thesis
      using Some by (auto simp: unless_empty_def default_to_def map_skip_def map_obj_def same_def)
  qed
qed

lemma flag_default: "de_field_default m f False de_bool = Inr b \<Longrightarrow>
    if_true m f = flag_skip b \<and> default_to (JBool False) same m f = Some (JBool b)"
  by (auto simp: de_default_value opt_value_def if_true_def flag_skip_def de_bool_def default_to_def same_def
      split: option.splits json.splits)

lemma string_form: "de_string v = Inr s \<Longrightarrow> JString s = v"
  by (simp add: de_string_Inr)

lemma value_form: "de_value v = Inr x \<Longrightarrow> x = v"
  by simp

lemma string_map:
  "de_field m f (de_map de_string) = Inr a \<Longrightarrow> keep same m f = Some (map_obj JString a)"
  "de_field_default m f [] (de_map de_string) = Inr b \<Longrightarrow>
     unless_empty same m f = map_skip JString b \<and> default_to (JObject []) same m f = Some (map_obj JString b)"
  by (rule map_field map_default; simp add: string_form)+

lemma value_map:
  "de_field m f (de_map de_value) = Inr a \<Longrightarrow> keep same m f = Some (map_obj (\<lambda>v. v) a)"
  "de_field_default m f [] (de_map de_value) = Inr b \<Longrightarrow>
     unless_empty same m f = map_skip (\<lambda>v. v) b \<and> default_to (JObject []) same m f = Some (map_obj (\<lambda>v. v) b)"
  by (rule map_field map_default; simp)+

lemma value_optional: "de_opt m f de_value = Inr x \<Longrightarrow>
    unless_null same m f = x \<and> or_null same m f = Some (opt_null (\<lambda>v. v) x)"
  using value_canon.optional [of m f x] by (simp add: option.map_ident)

lemmas canon_dests =
  string_canon.field string_canon.default string_canon.optional string_canon.list_field string_canon.list_default
  value_canon.field value_canon.default value_optional bool_canon.field bool_canon.default bool_canon.optional
  u64_canon.field uint_canon.field uint_canon.list_field int_canon.field pair_canon.list_field pair_canon.list_default
  string_map value_map flag_default

subsection \<open>The messages\<close>

definition canon_identity :: "json \<Rightarrow> json" where
  "canon_identity = with_fields
     [(''kind'', keep same), (''trust_level'', keep same), (''subject_id'', or_null same),
      (''auth_provider'', or_null same), (''issuer'', or_null same), (''roles'', unless_empty (elements same)),
      (''groups'', unless_empty (elements same)), (''scopes'', unless_empty (elements same)),
      (''attributes'', unless_empty same)]"

interpretation identity_canon: canonical decode_plugin_identity encode_plugin_identity canon_identity
  by unfold_locales
    (auto simp: decode_plugin_identity_def encode_plugin_identity_def canon_identity_def with_fields_def
      res_bind_Inr dest!: canon_dests)

definition canon_context :: "json \<Rightarrow> json" where
  "canon_context = with_fields
     [(''request_id'', keep same), (''session_id'', or_null same), (''tool_name'', keep same),
      (''surface'', default_to (JString ''tool'') same), (''identity'', keep canon_identity),
      (''transport'', keep same)]"

interpretation context_canon: canonical decode_plugin_context encode_plugin_context canon_context
  by unfold_locales
    (auto simp: decode_plugin_context_def encode_plugin_context_def canon_context_def with_fields_def
      default_surface_tool_def res_bind_Inr dest!: canon_dests identity_canon.field)

definition canon_tls :: "json \<Rightarrow> json" where
  "canon_tls = with_fields
     [(''sni'', unless_null same), (''client_cert_present'', default_to (JBool False) same),
      (''client_cert_chain_der'', unless_empty (elements (elements same))),
      (''client_cert_subject_dn'', unless_null same), (''client_cert_issuer_dn'', unless_null same),
      (''client_cert_san_uris'', unless_empty (elements same)),
      (''client_cert_san_dns'', unless_empty (elements same)),
      (''client_cert_san_emails'', unless_empty (elements same)),
      (''client_cert_chain_sha256'', unless_empty (elements same)),
      (''client_cert_not_before'', unless_null same), (''client_cert_not_after'', unless_null same)]"

interpretation bytes_canon: canonical "de_vec de_uint" "vec en_uint" "elements same"
  by unfold_locales (rule uint_canon.vec)

interpretation tls_canon: canonical decode_tls_info encode_tls_info canon_tls
  by unfold_locales
    (auto simp: decode_tls_info_def encode_tls_info_def canon_tls_def with_fields_def
      res_bind_Inr dest!: canon_dests bytes_canon.list_default)

definition canon_request_metadata :: "json \<Rightarrow> json" where
  "canon_request_metadata = with_fields
     [(''remote_addr'', unless_null same), (''tls'', unless_null canon_tls),
      (''transport'', default_to (JString ''http'') same), (''path'', unless_null same),
      (''method'', unless_null same), (''query'', unless_null same)]"

interpretation request_metadata_canon: canonical decode_request_metadata encode_request_metadata canon_request_metadata
  by unfold_locales
    (auto simp: decode_request_metadata_def encode_request_metadata_def canon_request_metadata_def with_fields_def
      default_transport_http_def res_bind_Inr dest!: canon_dests tls_canon.optional)

definition canon_gate :: "json \<Rightarrow> json" where
  "canon_gate = with_tag ''decision''
     [(''allow'', [(''modified_arguments'', unless_null same), (''modified_result'', unless_null same),
         (''metadata'', unless_null same)]),
      (''deny'', [(''http_status'', keep same), (''code'', keep int_form), (''message'', keep same),
         (''error_data'', unless_null same)]),
      (''challenge'', [(''http_status'', keep same), (''code'', keep int_form), (''message'', keep same),
         (''challenge_data'', keep same)]),
      (''pending_approval'', [(''approval_id'', keep same), (''deadline_at'', keep same), (''summary'', keep same),
         (''target_notifiers'', unless_empty (elements same)), (''metadata'', unless_null same)])]"

text \<open>The tag of a union selects the branch.\<close>

lemma with_tag_read: "keep same m tag = Some (JString t) \<Longrightarrow> map_of tabs t = Some tab \<Longrightarrow>
    with_tag tag tabs (JObject m) =
      JObject (fields_map ((tag, Some (JString t)) # map (\<lambda>(f, r). (f, r m f)) tab))"
  by (auto simp: with_tag_def with_fields_def keep_def same_def)

interpretation gate_canon: canonical decode_gate_decision encode_gate_decision canon_gate
  by unfold_locales
    (auto simp: decode_gate_decision_def canon_gate_def with_tag_read
      res_bind_Inr split: if_splits dest!: canon_dests)

definition canon_transform :: "json \<Rightarrow> json" where
  "canon_transform = with_tag ''outcome''
     [(''unchanged'', []), (''modified'', [(''value'', keep same)]), (''error'', [(''message'', keep same)])]"

interpretation transform_canon: canonical decode_transform_result encode_transform_result canon_transform
  by unfold_locales
    (auto simp: decode_transform_result_def canon_transform_def with_tag_read
      res_bind_Inr split: if_splits dest!: canon_dests)

definition canon_resolution :: "json \<Rightarrow> json" where
  "canon_resolution = with_tag ''outcome''
     [(''resolved'', [(''identity'', keep canon_identity)]), (''none'', []),
      (''invalid'', [(''reason'', keep same), (''response_headers'', unless_empty (elements same))])]"

interpretation resolution_canon: canonical decode_identity_resolution encode_identity_resolution canon_resolution
  by unfold_locales
    (auto simp: decode_identity_resolution_def canon_resolution_def with_tag_read
      res_bind_Inr split: if_splits dest!: canon_dests identity_canon.field)

definition canon_obligation :: "json \<Rightarrow> json" where
  "canon_obligation = with_fields [(''kind'', keep same), (''args'', keep same)]"

interpretation obligation_canon: canonical decode_obligation encode_obligation canon_obligation
  by unfold_locales
    (auto simp: decode_obligation_def encode_obligation_def canon_obligation_def with_fields_def
      res_bind_Inr dest!: canon_dests)

definition canon_redaction :: "json \<Rightarrow> json" where
  "canon_redaction = with_fields [(''json_pointer'', keep same), (''replacement'', keep same)]"

interpretation redaction_canon: canonical decode_redaction encode_redaction canon_redaction
  by unfold_locales
    (auto simp: decode_redaction_def encode_redaction_def canon_redaction_def with_fields_def
      res_bind_Inr dest!: canon_dests)

text \<open>A unit variant is its name.\<close>

interpretation effect_canon: canonical decode_policy_effect encode_policy_effect same
  by unfold_locales
    (auto simp: decode_policy_effect_def res_bind_Inr de_string_Inr same_def split: if_splits)

definition canon_policy_decision :: "json \<Rightarrow> json" where
  "canon_policy_decision = with_fields
     [(''effect'', keep same), (''obligations'', or_list canon_obligation), (''redactions'', or_list canon_redaction),
      (''attributes'', default_to (JObject []) same), (''reason'', or_null same), (''policy_version'', keep same)]"

interpretation policy_decision_canon: canonical decode_policy_decision encode_policy_decision canon_policy_decision
  by unfold_locales
    (auto simp: decode_policy_decision_def encode_policy_decision_def canon_policy_decision_def with_fields_def
      res_bind_Inr dest!: canon_dests effect_canon.field obligation_canon.list_default redaction_canon.list_default)

definition canon_watch_event :: "json \<Rightarrow> json" where
  "canon_watch_event = with_fields
     [(''user_id'', unless_null same), (''session_id'', unless_null same), (''event_id'', unless_null same),
      (''event_type'', unless_null same), (''occurred_at'', unless_null same), (''data'', unless_null same),
      (''upstream_cursor'', unless_null same), (''gap'', if_true)]"

interpretation watch_event_canon: canonical decode_watch_event encode_watch_event canon_watch_event
  by unfold_locales
    (auto simp: decode_watch_event_def encode_watch_event_def canon_watch_event_def with_fields_def
      res_bind_Inr dest!: canon_dests)

interpretation outcome_canon: canonical decode_audit_outcome encode_audit_outcome same
  by unfold_locales
    (auto simp: decode_audit_outcome_def res_bind_Inr de_string_Inr same_def split: if_splits)

definition canon_audit_event :: "json \<Rightarrow> json" where
  "canon_audit_event = with_fields
     [(''event_id'', keep same), (''occurred_at'', keep same), (''actor'', keep canon_identity),
      (''action'', keep same), (''resource'', unless_null same), (''outcome'', keep same),
      (''request_id'', unless_null same), (''upstream_request_id'', unless_null same),
      (''node_id'', unless_null same), (''details'', default_to JNull same),
      (''prev_event_hash'', unless_null same)]"

interpretation audit_event_canon: canonical decode_audit_event encode_audit_event canon_audit_event
  by unfold_locales
    (auto simp: decode_audit_event_def encode_audit_event_def canon_audit_event_def with_fields_def
      res_bind_Inr dest!: canon_dests identity_canon.field outcome_canon.field)

interpretation level_canon: canonical decode_log_level encode_log_level same
  by unfold_locales
    (auto simp: decode_log_level_def res_bind_Inr de_string_Inr same_def split: if_splits)

definition canon_log_record :: "json \<Rightarrow> json" where
  "canon_log_record = with_fields
     [(''timestamp_ns'', keep same), (''level'', keep same), (''target'', keep same), (''message'', keep same),
      (''fields'', unless_empty same), (''span_id'', unless_null same), (''trace_id'', unless_null same),
      (''request_id'', unless_null same), (''identity'', unless_null canon_identity),
      (''node_id'', unless_null same), (''plugin_id'', unless_null same)]"

interpretation log_record_canon: canonical decode_log_record encode_log_record canon_log_record
  by unfold_locales
    (auto simp: decode_log_record_def encode_log_record_def canon_log_record_def with_fields_def
      res_bind_Inr dest!: canon_dests identity_canon.optional level_canon.field)

interpretation span_kind_canon: canonical decode_span_kind encode_span_kind same
  by unfold_locales
    (auto simp: decode_span_kind_def res_bind_Inr de_string_Inr same_def split: if_splits)

definition canon_span_status :: "json \<Rightarrow> json" where
  "canon_span_status = with_tag ''kind'' [(''ok'', []), (''error'', [(''message'', keep same)]), (''unset'', [])]"

interpretation span_status_canon: canonical decode_span_status encode_span_status canon_span_status
  by unfold_locales
    (auto simp: decode_span_status_def canon_span_status_def with_tag_read
      res_bind_Inr split: if_splits dest!: canon_dests)

definition canon_span_event :: "json \<Rightarrow> json" where
  "canon_span_event = with_fields
     [(''name'', keep same), (''timestamp_ns'', keep same), (''attributes'', unless_empty same)]"

interpretation span_event_canon: canonical decode_span_event encode_span_event canon_span_event
  by unfold_locales
    (auto simp: decode_span_event_def encode_span_event_def canon_span_event_def with_fields_def
      res_bind_Inr dest!: canon_dests)

definition canon_span_start :: "json \<Rightarrow> json" where
  "canon_span_start = with_fields
     [(''trace_id'', keep same), (''span_id'', keep same), (''parent_id'', unless_null same), (''name'', keep same),
      (''kind'', keep same), (''start_ns'', keep same), (''attributes'', unless_empty same)]"

interpretation span_start_canon: canonical decode_span_start encode_span_start canon_span_start
  by unfold_locales
    (auto simp: decode_span_start_def encode_span_start_def canon_span_start_def with_fields_def
      res_bind_Inr dest!: canon_dests span_kind_canon.field)

definition canon_span_end :: "json \<Rightarrow> json" where
  "canon_span_end = with_fields
     [(''trace_id'', keep same), (''span_id'', keep same), (''end_ns'', keep same),
      (''status'', keep canon_span_status), (''events'', unless_empty (elements canon_span_event)),
      (''additional_attributes'', unless_empty same)]"

interpretation span_end_canon: canonical decode_span_end encode_span_end canon_span_end
  by unfold_locales
    (auto simp: decode_span_end_def encode_span_end_def canon_span_end_def with_fields_def
      res_bind_Inr dest!: canon_dests span_status_canon.field span_event_canon.list_default)

definition canon_catalog_metadata :: "json \<Rightarrow> json" where
  "canon_catalog_metadata = with_fields
     [(''tags'', unless_empty (elements same)), (''owner'', unless_null same), (''doc_url'', unless_null same),
      (''sample_arguments'', unless_null same), (''trust_required'', unless_null same),
      (''requires_approval'', unless_null same), (''maturity'', unless_null same), (''attributes'', unless_empty same)]"

interpretation catalog_metadata_canon: canonical decode_catalog_metadata encode_catalog_metadata canon_catalog_metadata
  by unfold_locales
    (auto simp: decode_catalog_metadata_def encode_catalog_metadata_def canon_catalog_metadata_def with_fields_def
      res_bind_Inr dest!: canon_dests)

definition canon_tool_descriptor :: "json \<Rightarrow> json" where
  "canon_tool_descriptor = with_fields
     [(''name'', keep same), (''title'', unless_null same), (''description'', keep same),
      (''inputSchema'', keep same), (''outputSchema'', unless_null same)]"

interpretation tool_descriptor_canon:
  canonical decode_protocol_tool_descriptor encode_protocol_tool_descriptor canon_tool_descriptor
  by unfold_locales
    (auto simp: decode_protocol_tool_descriptor_def encode_protocol_tool_descriptor_def canon_tool_descriptor_def
      with_fields_def res_bind_Inr dest!: canon_dests)

definition canon_route_request :: "json \<Rightarrow> json" where
  "canon_route_request = with_fields
     [(''method'', keep same), (''full_path'', keep same), (''path_params'', keep same),
      (''query'', keep (elements same)), (''headers'', keep (elements same)), (''body'', keep (elements same)),
      (''identity'', or_null canon_identity), (''request_id'', keep same), (''remote_addr'', or_null same)]"

interpretation route_request_canon:
  canonical decode_http_route_request_wire encode_http_route_request_wire canon_route_request
  by unfold_locales
    (auto simp: decode_http_route_request_wire_def encode_http_route_request_wire_def canon_route_request_def
      with_fields_def res_bind_Inr dest!: canon_dests identity_canon.optional)

definition canon_config_snapshot :: "json \<Rightarrow> json" where
  "canon_config_snapshot = with_fields
     [(''version'', keep same), (''values'', keep same), (''fetched_at'', keep same), (''source'', keep same)]"

interpretation config_snapshot_canon: canonical decode_config_snapshot encode_config_snapshot canon_config_snapshot
  by unfold_locales
    (auto simp: decode_config_snapshot_def encode_config_snapshot_def canon_config_snapshot_def with_fields_def
      res_bind_Inr dest!: canon_dests)

definition canon_config_delta :: "json \<Rightarrow> json" where
  "canon_config_delta = with_fields
     [(''from_version'', keep same), (''to_version'', keep same), (''changed_paths'', keep (elements same)),
      (''snapshot'', keep canon_config_snapshot)]"

interpretation config_delta_canon: canonical decode_config_delta encode_config_delta canon_config_delta
  by unfold_locales
    (auto simp: decode_config_delta_def encode_config_delta_def canon_config_delta_def with_fields_def
      res_bind_Inr dest!: canon_dests config_snapshot_canon.field)

definition canon_expanded_tool :: "json \<Rightarrow> json" where
  "canon_expanded_tool = with_fields
     [(''name'', keep same), (''title'', unless_null same), (''description'', default_to (JString []) same),
      (''input_schema'', keep same), (''output_schema'', unless_null same), (''annotations'', unless_null same),
      (''meta'', unless_null same), (''backend_kind'', keep same), (''backend_spec'', keep same),
      (''governance'', unless_null same), (''retry'', unless_null same)]"

interpretation expanded_tool_canon: canonical decode_expanded_tool encode_expanded_tool canon_expanded_tool
  by unfold_locales
    (auto simp: decode_expanded_tool_def encode_expanded_tool_def canon_expanded_tool_def with_fields_def
      res_bind_Inr dest!: canon_dests)

definition canon_notification_request :: "json \<Rightarrow> json" where
  "canon_notification_request = with_fields
     [(''approval_id'', keep same), (''summary'', keep same), (''deadline_at'', keep same),
      (''direct_callback_url'', keep same), (''identity'', keep canon_identity), (''tool_name'', keep same),
      (''arguments'', unless_null same), (''metadata'', unless_null same)]"

interpretation notification_request_canon:
  canonical decode_notification_request encode_notification_request canon_notification_request
  by unfold_locales
    (auto simp: decode_notification_request_def encode_notification_request_def canon_notification_request_def
      with_fields_def res_bind_Inr dest!: canon_dests identity_canon.field)

definition canon_issued_credential :: "json \<Rightarrow> json" where
  "canon_issued_credential = with_fields
     [(''value'', unless_null same), (''parts'', unless_empty same), (''ttl_seconds'', keep same),
      (''lease_id'', unless_null same), (''issued_at'', keep same), (''metadata'', unless_empty same)]"

interpretation issued_credential_canon:
  canonical decode_issued_credential encode_issued_credential canon_issued_credential
  by unfold_locales
    (auto simp: decode_issued_credential_def encode_issued_credential_def canon_issued_credential_def
      with_fields_def res_bind_Inr dest!: canon_dests)

definition canon_invocation_context :: "json \<Rightarrow> json" where
  "canon_invocation_context = with_fields
     [(''parent_request_id'', keep same), (''session_id'', or_null same), (''initiating_backend'', keep same),
      (''depth'', keep same), (''identity'', unless_null canon_identity)]"

interpretation invocation_context_canon:
  canonical decode_backend_invocation_context encode_backend_invocation_context canon_invocation_context
  by unfold_locales
    (auto simp: decode_backend_invocation_context_def encode_backend_invocation_context_def
      canon_invocation_context_def with_fields_def res_bind_Inr dest!: canon_dests identity_canon.optional)

subsection \<open>Decoders read exactly\<close>


end
