(* ===== verification/Spec2Isabelle.thy ===== *)
theory Spec2Isabelle
  imports Security Capability Credential_Uri Identity_Hash Redact Envelope Schema Late_Bound_Spec Store Providers Http_Route
    Sinks Policy Fingerprint Backend_Plugin Content Abi_Registration Abi_Guard Catalog Descriptor Plugin_Traits Wire_Sound Wire_Canon
begin

text \<open>
  A verification development of the crate \<open>mcpg-plugin-protocol\<close> (\<open>src/src/\<close>): the types a
  gateway and its plugins exchange, their wire form, the conversions at the C boundary, and the
  security-relevant functions both sides share.

  \<^bold>\<open>The program and its parts.\<close> A plugin describes itself by a manifest and a descriptor, and
  registers entities and capabilities with the host; the host compares the declared capabilities
  with the operator's grants (the boot check) and then calls the plugin through tables of
  functions, whose arguments and results cross as C-layout structs or as JSON text. Results with
  errors cross in an envelope. Helpers decide which addresses may be contacted, key per-caller
  credentials by a hash of the identity, find and replace credential references in
  configuration text, and keep secrets out of logs. The theories follow this order of use:

  \<^item> \<open>Prelude\<close>, \<open>Btree_Map\<close>, \<open>Json\<close>, \<open>Wire_Error\<close>: machine types, the standard library's string
    functions at byte level, ordered maps as sorted association lists, \<open>serde_json\<close> values with
    the combinators of derived (de)serialisers, and the two contracts the wire types satisfy:
    \<open>codec\<close> (decoding an encoding gives the value back) and \<open>tagged_error\<close> (the tag field is the
    label). Every wire type of the crate interprets \<open>codec\<close> in its own theory.
  \<^item> \<open>Types\<close> (\<open>types.rs\<close>), \<open>Policy\<close> (\<open>policy.rs\<close>, \<open>approval_notifier.rs\<close>, \<open>payment.rs\<close>), \<open>Providers\<close>
    (\<open>secret.rs\<close>, \<open>config.rs\<close>, the issuer part of \<open>credential.rs\<close>), \<open>Store\<close> (\<open>store.rs\<close>, \<open>cache.rs\<close>), \<open>Sinks\<close>
    (\<open>audit.rs\<close>, \<open>logs.rs\<close>, \<open>telemetry.rs\<close>, \<open>metrics.rs\<close>), \<open>Http_Route\<close> (\<open>http_route.rs\<close>, \<open>transport.rs\<close>),
    \<open>Content\<close> (\<open>content_store.rs\<close>, \<open>wire_bytes.rs\<close>), \<open>Backend_Types\<close> and \<open>Backend_Plugin\<close> (\<open>backend.rs\<close>):
    records and enums under the names of the source, \<open>encode_t\<close> and \<open>decode_t\<close> for its derived
    \<open>Serialize\<close> and \<open>Deserialize\<close>, \<open>kind_label_t\<close> and \<open>display_t\<close> for the methods of the errors, the
    mirror types with both conversions, and the default methods of the traits.
  \<^item> \<open>Security\<close> (\<open>security.rs\<close>), \<open>Identity_Hash\<close> and \<open>Credential_Uri\<close> (\<open>credential.rs\<close>), \<open>Redact\<close>
    (\<open>redact.rs\<close>), \<open>Schema\<close> (\<open>schema.rs\<close>), \<open>Envelope\<close> (\<open>result_envelope.rs\<close>), \<open>Fingerprint\<close>
    (\<open>abi_fingerprint.rs\<close>), \<open>Catalog\<close> (\<open>catalog.rs\<close>): the algorithms of the crate.
  \<^item> \<open>Late_Bound\<close> (the host part of \<open>backend.rs\<close>): the late-bound backend host as a state machine
    whose steps are the critical sections of \<open>set\<close>, \<open>subscribe\<close> and the drop of a guard;
    \<open>Late_Bound_Spec\<close>: the registry of live guards it refines, through a locale for simulations.
  \<^item> \<open>Capability\<close> (\<open>capability.rs\<close>), \<open>Manifest\<close> and \<open>Descriptor\<close> (\<open>manifest.rs\<close>, \<open>descriptor.rs\<close>,
    \<open>macros.rs\<close>, \<open>lib.rs\<close>), \<open>Abi\<close>, \<open>Abi_Vtables\<close>, \<open>Abi_Registration\<close>, \<open>Abi_Guard\<close> (\<open>abi.rs\<close>): what a
    plugin declares, how it crosses, the function tables of the 21 kinds as records of slots, and
    what a panic inside a slot becomes.
  \<^item> \<open>Wire_Sound\<close>: what the decoders deliver, in two contracts that extend \<open>codec\<close> or stand beside it:
    \<open>relay\<close> (the decoded values are exactly those on which the codec is exact) and \<open>sound\<close>
    (well-formed values from well-formed JSON, and back); \<open>Wire_Canon\<close>: what the decoders read, as a table of
    fields and rules per message and the contract \<open>canonical\<close> (encoding what was decoded gives the message
    with exactly those fields).
  \<^item> \<open>Plugin_Traits\<close> (\<open>traits.rs\<close> and the trait of every other module): each trait as a record of
    methods over the plugin's state, with the methods the trait provides.

  \<^bold>\<open>What is shown.\<close> The address classifier decides membership in its documented CIDR blocks; the
  hashed identity text is injective on canonical identities; the block matcher finds exactly
  balanced blocks, and collection and substitution of tokens agree; redaction removes exactly
  the userinfo; the boot check is containment in one single grant, also for declarations that
  crossed the boundary, and every refused declaration names its reason; no conversion changes a verdict, and
  every guard passes results on and turns a panic into its documented failure; an error
  envelope never reads as a success; the late-bound host refines a registry of live
  guards, neither leaks nor drops twice, is up to date while sets do not overlap, and recovers at the next set when they do; merging catalog
  metadata follows its precedence on every key, and merging schemas on every path; the layout
  traversal ends on cyclic graphs, depends on the set of reached layouts only, and tells their
  shapes apart down to the fields; message bodies are read back from their event data; wire values survive up to the stated
  losses (non-finite floats, sub-millisecond times, null optional values), which the first
  decoding makes and no later hop adds to, and decoders read exactly the fields of a message and
  deliver well-formed values only. This theory adds the
  properties that span components.

  \<^bold>\<open>Parameters.\<close> Code outside the crate is an argument of the definitions that call it: the text
  form of JSON (a printer and a parser, the parser building ordered maps), base64, the calendar,
  SHA-256 and hex, the layouts of \<open>abi_stable\<close>, the display text of \<open>serde\<close> errors. A theorem
  that relies on such code names the law as a hypothesis and has an instance.

  \<^bold>\<open>Bounds.\<close> Integers keep their width; the block matcher is exact below \<open>2 ^ 31 - 1\<close> bytes (its
  depth has 32 bits), the identity hash below the lengths its prefixes can hold, guards below
  \<open>2 ^ 64\<close> subscriptions. No definition has fuel: loops are structural or have a measure, and the
  layout traversal is partial with its termination proved on finite graphs.

  \<^bold>\<open>Serde forms.\<close> A record is read from an object and an enum from its usual string or object
  form. The positional array form that derived deserialisers of records also accept is modelled
  for the usage record only, and the one-entry object form of a unit variant is not modelled;
  map keys that occur twice never arise, as the JSON parser builds maps.

  \<^bold>\<open>Errors of decoders.\<close> A decoder of a record reports the first failure in the order of the
  declaration of the fields; \<open>serde\<close> reports it in the order of the text. Both fail alike.

  \<^bold>\<open>Not modelled.\<close> What a slot or a method of a plugin or of the gateway does (the tables and the
  traits say which there are, and the crate's own slots and provided methods are definitions), raw
  pointers beyond the numbers they are passed as, the \<open>abi_stable\<close> layout derivations, the
  asynchronous runtime (a method is run to its end; interleaving is modelled where the crate
  shares state, in \<open>Late_Bound\<close>), lock poisoning, and \<open>Debug\<close> output.
\<close>

section \<open>Properties that span components\<close>

subsection \<open>Declared capabilities and the boot check\<close>

text \<open>
  C8: The boot check decides on what the plugin declared and what the operator wrote: when the
  capabilities cross as declarations and the grants come from a descriptor's list, the check
  passes exactly when every declared capability is contained in one single grant; the
  declarations fail to convert exactly when one of them is \<open>Unknown\<close>.
\<close>

theorem declared_boot_check:
  assumes "parses_maps from_text"
    and "\<And>c f xs. c \<in> set req \<Longrightarrow> capability_args c = Some (f, xs) \<Longrightarrow>
      from_text (to_text (json_obj [(f, json_strings xs)])) = Some (json_obj [(f, json_strings xs)]) \<and>
      to_text (json_obj [(f, json_strings xs)]) \<noteq> []"
    and "deserialize_required_capabilities show_error (JArray granted) = Inr gr"
  shows "collect_results (map (\<lambda>c. to_capability from_text (from_capability to_text c)) req) =
      (if Unknown \<in> set req then Inl (UnknownKind ''unknown'') else Inr req) \<and>
    (Unknown \<notin> set req \<longrightarrow> (is_satisfied (validate_typed_capabilities p req gr) \<longleftrightarrow>
      set req \<subseteq> {r. \<exists>g \<in> set gr. permissions r \<subseteq> permissions g}))"
proof
  show "collect_results (map (\<lambda>c. to_capability from_text (from_capability to_text c)) req) =
      (if Unknown \<in> set req then Inl (UnknownKind ''unknown'') else Inr req)"
    using assms(2)
  proof (induction req)
    case (Cons c req)
    have "to_capability from_text (from_capability to_text c) =
        (if c = Unknown then Inl (UnknownKind ''unknown'') else Inr c)"
      by (rule to_capability_declared [OF assms(1)]) (use Cons.prems in auto)
    moreover have "collect_results (map (\<lambda>c. to_capability from_text (from_capability to_text c)) req) =
        (if Unknown \<in> set req then Inl (UnknownKind ''unknown'') else Inr req)"
      by (rule Cons.IH) (use Cons.prems in auto)
    ultimately show ?case by simp
  qed simp
  have "Unknown \<notin> set gr"
    using assms(3) by (auto simp: deserialize_required_capabilities_def parse_capabilities_Inr
      parse_value_Inr list_all2_conv_all_nth in_set_conv_nth)
  then show "Unknown \<notin> set req \<longrightarrow> (is_satisfied (validate_typed_capabilities p req gr) \<longleftrightarrow>
      set req \<subseteq> {r. \<exists>g \<in> set gr. permissions r \<subseteq> permissions g})"
    by (simp add: validate_satisfied_permissions)
qed

definition sample_grants :: "json list" where
  "sample_grants = [JString ''audit_write'', json_obj [(''type'', JString ''filesystem_read''),
     (''paths'', json_strings [''/etc'', ''/var''])]]"

theorem declared_boot_check_witness:
  "is_satisfied (validate_typed_capabilities ''p'' [FilesystemRead [''/etc'']]
     [AuditWrite, FilesystemRead [''/etc'', ''/var'']])"
proof -
  have maps: "parses_maps (\<lambda>s. Some sample_args)"
    by (auto simp: parses_maps_def sample_args_def json_obj_def bt_wf_collect)
  have grants: "deserialize_required_capabilities (\<lambda>_. []) (JArray sample_grants) =
      Inr [AuditWrite, FilesystemRead [''/etc'', ''/var'']]"
    unfolding sample_grants_def by code_simp
  have "is_satisfied (validate_typed_capabilities ''p'' [FilesystemRead [''/etc'']]
      [AuditWrite, FilesystemRead [''/etc'', ''/var'']]) \<longleftrightarrow> set [FilesystemRead [''/etc'']] \<subseteq>
      {r. \<exists>g \<in> set [AuditWrite, FilesystemRead [''/etc'', ''/var'']]. permissions r \<subseteq> permissions g}"
    using declared_boot_check [OF maps _ grants, of "[FilesystemRead [''/etc'']]" "\<lambda>_. ''a''" "''p''"]
    by (simp add: sample_args_def del: is_satisfied_iff)
  then show ?thesis by (simp add: permissions_def del: is_satisfied_iff)
qed

subsection \<open>Verdicts from a guarded slot\<close>

text \<open>What the host reads from a gate slot: the plugin's decision or its panic, guarded and
  carried across the boundary.\<close>

abbreviation read_gate_slot ::
  "(json \<Rightarrow> string) \<Rightarrow> (string \<Rightarrow> json option) \<Rightarrow> panic + gate_decision \<Rightarrow> gate_decision" where
  "read_gate_slot to_text from_text r \<equiv>
     gate_of_abi from_text (catch_panic_to_deny (map_sum id (gate_to_abi to_text) r))"

text \<open>
  C36: Nothing but the plugin's own Allow lets a call through: the decision the host reads from
  a gate slot is an Allow exactly when the plugin returned one without panicking, whatever the
  JSON printer and parser do; a decision other than a panic keeps its kind; and a panicked slot
  that should have answered with an envelope is never read as a success, whatever the payload
  type, since the empty text is not JSON.
\<close>

theorem slot_fails_closed:
  assumes "parse [] = Inl e"
  shows "(gate_is_allow (read_gate_slot to_text from_text r) \<longleftrightarrow> (\<exists>d. r = Inr d \<and> gate_is_allow d)) \<and>
    decode_result_envelope parse de_ok de_err (catch_panic_to_empty_rstring (Inl p)) = Inl e"
proof
  show "gate_is_allow (read_gate_slot to_text from_text r) \<longleftrightarrow> (\<exists>d. r = Inr d \<and> gate_is_allow d)"
  proof (cases r)
    case (Inl p)
    then show ?thesis by (simp add: catch_panic_to_deny_def)
  next
    case (Inr d)
    then show ?thesis by (cases d) (simp_all add: catch_panic_to_deny_def)
  qed
  show "decode_result_envelope parse de_ok de_err (catch_panic_to_empty_rstring (Inl p)) = Inl e"
    using assms by (simp add: catch_panic_to_empty_rstring_def decode_result_envelope_def)
qed

theorem slot_fails_closed_witness:
  "\<not> gate_is_allow (read_gate_slot (\<lambda>_. []) (\<lambda>_. None) (Inl Panicked)) \<and>
   gate_is_allow (read_gate_slot (\<lambda>_. []) (\<lambda>_. None) (Inr gate_allow))"
proof -
  have "gate_is_allow (read_gate_slot (\<lambda>_. []) (\<lambda>_. None) r) \<longleftrightarrow> (\<exists>d. r = Inr d \<and> gate_is_allow d)" for r
    using slot_fails_closed [of "\<lambda>_. Inl Syntax" Syntax, where to_text = "\<lambda>_. []" and from_text = "\<lambda>_. None"]
    by blast
  from this [of "Inl Panicked"] this [of "Inr gate_allow"] show ?thesis
    by (simp only: sum.distinct sum.inject) (simp add: gate_allow_def)
qed

subsection \<open>The identity hash on both sides\<close>

text \<open>
  Host and plugin key a caller's credentials alike: the identity hash of an identity that
  crossed the C boundary, or that was written as JSON and read back, is the hash of the
  identity that was sent, whatever the digest and the folded attributes.
\<close>

theorem hash_crosses_boundary:
  assumes "bt_wf (pi_attributes i)"
  shows "identity_hash_with_attrs sha hex (identity_of_abi (identity_to_abi i)) ks
      = identity_hash_with_attrs sha hex i ks \<and>
    map_option (\<lambda>j. identity_hash_with_attrs sha hex j ks) (ok (decode_plugin_identity (encode_plugin_identity i)))
      = Some (identity_hash_with_attrs sha hex i ks)"
  using identity_trip [OF assms] by simp

theorem hash_crosses_boundary_witness:
  "identity_hash_with_attrs sha hex (identity_of_abi (identity_to_abi Abi.sample_identity)) [''dept'']
     = identity_hash_with_attrs sha hex Abi.sample_identity [''dept'']"
proof -
  have "bt_wf (pi_attributes Abi.sample_identity)" by (simp add: Abi.sample_identity_def bt_wf_def)
  from hash_crosses_boundary [OF this] show ?thesis by simp
qed

subsection \<open>Values that came off the wire\<close>

text \<open>
  What a peer may send is typed by the decoders: from a JSON value with ordered objects, as
  every parsed text is, a decoder delivers only values whose maps are ordered and whose JSON parts
  are well formed, and encoding them again gives a well-formed value; such a context or identity
  resolution also crosses the C boundary unchanged, so the plugin sees the caller the host decoded.
\<close>

theorem wire_values_sound:
  assumes "json_wf v"
  shows "delivers (\<lambda>c. context_wf c \<and> json_wf (encode_plugin_context c) \<and> context_of_abi (context_to_abi c) = c)
      (decode_plugin_context v) \<and>
    delivers (\<lambda>r. resolution_wf r \<and> json_wf (encode_identity_resolution r) \<and>
      resolution_of_abi (resolution_to_abi r) = r) (decode_identity_resolution v) \<and>
    delivers (\<lambda>g. gate_wf g \<and> json_wf (encode_gate_decision g)) (decode_gate_decision v) \<and>
    delivers (\<lambda>t. transform_wf t \<and> json_wf (encode_transform_result t)) (decode_transform_result v) \<and>
    delivers (\<lambda>e. event_wf e \<and> json_wf (encode_watch_event e)) (decode_watch_event v) \<and>
    delivers (\<lambda>d. policy_decision_wf d \<and> json_wf (encode_policy_decision d)) (decode_policy_decision v) \<and>
    delivers (\<lambda>l. log_record_wf l \<and> json_wf (encode_log_record l)) (decode_log_record v) \<and>
    delivers (\<lambda>s. span_start_wf s \<and> json_wf (encode_span_start s)) (decode_span_start v) \<and>
    delivers (\<lambda>s. span_end_wf s \<and> json_wf (encode_span_end s)) (decode_span_end v) \<and>
    delivers (\<lambda>m. catalog_wf m \<and> json_wf (encode_catalog_metadata m)) (decode_catalog_metadata v) \<and>
    delivers (\<lambda>r. route_request_wf r \<and> json_wf (encode_http_route_request_wire r)) (decode_http_route_request_wire v)"
proof (intro conjI deliversI)
  show "context_of_abi (context_to_abi c) = c" if "decode_plugin_context v = Inr c" for c
    using context_sound.dec_wf [OF assms that]
    by (simp add: context_wf_def identity_wf_def context_of_abi_def context_to_abi_def identity_trip)
  show "resolution_of_abi (resolution_to_abi r) = r" if "decode_identity_resolution v = Inr r" for r
    using resolution_sound.dec_wf [OF assms that]
    by (cases r) (simp_all add: identity_wf_def identity_trip)
qed (use assms in \<open>blast dest: context_sound.passed_on resolution_sound.passed_on gate_sound.passed_on
    transform_sound.passed_on event_sound.passed_on policy_decision_sound.passed_on log_record_sound.passed_on
    span_start_sound.passed_on span_end_sound.passed_on catalog_sound.passed_on route_request_sound.passed_on\<close>)+

definition sample_context :: plugin_context where
  "sample_context =
     \<lparr>pc_request_id = ''r1'', pc_session_id = None, pc_tool_name = ''search'', pc_surface = ''tool'',
      pc_identity = Abi.sample_identity, pc_transport = ''http''\<rparr>"

theorem wire_values_sound_witness:
  "context_wf sample_context \<and> context_of_abi (context_to_abi sample_context) = sample_context"
proof -
  have "json_wf (encode_plugin_context sample_context)"
    unfolding sample_context_def Abi.sample_identity_def by code_simp
  from wire_values_sound [OF this] show ?thesis by simp
qed

subsection \<open>Names of plugin kinds\<close>

lemma encode_display_class: "encode_plugin_class c = JString (display_plugin_class c)"
  by (cases c) simp_all

lemma inj_display_class: "inj display_plugin_class"
proof (rule injI)
  fix x y
  assume "display_plugin_class x = display_plugin_class y"
  then have "encode_plugin_class x = encode_plugin_class y" by (simp add: encode_display_class)
  then show "x = y" by (metis plugin_class_codec.roundtrip sum.inject(2))
qed

lemma class_names: "set (map display_plugin_class ALL_CLASSES) = set ALL_KINDS"
  by code_simp

lemma all_classes: "set ALL_CLASSES = UNIV"
proof -
  have "c \<in> set ALL_CLASSES" for c by (cases c) (simp_all add: ALL_CLASSES_def)
  then show ?thesis by auto
qed

text \<open>
  A manifest and a registration name the same kinds of plugin: a class is displayed and
  serialised alike, the class list is complete, the names of the classes are the kinds an entity
  can have, and every registered entity is of exactly one class.
\<close>

theorem classes_are_kinds:
  "set ALL_CLASSES = UNIV \<and> encode_plugin_class c = JString (display_plugin_class c) \<and>
   range display_plugin_class = set ALL_KINDS \<and>
   (\<exists>!c. display_plugin_class c = entity_kind (e :: ('h, 'w) entity_registration))"
proof (intro conjI)
  have range: "range display_plugin_class = set ALL_KINDS"
    using class_names all_classes by simp
  then show "range display_plugin_class = set ALL_KINDS" .
  have "entity_kind e \<in> range display_plugin_class"
    using all_kinds_exact [where 'h = 'h and 'w = 'w] range by simp
  then show "\<exists>!c. display_plugin_class c = entity_kind e"
    using inj_display_class by (auto simp: inj_def)
qed (simp_all add: all_classes encode_display_class)

subsection \<open>Error labels\<close>

text \<open>
  C39: A failure is counted under the name it crosses the boundary with: the \<open>kind\<close> field of
  every error tagged that way is its metrics label, whatever free text the error carries; the
  one exception are the operations a store or a cache does not support, whose label is
  \<open>unsupported_op\<close> and whose tag is \<open>unsupported\<close>.
\<close>

theorem error_labels_on_wire:
  "wire_label_of ''kind'' (encode_dispatcher_error e1) = Inr (kind_label_dispatcher_error e1) \<and>
   wire_label_of ''kind'' (encode_transport_error e2) = Inr (kind_label_transport_error e2) \<and>
   wire_label_of ''kind'' (encode_notification_error e3) = Inr (kind_label_notification_error e3) \<and>
   wire_label_of ''kind'' (encode_secret_error e4) = Inr (kind_label_secret_error e4) \<and>
   wire_label_of ''kind'' (encode_config_error e5) = Inr (kind_label_config_error e5) \<and>
   wire_label_of ''kind'' (encode_credential_error e6) = Inr (kind_label_credential_error e6) \<and>
   wire_label_of ''kind'' (encode_audit_error e7) = Inr (kind_label_audit_error e7) \<and>
   wire_label_of ''kind'' (encode_log_error e8) = Inr (kind_label_log_error e8) \<and>
   wire_label_of ''kind'' (encode_telemetry_error e9) = Inr (kind_label_telemetry_error e9) \<and>
   wire_label_of ''kind'' (encode_metrics_error e10) = Inr (kind_label_metrics_error e10) \<and>
   (wire_label_of ''kind'' (encode_store_error e11) = Inr (kind_label_store_error e11) \<longleftrightarrow>
     (\<nexists>op. e11 = Store.store_error.Unsupported op)) \<and>
   (wire_label_of ''kind'' (encode_cache_error e12) = Inr (kind_label_cache_error e12) \<longleftrightarrow>
     (\<nexists>op. e12 = CacheUnsupported op))"
proof -
  note labels = dispatcher_error.wire_label transport_error.wire_label notification_error.wire_label
    secret_error.wire_label config_error.wire_label credential_error.wire_label audit_error.wire_label
    log_error.wire_label telemetry_error.wire_label metrics_error.wire_label
    store_error.wire_label cache_error.wire_label
  have "wire_tag_store_error e11 = kind_label_store_error e11 \<longleftrightarrow> (\<nexists>op. e11 = Store.store_error.Unsupported op)"
    by (cases e11) simp_all
  moreover have "wire_tag_cache_error e12 = kind_label_cache_error e12 \<longleftrightarrow> (\<nexists>op. e12 = CacheUnsupported op)"
    by (cases e12) simp_all
  ultimately show ?thesis
    unfolding wire_label_of_def labels by simp
qed

end
